(* ===== verification/Prelude.thy ===== *)
theory Prelude
  imports Complex_Main
begin

text \<open>
  Shared vocabulary of the development: the string functions of the Go standard library the
  code uses, the table operations its SQL statements are translated to, and the lemma
  collections the component theories extend.

  A Go string is a list of bytes (\<open>string\<close>). Case mapping and trimming act on the ASCII
  range, which is what the code compares (codes, e-mail addresses, statuses, roles); bytes
  from 128 on are left as they are, where Go would also map letters outside ASCII.

  A table is a list of row records in insertion order. The UPDATE, INSERT and SELECT forms
  below are all that the modelled statements need.
\<close>

named_theorems table_simps "facts on the table operations"
named_theorems string_simps "facts on the string functions"

section \<open>Strings\<close>

definition is_space :: "char \<Rightarrow> bool" where
  "is_space c = (let n = (of_char c :: nat) in n = 32 \<or> (9 \<le> n \<and> n \<le> 13))"

definition trim_left :: "(char \<Rightarrow> bool) \<Rightarrow> string \<Rightarrow> string" where
  "trim_left p s = dropWhile p s"

definition trim_right :: "(char \<Rightarrow> bool) \<Rightarrow> string \<Rightarrow> string" where
  "trim_right p s = rev (dropWhile p (rev s))"

definition trim_by :: "(char \<Rightarrow> bool) \<Rightarrow> string \<Rightarrow> string" where
  "trim_by p s = trim_right p (trim_left p s)"

definition trim_space :: "string \<Rightarrow> string" where
  "trim_space s = trim_by is_space s"

definition lower_char :: "char \<Rightarrow> char" where
  "lower_char c = (let n = (of_char c :: nat) in
     if 65 \<le> n \<and> n \<le> 90 then char_of (n + 32) else c)"

definition upper_char :: "char \<Rightarrow> char" where
  "upper_char c = (let n = (of_char c :: nat) in
     if 97 \<le> n \<and> n \<le> 122 then char_of (n - 32) else c)"

definition to_lower :: "string \<Rightarrow> string" where
  "to_lower s = map lower_char s"

definition to_upper :: "string \<Rightarrow> string" where
  "to_upper s = map upper_char s"

definition equal_fold :: "string \<Rightarrow> string \<Rightarrow> bool" where
  "equal_fold a b = (to_lower a = to_lower b)"

fun has_prefix :: "string \<Rightarrow> string \<Rightarrow> bool" where
  "has_prefix s [] = True"
| "has_prefix [] (p # ps) = False"
| "has_prefix (c # cs) (p # ps) = (c = p \<and> has_prefix cs ps)"

fun contains_str :: "string \<Rightarrow> string \<Rightarrow> bool" where
  "contains_str [] p = (p = [])"
| "contains_str (c # cs) p = (has_prefix (c # cs) p \<or> contains_str cs p)"

definition trim_prefix :: "string \<Rightarrow> string \<Rightarrow> string" where
  "trim_prefix s p = (if has_prefix s p then drop (length p) s else s)"

fun split_on :: "char \<Rightarrow> string \<Rightarrow> string list" where
  "split_on d [] = [[]]"
| "split_on d (c # cs) =
     (if c = d then [] # split_on d cs
      else (case split_on d cs of [] \<Rightarrow> [[c]] | w # ws \<Rightarrow> (c # w) # ws))"

fun join_with :: "string \<Rightarrow> string list \<Rightarrow> string" where
  "join_with d [] = []"
| "join_with d [w] = w"
| "join_with d (w # v # ws) = w @ d @ join_with d (v # ws)"

definition remove_char :: "char \<Rightarrow> string \<Rightarrow> string" where
  "remove_char d s = filter (\<lambda>c. c \<noteq> d) s"

definition replace_char :: "char \<Rightarrow> char \<Rightarrow> string \<Rightarrow> string" where
  "replace_char a b s = map (\<lambda>c. if c = a then b else c) s"

definition is_digit :: "char \<Rightarrow> bool" where
  "is_digit c = (let n = (of_char c :: nat) in 48 \<le> n \<and> n \<le> 57)"

definition digit_val :: "char \<Rightarrow> nat" where
  "digit_val c = of_char c - 48"

definition digit_char :: "nat \<Rightarrow> char" where
  "digit_char n = char_of (48 + n mod 10)"

text \<open>The decimal digits of a nonnegative integer.\<close>

function dec_str :: "int \<Rightarrow> string" where
  "dec_str i = (if i < 10 then [digit_char (nat i)] else dec_str (i div 10) @ [digit_char (nat (i mod 10))])"
  by pat_completeness auto
termination by (relation "measure nat") auto

declare dec_str.simps [simp del]

definition nat_str :: "nat \<Rightarrow> string" where
  "nat_str n = dec_str (int n)"

definition int_str :: "int \<Rightarrow> string" where
  "int_str i = (if i < 0 then ''-'' @ dec_str (- i) else dec_str i)"

definition digits_val :: "string \<Rightarrow> int" where
  "digits_val s = foldl (\<lambda>a c. 10 * a + int (digit_val c)) 0 s"

text \<open>\<open>strconv.ParseInt(s,10,64)\<close> and \<open>strconv.ParseUint(s,10,64)\<close>; \<open>None\<close> is the error result.\<close>

definition parse_uint64 :: "string \<Rightarrow> int option" where
  "parse_uint64 s =
     (if s \<noteq> [] \<and> list_all is_digit s \<and> digits_val s < 2 ^ 64 then Some (digits_val s) else None)"

definition parse_int64 :: "string \<Rightarrow> int option" where
  "parse_int64 s =
     (case s of
        [] \<Rightarrow> None
      | c # cs \<Rightarrow>
          (let neg = (c = CHR ''-''); body = (if c = CHR ''-'' \<or> c = CHR ''+'' then cs else s)
           in if body = [] \<or> \<not> list_all is_digit body then None
              else let v = digits_val body
                   in if neg then (if v \<le> 2 ^ 63 then Some (- v) else None)
                      else (if v < 2 ^ 63 then Some v else None)))"

definition first_non_empty :: "string list \<Rightarrow> string" where
  "first_non_empty vs =
     (case find (\<lambda>v. trim_space v \<noteq> []) vs of None \<Rightarrow> [] | Some v \<Rightarrow> trim_space v)"

section \<open>Dates\<close>

text \<open>A date is the number of days since 1970-01-01; \<open>date_str\<close> is the layout "2006-01-02" and
  \<open>date_compact\<close> the layout "20060102" of years 0 to 9999.\<close>

definition civil :: "int \<Rightarrow> int \<times> int \<times> int" where
  "civil z0 = (let z = z0 + 719468; era = z div 146097; doe = z mod 146097;
      yoe = (doe - doe div 1460 + doe div 36524 - doe div 146096) div 365;
      doy = doe - (365 * yoe + yoe div 4 - yoe div 100);
      mp = (5 * doy + 2) div 153;
      m = (if mp < 10 then mp + 3 else mp - 9)
    in (yoe + era * 400 + (if m \<le> 2 then 1 else 0), m, doy - (153 * mp + 2) div 5 + 1))"

definition pad_int :: "nat \<Rightarrow> int \<Rightarrow> string" where
  "pad_int w i = (let s = dec_str i in replicate (w - length s) CHR ''0'' @ s)"

definition date_str :: "int \<Rightarrow> string" where
  "date_str z = (let (y, m, d) = civil z in pad_int 4 y @ ''-'' @ pad_int 2 m @ ''-'' @ pad_int 2 d)"

definition date_compact :: "int \<Rightarrow> string" where
  "date_compact z = remove_char (CHR ''-'') (date_str z)"

definition utc_date :: "int \<Rightarrow> int" where
  "utc_date t = t div 86400"

section \<open>Tables\<close>

text \<open>\<open>upd p f T\<close> is \<open>UPDATE T SET f WHERE p\<close>, \<open>cnt p T\<close> the number of rows it affects,
  \<open>sum_of\<close> the aggregate \<open>COALESCE(SUM(f),0)\<close>, \<open>best\<close> the first row of \<open>ORDER BY ... LIMIT 1\<close>.
  \<open>uniq key T\<close> states a (partial) unique index: \<open>key\<close> is \<open>None\<close> on the rows the index leaves out.\<close>

definition upd :: "('r \<Rightarrow> bool) \<Rightarrow> ('r \<Rightarrow> 'r) \<Rightarrow> 'r list \<Rightarrow> 'r list" where
  "upd p f T = map (\<lambda>r. if p r then f r else r) T"

definition cnt :: "('r \<Rightarrow> bool) \<Rightarrow> 'r list \<Rightarrow> nat" where
  "cnt p T = length (filter p T)"

definition sum_of :: "('r \<Rightarrow> bool) \<Rightarrow> ('r \<Rightarrow> int) \<Rightarrow> 'r list \<Rightarrow> int" where
  "sum_of p f T = sum_list (map f (filter p T))"

definition keys :: "('r \<Rightarrow> 'k option) \<Rightarrow> 'r list \<Rightarrow> 'k list" where
  "keys key T = List.map_filter key T"

definition uniq :: "('r \<Rightarrow> 'k option) \<Rightarrow> 'r list \<Rightarrow> bool" where
  "uniq key T = distinct (keys key T)"

definition best :: "('r \<Rightarrow> 'k::linorder) \<Rightarrow> 'r list \<Rightarrow> 'r option" where
  "best k T = (case T of [] \<Rightarrow> None | x # xs \<Rightarrow> Some (fold (\<lambda>y b. if k y < k b then y else b) xs x))"

lemma upd_simps [simp]:
  "upd p f [] = []"
  "upd p f (r # T) = (if p r then f r else r) # upd p f T"
  "length (upd p f T) = length T"
  "upd p f (T @ U) = upd p f T @ upd p f U"
  by (simp_all add: upd_def)

lemma cnt_simps [simp]:
  "cnt p [] = 0"
  "cnt p (r # T) = (if p r then Suc (cnt p T) else cnt p T)"
  "cnt p (T @ U) = cnt p T + cnt p U"
  by (simp_all add: cnt_def)

lemma sum_of_simps [simp]:
  "sum_of p f [] = 0"
  "sum_of p f (r # T) = (if p r then f r + sum_of p f T else sum_of p f T)"
  "sum_of p f (T @ U) = sum_of p f T + sum_of p f U"
  by (simp_all add: sum_of_def)

lemma keys_simps [simp]:
  "keys k [] = []"
  "keys k (r # T) = (case k r of None \<Rightarrow> keys k T | Some x \<Rightarrow> x # keys k T)"
  "keys k (T @ U) = keys k T @ keys k U"
  by (simp_all add: keys_def map_filter_simps split: option.splits) (simp add: List.map_filter_def)

lemma set_keys: "set (keys k T) = {x. \<exists>r \<in> set T. k r = Some x}"
  by (induction T) (auto split: option.splits)

lemma uniq_Nil [simp]: "uniq k []"
  by (simp add: uniq_def)

lemma uniq_insert [table_simps]:
  "uniq k (T @ [r]) = (uniq k T \<and> (case k r of None \<Rightarrow> True | Some x \<Rightarrow> x \<notin> set (keys k T)))"
  by (auto simp: uniq_def split: option.splits)

lemma keys_upd:
  assumes "\<And>r. r \<in> set T \<Longrightarrow> p r \<Longrightarrow> k (f r) = k r"
  shows "keys k (upd p f T) = keys k T"
  using assms by (induction T) (auto split: option.splits)

lemma uniq_upd:
  assumes "\<And>r. r \<in> set T \<Longrightarrow> p r \<Longrightarrow> k (f r) = k r"
  shows "uniq k (upd p f T) = uniq k T"
  using keys_upd [of T p k f] assms by (simp add: uniq_def)

text \<open>A unique index leaves at most one row per key.\<close>

lemma uniq_rows:
  assumes "uniq k T" "r \<in> set T" "s \<in> set T" "k r = Some x" "k s = Some x"
  shows "r = s"
  using assms
proof (induction T)
  case (Cons a T)
  show ?case
  proof (cases "k a")
    case None
    with Cons show ?thesis by (auto simp: uniq_def)
  next
    case (Some y)
    with Cons.prems(1) have "y \<notin> set (keys k T)" "uniq k T" by (auto simp: uniq_def)
    moreover have "t \<in> set T \<Longrightarrow> k t = Some z \<Longrightarrow> z \<in> set (keys k T)" for t z
      by (auto simp: set_keys)
    ultimately show ?thesis using Cons Some by auto
  qed
qed simp

lemma uniq_cnt:
  assumes "uniq k T" "\<And>r. r \<in> set T \<Longrightarrow> p r \<Longrightarrow> k r = Some x"
  shows "cnt p T \<le> 1"
  using assms
proof (induction T)
  case (Cons a T)
  show ?case
  proof (cases "p a")
    case True
    then have ka: "k a = Some x" using Cons.prems(2) by simp
    then have "x \<notin> set (keys k T)" using Cons.prems(1) by (auto simp: uniq_def)
    then have "\<not> (r \<in> set T \<and> p r)" for r using Cons.prems(2) [of r] by (auto simp: set_keys)
    then have "cnt p T = 0" by (auto simp: cnt_def filter_empty_conv)
    with True show ?thesis by simp
  next
    case False
    have "uniq k T" using Cons.prems(1) by (auto simp: uniq_def split: option.splits)
    with Cons False show ?thesis by simp
  qed
qed simp

lemma cnt_0: "cnt p T = 0 \<longleftrightarrow> (\<forall>r \<in> set T. \<not> p r)"
  by (simp add: cnt_def filter_empty_conv)

lemma upd_none: "(\<And>r. r \<in> set T \<Longrightarrow> \<not> p r) \<Longrightarrow> upd p f T = T"
  by (induction T) auto

lemma set_upd: "set (upd p f T) = (\<lambda>r. if p r then f r else r) ` set T"
  by (simp add: upd_def)

lemma sum_of_upd:
  assumes "\<And>r. r \<in> set T \<Longrightarrow> p r \<Longrightarrow> q (f r) = q r \<and> (q r \<longrightarrow> g (f r) = g r)"
  shows "sum_of q g (upd p f T) = sum_of q g T"
  using assms by (induction T) auto

text \<open>An update that hits one row changes an aggregate by that row.\<close>

lemma sum_of_upd_one:
  assumes "uniq k T" "r \<in> set T" "p r" "k r = Some x" "\<And>s. s \<in> set T \<Longrightarrow> p s \<Longrightarrow> k s = Some x"
  shows "sum_of q g (upd p f T) =
    sum_of q g T - (if q r then g r else 0) + (if q (f r) then g (f r) else 0)"
  using assms(1,2,5)
proof (induction T)
  case (Cons a T)
  have uT: "uniq k T" using Cons.prems(1) by (auto simp: uniq_def split: option.splits)
  show ?case
  proof (cases "p a")
    case True
    then have ka: "k a = Some x" using Cons.prems(3) by simp
    then have ar: "a = r" using uniq_rows [OF Cons.prems(1), of a r x] Cons.prems(2) assms(4) by auto
    have "x \<notin> set (keys k T)" using Cons.prems(1) ka by (auto simp: uniq_def)
    then have "\<not> p s" if "s \<in> set T" for s using that Cons.prems(3) [of s] by (auto simp: set_keys)
    then have "upd p f T = T" by (rule upd_none)
    then show ?thesis using True ar by simp
  next
    case False
    then have "r \<in> set T" using Cons.prems(2) assms(3) by auto
    then show ?thesis using Cons.IH [OF uT] Cons.prems(3) False by simp
  qed
qed simp

lemma find_Some_D: "find p T = Some r \<Longrightarrow> r \<in> set T \<and> p r"
  by (induction T) (auto split: if_splits)

lemma find_None_D: "find p T = None \<Longrightarrow> r \<in> set T \<Longrightarrow> \<not> p r"
  by (induction T) (auto split: if_splits)

lemma find_append: "find p (T @ U) = (case find p T of None \<Rightarrow> find p U | Some r \<Rightarrow> Some r)"
  by (induction T) auto

lemma find_upd_same:
  assumes "\<And>r. r \<in> set T \<Longrightarrow> p r \<Longrightarrow> q (f r) = q r"
  shows "find q (upd p f T) = map_option (\<lambda>r. if p r then f r else r) (find q T)"
  using assms by (induction T) auto

lemma in_map_filter: "x \<in> set (List.map_filter f xs) \<longleftrightarrow> (\<exists>y \<in> set xs. f y = Some x)"
  by (induction xs) (auto simp: map_filter_simps split: option.splits)

end
