(* ===== verification/Float64.thy ===== *)
theory Float64
  imports Prelude
begin

text \<open>
  The Go type \<open>float64\<close>: IEEE 754 binary64 with round-to-nearest-even, on exact rationals.
  A finite value is \<open>Fin r\<close> with its rational value (the two zeros share \<open>Fin 0\<close>: no
  modelled code looks at the sign of zero). \<open>fl\<close> rounds an exact result to the nearest
  double; every arithmetic operation is the exact operation followed by \<open>fl\<close>.

  The lemmas give what the money code needs: the relative error bound, exactness on integers
  below \<open>2 ^ 53\<close>, and the sign of a rounded result.
\<close>

named_theorems float_simps "evaluation of float64 operations on finite values"

datatype f64 = Fin rat | PInf | NInf | NaN

section \<open>Rounding\<close>

fun bitlen :: "nat \<Rightarrow> nat" where
  "bitlen n = (if n = 0 then 0 else Suc (bitlen (n div 2)))"

declare bitlen.simps [simp del]

definition ilog2 :: "rat \<Rightarrow> int" where
  "ilog2 x = (let (p, q) = quotient_of x; k = int (bitlen (nat p)) - int (bitlen (nat q))
              in if 2 powi k \<le> x then k else k - 1)"

definition round_even :: "rat \<Rightarrow> int" where
  "round_even x = (let f = \<lfloor>x\<rfloor>; d = x - of_int f
     in if d < 1/2 then f else if 1/2 < d then f + 1 else if even f then f else f + 1)"

definition ulp :: "rat \<Rightarrow> rat" where
  "ulp x = 2 powi (max (ilog2 \<bar>x\<bar>) (-1022) - 52)"

definition rnd :: "rat \<Rightarrow> rat" where
  "rnd x = (if x = 0 then 0 else of_int (round_even (x / ulp x)) * ulp x)"

definition fl :: "rat \<Rightarrow> f64" where
  "fl x = (let r = rnd x
     in if 2 powi 1024 \<le> r then PInf else if r \<le> - (2 powi 1024) then NInf else Fin r)"

lemma bitlen_bounds:
  assumes "0 < n"
  shows "2 ^ (bitlen n - 1) \<le> n \<and> n < 2 ^ bitlen n \<and> 0 < bitlen n"
  using assms
proof (induction n rule: bitlen.induct)
  case (1 n)
  show ?case
  proof (cases "n div 2 = 0")
    case True
    with "1.prems" have n: "n = 1" by arith
    have "bitlen 0 = 0" by (subst bitlen.simps) simp
    then have "bitlen (Suc 0) = 1" by (subst bitlen.simps) simp
    with n show ?thesis by simp
  next
    case False
    define b where "b = bitlen (n div 2)"
    from False "1" have ih: "2 ^ (b - 1) \<le> n div 2" "n div 2 < 2 ^ b" "0 < b"
      by (auto simp: b_def)
    have b: "bitlen n = Suc b" using "1.prems" by (subst bitlen.simps) (simp add: b_def)
    have "(2::nat) ^ b = 2 * 2 ^ (b - 1)" using ih(3) by (cases b) auto
    moreover have "2 * (n div 2) \<le> n" "n < 2 * (n div 2) + 2" by arith+
    moreover have "(2::nat) ^ bitlen n = 2 * 2 ^ b" using b by simp
    ultimately show ?thesis using ih b by (simp add: b_def) linarith
  qed
qed

lemma powi_split: "(2::rat) powi (int a - int b) = 2 ^ a / 2 ^ b"
  by (simp add: power_int_diff)

lemma ilog2_bounds:
  assumes x: "0 < x"
  shows "2 powi (ilog2 x) \<le> x \<and> x < 2 powi (ilog2 x + 1)"
proof -
  obtain p q where pq: "quotient_of x = (p, q)" by (cases "quotient_of x")
  then have q: "0 < q" and xe: "x = of_int p / of_int q"
    using quotient_of_denom_pos quotient_of_div by auto
  with x have p: "0 < p" by (simp add: zero_less_divide_iff)
  define a where "a = bitlen (nat p)"
  define b where "b = bitlen (nat q)"
  have A: "2 ^ (a - 1) \<le> nat p" "nat p < 2 ^ a" "0 < a"
    and B: "2 ^ (b - 1) \<le> nat q" "nat q < 2 ^ b" "0 < b"
    using bitlen_bounds [of "nat p"] bitlen_bounds [of "nat q"] p q by (auto simp: a_def b_def)
  have rp: "of_int p = (of_nat (nat p) :: rat)" and rq: "of_int q = (of_nat (nat q) :: rat)"
    using p q by auto
  have A': "2 ^ (a - 1) \<le> (of_int p :: rat)" "(of_int p :: rat) < 2 ^ a"
    unfolding rp using A(1,2)
    by (metis of_nat_le_iff of_nat_numeral of_nat_power, metis of_nat_less_iff of_nat_numeral of_nat_power)
  have B': "2 ^ (b - 1) \<le> (of_int q :: rat)" "(of_int q :: rat) < 2 ^ b"
    unfolding rq using B(1,2)
    by (metis of_nat_le_iff of_nat_numeral of_nat_power, metis of_nat_less_iff of_nat_numeral of_nat_power)
  have pa: "(2::rat) ^ a = 2 * 2 ^ (a - 1)" and pb: "(2::rat) ^ b = 2 * 2 ^ (b - 1)"
    using A(3) B(3) by (cases a, auto, cases b, auto)
  have q': "(0::rat) < of_int q" using q by simp
  have up: "x < 2 powi (int a - int b + 1)"
  proof -
    have "of_int p * 2 ^ b < (2 * 2 ^ a) * (of_int q :: rat)"
    proof -
      have "of_int p * 2 ^ b < 2 ^ a * (2::rat) ^ b"
        using A'(2) by simp
      also have "\<dots> \<le> 2 ^ a * (2 * of_int q)" using B'(1) pb by simp
      finally show ?thesis by (simp add: ac_simps)
    qed
    then have "x < 2 * 2 ^ a / 2 ^ b" using q' by (simp add: xe field_simps)
    moreover have "(2::rat) powi (int a - int b + 1) = 2 * 2 ^ a / 2 ^ b"
      by (simp add: power_int_diff power_int_add)
    ultimately show ?thesis by simp
  qed
  have lo: "2 powi (int a - int b - 1) \<le> x"
  proof -
    have "2 ^ a * (of_int q :: rat) \<le> 2 * of_int p * 2 ^ b"
    proof -
      have "2 ^ a * (of_int q :: rat) \<le> 2 ^ a * 2 ^ b" using B'(2) by simp
      also have "\<dots> \<le> 2 * of_int p * 2 ^ b" using A'(1) pa by simp
      finally show ?thesis .
    qed
    then have "2 ^ a / (2 * 2 ^ b) \<le> x" using q' by (simp add: xe field_simps)
    then show ?thesis by (simp add: power_int_diff)
  qed
  have "ilog2 x = (if 2 powi (int a - int b) \<le> x then int a - int b else int a - int b - 1)"
    by (simp add: ilog2_def pq a_def b_def Let_def)
  with up lo show ?thesis by (auto simp: not_le)
qed

lemma round_even_error: "\<bar>of_int (round_even x) - x\<bar> \<le> 1/2"
proof -
  have f: "of_int \<lfloor>x\<rfloor> \<le> x" "x < of_int \<lfloor>x\<rfloor> + 1" by linarith+
  consider "x - of_int \<lfloor>x\<rfloor> < 1/2" | "1/2 < x - of_int \<lfloor>x\<rfloor>" | "x - of_int \<lfloor>x\<rfloor> = 1/2"
    by linarith
  then show ?thesis
    using f by cases (auto simp: round_even_def Let_def)
qed

lemma round_even_int [simp]: "round_even (of_int k) = k"
  by (simp add: round_even_def Let_def)

lemma ulp_pos [simp]: "0 < ulp x"
  by (simp add: ulp_def)

lemma ulp_nz [simp]: "ulp x \<noteq> 0"
  using ulp_pos [of x] by linarith

lemma rnd_zero [simp]: "rnd 0 = 0"
  by (simp add: rnd_def)

lemma rnd_error_ulp: "\<bar>rnd x - x\<bar> \<le> ulp x / 2"
proof (cases "x = 0")
  case False
  have u: "0 < ulp x" by simp
  have "rnd x - x = (of_int (round_even (x / ulp x)) - x / ulp x) * ulp x"
    using False u by (simp add: rnd_def left_diff_distrib)
  then have "\<bar>rnd x - x\<bar> = \<bar>of_int (round_even (x / ulp x)) - x / ulp x\<bar> * ulp x"
    using u by (simp only: abs_mult abs_of_pos)
  also have "\<dots> \<le> (1/2) * ulp x"
    using round_even_error [of "x / ulp x"] less_imp_le [OF u] by (intro mult_right_mono) auto
  finally show ?thesis by simp
qed (simp add: ulp_def)

lemma ulp_le_rel:
  assumes "2 powi (-1022) \<le> \<bar>x\<bar>"
  shows "ulp x \<le> \<bar>x\<bar> / 2 ^ 52"
proof -
  have "(0::rat) < 2 powi (-1022)" by simp
  with assms have pos: "0 < \<bar>x\<bar>" by linarith
  note b = ilog2_bounds [OF pos]
  have "-1022 \<le> ilog2 \<bar>x\<bar>"
  proof (rule ccontr)
    assume "\<not> ?thesis"
    then have "ilog2 \<bar>x\<bar> + 1 \<le> -1022" by linarith
    then have "(2::rat) powi (ilog2 \<bar>x\<bar> + 1) \<le> 2 powi (-1022)"
      by (intro power_int_increasing) auto
    with b assms show False by linarith
  qed
  then have "ulp x = 2 powi (ilog2 \<bar>x\<bar>) / 2 ^ 52"
    by (simp add: ulp_def max_def power_int_diff)
  with b show ?thesis by (simp add: divide_right_mono)
qed

text \<open>The standard error model: relative error at most \<open>2 ^ -53\<close> away from the subnormals.\<close>

lemma rnd_error_rel:
  assumes "2 powi (-1022) \<le> \<bar>x\<bar>"
  shows "\<bar>rnd x - x\<bar> \<le> \<bar>x\<bar> / 2 ^ 53"
  using rnd_error_ulp [of x] ulp_le_rel [OF assms] by simp

text \<open>A value that is an integer multiple of its own unit in the last place is exact.\<close>

lemma rnd_exact:
  assumes "x / ulp x = of_int n"
  shows "rnd x = x"
proof (cases "x = 0")
  case False
  have "x = of_int n * ulp x" using assms by (simp add: nonzero_divide_eq_eq)
  with False assms show ?thesis by (simp add: rnd_def)
qed simp

lemma rnd_of_int:
  assumes "\<bar>k\<bar> < 2 ^ 53"
  shows "rnd (of_int k) = of_int k"
proof (cases "k = 0")
  case False
  have pos: "0 < \<bar>of_int k :: rat\<bar>" using False by simp
  note b = ilog2_bounds [OF pos]
  let ?e = "ilog2 \<bar>of_int k :: rat\<bar>"
  have one: "1 \<le> \<bar>of_int k :: rat\<bar>" using False
    by (metis abs_ge_zero int_one_le_iff_zero_less of_int_1_le_iff of_int_abs zero_less_abs_iff)
  have e0: "0 \<le> ?e"
  proof (rule ccontr)
    assume "\<not> ?thesis"
    then have "(2::rat) powi (?e + 1) \<le> 2 powi 0" by (intro power_int_increasing) auto
    with b one show False by simp
  qed
  have e52: "?e \<le> 52"
  proof (rule ccontr)
    assume "\<not> ?thesis"
    then have "(2::rat) powi 53 \<le> 2 powi ?e" by (intro power_int_increasing) auto
    with b have "(2::rat) powi 53 \<le> \<bar>of_int k\<bar>" by linarith
    moreover have "\<bar>of_int k :: rat\<bar> < 2 ^ 53" using assms
      by (metis of_int_abs of_int_less_iff of_int_numeral of_int_power)
    ultimately show False by simp
  qed
  have "ulp (of_int k :: rat) = 2 powi (?e - 52)"
    using e0 by (simp add: ulp_def max_def)
  also have "\<dots> = inverse (2 ^ nat (52 - ?e))"
    using e52 by (auto simp: power_int_def power_one_over inverse_eq_divide)
  finally have "(of_int k :: rat) / ulp (of_int k) = of_int (k * 2 ^ nat (52 - ?e))"
    by (simp add: divide_inverse)
  then show ?thesis by (rule rnd_exact)
qed simp

lemma two_powi_1024_big: "(2::rat) ^ 60 \<le> 2 powi 1024"
  by (simp add: power_int_def power_increasing)

lemma fl_Fin:
  assumes "\<bar>x\<bar> \<le> 2 ^ 59"
  shows "fl x = Fin (rnd x)"
proof -
  have "\<bar>rnd x\<bar> < 2 ^ 60"
  proof (cases "2 powi (-1022) \<le> \<bar>x\<bar>")
    case True
    have "\<bar>rnd x\<bar> \<le> \<bar>x\<bar> + \<bar>x\<bar> / 2 ^ 53" using rnd_error_rel [OF True] by linarith
    then show ?thesis using assms by simp
  next
    case False
    show ?thesis
    proof (cases "x = 0")
      case False
      then have pos: "0 < \<bar>x\<bar>" by simp
      have small: "\<bar>x\<bar> < 1" using \<open>\<not> 2 powi (-1022) \<le> \<bar>x\<bar>\<close>
        power_int_increasing [of "-1022" 0 "2::rat"] by simp
      have "ilog2 \<bar>x\<bar> < 0"
      proof (rule ccontr)
        assume "\<not> ?thesis"
        then have "(2::rat) powi 0 \<le> 2 powi (ilog2 \<bar>x\<bar>)" by (intro power_int_increasing) auto
        with ilog2_bounds [OF pos] small show False by simp
      qed
      then have "ulp x \<le> 2 powi 0"
        unfolding ulp_def by (intro power_int_increasing) auto
      then have "\<bar>rnd x - x\<bar> \<le> 1 / 2" using rnd_error_ulp [of x] by simp
      moreover have "\<bar>rnd x\<bar> \<le> \<bar>x\<bar> + \<bar>rnd x - x\<bar>" by linarith
      ultimately show ?thesis using small by simp
    qed simp
  qed
  then show ?thesis using two_powi_1024_big by (simp add: fl_def Let_def) linarith
qed

lemma fl_of_int:
  assumes "\<bar>k\<bar> < 2 ^ 53"
  shows "fl (of_int k) = Fin (of_int k)"
proof -
  have "\<bar>of_int k :: rat\<bar> = of_int \<bar>k\<bar>" by simp
  also have "\<dots> \<le> of_int (2 ^ 59)" using assms by (simp only: of_int_le_iff) simp
  finally have "\<bar>of_int k :: rat\<bar> \<le> 2 ^ 59" by simp
  then show ?thesis by (simp only: fl_Fin rnd_of_int [OF assms])
qed

lemma fl_0 [simp]: "fl 0 = Fin 0"
  using fl_Fin [of 0] by simp

lemma rnd_nonneg: "0 \<le> x \<Longrightarrow> 0 \<le> rnd x"
proof -
  assume x: "0 \<le> x"
  have "0 \<le> \<lfloor>x / ulp x\<rfloor>" using x less_imp_le [OF ulp_pos [of x]] by simp
  then have "0 \<le> round_even (x / ulp x)" by (simp add: round_even_def Let_def)
  then have "(0::rat) \<le> of_int (round_even (x / ulp x))" by simp
  then show ?thesis using less_imp_le [OF ulp_pos [of x]] by (simp add: rnd_def)
qed

lemma fl_nonneg:
  assumes "0 \<le> x"
  shows "fl x = PInf \<or> (\<exists>r. fl x = Fin r \<and> 0 \<le> r)"
proof -
  have "- (2 powi 1024) < (0::rat)" by simp
  then have "\<not> rnd x \<le> - (2 powi 1024)" using rnd_nonneg [OF assms] by linarith
  then show ?thesis using rnd_nonneg [OF assms] by (simp add: fl_def Let_def)
qed

section \<open>Evaluation\<close>

text \<open>Code equations that keep evaluation on binary integers and off powers of 1024.\<close>

function ibitlen :: "int \<Rightarrow> int" where
  "ibitlen n = (if n \<le> 0 then 0 else 1 + ibitlen (n div 2))"
  by auto
termination by (relation "measure nat") auto

declare ibitlen.simps [simp del]

lemma ibitlen: "ibitlen n = int (bitlen (nat n))"
proof (induction n rule: ibitlen.induct)
  case (1 n)
  show ?case
  proof (cases "n \<le> 0")
    case True
    then show ?thesis by (subst ibitlen.simps, subst bitlen.simps) simp
  next
    case False
    then have "nat n \<noteq> 0" "nat (n div 2) = nat n div 2" by (auto simp: nat_div_distrib)
    then show ?thesis using False 1 by (subst ibitlen.simps, subst bitlen.simps) simp
  qed
qed

definition pow2 :: "int \<Rightarrow> rat" where
  "pow2 k = (if 0 \<le> k then of_int (2 ^ nat k) else 1 / of_int (2 ^ nat (- k)))"

lemma pow2: "pow2 k = 2 powi k"
  by (simp add: pow2_def power_int_def power_one_over inverse_eq_divide)

lemma ilog2_code [code]:
  "ilog2 x = (let (p, q) = quotient_of x; k = ibitlen p - ibitlen q
              in if pow2 k \<le> x then k else k - 1)"
  by (simp add: ilog2_def ibitlen pow2)

lemma ulp_code [code]: "ulp x = pow2 (max (ilog2 \<bar>x\<bar>) (-1022) - 52)"
  by (simp add: ulp_def pow2)

lemma fl_code [code]:
  "fl x = (let r = rnd x
     in if \<bar>r\<bar> < 1152921504606846976 then Fin r
        else if pow2 1024 \<le> r then PInf else if r \<le> - pow2 1024 then NInf else Fin r)"
  using two_powi_1024_big by (auto simp: fl_def pow2 Let_def)

section \<open>Operations\<close>

fun f_neg :: "f64 \<Rightarrow> f64" where
  "f_neg (Fin a) = Fin (- a)"
| "f_neg PInf = NInf"
| "f_neg NInf = PInf"
| "f_neg NaN = NaN"

fun f_add :: "f64 \<Rightarrow> f64 \<Rightarrow> f64" where
  "f_add (Fin a) (Fin b) = fl (a + b)"
| "f_add NaN y = NaN"
| "f_add x NaN = NaN"
| "f_add PInf NInf = NaN"
| "f_add NInf PInf = NaN"
| "f_add PInf y = PInf"
| "f_add NInf y = NInf"
| "f_add x PInf = PInf"
| "f_add x NInf = NInf"

definition f_sub :: "f64 \<Rightarrow> f64 \<Rightarrow> f64" where
  "f_sub x y = f_add x (f_neg y)"

fun f_sgn :: "f64 \<Rightarrow> rat" where
  "f_sgn (Fin a) = sgn a"
| "f_sgn PInf = 1"
| "f_sgn NInf = -1"
| "f_sgn NaN = 0"

definition f_inf :: "rat \<Rightarrow> f64" where
  "f_inf s = (if 0 < s then PInf else if s < 0 then NInf else NaN)"

fun f_mul :: "f64 \<Rightarrow> f64 \<Rightarrow> f64" where
  "f_mul (Fin a) (Fin b) = fl (a * b)"
| "f_mul NaN y = NaN"
| "f_mul x NaN = NaN"
| "f_mul x y = f_inf (f_sgn x * f_sgn y)"

text \<open>Division by a finite nonzero value, the only one the modelled code performs on data;
  a zero divisor gives an infinity or NaN.\<close>

fun f_div :: "f64 \<Rightarrow> f64 \<Rightarrow> f64" where
  "f_div NaN y = NaN"
| "f_div x NaN = NaN"
| "f_div (Fin a) (Fin b) = (if b = 0 then f_inf (sgn a) else fl (a / b))"
| "f_div (Fin a) y = Fin 0"
| "f_div x (Fin b) = f_inf (f_sgn x * (if b = 0 then 1 else sgn b))"
| "f_div x y = NaN"

fun f_lt :: "f64 \<Rightarrow> f64 \<Rightarrow> bool" where
  "f_lt (Fin a) (Fin b) = (a < b)"
| "f_lt NaN y = False"
| "f_lt x NaN = False"
| "f_lt NInf NInf = False"
| "f_lt NInf y = True"
| "f_lt x PInf = (x \<noteq> PInf)"
| "f_lt x y = False"

definition f_eq :: "f64 \<Rightarrow> f64 \<Rightarrow> bool" where
  "f_eq x y = (x \<noteq> NaN \<and> x = y)"

definition f_le :: "f64 \<Rightarrow> f64 \<Rightarrow> bool" where
  "f_le x y = (f_lt x y \<or> f_eq x y)"

fun f_is_nan :: "f64 \<Rightarrow> bool" where
  "f_is_nan NaN = True"
| "f_is_nan _ = False"

fun f_is_inf :: "f64 \<Rightarrow> bool" where
  "f_is_inf PInf = True"
| "f_is_inf NInf = True"
| "f_is_inf _ = False"

definition trunc_rat :: "rat \<Rightarrow> int" where
  "trunc_rat r = (if 0 \<le> r then \<lfloor>r\<rfloor> else - \<lfloor>- r\<rfloor>)"

definition round_away :: "rat \<Rightarrow> int" where
  "round_away r = (if 0 \<le> r then \<lfloor>r + 1/2\<rfloor> else - \<lfloor>- r + 1/2\<rfloor>)"

text \<open>\<open>math.Floor\<close>, \<open>math.Round\<close>, \<open>math.Trunc\<close>, \<open>math.Min\<close> and \<open>math.Abs\<close>:
  exact on finite doubles.\<close>

fun f_floor :: "f64 \<Rightarrow> f64" where
  "f_floor (Fin a) = Fin (of_int \<lfloor>a\<rfloor>)"
| "f_floor x = x"

fun f_round :: "f64 \<Rightarrow> f64" where
  "f_round (Fin a) = Fin (of_int (round_away a))"
| "f_round x = x"

fun f_trunc :: "f64 \<Rightarrow> f64" where
  "f_trunc (Fin a) = Fin (of_int (trunc_rat a))"
| "f_trunc x = x"

definition f_min :: "f64 \<Rightarrow> f64 \<Rightarrow> f64" where
  "f_min x y = (if x = NInf \<or> y = NInf then NInf
     else if x = NaN \<or> y = NaN then NaN else if f_lt x y then x else y)"

fun f_abs :: "f64 \<Rightarrow> f64" where
  "f_abs (Fin a) = Fin \<bar>a\<bar>"
| "f_abs NaN = NaN"
| "f_abs _ = PInf"

definition f_of_int :: "int \<Rightarrow> f64" where
  "f_of_int i = fl (of_int i)"

text \<open>The conversion \<open>int(x)\<close> truncates. Go leaves a value outside the int64 range to the
  implementation; this is the amd64 result.\<close>

fun f_to_int :: "f64 \<Rightarrow> int" where
  "f_to_int (Fin a) =
     (if - (2 ^ 63) \<le> trunc_rat a \<and> trunc_rat a < 2 ^ 63 then trunc_rat a else - (2 ^ 63))"
| "f_to_int _ = - (2 ^ 63)"

lemmas f_ops = f_sub_def f_of_int_def f_eq_def f_le_def f_min_def

end
