(* ===== verification/Effects.thy ===== *)
theory Effects
  imports Float64
begin

text \<open>
  How the Go handlers act on PostgreSQL. A program of type \<open>('d, 'a) prog\<close> takes a world (the
  database, the pending faults, the clock) to a result and a new world; the result is
  \<open>Inl\<close> of a Go error or \<open>Inr\<close> of the value.

  \<^item> \<open>stmt\<close> runs one SQL statement, which is atomic: it has its effect or it fails.
  \<^item> The fault list decides, statement by statement, what the connection does: run the
    statement, lose it before it takes effect, or lose only its answer (the client sees an
    error although the effect is there). A theorem that quantifies over all worlds
    therefore covers every pattern of database failures and every point where the process
    stops talking to the database.
  \<^item> \<open>transaction\<close> is \<open>Begin ... Commit\<close> with the deferred \<open>Rollback\<close>: an error or an early
    return without \<open>Commit\<close> restores the database; the commit itself may fail with or without
    effect. The statements of a transaction are atomic towards other sessions: the modelled
    transactions lock the rows and the advisory keys they decide on.
  \<^item> The clock is the transaction time \<open>now()\<close>, in seconds, constant during a handler.
\<close>

section \<open>Errors, JSON and responses\<close>

datatype err =
    NoRows
  | Fault string
  | Constraint string
  | Msg string
  | Http nat string

fun error_text :: "err \<Rightarrow> string" where
  "error_text NoRows = ''no rows in result set''"
| "error_text (Fault t) = t"
| "error_text (Constraint t) = t"
| "error_text (Msg t) = t"
| "error_text (Http n t) = t"

datatype json =
    JNull
  | JBool bool
  | JInt int
  | JNum f64
  | JStr string
  | JArr "json list"
  | JObj "(string \<times> json) list"

datatype response = Resp nat json

section \<open>Programs\<close>

datatype fault = FOk | FBefore string | FAfter string

record 'd world =
  db :: 'd
  faults :: "fault list"
  now :: int

type_synonym ('d, 'a) prog = "'d world \<Rightarrow> (err + 'a) \<times> 'd world"

definition next_fault :: "'d world \<Rightarrow> fault \<times> 'd world" where
  "next_fault w = (case faults w of [] \<Rightarrow> (FOk, w) | f # fs \<Rightarrow> (f, w\<lparr>faults := fs\<rparr>))"

definition ret :: "'a \<Rightarrow> ('d, 'a) prog" where
  "ret a w = (Inr a, w)"

definition fail :: "err \<Rightarrow> ('d, 'a) prog" where
  "fail e w = (Inl e, w)"

definition bind :: "('d, 'a) prog \<Rightarrow> ('a \<Rightarrow> ('d, 'b) prog) \<Rightarrow> ('d, 'b) prog" where
  "bind m f w = (case m w of (Inl e, w') \<Rightarrow> (Inl e, w') | (Inr a, w') \<Rightarrow> f a w')"

text \<open>\<open>x, err := m\<close> whose error the code inspects.\<close>

definition attempt :: "('d, 'a) prog \<Rightarrow> ('d, err + 'a) prog" where
  "attempt m w = (case m w of (r, w') \<Rightarrow> (Inr r, w'))"

text \<open>\<open>if err != nil { return f(err) }\<close>.\<close>

definition map_err :: "(err \<Rightarrow> err) \<Rightarrow> ('d, 'a) prog \<Rightarrow> ('d, 'a) prog" where
  "map_err g m w = (case m w of (Inl e, w') \<Rightarrow> (Inl (g e), w') | (Inr a, w') \<Rightarrow> (Inr a, w'))"

definition or_else :: "('d, 'a) prog \<Rightarrow> err \<Rightarrow> ('d, 'a) prog" where
  "or_else m e = map_err (\<lambda>_. e) m"

text \<open>\<open>_ = m\<close> and \<open>if err := m; err != nil { log }\<close>.\<close>

definition ignore :: "('d, 'a) prog \<Rightarrow> ('d, unit) prog" where
  "ignore m = bind (attempt m) (\<lambda>_. ret ())"

definition require :: "bool \<Rightarrow> err \<Rightarrow> ('d, unit) prog" where
  "require b e = (if b then ret () else fail e)"

definition clock :: "('d, int) prog" where
  "clock w = (Inr (now w), w)"

definition stmt :: "('d \<Rightarrow> int \<Rightarrow> err + ('a \<times> 'd)) \<Rightarrow> ('d, 'a) prog" where
  "stmt f w =
     (case next_fault w of
        (FBefore t, w1) \<Rightarrow> (Inl (Fault t), w1)
      | (FOk, w1) \<Rightarrow> (case f (db w1) (now w1) of
            Inl e \<Rightarrow> (Inl e, w1) | Inr (a, d) \<Rightarrow> (Inr a, w1\<lparr>db := d\<rparr>))
      | (FAfter t, w1) \<Rightarrow> (case f (db w1) (now w1) of
            Inl e \<Rightarrow> (Inl e, w1) | Inr (a, d) \<Rightarrow> (Inl (Fault t), w1\<lparr>db := d\<rparr>)))"

definition query :: "('d \<Rightarrow> int \<Rightarrow> err + 'a) \<Rightarrow> ('d, 'a) prog" where
  "query f = stmt (\<lambda>d t. case f d t of Inl e \<Rightarrow> Inl e | Inr a \<Rightarrow> Inr (a, d))"

text \<open>\<open>QueryRow(...).Scan\<close>: no row is the error \<open>pgx.ErrNoRows\<close>.\<close>

definition row :: "'a option \<Rightarrow> err + 'a" where
  "row x = (case x of None \<Rightarrow> Inl NoRows | Some a \<Rightarrow> Inr a)"

datatype 'a outcome = Commit 'a | Abandon 'a

text \<open>\<open>eb\<close> and \<open>ec\<close> say what the handler makes of a failed \<open>Begin\<close> and a failed \<open>Commit\<close>.\<close>

definition transaction_with :: "(err \<Rightarrow> err) \<Rightarrow> (err \<Rightarrow> err) \<Rightarrow> ('d, 'a outcome) prog \<Rightarrow> ('d, 'a) prog" where
  "transaction_with eb ec body w =
     (case next_fault w of
        (FOk, w1) \<Rightarrow>
          (case body w1 of
             (Inl e, w2) \<Rightarrow> (Inl e, w2\<lparr>db := db w1\<rparr>)
           | (Inr (Abandon a), w2) \<Rightarrow> (Inr a, w2\<lparr>db := db w1\<rparr>)
           | (Inr (Commit a), w2) \<Rightarrow>
               (case next_fault w2 of
                  (FOk, w3) \<Rightarrow> (Inr a, w3)
                | (FBefore t, w3) \<Rightarrow> (Inl (ec (Fault t)), w3\<lparr>db := db w1\<rparr>)
                | (FAfter t, w3) \<Rightarrow> (Inl (ec (Fault t)), w3)))
      | (FBefore t, w1) \<Rightarrow> (Inl (eb (Fault t)), w1)
      | (FAfter t, w1) \<Rightarrow> (Inl (eb (Fault t)), w1))"

definition transaction :: "('d, 'a outcome) prog \<Rightarrow> ('d, 'a) prog" where
  "transaction body = transaction_with (\<lambda>e. e) (\<lambda>e. e) body"

definition transaction_or :: "err \<Rightarrow> err \<Rightarrow> ('d, 'a outcome) prog \<Rightarrow> ('d, 'a) prog" where
  "transaction_or eb ec body = transaction_with (\<lambda>_. eb) (\<lambda>_. ec) body"

text \<open>\<open>pg_advisory_xact_lock\<close> and other statements that only lock.\<close>

definition lock :: "('d, unit) prog" where
  "lock = query (\<lambda>d t. Inr ())"

text \<open>A loop over the rows of an earlier result.\<close>

fun for_each :: "('x \<Rightarrow> ('d, unit) prog) \<Rightarrow> 'x list \<Rightarrow> ('d, unit) prog" where
  "for_each f [] = ret ()"
| "for_each f (x # xs) = bind (f x) (\<lambda>_. for_each f xs)"

text \<open>A loop that collects a result per element.\<close>

fun collect :: "('x \<Rightarrow> ('d, 'b) prog) \<Rightarrow> 'x list \<Rightarrow> ('d, 'b list) prog" where
  "collect f [] = ret []"
| "collect f (x # xs) = bind (f x) (\<lambda>y. bind (collect f xs) (\<lambda>ys. ret (y # ys)))"

lemmas prog_defs = ret_def fail_def bind_def attempt_def map_err_def or_else_def ignore_def
  require_def clock_def stmt_def query_def row_def lock_def transaction_def transaction_or_def transaction_with_def next_fault_def

section \<open>Reasoning over every fault pattern\<close>

text \<open>\<open>wp t m Q E d\<close>: from database \<open>d\<close> at time \<open>t\<close>, whatever the faults, \<open>m\<close> ends with a value
  and a database in \<open>Q\<close>, or with an error and a database in \<open>E\<close>.\<close>

definition wp :: "int \<Rightarrow> ('d, 'a) prog \<Rightarrow> ('a \<Rightarrow> 'd \<Rightarrow> bool) \<Rightarrow> (err \<Rightarrow> 'd \<Rightarrow> bool) \<Rightarrow> 'd \<Rightarrow> bool" where
  "wp t m Q E d = (\<forall>fs. case m \<lparr>db = d, faults = fs, now = t\<rparr> of
     (Inr a, w) \<Rightarrow> now w = t \<and> Q a (db w) | (Inl e, w) \<Rightarrow> now w = t \<and> E e (db w))"

named_theorems wp_rules "introduction rules for wp, one per program construct"

lemma wpD:
  assumes "wp (now w) m Q E (db w)"
  shows "case m w of (Inr a, w') \<Rightarrow> now w' = now w \<and> Q a (db w') | (Inl e, w') \<Rightarrow> now w' = now w \<and> E e (db w')"
  using assms [unfolded wp_def, rule_format, of "faults w"] by (cases w) simp

lemma wp_run:
  assumes "wp (now w) m Q E (db w)" "m w = (Inr a, w')"
  shows "Q a (db w')"
  using wpD [OF assms(1)] assms(2) by simp

lemma wp_run_err:
  assumes "wp (now w) m Q E (db w)" "m w = (Inl e, w')"
  shows "E e (db w')"
  using wpD [OF assms(1)] assms(2) by simp

lemma wp_both:
  assumes "wp (now w) m (\<lambda>_. R) (\<lambda>_. R) (db w)"
  shows "R (db (snd (m w)))"
  using wpD [OF assms] by (auto split: prod.splits sum.splits)

lemma wpI:
  assumes "\<And>w. db w = d \<Longrightarrow> now w = t \<Longrightarrow>
    (case m w of (Inr a, w') \<Rightarrow> now w' = t \<and> Q a (db w') | (Inl e, w') \<Rightarrow> now w' = t \<and> E e (db w'))"
  shows "wp t m Q E d"
  unfolding wp_def using assms by simp

lemma wp_mono:
  assumes "wp t m Q E d" "\<And>a d'. Q a d' \<Longrightarrow> Q' a d'" "\<And>e d'. E e d' \<Longrightarrow> E' e d'"
  shows "wp t m Q' E' d"
proof (rule wpI)
  fix w :: "'a world" assume w: "db w = d" "now w = t"
  have "case m w of (Inr a, w') \<Rightarrow> now w' = now w \<and> Q a (db w') | (Inl e, w') \<Rightarrow> now w' = now w \<and> E e (db w')"
    using assms(1) w by (intro wpD) simp
  then show "case m w of (Inr a, w') \<Rightarrow> now w' = t \<and> Q' a (db w') | (Inl e, w') \<Rightarrow> now w' = t \<and> E' e (db w')"
    using assms(2,3) w by (auto split: prod.splits sum.splits)
qed

lemma wp_ret [wp_rules]: "Q a d \<Longrightarrow> wp t (ret a) Q E d"
  by (rule wpI) (simp add: ret_def)

lemma wp_fail [wp_rules]: "E e d \<Longrightarrow> wp t (fail e) Q E d"
  by (rule wpI) (simp add: fail_def)

lemma wp_clock [wp_rules]: "Q t d \<Longrightarrow> wp t clock Q E d"
  by (rule wpI) (simp add: clock_def)

lemma wp_bind [wp_rules]:
  assumes "wp t m (\<lambda>a. wp t (f a) Q E) E d"
  shows "wp t (bind m f) Q E d"
proof (rule wpI)
  fix w :: "'a world" assume w: "db w = d" "now w = t"
  have *: "case m w of (Inr a, w') \<Rightarrow> now w' = now w \<and> wp t (f a) Q E (db w')
    | (Inl e, w') \<Rightarrow> now w' = now w \<and> E e (db w')"
    using assms w by (intro wpD) simp
  show "case bind m f w of (Inr a, w') \<Rightarrow> now w' = t \<and> Q a (db w') | (Inl e, w') \<Rightarrow> now w' = t \<and> E e (db w')"
  proof (cases "m w")
    case (Pair r w')
    show ?thesis
    proof (cases r)
      case (Inl e)
      then show ?thesis using * Pair w by (simp add: bind_def)
    next
      case (Inr a)
      then have nw: "now w' = t" and "wp t (f a) Q E (db w')" using * Pair w by auto
      then have "wp (now w') (f a) Q E (db w')" by simp
      from wpD [OF this] nw show ?thesis using Inr Pair
        by (auto simp: bind_def split: prod.splits sum.splits)
    qed
  qed
qed

lemma wp_attempt [wp_rules]:
  assumes "wp t m (\<lambda>a. Q (Inr a)) (\<lambda>e. Q (Inl e)) d"
  shows "wp t (attempt m) Q E d"
proof (rule wpI)
  fix w :: "'a world" assume w: "db w = d" "now w = t"
  have "case m w of (Inr a, w') \<Rightarrow> now w' = now w \<and> Q (Inr a) (db w') | (Inl e, w') \<Rightarrow> now w' = now w \<and> Q (Inl e) (db w')"
    using assms w by (intro wpD) simp
  then show "case attempt m w of (Inr a, w') \<Rightarrow> now w' = t \<and> Q a (db w') | (Inl e, w') \<Rightarrow> now w' = t \<and> E e (db w')"
    using w by (auto simp: attempt_def split: prod.splits sum.splits)
qed

lemma wp_map_err [wp_rules]:
  assumes "wp t m Q (\<lambda>e. E (g e)) d"
  shows "wp t (map_err g m) Q E d"
proof (rule wpI)
  fix w :: "'a world" assume w: "db w = d" "now w = t"
  have "case m w of (Inr a, w') \<Rightarrow> now w' = now w \<and> Q a (db w') | (Inl e, w') \<Rightarrow> now w' = now w \<and> E (g e) (db w')"
    using assms w by (intro wpD) simp
  then show "case map_err g m w of (Inr a, w') \<Rightarrow> now w' = t \<and> Q a (db w') | (Inl e, w') \<Rightarrow> now w' = t \<and> E e (db w')"
    using w by (auto simp: map_err_def split: prod.splits sum.splits)
qed

lemma wp_or_else [wp_rules]: "wp t m Q (\<lambda>_. E e) d \<Longrightarrow> wp t (or_else m e) Q E d"
  unfolding or_else_def by (rule wp_map_err)

lemma wp_ignore [wp_rules]: "wp t m (\<lambda>_. Q ()) (\<lambda>_. Q ()) d \<Longrightarrow> wp t (ignore m) Q E d"
  unfolding ignore_def by (intro wp_rules) (erule wp_mono; intro wp_rules; simp)

lemma wp_require [wp_rules]:
  "(b \<Longrightarrow> Q () d) \<Longrightarrow> (\<not> b \<Longrightarrow> E e d) \<Longrightarrow> wp t (require b e) Q E d"
  by (simp add: require_def wp_ret wp_fail)

lemma wp_stmt [wp_rules]:
  assumes "\<And>x. E (Fault x) d"
    and "\<And>e. f d t = Inl e \<Longrightarrow> E e d"
    and "\<And>a d'. f d t = Inr (a, d') \<Longrightarrow> Q a d'"
    and "\<And>a d' x. f d t = Inr (a, d') \<Longrightarrow> E (Fault x) d'"
  shows "wp t (stmt f) Q E d"
  by (rule wpI) (auto simp: stmt_def next_fault_def assms split: list.splits fault.splits sum.splits)

lemma wp_query [wp_rules]:
  assumes "\<And>x. E (Fault x) d"
    and "\<And>e. f d t = Inl e \<Longrightarrow> E e d"
    and "\<And>a. f d t = Inr a \<Longrightarrow> Q a d"
  shows "wp t (query f) Q E d"
  unfolding query_def by (rule wp_stmt) (auto simp: assms split: sum.splits)

lemma wp_lock [wp_rules]: "(\<And>x. E (Fault x) d) \<Longrightarrow> Q () d \<Longrightarrow> wp t lock Q E d"
  unfolding lock_def by (rule wp_query) auto

lemma wp_transaction_with:
  assumes "\<And>x. E (eb (Fault x)) d"
    and "\<And>x. E (ec (Fault x)) d"
    and "wp t body (\<lambda>r d'. case r of Abandon a \<Rightarrow> Q a d
           | Commit a \<Rightarrow> Q a d' \<and> (\<forall>x. E (ec (Fault x)) d')) (\<lambda>e _. E e d) d"
  shows "wp t (transaction_with eb ec body) Q E d"
proof (rule wpI)
  fix w :: "'a world" assume w: "db w = d" "now w = t"
  obtain x w1 where x: "next_fault w = (x, w1)" by (cases "next_fault w")
  then have w1: "db w1 = d" "now w1 = t" using w by (auto simp: next_fault_def split: list.splits)
  have "wp (now w1) body (\<lambda>r d'. case r of Abandon a \<Rightarrow> Q a d
    | Commit a \<Rightarrow> Q a d' \<and> (\<forall>x. E (ec (Fault x)) d')) (\<lambda>e _. E e d) (db w1)"
    using assms(3) w1 by simp
  from wpD [OF this] show "case transaction_with eb ec body w of (Inr a, w') \<Rightarrow> now w' = t \<and> Q a (db w')
      | (Inl e, w') \<Rightarrow> now w' = t \<and> E e (db w')"
    using assms(1,2) w w1 x
    by (auto simp: transaction_with_def next_fault_def
          split: list.splits fault.splits sum.splits prod.splits outcome.splits)
qed

lemma wp_transaction [wp_rules]:
  assumes "\<And>x. E (Fault x) d"
    and "wp t body (\<lambda>r d'. case r of Abandon a \<Rightarrow> Q a d
           | Commit a \<Rightarrow> Q a d' \<and> (\<forall>x. E (Fault x) d')) (\<lambda>e _. E e d) d"
  shows "wp t (transaction body) Q E d"
  unfolding transaction_def using assms by (intro wp_transaction_with) auto

lemma wp_transaction_or [wp_rules]:
  assumes "E eb d" and "E ec d"
    and "wp t body (\<lambda>r d'. case r of Abandon a \<Rightarrow> Q a d | Commit a \<Rightarrow> Q a d' \<and> E ec d') (\<lambda>e _. E e d) d"
  shows "wp t (transaction_or eb ec body) Q E d"
  unfolding transaction_or_def
  by (rule wp_transaction_with) (use assms in \<open>auto elim!: wp_mono split: outcome.splits\<close>)

lemma wp_if [wp_rules]:
  "(b \<Longrightarrow> wp t m Q E d) \<Longrightarrow> (\<not> b \<Longrightarrow> wp t n Q E d) \<Longrightarrow> wp t (if b then m else n) Q E d"
  by simp

lemma wp_option [wp_rules]:
  "(x = None \<Longrightarrow> wp t m Q E d) \<Longrightarrow> (\<And>a. x = Some a \<Longrightarrow> wp t (f a) Q E d) \<Longrightarrow>
   wp t (case x of None \<Rightarrow> m | Some a \<Rightarrow> f a) Q E d"
  by (cases x) auto

lemma wp_sum [wp_rules]:
  "(\<And>e. x = Inl e \<Longrightarrow> wp t (g e) Q E d) \<Longrightarrow> (\<And>a. x = Inr a \<Longrightarrow> wp t (f a) Q E d) \<Longrightarrow>
   wp t (case x of Inl e \<Rightarrow> g e | Inr a \<Rightarrow> f a) Q E d"
  by (cases x) auto

lemma wp_prod [wp_rules]:
  "(\<And>a b. x = (a, b) \<Longrightarrow> wp t (f a b) Q E d) \<Longrightarrow> wp t (case x of (a, b) \<Rightarrow> f a b) Q E d"
  by (cases x) auto

lemma wp_let [wp_rules]: "(\<And>y. y = x \<Longrightarrow> wp t (f y) Q E d) \<Longrightarrow> wp t (Let x f) Q E d"
  by simp

lemma wp_for_each:
  assumes "\<And>x d. x \<in> set xs \<Longrightarrow> I d \<Longrightarrow> wp t (f x) (\<lambda>_. I) E d" "I d"
  shows "wp t (for_each f xs) (\<lambda>_. I) E d"
  using assms
proof (induction xs arbitrary: d)
  case Nil
  then show ?case by (simp add: wp_ret)
next
  case (Cons x xs)
  show ?case
    unfolding for_each.simps
  proof (rule wp_bind, rule wp_mono)
    show "wp t (f x) (\<lambda>_. I) E d" using Cons.prems by simp
    show "I d' \<Longrightarrow> wp t (for_each f xs) (\<lambda>_. I) E d'" for d'
      using Cons by simp
  qed
qed

text \<open>The invariant may speak of the elements still to come.\<close>

lemma wp_for_each_rest:
  assumes "\<And>x xs d. I (x # xs) d \<Longrightarrow> wp t (f x) (\<lambda>_. I xs) E d" "I xs d"
  shows "wp t (for_each f xs) (\<lambda>_. I []) E d"
  using assms(2)
proof (induction xs arbitrary: d)
  case Nil
  then show ?case by (simp add: wp_ret)
next
  case (Cons x xs)
  show ?case
    unfolding for_each.simps
    by (rule wp_bind, rule wp_mono [OF assms(1) [OF Cons.prems]]) (auto intro: Cons.IH)
qed

lemma wp_collect:
  assumes "\<And>x d. x \<in> set xs \<Longrightarrow> I d \<Longrightarrow> wp t (f x) (\<lambda>_. I) E d" "I d"
  shows "wp t (collect f xs) (\<lambda>_. I) E d"
  using assms
proof (induction xs arbitrary: d)
  case Nil
  then show ?case by (simp add: wp_ret)
next
  case (Cons x xs)
  show ?case
    unfolding collect.simps
  proof (rule wp_bind, rule wp_mono)
    show "wp t (f x) (\<lambda>_. I) E d" using Cons.prems by simp
    show "wp t (bind (collect f xs) (\<lambda>ys. ret (y # ys))) (\<lambda>_. I) E d'" if "I d'" for y d'
    proof (rule wp_bind, rule wp_mono)
      show "wp t (collect f xs) (\<lambda>_. I) E d'" using Cons that by simp
      show "I d'' \<Longrightarrow> wp t (ret (y # ys)) (\<lambda>_. I) E d''" for ys d'' by (rule wp_ret)
    qed
  qed
qed

section \<open>Guarantees: relations every handler keeps\<close>

text \<open>A guarantee is a reflexive and transitive relation between the database before and after a
  run. \<open>keeps R m\<close> says that every run of \<open>m\<close>, whatever the faults, stays in \<open>R\<close>; it composes
  along the program, so a handler keeps \<open>R\<close> when each of its statements does.\<close>

definition keeps :: "('d \<Rightarrow> 'd \<Rightarrow> bool) \<Rightarrow> ('d, 'a) prog \<Rightarrow> bool" where
  "keeps R m = (\<forall>w. R (db w) (db (snd (m w))) \<and> now (snd (m w)) = now w)"

lemma keepsD: "keeps R m \<Longrightarrow> m w = (r, w') \<Longrightarrow> R (db w) (db w') \<and> now w' = now w"
  unfolding keeps_def by (metis snd_conv)

lemma keepsI: "(\<And>w r w'. m w = (r, w') \<Longrightarrow> R (db w) (db w') \<and> now w' = now w) \<Longrightarrow> keeps R m"
  unfolding keeps_def by (metis prod.collapse)

lemma keeps_wp:
  assumes "\<And>t d. wp t m (\<lambda>_. R d) (\<lambda>_. R d) d"
  shows "keeps R m"
proof (rule keepsI)
  fix w r w' assume m: "m w = (r, w')"
  from wpD [OF assms, of w] show "R (db w) (db w') \<and> now w' = now w"
    unfolding m by (cases r) auto
qed

lemma keeps_weaken: "keeps R m \<Longrightarrow> (\<And>d d'. R d d' \<Longrightarrow> S d d') \<Longrightarrow> keeps S m"
  by (auto simp: keeps_def)

text \<open>A guarantee is a frame: it gives \<open>wp\<close> for every postcondition it implies.\<close>

lemma wp_keeps:
  assumes "keeps R m" "\<And>a d'. R d d' \<Longrightarrow> Q a d'" "\<And>e d'. R d d' \<Longrightarrow> E e d'"
  shows "wp t m Q E d"
proof (rule wpI)
  fix w :: "'a world" assume w: "db w = d" "now w = t"
  obtain r w' where m: "m w = (r, w')" by (cases "m w")
  from keepsD [OF assms(1) m] w assms(2,3)
  show "case m w of (Inr a, w') \<Rightarrow> now w' = t \<and> Q a (db w') | (Inl e, w') \<Rightarrow> now w' = t \<and> E e (db w')"
    unfolding m by (auto split: sum.splits)
qed

locale guarantee =
  fixes R :: "'d \<Rightarrow> 'd \<Rightarrow> bool"
  assumes refl: "R d d"
    and trans: "R a b \<Longrightarrow> R b c \<Longrightarrow> R a c"
begin

lemma keeps_ret: "keeps R (ret a)"
  by (simp add: keeps_def ret_def refl)

lemma keeps_fail: "keeps R (fail e)"
  by (simp add: keeps_def fail_def refl)

lemma keeps_bind:
  assumes m: "keeps R m" and f: "\<And>a. keeps R (f a)"
  shows "keeps R (bind m f)"
proof (rule keepsI)
  fix w r w' assume b: "bind m f w = (r, w')"
  obtain x v where mw: "m w = (x, v)" by (cases "m w")
  then have 1: "R (db w) (db v)" "now v = now w" using keepsD [OF m] by auto
  show "R (db w) (db w') \<and> now w' = now w"
  proof (cases x)
    case (Inr a)
    then have "f a v = (r, w')" using mw b by (simp add: bind_def)
    then have "R (db v) (db w')" "now w' = now v" using keepsD [OF f] by auto
    with 1 trans [OF 1(1)] show ?thesis by simp
  qed (use 1 mw b in \<open>simp add: bind_def\<close>)
qed

lemma keeps_attempt: "keeps R m \<Longrightarrow> keeps R (attempt m)"
  by (rule keepsI) (auto simp: attempt_def dest: keepsD split: prod.splits)

lemma keeps_map_err: "keeps R m \<Longrightarrow> keeps R (map_err g m)"
  by (rule keepsI) (auto simp: map_err_def dest: keepsD split: prod.splits sum.splits)

lemma keeps_or_else: "keeps R m \<Longrightarrow> keeps R (or_else m e)"
  by (simp add: or_else_def keeps_map_err)

lemma keeps_ignore: "keeps R m \<Longrightarrow> keeps R (ignore m)"
  unfolding ignore_def by (intro keeps_bind keeps_attempt keeps_ret)

lemma keeps_require: "keeps R (require b e)"
  by (simp add: require_def keeps_ret keeps_fail)

lemma keeps_clock: "keeps R clock"
  by (simp add: keeps_def clock_def refl)

lemma keeps_stmt:
  assumes "\<And>d t a d'. f d t = Inr (a, d') \<Longrightarrow> R d d'"
  shows "keeps R (stmt f)"
  by (rule keeps_wp) (auto intro!: wp_stmt simp: refl assms)

lemma keeps_query: "keeps R (query f)"
  unfolding query_def by (rule keeps_stmt) (auto simp: refl split: sum.splits)

lemma keeps_lock: "keeps R lock"
  by (simp add: lock_def keeps_query)

lemma keeps_transaction_with:
  assumes "keeps R body"
  shows "keeps R (transaction_with eb ec body)"
proof (rule keepsI)
  fix w r w' assume b: "transaction_with eb ec body w = (r, w')"
  obtain x w1 where x: "next_fault w = (x, w1)" by (cases "next_fault w")
  obtain y w2 where y: "body w1 = (y, w2)" by (cases "body w1")
  have 1: "db w1 = db w" "now w1 = now w" using x by (auto simp: next_fault_def split: list.splits)
  have 2: "R (db w1) (db w2)" "now w2 = now w1" using keepsD [OF assms y] by auto
  obtain z w3 where z: "next_fault w2 = (z, w3)" by (cases "next_fault w2")
  have 3: "db w3 = db w2" "now w3 = now w2" using z by (auto simp: next_fault_def split: list.splits)
  have "(db w' = db w1 \<or> db w' = db w2) \<and> now w' = now w1"
    using b 2(2) 3 by (simp add: transaction_with_def x y z split: fault.splits sum.splits outcome.splits) auto
  then show "R (db w) (db w') \<and> now w' = now w" using 1 2 refl by auto
qed

lemma keeps_transaction: "keeps R body \<Longrightarrow> keeps R (transaction body)"
  by (simp add: transaction_def keeps_transaction_with)

lemma keeps_transaction_or: "keeps R body \<Longrightarrow> keeps R (transaction_or eb ec body)"
  by (simp add: transaction_or_def keeps_transaction_with)

lemma keeps_for_each: "(\<And>x. keeps R (f x)) \<Longrightarrow> keeps R (for_each f xs)"
  by (induction xs) (auto intro: keeps_ret keeps_bind)

lemma keeps_collect: "(\<And>x. keeps R (f x)) \<Longrightarrow> keeps R (collect f xs)"
  by (induction xs) (auto intro: keeps_ret keeps_bind)

lemma keeps_if: "keeps R m \<Longrightarrow> keeps R n \<Longrightarrow> keeps R (if b then m else n)"
  by simp

lemma keeps_option: "keeps R m \<Longrightarrow> (\<And>a. keeps R (f a)) \<Longrightarrow> keeps R (case x of None \<Rightarrow> m | Some a \<Rightarrow> f a)"
  by (cases x) auto

lemma keeps_sum: "(\<And>e. keeps R (g e)) \<Longrightarrow> (\<And>a. keeps R (f a)) \<Longrightarrow> keeps R (case x of Inl e \<Rightarrow> g e | Inr a \<Rightarrow> f a)"
  by (cases x) auto

lemma keeps_prod: "(\<And>a b. keeps R (f a b)) \<Longrightarrow> keeps R (case x of (a, b) \<Rightarrow> f a b)"
  by (cases x) auto

lemma keeps_let: "(\<And>y. keeps R (f y)) \<Longrightarrow> keeps R (Let x f)"
  by simp

lemmas keeps_all = keeps_option keeps_sum keeps_prod keeps_let keeps_ret keeps_fail keeps_bind keeps_attempt keeps_map_err keeps_or_else keeps_ignore
  keeps_require keeps_clock keeps_query keeps_lock keeps_transaction keeps_transaction_or keeps_if

end

end
