(* ===== verification/Money.thy ===== *)
theory Money
  imports Float64
begin

text \<open>
  The money arithmetic of the controllers, in \<open>float64\<close> as the code has it:
  \<open>roundMoney\<close> and \<open>estimateShipping\<close> (order_controller.go), \<open>xpDiscount\<close>
  (xp_redemption.go), \<open>purchaseXP\<close> (reward_service.go), the subscription prices
  (subscription_pricing.go) and the average rating (service_ratings.go).

  A database NUMERIC(14,2) is an \<open>int\<close> number of hundredths; \<open>scan_num\<close> is the double the
  driver scans it into, the one nearest to \<open>k / 100\<close>. The lemmas show that on that range
  the float code computes the exact result in hundredths.
\<close>

section \<open>NUMERIC(14,2) columns\<close>

definition scan_num :: "int \<Rightarrow> f64" where
  "scan_num k = fl (of_int k / 100)"

definition num_range :: "int \<Rightarrow> bool" where
  "num_range k = (\<bar>k\<bar> < 10 ^ 14)"

lemma rnd_error_abs:
  assumes "\<bar>x\<bar> \<le> B" and "1 \<le> B"
  shows "\<bar>rnd x - x\<bar> \<le> B / 2 ^ 53"
proof (cases "2 powi (-1022) \<le> \<bar>x\<bar>")
  case True
  have "\<bar>x\<bar> / 2 ^ 53 \<le> B / 2 ^ 53" using assms(1) by (intro divide_right_mono) auto
  with rnd_error_rel [OF True] show ?thesis by linarith
next
  case False
  show ?thesis
  proof (cases "x = 0")
    case True
    with assms(2) show ?thesis by simp
  next
    case nz: False
    then have pos: "0 < \<bar>x\<bar>" by simp
    have "ilog2 \<bar>x\<bar> < -1022"
    proof (rule ccontr)
      assume "\<not> ?thesis"
      then have "(2::rat) powi (-1022) \<le> 2 powi (ilog2 \<bar>x\<bar>)" by (intro power_int_increasing) auto
      with ilog2_bounds [OF pos] False show False by linarith
    qed
    then have "ulp x \<le> 2 powi (-52)" unfolding ulp_def by (intro power_int_increasing) auto
    also have "(2::rat) powi (-52) = 1 / 2 ^ 52" by (simp add: power_int_def power_one_over)
    finally have "ulp x / 2 \<le> 1 / 2 ^ 53" by simp
    moreover have "1 / 2 ^ 53 \<le> B / 2 ^ 53" using assms(2) by (intro divide_right_mono) auto
    ultimately show ?thesis using rnd_error_ulp [of x] by linarith
  qed
qed

lemma num_range_quot: "num_range k \<Longrightarrow> \<bar>of_int k / 100 :: rat\<bar> \<le> 1099511627776"
proof -
  assume "num_range k"
  then have "\<bar>k\<bar> \<le> 10 ^ 14" by (simp add: num_range_def)
  then have "of_int \<bar>k\<bar> \<le> (of_int (10 ^ 14) :: rat)" by (simp only: of_int_le_iff)
  then show ?thesis by simp
qed

lemma scan_num_Fin: "num_range k \<Longrightarrow> scan_num k = Fin (rnd (of_int k / 100))"
  using num_range_quot [of k] by (simp add: scan_num_def fl_Fin)

lemma scan_num_error: "num_range k \<Longrightarrow> \<bar>rnd (of_int k / 100) - of_int k / 100\<bar> \<le> 1 / 8192"
  using rnd_error_abs [OF num_range_quot [of k]] by simp

section \<open>roundMoney\<close>

definition round_money :: "f64 \<Rightarrow> f64" where
  "round_money v =
     f_div (f_of_int (f_to_int (f_add (f_mul v (f_of_int 100)) (Fin (1/2))))) (f_of_int 100)"

lemma f_of_int_100: "f_of_int 100 = Fin 100"
  using fl_of_int [of 100] by (simp add: f_of_int_def)

lemma trunc_rat_near:
  assumes "\<bar>z - (of_int k + 1/2)\<bar> < 1/2" and "0 \<le> k"
  shows "trunc_rat z = k"
proof -
  have "of_int k < z \<and> z < of_int k + 1" using assms(1) unfolding abs_le_iff abs_less_iff by ((intro conjI)?; linarith)
  moreover have "(0::rat) \<le> of_int k" using assms(2) by simp
  ultimately show ?thesis by (auto simp: trunc_rat_def floor_eq_iff)
qed

lemma round_money_near:
  assumes near: "\<bar>v - of_int k / 100\<bar> \<le> 1 / 1000" and k: "0 \<le> k" "num_range k"
  shows "round_money (Fin v) = scan_num k"
proof -
  have kb: "of_int k \<le> (100000000000000 :: rat)" "(0::rat) \<le> of_int k"
  proof -
    have "k \<le> 10 ^ 14" using k(2) by (simp add: num_range_def)
    then have "of_int k \<le> (of_int (10 ^ 14) :: rat)" by (simp only: of_int_le_iff)
    then show "of_int k \<le> (100000000000000 :: rat)" by simp
  qed (use k in simp)
  define w where "w = v * 100"
  have w: "\<bar>w - of_int k\<bar> \<le> 1 / 10" using near unfolding w_def abs_le_iff by ((intro conjI)?; linarith)
  have wB: "\<bar>w\<bar> \<le> 281474976710656" using w kb unfolding abs_le_iff abs_less_iff by ((intro conjI)?; linarith)
  have fw: "fl w = Fin (rnd w)" using wB by (intro fl_Fin) simp
  have ew: "\<bar>rnd w - w\<bar> \<le> 1 / 32" using rnd_error_abs [OF wB] by simp
  define y where "y = rnd w + 1 / 2"
  have yB: "\<bar>y\<bar> \<le> 562949953421312" using ew wB unfolding y_def abs_le_iff by ((intro conjI)?; linarith)
  have fy: "fl y = Fin (rnd y)" using yB by (intro fl_Fin) simp
  have ey: "\<bar>rnd y - y\<bar> \<le> 1 / 16" using rnd_error_abs [OF yB] by simp
  have "\<bar>rnd y - (of_int k + 1/2)\<bar> < 1/2" using w ew ey unfolding y_def abs_le_iff abs_less_iff by ((intro conjI)?; linarith)
  then have t: "trunc_rat (rnd y) = k" using k(1) by (intro trunc_rat_near)
  have kr: "- (2 ^ 63) \<le> k \<and> k < 2 ^ 63" "\<bar>k\<bar> < 2 ^ 53" using k by (auto simp: num_range_def)
  have "f_to_int (f_add (f_mul (Fin v) (f_of_int 100)) (Fin (1/2))) = k"
    using kr t by (simp add: f_of_int_100 w_def [symmetric] fw y_def [symmetric] fy)
  then show ?thesis
    using kr fl_of_int [of k]
    by (simp add: round_money_def f_of_int_100 scan_num_def) (simp add: f_of_int_def)
qed

text \<open>\<open>roundMoney\<close> is the identity on an amount read from the database, and it computes a
  difference of two such amounts exactly.\<close>

lemma round_money_scan:
  assumes "0 \<le> k" "num_range k"
  shows "round_money (scan_num k) = scan_num k"
  using round_money_near [of "rnd (of_int k / 100)" k] scan_num_error [OF assms(2)] assms
  by (simp add: scan_num_Fin)

lemma round_money_diff:
  assumes a: "num_range a" and b: "num_range b" and ba: "b \<le> a" "0 \<le> b"
  shows "round_money (f_sub (scan_num a) (scan_num b)) = scan_num (a - b)"
proof -
  let ?d = "rnd (of_int a / 100) - rnd (of_int b / 100)"
  have "\<bar>?d - (of_int a / 100 - of_int b / 100)\<bar> \<le> 1 / 4096"
    using scan_num_error [OF a] scan_num_error [OF b] unfolding abs_le_iff abs_less_iff by ((intro conjI)?; linarith)
  then have d: "\<bar>?d - of_int (a - b) / 100\<bar> \<le> 1 / 4096" by (simp add: diff_divide_distrib)
  have r: "num_range (a - b)" using a ba by (simp add: num_range_def)
  have dB: "\<bar>?d\<bar> \<le> 2199023255552" using d num_range_quot [OF r] unfolding abs_le_iff abs_less_iff by ((intro conjI)?; linarith)
  have "\<bar>rnd ?d - ?d\<bar> \<le> 1 / 4096" using rnd_error_abs [OF dB] by simp
  with d have "\<bar>rnd ?d - of_int (a - b) / 100\<bar> \<le> 1 / 1000" unfolding abs_le_iff abs_less_iff by ((intro conjI)?; linarith)
  then have "round_money (Fin (rnd ?d)) = scan_num (a - b)"
    using ba r by (intro round_money_near) auto
  moreover have "f_sub (scan_num a) (scan_num b) = Fin (rnd ?d)"
    using a b dB by (simp add: f_sub_def scan_num_Fin fl_Fin)
  ultimately show ?thesis by simp
qed

section \<open>Amount comparison with a tolerance\<close>

text \<open>The settlement check \<open>paid + tol < expected\<close>. A constant of the source is the double
  nearest to its decimal value.\<close>

definition underpaid :: "rat \<Rightarrow> f64 \<Rightarrow> f64 \<Rightarrow> bool" where
  "underpaid tol paid expected = f_lt (f_add paid (fl tol)) expected"

lemma underpaid_iff:
  assumes p: "num_range p" and q: "num_range q" and tol: "0 \<le> tol" "tol \<le> 1"
  shows "underpaid tol (scan_num p) (scan_num q) =
    (rnd (rnd (of_int p / 100) + rnd tol) < rnd (of_int q / 100))"
proof -
  have t1: "fl tol = Fin (rnd tol)" using tol by (intro fl_Fin) simp
  have t2: "\<bar>rnd tol - tol\<bar> \<le> 1" using rnd_error_abs [of tol 1] tol by simp
  have "\<bar>rnd (of_int p / 100) + rnd tol\<bar> \<le> 2199023255552"
    using num_range_quot [OF p] scan_num_error [OF p] t2 tol unfolding abs_le_iff abs_less_iff by ((intro conjI)?; linarith)
  then have "fl (rnd (of_int p / 100) + rnd tol) = Fin (rnd (rnd (of_int p / 100) + rnd tol))"
    by (intro fl_Fin) simp
  with t1 show ?thesis by (simp add: underpaid_def scan_num_Fin p q)
qed

lemma tol_sum_error:
  assumes p: "num_range p" and tol: "0 \<le> tol" "tol \<le> 1"
  shows "\<bar>rnd (rnd (of_int p / 100) + rnd tol) - (of_int p / 100 + tol)\<bar> \<le> 1 / 2000"
proof -
  have t2: "\<bar>rnd tol - tol\<bar> \<le> 1 / 2 ^ 53" using rnd_error_abs [of tol 1] tol by simp
  then have "\<bar>rnd tol - tol\<bar> \<le> 1 / 100000" by simp
  note e = this scan_num_error [OF p]
  have B: "\<bar>rnd (of_int p / 100) + rnd tol\<bar> \<le> 2199023255552"
    using num_range_quot [OF p] e tol unfolding abs_le_iff abs_less_iff by ((intro conjI)?; linarith)
  have "\<bar>rnd (rnd (of_int p / 100) + rnd tol) - (rnd (of_int p / 100) + rnd tol)\<bar> \<le> 1 / 4096"
    using rnd_error_abs [OF B] by simp
  with e show ?thesis unfolding abs_le_iff abs_less_iff by ((intro conjI)?; linarith)
qed

text \<open>With the order tolerance of 0.001 the comparison decides the amounts to the cent.\<close>

lemma underpaid_order:
  assumes p: "num_range p" and q: "num_range q"
  shows "underpaid (1/1000) (scan_num p) (scan_num q) = (p < q)"
proof -
  note s = tol_sum_error [OF p, of "1/1000"]
  note e = scan_num_error [OF q]
  show ?thesis
  proof (cases "p < q")
    case True
    then have "of_int (p + 1) \<le> (of_int q :: rat)" by (simp only: of_int_le_iff)
    then show ?thesis using True s e underpaid_iff [OF p q, of "1/1000"] unfolding abs_le_iff by simp
  next
    case False
    then have "of_int q \<le> (of_int p :: rat)" by simp
    then show ?thesis using False s e underpaid_iff [OF p q, of "1/1000"] unfolding abs_le_iff by simp
  qed
qed

text \<open>With the subscription tolerance of 0.01 a payment two cents short is refused and an
  exact one accepted; one cent short is left to the rounding of the two doubles.\<close>

lemma underpaid_subscription:
  assumes p: "num_range p" and q: "num_range q"
  shows "p + 2 \<le> q \<Longrightarrow> underpaid (1/100) (scan_num p) (scan_num q)"
    and "q \<le> p \<Longrightarrow> \<not> underpaid (1/100) (scan_num p) (scan_num q)"
proof -
  note s = tol_sum_error [OF p, of "1/100"]
  note e = scan_num_error [OF q]
  {
    assume "p + 2 \<le> q"
    then have "of_int (p + 2) \<le> (of_int q :: rat)" by (simp only: of_int_le_iff)
    then show "underpaid (1/100) (scan_num p) (scan_num q)"
      using s e underpaid_iff [OF p q, of "1/100"] unfolding abs_le_iff by simp
  next
    assume "q \<le> p"
    then have "of_int q \<le> (of_int p :: rat)" by simp
    then show "\<not> underpaid (1/100) (scan_num p) (scan_num q)"
      using s e underpaid_iff [OF p q, of "1/100"] unfolding abs_le_iff by simp
  }
qed

section \<open>Rounding to the cent with math.Round\<close>

lemma round_away_near:
  assumes "\<bar>z - of_int k\<bar> < 1/2"
  shows "round_away z = k"
proof (cases "0 \<le> z")
  case True
  have "of_int k \<le> z + 1/2 \<and> z + 1/2 < of_int k + 1" using assms unfolding abs_less_iff by ((intro conjI)?; linarith)
  then show ?thesis using True by (auto simp: round_away_def floor_eq_iff)
next
  case False
  have "of_int (- k) \<le> - z + 1/2 \<and> - z + 1/2 < of_int (- k) + 1" using assms unfolding abs_less_iff by ((intro conjI)?; simp)
  then have "\<lfloor>- z + 1/2\<rfloor> = - k" by (simp add: floor_eq_iff)
  then show ?thesis using False by (simp add: round_away_def)
qed

text \<open>\<open>math.Round(w)/100\<close> for \<open>w\<close> within 0.45 of the integer \<open>k\<close> is the double of \<open>k\<close> hundredths.\<close>

definition round_cents :: "f64 \<Rightarrow> f64" where
  "round_cents w = f_div (f_round w) (f_of_int 100)"

lemma round_cents_near:
  assumes "\<bar>w - of_int k\<bar> \<le> 9/20"
  shows "round_cents (Fin w) = scan_num k"
proof -
  have "\<bar>w - of_int k\<bar> < 1/2" using assms by linarith
  from round_away_near [OF this] show ?thesis
    by (simp add: round_cents_def f_of_int_100 scan_num_def)
qed

section \<open>Loyalty points\<close>

definition xpDiscount :: "int \<Rightarrow> f64 \<Rightarrow> string \<Rightarrow> int" where
  "xpDiscount points fee currency =
     (if currency \<noteq> ''NGN'' \<or> points \<le> 0 \<or> f_is_nan fee \<or> f_is_inf fee \<or> f_lt fee (f_of_int 1) then 0
      else let cap = f_to_int (f_floor (round_money fee))
           in if points < cap then points else cap)"

definition purchaseXP :: "f64 \<Rightarrow> int" where
  "purchaseXP tot =
     (if f_is_nan tot \<or> f_is_inf tot \<or> f_lt tot (f_of_int 1000) then 0
      else f_to_int (f_min (f_of_int 25) (f_floor (f_div tot (f_of_int 1000)))))"

definition estimateShipping :: "(string \<times> int) list \<Rightarrow> f64" where
  "estimateShipping items =
     (let totalItems = sum_list (map snd items); warehouses = remdups (map fst items)
      in f_add (f_add (f_of_int 2500) (f_of_int (totalItems * 900)))
               (f_mul (f_of_int (int (length warehouses))) (f_of_int 1200)))"

text \<open>A floor taken after an error smaller than the grid is exact, given exactness on the
  grid points themselves.\<close>

lemma floor_near:
  assumes "0 < (c::int)" "\<bar>v - of_int f / of_int c\<bar> < (1 / of_int c :: rat)" "f mod c = 0 \<Longrightarrow> v = of_int f / of_int c"
  shows "\<lfloor>v\<rfloor> = f div c"
proof -
  have c: "(0::rat) < of_int c" using assms(1) by simp
  have "of_int f = (of_int (c * (f div c) + f mod c) :: rat)" by (simp only: mult_div_mod_eq)
  then have "(of_int f :: rat) = of_int c * of_int (f div c) + of_int (f mod c)"
    by (simp only: of_int_add of_int_mult)
  then have fr: "(of_int f :: rat) / of_int c = of_int (f div c) + of_int (f mod c) / of_int c"
    using c by (simp add: add_divide_distrib)
  show ?thesis
  proof (cases "f mod c = 0")
    case True
    then show ?thesis using assms(3) fr by simp
  next
    case False
    have lo: "1 \<le> f mod c" using False assms(1) pos_mod_sign [of c f] by linarith
    have hi: "f mod c \<le> c - 1" using assms(1) pos_mod_bound [of c f] by linarith
    have "1 / of_int c \<le> (of_int (f mod c) :: rat) / of_int c"
      using lo c by (intro divide_right_mono) (simp_all only: of_int_1_le_iff less_imp_le)
    moreover have "(of_int (f mod c) :: rat) \<le> of_int (c - 1)" using hi by (simp only: of_int_le_iff)
    then have "(of_int (f mod c) :: rat) / of_int c \<le> of_int (c - 1) / of_int c"
      using c by (intro divide_right_mono) auto
    moreover have "of_int (c - 1) / of_int c = 1 - 1 / (of_int c :: rat)" using c by (simp add: field_simps)
    ultimately have "of_int (f div c) \<le> v \<and> v < of_int (f div c) + 1"
      using assms(2) fr unfolding abs_less_iff by ((intro conjI)?; linarith)
    then show ?thesis by (simp add: floor_eq_iff)
  qed
qed

lemma rnd_whole:
  assumes "num_range f" "f mod 100 = 0"
  shows "rnd (of_int f / 100) = of_int f / 100"
proof -
  obtain n where n: "f = 100 * n" using assms(2) by auto
  have "\<bar>n\<bar> < 2 ^ 53" using assms(1) n by (auto simp: num_range_def)
  then show ?thesis using rnd_of_int [of n] n by simp
qed

lemma floor_scan: "num_range f \<Longrightarrow> \<lfloor>rnd (of_int f / 100)\<rfloor> = f div 100"
  using floor_near [of 100 "rnd (of_int f / 100)" f] scan_num_error [of f] rnd_whole [of f] by simp

lemma scan_num_less:
  assumes "num_range f" "\<bar>n\<bar> < 10 ^ 10"
  shows "f_lt (scan_num f) (f_of_int n) = (f < 100 * n)"
proof -
  have r: "rnd (of_int f / 100) < of_int n \<longleftrightarrow> \<lfloor>rnd (of_int f / 100)\<rfloor> < n"
    by (simp add: floor_less_iff)
  have n: "f_of_int n = Fin (of_int n)" using fl_of_int [of n] assms(2) by (simp add: f_of_int_def)
  have "f = 100 * (f div 100) + f mod 100" "0 \<le> f mod 100" "f mod 100 < 100" by simp_all
  then have "f div 100 < n \<longleftrightarrow> f < 100 * n" by linarith
  then show ?thesis using r by (simp add: n scan_num_Fin assms floor_scan)
qed

text \<open>
  The points a buyer may set against a service fee of f kobo (read from NUMERIC) are never
  more than the balance nor than the whole naira of the fee, and exactly the smaller of the two;
  nothing outside NGN or below one naira. The floating-point rounding costs no point.
\<close>

theorem xpDiscount_exact:
  assumes "0 \<le> f" "num_range f"
  shows "xpDiscount points (scan_num f) currency =
    (if currency = ''NGN'' \<and> 0 < points \<and> 100 \<le> f then min points (f div 100) else 0)"
proof -
  have "f_to_int (f_floor (round_money (scan_num f))) = f div 100"
  proof -
    have "\<bar>f div 100\<bar> < 2 ^ 63" using assms by (auto simp: num_range_def)
    then show ?thesis using assms
      by (simp add: round_money_scan) (simp add: scan_num_Fin floor_scan trunc_rat_def)
  qed
  moreover have "\<not> f_is_nan (scan_num f)" "\<not> f_is_inf (scan_num f)"
    using assms(2) by (simp_all add: scan_num_Fin)
  moreover have "f_lt (scan_num f) (f_of_int 1) = (f < 100)"
    using scan_num_less [OF assms(2), of 1] by simp
  ultimately show ?thesis by (auto simp: xpDiscount_def Let_def)
qed

lemma xpDiscount_exact_witness:
  "xpDiscount 500 (scan_num 12345) ''NGN'' = 123"
  using xpDiscount_exact [of 12345 500 "''NGN''"] by (simp add: num_range_def)

text \<open>
  The purchase reward for a total of t kobo is one point per whole thousand naira and at most
  25, computed without rounding loss.
\<close>

theorem purchaseXP_exact:
  assumes "0 \<le> t" "num_range t"
  shows "purchaseXP (scan_num t) = min 25 (t div 100000)"
proof -
  let ?x = "rnd (of_int t / 100)"
  have e: "\<bar>?x - of_int t / 100\<bar> \<le> 1 / 8192" by (rule scan_num_error [OF assms(2)])
  have k: "f_of_int 1000 = Fin 1000" "f_of_int 25 = Fin 25"
    using fl_of_int [of 1000] fl_of_int [of 25] by (simp_all add: f_of_int_def)
  have B: "\<bar>?x / 1000\<bar> \<le> 1099511628"
    using e num_range_quot [OF assms(2)] unfolding abs_le_iff by ((intro conjI)?; linarith)
  have r: "\<bar>rnd (?x / 1000) - ?x / 1000\<bar> \<le> 1 / 4000000" "fl (?x / 1000) = Fin (rnd (?x / 1000))"
    using rnd_error_abs [OF B] fl_Fin [of "?x / 1000"] B by simp_all
  have fl: "\<lfloor>rnd (?x / 1000)\<rfloor> = t div 100000"
  proof (rule floor_near)
    show "\<bar>rnd (?x / 1000) - of_int t / of_int 100000\<bar> < 1 / of_int 100000"
      using e r(1) unfolding abs_le_iff abs_less_iff of_int_numeral by ((intro conjI)?; linarith)
    show "rnd (?x / 1000) = of_int t / of_int 100000" if "t mod 100000 = 0"
    proof -
      define n where "n = t div 100000"
      have n: "t = 100000 * n" using that mult_div_mod_eq [of 100000 t] unfolding n_def by linarith
      have "t = 100 * (1000 * n)" using n by linarith
      then have "t mod 100 = 0" by (metis mod_mult_self1_is_0)
      from rnd_whole [OF assms(2) this] have "?x = of_int t / 100" .
      moreover have "\<bar>n\<bar> < 2 ^ 53" using assms(2) n by (auto simp: num_range_def)
      ultimately show ?thesis using rnd_of_int [of n] n by simp
    qed
  qed simp
  have less: "f_lt (scan_num t) (f_of_int 1000) = (t < 100000)"
    using scan_num_less [OF assms(2), of 1000] by simp
  have "f_to_int (f_min (Fin 25) (f_floor (fl (?x / 1000)))) = min 25 (t div 100000)"
    using assms(1) by (auto simp: r(2) fl f_min_def trunc_rat_def min_def)
  then show ?thesis
    using less assms by (simp add: purchaseXP_def k scan_num_Fin)
qed

lemma purchaseXP_exact_witness: "purchaseXP (scan_num 1234567) = 12"
  using purchaseXP_exact [of 1234567] by (simp add: num_range_def)

lemma f_min_small:
  assumes "0 \<le> p" "p \<le> 25" "y = PInf \<or> (\<exists>r. y = Fin r \<and> 0 \<le> r)"
  shows "0 \<le> f_to_int (f_min (f_of_int p) (f_floor y)) \<and> f_to_int (f_min (f_of_int p) (f_floor y)) \<le> p"
proof -
  have p: "f_of_int p = Fin (of_int p)" using fl_of_int [of p] assms by (simp add: f_of_int_def)
  show ?thesis
    using assms(3)
  proof
    assume "y = PInf"
    then show ?thesis using assms by (simp add: p f_min_def trunc_rat_def)
  next
    assume "\<exists>r. y = Fin r \<and> 0 \<le> r"
    then obtain r where r: "y = Fin r" "0 \<le> r" by blast
    have "0 \<le> \<lfloor>r\<rfloor>" using r(2) by simp
    moreover have "(of_int p :: rat) < of_int \<lfloor>r\<rfloor> \<longleftrightarrow> p < \<lfloor>r\<rfloor>" by (rule of_int_less_iff)
    ultimately show ?thesis using assms(1,2) r(1)
      by (simp add: p f_min_def trunc_rat_def) linarith
  qed
qed

lemma purchaseXP_range: "0 \<le> purchaseXP t \<and> purchaseXP t \<le> 25"
proof (cases "f_is_nan t \<or> f_is_inf t \<or> f_lt t (f_of_int 1000)")
  case True
  then show ?thesis by (auto simp: purchaseXP_def)
next
  case False
  have k: "f_of_int 1000 = Fin 1000" using fl_of_int [of 1000] by (simp add: f_of_int_def)
  obtain x where x: "t = Fin x" "1000 \<le> x" using False by (cases t) (auto simp: k)
  have "f_div t (f_of_int 1000) = PInf \<or> (\<exists>r. f_div t (f_of_int 1000) = Fin r \<and> 0 \<le> r)"
    using fl_nonneg [of "x / 1000"] x by (simp add: k)
  from f_min_small [OF _ _ this, of 25] show ?thesis using False by (auto simp: purchaseXP_def)
qed

section \<open>Subscription prices\<close>

definition providerYearlyDiscountPercent :: int where
  "providerYearlyDiscountPercent = 10"

definition providerSubscriptionPrice :: "f64 \<Rightarrow> int \<Rightarrow> f64 \<times> f64" where
  "providerSubscriptionPrice monthly months =
     (let base = round_cents (f_mul (f_mul monthly (f_of_int months)) (f_of_int 100));
          tot = (if months = 12 then round_cents (f_mul base (f_of_int (100 - providerYearlyDiscountPercent)))
                   else base)
      in (tot, round_cents (f_mul (f_sub base tot) (f_of_int 100))))"

record period_price =
  duration_months :: int
  amount_ngn :: f64
  savings_ngn :: f64
  discount_percent :: int
  card_available :: bool
  banktransfer_available :: bool
  card_auto_renews :: bool

definition providerPeriodPrices :: "f64 \<Rightarrow> bool \<Rightarrow> period_price list" where
  "providerPeriodPrices monthly monthlyCard = map (\<lambda>months.
     let (tot, savings) = providerSubscriptionPrice monthly months
     in \<lparr>duration_months = months, amount_ngn = tot, savings_ngn = savings,
         discount_percent = (if months = 12 then providerYearlyDiscountPercent else 0),
         card_available = (months = 12 \<or> (months = 1 \<and> monthlyCard)),
         banktransfer_available = True, card_auto_renews = (months = 1)\<rparr>) [1, 3, 6, 12]"

lemma rnd_near:
  assumes "\<bar>x\<bar> \<le> 562949953421312"
  shows "fl x = Fin (rnd x)" "\<bar>rnd x - x\<bar> \<le> 1/16"
  using fl_Fin [of x] rnd_error_abs [OF assms] assms by simp_all

lemma rat_num_range: "num_range k \<Longrightarrow> \<bar>of_int k :: rat\<bar> \<le> 100000000000000"
proof -
  assume "num_range k"
  then have "\<bar>k\<bar> \<le> 10 ^ 14" by (simp add: num_range_def)
  then have "of_int \<bar>k\<bar> \<le> (of_int (10 ^ 14) :: rat)" by (simp only: of_int_le_iff)
  then show ?thesis by simp
qed

lemma times_hundred_cents:
  assumes "\<bar>y - of_int j / 100\<bar> \<le> 1 / 400" "num_range j"
  shows "round_cents (f_mul (Fin y) (f_of_int 100)) = scan_num j"
proof -
  have "\<bar>y * 100 - of_int j\<bar> \<le> 1/4"
    using assms(1) unfolding abs_le_iff by ((intro conjI)?; linarith)
  moreover from this have "\<bar>y * 100\<bar> \<le> 562949953421312"
    using rat_num_range [OF assms(2)] unfolding abs_le_iff by ((intro conjI)?; linarith)
  note r = rnd_near [OF this]
  ultimately have "\<bar>rnd (y * 100) - of_int j\<bar> \<le> 9/20"
    unfolding abs_le_iff by ((intro conjI)?; linarith)
  then show ?thesis using r(1) by (simp add: f_of_int_100 round_cents_near)
qed

text \<open>A plan price in kobo is multiplied exactly; the yearly price is nine tenths of twelve
  months, rounded to the nearest kobo.\<close>

lemma providerSubscriptionPrice_base:
  assumes k: "0 \<le> k" "0 \<le> m" "m \<le> 12" "num_range (12 * k)"
  shows "round_cents (f_mul (f_mul (scan_num k) (f_of_int m)) (f_of_int 100)) = scan_num (k * m)"
proof -
  have nk: "num_range k" using k by (simp add: num_range_def)
  have km: "k * m \<le> 12 * k" "0 \<le> k * m" using k mult_left_mono [of m 12 k] by (simp_all add: mult.commute)
  then have nkm: "num_range (k * m)" using k by (simp add: num_range_def)
  let ?x = "rnd (of_int k / 100)"
  have m: "(0::rat) \<le> of_int m" "of_int m \<le> (12::rat)" using k by simp_all
  have "\<bar>?x * of_int m - of_int (k * m) / 100\<bar> = \<bar>?x - of_int k / 100\<bar> * of_int m"
    using m by (subst abs_of_nonneg [OF m(1), symmetric], subst abs_mult [symmetric]) (simp add: left_diff_distrib)
  also have "\<dots> \<le> (1 / 8192) * 12"
    using scan_num_error [OF nk] m by (intro mult_mono) auto
  finally have e: "\<bar>?x * of_int m - of_int (k * m) / 100\<bar> \<le> 3 / 2048" by simp
  have "\<bar>?x * of_int m\<bar> \<le> 2199023255552"
    using e num_range_quot [OF nkm] unfolding abs_le_iff by ((intro conjI)?; linarith)
  then have r: "\<bar>rnd (?x * of_int m) - ?x * of_int m\<bar> \<le> 1 / 4096"
    and f: "fl (?x * of_int m) = Fin (rnd (?x * of_int m))"
    using rnd_error_abs [of "?x * of_int m" 2199023255552] fl_Fin [of "?x * of_int m"] by simp_all
  have "\<bar>rnd (?x * of_int m) - of_int (k * m) / 100\<bar> \<le> 1 / 400"
    using e r unfolding abs_le_iff by ((intro conjI)?; linarith)
  from times_hundred_cents [OF this nkm] show ?thesis
    using f fl_of_int [of m] k by (simp add: scan_num_Fin nk f_of_int_def)
qed

lemma providerSubscriptionPrice_year:
  assumes "0 \<le> j" "num_range j" "even j"
  shows "round_cents (f_mul (scan_num j) (f_of_int 90)) = scan_num ((90 * j + 50) div 100)"
proof -
  let ?x = "rnd (of_int j / 100)" and ?t = "(90 * j + 50) div 100"
  obtain i where j: "j = 2 * i" using assms(3) by blast
  have t: "100 * ?t + 10 \<le> 90 * j + 50 \<and> 90 * j + 50 \<le> 100 * ?t + 90"
  proof -
    have q: "?t = (18 * i + 5) div 10"
    proof -
      have "90 * j + 50 = 10 * (18 * i + 5)" by (simp add: j)
      then have "?t = (10 * (18 * i + 5)) div (10 * 10)" by simp
      also have "\<dots> = (18 * i + 5) div 10" by (rule div_mult_mult1) simp
      finally show ?thesis .
    qed
    have d: "18 * i + 5 = 10 * ((18 * i + 5) div 10) + (18 * i + 5) mod 10"
      "0 \<le> (18 * i + 5) mod 10" "(18 * i + 5) mod 10 < 10" by simp_all
    have "odd ((18 * i + 5) mod 10)"
      using d(1) by (metis dvd_mult2 dvd_triv_left even_add even_mult_iff even_numeral odd_numeral)
    then have "1 \<le> (18 * i + 5) mod 10" using d(2) by (cases "(18 * i + 5) mod 10 = 0") auto
    with d j have "100 * ((18 * i + 5) div 10) + 10 \<le> 90 * j + 50 \<and>
      90 * j + 50 \<le> 100 * ((18 * i + 5) div 10) + 90" by linarith
    then show ?thesis by (simp only: q)
  qed
  have near: "\<bar>9 / 10 * of_int j - of_int ?t :: rat\<bar> \<le> 2 / 5"
  proof -
    have "of_int (100 * ?t + 10) \<le> (of_int (90 * j + 50) :: rat) \<and>
      of_int (90 * j + 50) \<le> (of_int (100 * ?t + 90) :: rat)"
      using t by (simp only: of_int_le_iff)
    then show ?thesis unfolding abs_le_iff by simp
  qed
  note s = scan_num_error [OF assms(2)]
  have "\<bar>?x * 90\<bar> \<le> 100000000000000"
    using s rat_num_range [OF assms(2)] unfolding abs_le_iff by ((intro conjI)?; linarith)
  then have r: "\<bar>rnd (?x * 90) - ?x * 90\<bar> \<le> 1 / 64" "fl (?x * 90) = Fin (rnd (?x * 90))"
    using rnd_error_abs [of "?x * 90" 100000000000000] fl_Fin [of "?x * 90"] by simp_all
  have "\<bar>rnd (?x * 90) - of_int ?t\<bar> \<le> 9 / 20"
    using near s r(1) unfolding abs_le_iff by ((intro conjI)?; linarith)
  then show ?thesis using r(2) fl_of_int [of 90]
    by (simp add: scan_num_Fin assms f_of_int_def round_cents_near)
qed

lemma diff_cents:
  assumes a: "num_range a" and b: "num_range b" and ab: "num_range (a - b)"
  shows "round_cents (f_mul (f_sub (scan_num a) (scan_num b)) (f_of_int 100)) = scan_num (a - b)"
proof -
  let ?d = "rnd (of_int a / 100) - rnd (of_int b / 100)"
  have d: "\<bar>?d - of_int (a - b) / 100\<bar> \<le> 1 / 4096"
    using scan_num_error [OF a] scan_num_error [OF b] unfolding abs_le_iff of_int_diff diff_divide_distrib
    by ((intro conjI)?; linarith)
  then have "\<bar>?d\<bar> \<le> 2199023255552" using num_range_quot [OF ab] unfolding abs_le_iff by ((intro conjI)?; linarith)
  then have r: "\<bar>rnd ?d - ?d\<bar> \<le> 1 / 4096" "fl ?d = Fin (rnd ?d)"
    using rnd_error_abs [of ?d 2199023255552] fl_Fin [of ?d] by simp_all
  then have "\<bar>rnd ?d - of_int (a - b) / 100\<bar> \<le> 1 / 400"
    using d unfolding abs_le_iff by ((intro conjI)?; linarith)
  from times_hundred_cents [OF this ab] show ?thesis
    using a b r(2) by (simp add: f_sub_def scan_num_Fin)
qed

text \<open>
  C29. The subscription prices are exact in kobo although they are computed in floating point:
  for a monthly price of k kobo, m months cost m * k without savings, and twelve months cost
  nine tenths of 12 * k (rounded to the nearest kobo), the savings being the difference.
\<close>

theorem providerSubscriptionPrice_exact:
  assumes "0 \<le> k" "num_range (12 * k)" "m \<in> {1, 3, 6, 12}"
  defines "t \<equiv> (if m = 12 then (90 * (12 * k) + 50) div 100 else k * m)"
  shows "providerSubscriptionPrice (scan_num k) m = (scan_num t, scan_num (k * m - t))"
proof -
  have nkm: "num_range (k * m)" using assms by (auto simp: num_range_def)
  have base: "round_cents (f_mul (f_mul (scan_num k) (f_of_int m)) (f_of_int 100)) = scan_num (k * m)"
    using assms by (intro providerSubscriptionPrice_base) auto
  have tb: "0 \<le> t \<and> t \<le> k * m" using assms(1,3) unfolding t_def by auto
  then have nt: "num_range t" "num_range (k * m - t)" using nkm by (auto simp: num_range_def)
  show ?thesis
  proof (cases "m = 12")
    case True
    have "round_cents (f_mul (scan_num (k * m)) (f_of_int 90)) = scan_num t"
      using providerSubscriptionPrice_year [of "k * m"] nkm assms(1) True by (simp add: t_def mult.commute)
    then show ?thesis using base diff_cents [OF nkm nt(1,2)] True
      by (simp add: providerSubscriptionPrice_def providerYearlyDiscountPercent_def)
  next
    case False
    then have "t = k * m" by (simp add: t_def)
    then show ?thesis using base diff_cents [OF nkm nt(1,2)] False
      by (simp add: providerSubscriptionPrice_def)
  qed
qed

lemma providerSubscriptionPrice_exact_witness:
  "providerSubscriptionPrice (scan_num 500000) 12 = (scan_num 5400000, scan_num 600000)"
  using providerSubscriptionPrice_exact [of 500000 12] by (simp add: num_range_def)

section \<open>Text and floats\<close>

text \<open>\<open>strconv.ParseFloat(s, 64)\<close> on decimal notation, infinities and NaN; \<open>None\<close> is the error
  (syntax, or a value out of range). The hexadecimal notation Go also reads is not modelled.\<close>

definition parse_exp :: "string \<Rightarrow> int option" where
  "parse_exp s =
     (case s of [] \<Rightarrow> None
      | c # cs \<Rightarrow>
        (let neg = (c = CHR ''-''); body = (if c = CHR ''-'' \<or> c = CHR ''+'' then cs else s)
         in if body = [] \<or> \<not> list_all is_digit body then None
            else let v = digits_val body in Some (if neg then - v else v)))"

definition parse_decimal :: "string \<Rightarrow> rat option" where
  "parse_decimal s =
     (let whole = takeWhile is_digit s; r1 = dropWhile is_digit s;
          frac = (case r1 of [] \<Rightarrow> [] | c # cs \<Rightarrow> if c = CHR ''.'' then takeWhile is_digit cs else []);
          r2 = (case r1 of [] \<Rightarrow> [] | c # cs \<Rightarrow> if c = CHR ''.'' then dropWhile is_digit cs else r1);
          mant = of_int (digits_val (whole @ frac)) / 10 ^ length frac
      in if whole = [] \<and> frac = [] then None
         else case r2 of
           [] \<Rightarrow> Some mant
         | c # cs \<Rightarrow> (if c = CHR ''e'' \<or> c = CHR ''E''
                       then map_option (\<lambda>e. mant * 10 powi e) (parse_exp cs) else None))"

text \<open>The value \<open>ParseFloat\<close> returns, and whether it succeeded: a syntax error returns 0, a value
  out of range the infinity of its sign.\<close>

definition parse_float_raw :: "string \<Rightarrow> f64 \<times> bool" where
  "parse_float_raw s =
     (let neg = (case s of [] \<Rightarrow> False | c # _ \<Rightarrow> c = CHR ''-'');
          body = (case s of [] \<Rightarrow> [] | c # cs \<Rightarrow> if c = CHR ''-'' \<or> c = CHR ''+'' then cs else s)
      in if to_lower s = ''nan'' then (NaN, True)
         else if to_lower body = ''inf'' \<or> to_lower body = ''infinity''
              then (if neg then NInf else PInf, True)
         else case parse_decimal body of
           None \<Rightarrow> (Fin 0, False)
         | Some v \<Rightarrow> (case fl (if neg then - v else v) of Fin r \<Rightarrow> (Fin r, True) | x \<Rightarrow> (x, False)))"

definition parse_float :: "string \<Rightarrow> f64 option" where
  "parse_float s = (case parse_float_raw s of (x, ok) \<Rightarrow> if ok then Some x else None)"

text \<open>\<open>fmt.Sprintf("%.2f", x)\<close>: the exact value rounded half to even at the second digit.\<close>

definition fmt2 :: "f64 \<Rightarrow> string" where
  "fmt2 x = (case x of
     Fin r \<Rightarrow> (let n = round_even (\<bar>r\<bar> * 100)
               in (if r < 0 then ''-'' else []) @ dec_str (n div 100) @ ''.'' @
                  [digit_char (nat (n div 10 mod 10)), digit_char (nat (n mod 10))])
   | PInf \<Rightarrow> ''+Inf'' | NInf \<Rightarrow> ''-Inf'' | NaN \<Rightarrow> ''NaN'')"

text \<open>A value of Go type \<open>any\<close> out of a JSON document: \<open>ANumber\<close> is a \<open>json.Number\<close>, \<open>AOther t\<close> any
  further value with its \<open>fmt.Sprint\<close> text.\<close>

datatype anyv = ANil | AStr string | AFloat f64 | ANumber string | AOther string

text \<open>\<open>fmt.Sprint\<close> of the values the callers' \<open>default\<close> branches see (never a \<open>float64\<close>).\<close>

fun any_text :: "anyv \<Rightarrow> string" where
  "any_text ANil = ''<nil>''"
| "any_text (AStr s) = s"
| "any_text (AFloat x) = []"
| "any_text (ANumber s) = s"
| "any_text (AOther s) = s"

definition gatewayID :: "anyv \<Rightarrow> string" where
  "gatewayID value = (case value of
     AStr s \<Rightarrow> s
   | AFloat x \<Rightarrow> int_str (f_to_int x)
   | v \<Rightarrow> trim_by (\<lambda>c. c = CHR 0x22) (any_text v))"

definition parseAmount :: "string \<Rightarrow> f64 option" where
  "parseAmount amount = parse_float amount"

definition amountValue :: "anyv \<Rightarrow> f64 option" where
  "amountValue amount = (case amount of
     AFloat value \<Rightarrow> Some value
   | AStr value \<Rightarrow> parseAmount value
   | v \<Rightarrow> parseAmount (any_text v))"

text \<open>The text of the error \<open>amountValue\<close> returns.\<close>

definition amountError :: "anyv \<Rightarrow> string" where
  "amountError amount = (let s = any_text amount in ''strconv.ParseFloat: parsing '' @ [CHR 0x22] @ s @ [CHR 0x22] @
     (if fst (parse_float_raw s) = Fin 0 then '': invalid syntax'' else '': value out of range''))"

text \<open>\<open>x, _ := amountValue(v)\<close>: the value with its error ignored.\<close>

definition amountLossy :: "anyv \<Rightarrow> f64" where
  "amountLossy amount = (case amount of
     AFloat value \<Rightarrow> value
   | AStr value \<Rightarrow> fst (parse_float_raw value)
   | v \<Rightarrow> fst (parse_float_raw (any_text v)))"

section \<open>Service ratings\<close>

definition serviceMinimumRating :: "string \<Rightarrow> f64 option" where
  "serviceMinimumRating raw =
     (if trim_space raw = [] then Some (Fin 0)
      else case parse_float raw of
        None \<Rightarrow> None
      | Some rating \<Rightarrow>
          (if f_is_nan rating \<or> f_is_inf rating \<or> f_lt rating (Fin 0) \<or> f_lt (f_of_int 5) rating
           then None else Some rating))"

definition serviceAverageRating :: "int \<Rightarrow> int \<Rightarrow> f64" where
  "serviceAverageRating n sm =
     (if n \<le> 0 then Fin 0
      else f_div (f_round (f_mul (f_div (f_of_int sm) (f_of_int n)) (f_of_int 10))) (f_of_int 10))"

end
