(* ===== verification/Schema.thy ===== *)
theory Schema
  imports Effects Money
begin

text \<open>
  The database the handlers share: one record per table, with the columns the modelled code
  reads or writes, and the constraints of src/migrations that the code relies on (unique
  indexes and CHECKs). A statement that would break a constraint fails and changes nothing.
  Foreign keys and the casts of malformed ids can only make a statement fail, which the fault
  list already covers.

  A NUMERIC(14,2) column is an \<open>int\<close> in hundredths, a timestamp an \<open>int\<close> in seconds, a date an
  \<open>int\<close> in days, a nullable column an \<open>option\<close>, an id its canonical text. Status columns are
  the strings the code writes. Ids the server generates are arguments of the operations.
\<close>

section \<open>Rows\<close>

record order_row =
  o_id :: string
  o_user :: string
  o_provider :: "string option"
  o_country :: string
  o_batch :: "string option"
  o_currency :: string
  o_total :: int
  o_fee :: int
  o_status :: string
  o_stage :: string
  o_mode :: string
  o_xp_discount :: int
  o_label :: "string option"
  o_tx_ref :: "string option"
  o_tx_id :: "string option"
  o_paid_at :: "int option"
  o_promised_at :: "int option"
  o_delivered_at :: "int option"
  o_confirmed :: bool
  o_confirmed_at :: "int option"
  o_pickup :: "string \<times> string \<times> string"

record item_row =
  i_id :: string
  i_order :: string
  i_product :: string
  i_quantity :: int
  i_status :: string
  i_notes :: string
  i_resolution :: string
  i_resolved_at :: "int option"
  i_resolved_by :: "string option"

record product_row =
  pr_id :: string
  pr_sold :: int

record payment_row =
  p_provider :: string
  p_purpose :: string
  p_order :: "string option"
  p_subscription :: "string option"
  p_user :: string
  p_country :: string
  p_amount :: int
  p_currency :: string
  p_reference :: string
  p_tx_id :: "string option"
  p_idem :: string
  p_method :: string
  p_status :: string
  p_pstatus :: string
  p_settlement :: string
  p_failure :: "string \<times> string"
  p_url :: string
  p_subaccount :: string
  p_charged :: "int option"
  p_gateway_fee :: int
  p_merchant_fee :: int
  p_settled_amount :: "int option"
  p_settlement_id :: string
  p_settlement_ref :: string
  p_destination :: string
  p_note :: string
  p_paid_at :: "int option"
  p_settled_at :: "int option"
  p_created_at :: int

record webhook_row =
  wh_provider :: string
  wh_key :: string
  wh_type :: string
  wh_reference :: string
  wh_tx_id :: string
  wh_hash :: string
  wh_payload :: string
  wh_status :: string
  wh_attempts :: int
  wh_error :: string
  wh_processed_at :: "int option"

record xp_row =
  x_user :: string
  x_amount :: int
  x_reason :: string
  x_reference :: string

record redemption_row =
  r_order :: string
  r_user :: string
  r_points :: int
  r_status :: string
  r_expires :: int

record withdrawal_row =
  w_id :: string
  w_user :: string
  w_key :: string
  w_points :: int
  w_bank :: "string \<times> string \<times> string"
  w_status :: string
  w_reference :: string
  w_note :: string
  w_reviewer :: string

record notification_row =
  n_user :: string
  n_order :: "string option"
  n_batch :: "string option"
  n_type :: string
  n_title :: string
  n_body :: string
  n_data :: json
  n_key :: "string option"

record ledger_row =
  l_provider :: string
  l_order :: string
  l_key :: string
  l_currency :: string
  l_gross :: int
  l_fee :: int
  l_net :: int
  l_expected :: int
  l_status :: string
  l_available_at :: "int option"
  l_paid_at :: "int option"
  l_deductions :: int
  l_amount :: "int option"
  l_sid :: string
  l_settlement :: string
  l_reference :: string
  l_destination :: string
  l_note :: string
  l_checked_at :: "int option"

record job_row =
  j_subaccount :: string
  j_from :: int
  j_to :: int
  j_list_page :: int
  j_ids :: "string list"
  j_detail_page :: int
  j_detail_seen :: int
  j_detail_hash :: string
  j_list_hash :: string
  j_list_finished :: bool
  j_next_check :: int
  j_locked_until :: "int option"
  j_lease :: "string option"
  j_checked_at :: "int option"
  j_failures :: int
  j_error :: string

record review_reward_row =
  rr_user :: string
  rr_order :: string
  rr_amount :: int
  rr_claimed :: bool

record subscription_row =
  s_id :: string
  s_provider :: string
  s_tx_ref :: string
  s_expected :: int
  s_mode :: string
  s_channel :: string
  s_months :: int
  s_status :: string
  s_tx_id :: "string option"
  s_starts_at :: "int option"
  s_period_end :: "int option"
  s_last_payment :: "int option"
  s_version :: int
  s_created_at :: int

record sub_payment_row =
  sp_subscription :: string
  sp_tx_id :: string
  sp_tx_ref :: string
  sp_amount :: int
  sp_currency :: string

record org_row =
  g_id :: string
  g_owner :: string
  g_country :: string
  g_active :: bool

record member_row =
  m_provider :: string
  m_user :: string
  m_role :: string
  m_active :: bool

record fulfillment_row =
  f_id :: string
  f_order :: string
  f_provider :: string
  f_route :: string
  f_owner :: string
  f_status :: string
  f_version :: int
  f_carrier :: string
  f_tracking :: string
  f_url :: string
  f_location :: string
  f_estimated :: "int option"
  f_accepted_at :: "int option"
  f_dispatched_at :: "int option"
  f_delivered_at :: "int option"

record fulfillment_event_row =
  fe_fulfillment :: string
  fe_actor :: string
  fe_actor_id :: string
  fe_previous :: string
  fe_status :: string
  fe_notes :: string
  fe_location :: string
  fe_meta :: json
  fe_key :: string

record manifest_row =
  mf_id :: string
  mf_provider :: string
  mf_code :: string
  mf_country :: string
  mf_city :: string
  mf_status :: string
  mf_cutoff :: int
  mf_closed_at :: "int option"
  mf_dispatched_at :: "int option"
  mf_version :: int

record manifest_event_row =
  me_manifest :: string
  me_actor :: string
  me_previous :: string
  me_status :: string
  me_notes :: string
  me_key :: string

record batch_row =
  b_id :: string
  b_code :: string
  b_country :: string
  b_date :: int
  b_route :: string
  b_transport :: string
  b_sequence :: int
  b_status :: string
  b_locked :: bool
  b_collected :: int
  b_version :: int
  b_location :: string
  b_notes :: string
  b_closed_at :: "int option"
  b_reconciled :: "(int \<times> string option) option"
  b_funds :: "int option \<times> string \<times> string"
  b_funds_sent :: "(int \<times> string option) option"
  b_acknowledged :: "(int \<times> string option) option"
  b_procured :: "(int \<times> string option) option"
  b_completed_at :: "int option"

record batch_event_row =
  be_batch :: string
  be_actor :: "string option"
  be_type :: string
  be_previous :: string
  be_status :: string
  be_location :: string
  be_notes :: string
  be_meta :: json

record country_row =
  c_id :: string
  c_code :: string
  c_timezone :: string
  c_active :: bool

section \<open>The database\<close>

record db =
  orders :: "order_row list"
  items :: "item_row list"
  products :: "product_row list"
  payments :: "payment_row list"
  webhooks :: "webhook_row list"
  xp_txns :: "xp_row list"
  redemptions :: "redemption_row list"
  withdrawals :: "withdrawal_row list"
  daily_logins :: "(string \<times> int) list"
  notifications :: "notification_row list"
  ledger :: "ledger_row list"
  jobs :: "job_row list"
  review_rewards :: "review_reward_row list"
  reviews :: "(string \<times> string) list"
  subscriptions :: "subscription_row list"
  sub_payments :: "sub_payment_row list"
  orgs :: "org_row list"
  members :: "member_row list"
  provider_events :: "(string \<times> string \<times> json) list"
  fulfillments :: "fulfillment_row list"
  fulfillment_events :: "fulfillment_event_row list"
  tracking_events :: "(string \<times> string \<times> string) list"
  manifests :: "manifest_row list"
  manifest_orders :: "(string \<times> string) list"
  manifest_events :: "manifest_event_row list"
  batches :: "batch_row list"
  batch_events :: "batch_event_row list"
  countries :: "country_row list"
  audit_logs :: "(string \<times> string \<times> string \<times> json) list"

definition empty_db :: db where
  "empty_db = \<lparr>orders = [], items = [], products = [], payments = [], webhooks = [], xp_txns = [],
     redemptions = [], withdrawals = [], daily_logins = [], notifications = [], ledger = [], jobs = [],
     review_rewards = [], reviews = [], subscriptions = [], sub_payments = [], orgs = [], members = [],
     provider_events = [], fulfillments = [], fulfillment_events = [], tracking_events = [],
     manifests = [], manifest_orders = [], manifest_events = [], batches = [], batch_events = [],
     countries = [], audit_logs = []\<rparr>"

definition world0 :: "db \<Rightarrow> int \<Rightarrow> db world" where
  "world0 d t = \<lparr>db = d, faults = [], now = t\<rparr>"

lemma world0_simps [simp]: "db (world0 d t) = d" "now (world0 d t) = t" "faults (world0 d t) = []"
  by (simp_all add: world0_def)

section \<open>Constraints\<close>

text \<open>\<open>clash key r T\<close>: the unique index \<open>key\<close> already holds the key of \<open>r\<close>.\<close>

definition clash :: "('r \<Rightarrow> 'k option) \<Rightarrow> 'r \<Rightarrow> 'r list \<Rightarrow> bool" where
  "clash key r T = (case key r of None \<Rightarrow> False | Some x \<Rightarrow> x \<in> set (keys key T))"

definition order_ref_key :: "order_row \<Rightarrow> string option" where
  "order_ref_key r = o_tx_ref r"

definition orders_ok :: "order_row list \<Rightarrow> bool" where
  "orders_ok T = (uniq (\<lambda>r. Some (o_id r)) T \<and> uniq order_ref_key T \<and>
     list_all (\<lambda>r. 0 \<le> o_total r \<and> num_range (o_total r) \<and> 0 \<le> o_fee r \<and> num_range (o_fee r)) T)"

definition payment_idem_key :: "payment_row \<Rightarrow> (string \<times> string) option" where
  "payment_idem_key r = Some (p_provider r, p_idem r)"

definition payment_tx_key :: "payment_row \<Rightarrow> (string \<times> string) option" where
  "payment_tx_key r = (case p_tx_id r of None \<Rightarrow> None
     | Some i \<Rightarrow> if i = [] then None else Some (p_provider r, i))"

definition payments_ok :: "payment_row list \<Rightarrow> bool" where
  "payments_ok T = (uniq payment_idem_key T \<and> uniq payment_tx_key T \<and> 
     list_all (\<lambda>r. 0 < p_amount r \<and> num_range (p_amount r)) T)"

definition webhook_key :: "webhook_row \<Rightarrow> (string \<times> string) option" where
  "webhook_key r = Some (wh_provider r, wh_key r)"

definition xp_key :: "xp_row \<Rightarrow> (string \<times> string \<times> string) option" where
  "xp_key r = (if x_reference r = [] then None else Some (x_user r, x_reason r, x_reference r))"

definition xp_ok :: "xp_row list \<Rightarrow> bool" where
  "xp_ok T = (uniq xp_key T \<and> list_all (\<lambda>r. x_amount r \<noteq> 0) T)"

definition redemptions_ok :: "redemption_row list \<Rightarrow> bool" where
  "redemptions_ok T = (uniq (\<lambda>r. Some (r_order r)) T \<and> list_all (\<lambda>r. 0 < r_points r) T)"

definition withdrawal_open :: "withdrawal_row \<Rightarrow> bool" where
  "withdrawal_open r = (w_status r = ''pending'' \<or> w_status r = ''processing'')"

definition withdrawals_ok :: "withdrawal_row list \<Rightarrow> bool" where
  "withdrawals_ok T =
     (uniq (\<lambda>r. Some (w_id r)) T \<and> uniq (\<lambda>r. Some (w_user r, w_key r)) T \<and>
      uniq (\<lambda>r. if withdrawal_open r then Some (w_user r) else None) T \<and>
      uniq (\<lambda>r. if w_reference r = [] then None else Some (w_reference r)) T \<and>
      list_all (\<lambda>r. 1000 \<le> w_points r \<and> w_status r \<in> {''pending'', ''processing'', ''paid'', ''rejected''} \<and>
                    (w_status r = ''paid'' \<longrightarrow> trim_space (w_reference r) \<noteq> [])) T)"

definition ledger_ok :: "ledger_row list \<Rightarrow> bool" where
  "ledger_ok T = (uniq (\<lambda>r. Some (l_key r)) T \<and>
     list_all (\<lambda>r. 0 \<le> l_gross r \<and> num_range (l_gross r) \<and> 0 \<le> l_fee r \<and> num_range (l_fee r) \<and>
       0 \<le> l_net r \<and> num_range (l_net r)) T)"

definition jobs_ok :: "job_row list \<Rightarrow> bool" where
  "jobs_ok T = (uniq (\<lambda>r. Some (j_subaccount r)) T \<and>
     list_all (\<lambda>r. 0 < j_list_page r \<and> 0 < j_detail_page r) T)"

definition sub_payments_ok :: "sub_payment_row list \<Rightarrow> bool" where
  "sub_payments_ok T = uniq (\<lambda>r. Some (sp_tx_id r)) T"

section \<open>Statements\<close>

text \<open>\<open>set_\<dots>\<close> store a new version of a table, checking its constraints; the statement forms
  below are built on them.\<close>

definition set_orders :: "order_row list \<Rightarrow> db \<Rightarrow> err + db" where
  "set_orders T d = (if orders_ok T then Inr (d\<lparr>orders := T\<rparr>) else Inl (Constraint ''orders''))"

definition set_payments :: "payment_row list \<Rightarrow> db \<Rightarrow> err + db" where
  "set_payments T d = (if payments_ok T then Inr (d\<lparr>payments := T\<rparr>) else Inl (Constraint ''payments''))"

definition set_webhooks :: "webhook_row list \<Rightarrow> db \<Rightarrow> err + db" where
  "set_webhooks T d = (if uniq webhook_key T then Inr (d\<lparr>webhooks := T\<rparr>) else Inl (Constraint ''payment_webhook_events''))"

definition set_xp :: "xp_row list \<Rightarrow> db \<Rightarrow> err + db" where
  "set_xp T d = (if xp_ok T then Inr (d\<lparr>xp_txns := T\<rparr>) else Inl (Constraint ''xp_transactions''))"

definition set_redemptions :: "redemption_row list \<Rightarrow> db \<Rightarrow> err + db" where
  "set_redemptions T d = (if redemptions_ok T then Inr (d\<lparr>redemptions := T\<rparr>) else Inl (Constraint ''xp_redemptions''))"

definition set_withdrawals :: "withdrawal_row list \<Rightarrow> db \<Rightarrow> err + db" where
  "set_withdrawals T d = (if withdrawals_ok T then Inr (d\<lparr>withdrawals := T\<rparr>) else Inl (Constraint ''xp_withdrawals''))"

definition set_notifications :: "notification_row list \<Rightarrow> db \<Rightarrow> err + db" where
  "set_notifications T d = (if uniq n_key T then Inr (d\<lparr>notifications := T\<rparr>) else Inl (Constraint ''notifications''))"

definition set_ledger :: "ledger_row list \<Rightarrow> db \<Rightarrow> err + db" where
  "set_ledger T d = (if ledger_ok T then Inr (d\<lparr>ledger := T\<rparr>) else Inl (Constraint ''merchant_ledger''))"

definition set_jobs :: "job_row list \<Rightarrow> db \<Rightarrow> err + db" where
  "set_jobs T d = (if jobs_ok T then Inr (d\<lparr>jobs := T\<rparr>) else Inl (Constraint ''seller_settlement_jobs''))"

definition set_sub_payments :: "sub_payment_row list \<Rightarrow> db \<Rightarrow> err + db" where
  "set_sub_payments T d = (if sub_payments_ok T then Inr (d\<lparr>sub_payments := T\<rparr>) else Inl (Constraint ''provider_subscription_payments''))"

lemmas set_table_defs = set_orders_def set_payments_def set_webhooks_def set_xp_def set_redemptions_def
  set_withdrawals_def set_notifications_def set_ledger_def set_jobs_def set_sub_payments_def

text \<open>\<open>UPDATE\<close> with its number of rows, \<open>INSERT\<close>, and \<open>INSERT ... ON CONFLICT DO NOTHING\<close>.\<close>

definition update_rows ::
  "(db \<Rightarrow> 'r list) \<Rightarrow> ('r list \<Rightarrow> db \<Rightarrow> err + db) \<Rightarrow> ('r \<Rightarrow> bool) \<Rightarrow> ('r \<Rightarrow> 'r) \<Rightarrow> db \<Rightarrow> err + (nat \<times> db)" where
  "update_rows get put p f d =
     (case put (upd p f (get d)) d of Inl e \<Rightarrow> Inl e | Inr d' \<Rightarrow> Inr (cnt p (get d), d'))"

definition insert_row ::
  "(db \<Rightarrow> 'r list) \<Rightarrow> ('r list \<Rightarrow> db \<Rightarrow> err + db) \<Rightarrow> 'r \<Rightarrow> db \<Rightarrow> err + (nat \<times> db)" where
  "insert_row get put r d = (case put (get d @ [r]) d of Inl e \<Rightarrow> Inl e | Inr d' \<Rightarrow> Inr (1, d'))"

definition insert_ignore ::
  "(db \<Rightarrow> 'r list) \<Rightarrow> ('r list \<Rightarrow> db \<Rightarrow> err + db) \<Rightarrow> ('r \<Rightarrow> 'r list \<Rightarrow> bool) \<Rightarrow> 'r \<Rightarrow> db \<Rightarrow> err + (nat \<times> db)" where
  "insert_ignore get put conflict r d =
     (if conflict r (get d) then Inr (0, d) else insert_row get put r d)"

definition payment_conflict :: "payment_row \<Rightarrow> payment_row list \<Rightarrow> bool" where
  "payment_conflict r T = (clash payment_idem_key r T \<or> clash payment_tx_key r T)"

lemmas stmt_defs = update_rows_def insert_row_def insert_ignore_def

text \<open>What a statement that succeeded has done.\<close>

lemma update_rows_Inr [simp]:
  "(update_rows get put p f d = Inr (n, d')) = (put (upd p f (get d)) d = Inr d' \<and> n = cnt p (get d))"
  by (auto simp: update_rows_def split: sum.splits)

lemma insert_row_Inr [simp]:
  "(insert_row get put r d = Inr (n, d')) = (put (get d @ [r]) d = Inr d' \<and> n = 1)"
  by (auto simp: insert_row_def split: sum.splits)

lemma insert_ignore_Inr [simp]:
  "(insert_ignore get put c r d = Inr (n, d')) =
     (c r (get d) \<and> n = 0 \<and> d' = d \<or> \<not> c r (get d) \<and> put (get d @ [r]) d = Inr d' \<and> n = 1)"
  by (auto simp: insert_ignore_def)

lemma set_table_Inr [simp]:
  "(set_orders T1 d = Inr d') = (orders_ok T1 \<and> d' = d\<lparr>orders := T1\<rparr>)"
  "(set_payments T2 d = Inr d') = (payments_ok T2 \<and> d' = d\<lparr>payments := T2\<rparr>)"
  "(set_webhooks T3 d = Inr d') = (uniq webhook_key T3 \<and> d' = d\<lparr>webhooks := T3\<rparr>)"
  "(set_xp T4 d = Inr d') = (xp_ok T4 \<and> d' = d\<lparr>xp_txns := T4\<rparr>)"
  "(set_redemptions T5 d = Inr d') = (redemptions_ok T5 \<and> d' = d\<lparr>redemptions := T5\<rparr>)"
  "(set_withdrawals T6 d = Inr d') = (withdrawals_ok T6 \<and> d' = d\<lparr>withdrawals := T6\<rparr>)"
  "(set_notifications T7 d = Inr d') = (uniq n_key T7 \<and> d' = d\<lparr>notifications := T7\<rparr>)"
  "(set_ledger T8 d = Inr d') = (ledger_ok T8 \<and> d' = d\<lparr>ledger := T8\<rparr>)"
  "(set_jobs T9 d = Inr d') = (jobs_ok T9 \<and> d' = d\<lparr>jobs := T9\<rparr>)"
  "(set_sub_payments T10 d = Inr d') = (sub_payments_ok T10 \<and> d' = d\<lparr>sub_payments := T10\<rparr>)"
  by (auto simp: set_table_defs)

section \<open>Parameters that are not code of the repository\<close>

text \<open>\<open>enc_num\<close> is the driver's encoding of a Go float into a NUMERIC(14,2) parameter (\<open>None\<close>: the
  statement fails), \<open>sha256\<close> and \<open>hmac\<close> the digests, \<open>uuid_ok\<close> the parser of google/uuid,
  \<open>add_months\<close> PostgreSQL's interval arithmetic, \<open>local_date\<close> the calendar date of an instant in
  a time zone.\<close>

record env =
  enc_num :: "f64 \<Rightarrow> int option"
  sha256 :: "string \<Rightarrow> string"
  hmac :: "string \<Rightarrow> string \<Rightarrow> string"
  uuid_ok :: "string \<Rightarrow> bool"
  add_months :: "int \<Rightarrow> int \<Rightarrow> int"
  local_date :: "string \<Rightarrow> int \<Rightarrow> int"

text \<open>What the theorems on amounts assume of the driver: an amount it read is written back
  unchanged.\<close>

definition enc_exact :: "env \<Rightarrow> bool" where
  "enc_exact env = (\<forall>k. num_range k \<longrightarrow> enc_num env (scan_num k) = Some k)"

definition to_num :: "env \<Rightarrow> f64 \<Rightarrow> err + int" where
  "to_num env x = (case enc_num env x of None \<Rightarrow> Inl (Constraint ''numeric'') | Some k \<Rightarrow> Inr k)"

text \<open>An instance of the parameters for concrete evaluation: exact encoding of the values the
  database yields, stand-ins for the digests, ids of any shape, months of thirty days.\<close>

definition env0 :: env where
  "env0 = \<lparr>enc_num = (\<lambda>x. case f_round (f_mul x (f_of_int 100)) of Fin r \<Rightarrow>
             (let k = \<lfloor>r\<rfloor> in if scan_num k = x then Some k else None) | _ \<Rightarrow> None),
     sha256 = (\<lambda>s. s), hmac = (\<lambda>k s. k @ s), uuid_ok = (\<lambda>s. s \<noteq> []),
     add_months = (\<lambda>t m. t + m * 2592000), local_date = (\<lambda>z t. utc_date t)\<rparr>"

section \<open>Notifications\<close>

text \<open>\<open>insertNotification\<close> (reward_service.go) and \<open>CreateNotificationOnce\<close>
  (notifications_controller.go): the same statement, inside and outside a transaction.\<close>

definition opt_of :: "string \<Rightarrow> string option" where
  "opt_of s = (if s = [] then None else Some s)"

definition insertNotification ::
  "string \<Rightarrow> string \<Rightarrow> string option \<Rightarrow> string \<Rightarrow> string \<Rightarrow> string \<Rightarrow> json \<Rightarrow> string \<Rightarrow> (db, nat) prog" where
  "insertNotification userID orderID batchID notificationType title body data eventKey =
     stmt (\<lambda>d t. insert_ignore notifications set_notifications (clash n_key)
       \<lparr>n_user = userID, n_order = opt_of orderID, n_batch = batchID, n_type = notificationType,
        n_title = title, n_body = body, n_data = data, n_key = opt_of eventKey\<rparr> d)"

definition CreateNotificationOnce ::
  "string \<Rightarrow> string \<Rightarrow> string option \<Rightarrow> string \<Rightarrow> string \<Rightarrow> string \<Rightarrow> json \<Rightarrow> string \<Rightarrow> (db, nat) prog" where
  "CreateNotificationOnce userID orderID batchID notificationType title body data eventKey =
     insertNotification userID orderID batchID notificationType title body data eventKey"

section \<open>Ledgers that accept each key once\<close>

text \<open>The contract of every table written with \<open>ON CONFLICT DO NOTHING\<close>: its constraint implies
  the unique index, the getter and the checked setter fit together, and the conflict test is the
  index test. What the clients need follows: a key is recorded at most once, the second insert
  of a key changes nothing.\<close>

locale once_ledger =
  fixes get :: "db \<Rightarrow> 'r list"
    and put :: "'r list \<Rightarrow> db \<Rightarrow> err + db"
    and key :: "'r \<Rightarrow> 'k option"
    and ok :: "'r list \<Rightarrow> bool"
  assumes ok_uniq: "ok T \<Longrightarrow> uniq key T"
    and put_get: "put T d = Inr d' \<Longrightarrow> get d' = T \<and> ok T"
begin

lemma insert_ignore_cases:
  assumes "insert_ignore get put (clash key) r d = Inr (n, d')"
  shows "(n = 0 \<and> d' = d \<and> clash key r (get d)) \<or>
    (n = 1 \<and> get d' = get d @ [r] \<and> ok (get d') \<and> put (get d @ [r]) d = Inr d' \<and> \<not> clash key r (get d))"
  using assms put_get by (auto split: if_splits)

lemma insert_ignore_ok:
  assumes "insert_ignore get put (clash key) r d = Inr (n, d')" "ok (get d)"
  shows "ok (get d')"
  using insert_ignore_cases [OF assms(1)] assms(2) by auto

lemma insert_ignore_recorded:
  assumes "insert_ignore get put (clash key) r d = Inr (n, d')" "key r = Some x"
  shows "x \<in> set (keys key (get d'))"
  using insert_ignore_cases [OF assms(1)] assms(2) by (auto simp: clash_def)

lemma insert_ignore_again:
  assumes "insert_ignore get put (clash key) r d = Inr (n, d')" "key r = Some x" "key r' = Some x"
  shows "insert_ignore get put (clash key) r' d' = Inr (0, d')"
  using insert_ignore_recorded [OF assms(1,2)] assms(3) by (simp add: insert_ignore_def clash_def)

lemma at_most_once:
  assumes "ok (get d)" "r \<in> set (get d)" "s \<in> set (get d)" "key r = Some x" "key s = Some x"
  shows "r = s"
  using uniq_rows [OF ok_uniq [OF assms(1)]] assms(2-) by blast

lemma insert_ignore_mono:
  assumes "insert_ignore get put (clash key) r d = Inr (n, d')"
  shows "\<exists>R. get d' = get d @ R"
  using insert_ignore_cases [OF assms] by auto

end

interpretation notified: once_ledger notifications set_notifications n_key "uniq n_key"
  by unfold_locales (auto simp: set_notifications_def split: if_splits)

interpretation xp: once_ledger xp_txns set_xp xp_key xp_ok
  by unfold_locales (auto simp: set_xp_def xp_ok_def split: if_splits)

interpretation sellers: once_ledger ledger set_ledger "\<lambda>r. Some (l_key r)" ledger_ok
  by unfold_locales (auto simp: set_ledger_def ledger_ok_def split: if_splits)

interpretation subpay: once_ledger sub_payments set_sub_payments "\<lambda>r. Some (sp_tx_id r)" sub_payments_ok
  by unfold_locales (auto simp: set_sub_payments_def sub_payments_ok_def split: if_splits)

interpretation queue: once_ledger jobs set_jobs "\<lambda>r. Some (j_subaccount r)" jobs_ok
  by unfold_locales (auto simp: set_jobs_def jobs_ok_def split: if_splits)

section \<open>Answers of the HTTP library\<close>

text \<open>The predefined errors of fiber, and a lookup whose missing row has an answer of its own.\<close>

definition errBadRequest :: err where "errBadRequest = Http 400 ''Bad Request''"
definition errUnauthorized :: err where "errUnauthorized = Http 401 ''Unauthorized''"
definition errForbidden :: err where "errForbidden = Http 403 ''Forbidden''"
definition errNotFound :: err where "errNotFound = Http 404 ''Not Found''"
definition errInternal :: err where "errInternal = Http 500 ''Internal Server Error''"
definition errUnavailable :: err where "errUnavailable = Http 503 ''Service Unavailable''"

definition found_or :: "err \<Rightarrow> err \<Rightarrow> ('d, 'a) prog \<Rightarrow> ('d, 'a) prog" where
  "found_or missing other m = map_err (\<lambda>e. if e = NoRows then missing else other) m"

lemma wp_found_or [wp_rules]:
  "wp t m Q (\<lambda>e. E (if e = NoRows then missing else other)) d \<Longrightarrow> wp t (found_or missing other m) Q E d"
  unfolding found_or_def by (rule wp_map_err)

text \<open>A notification is inserted or not; nothing else changes.\<close>

lemma wp_notify:
  assumes "\<And>n N. Q n (d\<lparr>notifications := N\<rparr>)" "\<And>e N. E e (d\<lparr>notifications := N\<rparr>)"
  shows "wp t (insertNotification u i b ty ti bo da k) Q E d"
proof -
  have "E e d" for e using assms(2) [of e "notifications d"] by simp
  moreover have "Q 0 d" using assms(1) [of 0 "notifications d"] by simp
  ultimately show ?thesis unfolding insertNotification_def
    by (intro wp_stmt) (auto simp: assms split: if_splits)
qed

end
