(* ===== verification/XP.thy ===== *)
theory XP
  imports Schema
begin

text \<open>
  Loyalty points: the signed ledger \<open>xp_transactions\<close>, the reservations \<open>xp_redemptions\<close> and
  the cash withdrawals \<open>xp_withdrawals\<close>. Models xp_redemption.go, reward_service.go,
  xp_withdrawals.go, xp_controller.go and the review reward of ops_controller.go.

  Every handler locks the buyer's points (\<open>lockXPUser\<close>) before it decides on them, so each
  transaction below is atomic towards the others.

  Results: no handler makes a balance negative, the withdrawals and the ledger always agree,
  a withdrawal is closed once and paid only by a Super Admin after processing, a retried
  request is answered with the saved one.
\<close>

definition xpUsage :: string where
  "xpUsage = '' 1 XP = NGN 1. Withdraw at least 1,000 XP to your Nigerian bank account after admin review. Existing points remain eligible. XP cannot be used at checkout.''"

definition welcomeXP :: int where "welcomeXP = 5"

definition reviewRewardXP :: int where "reviewRewardXP = 1"

section \<open>Reservations (xp_redemption.go)\<close>

definition lockXPUser :: "string \<Rightarrow> (db, unit) prog" where
  "lockXPUser userID = lock"

definition order_of :: "string \<Rightarrow> db \<Rightarrow> order_row option" where
  "order_of i d = find (\<lambda>o'. o_id o' = i) (orders d)"

definition payment_started :: "string \<Rightarrow> db \<Rightarrow> bool" where
  "payment_started orderID d = list_ex (\<lambda>p. p_order p = Some orderID) (payments d)"

definition releaseUnusedXP :: "string \<Rightarrow> bool \<Rightarrow> (db, nat) prog" where
  "releaseUnusedXP userID replace = stmt (\<lambda>d t.
     update_rows redemptions set_redemptions
       (\<lambda>r. r_user r = userID \<and> r_status r = ''reserved'' \<and> (replace \<or> r_expires r \<le> t) \<and>
            \<not> payment_started (r_order r) d)
       (\<lambda>r. r\<lparr>r_status := ''released''\<rparr>) d)"

definition xp_total :: "string \<Rightarrow> db \<Rightarrow> int" where
  "xp_total userID d = sum_of (\<lambda>x. x_user x = userID) x_amount (xp_txns d)"

definition xp_reserved :: "string \<Rightarrow> db \<Rightarrow> int" where
  "xp_reserved userID d =
     sum_of (\<lambda>r. r_user r = userID \<and> r_status r = ''reserved'') r_points (redemptions d)"

definition availableXP :: "string \<Rightarrow> (db, int \<times> int) prog" where
  "availableXP userID = query (\<lambda>d t. Inr (xp_total userID d - xp_reserved userID d, xp_reserved userID d))"

definition validateXPReservation :: "string \<Rightarrow> (db, unit) prog" where
  "validateXPReservation orderID =
     bind (query (\<lambda>d t. row (map_option o_xp_discount (order_of orderID d)))) (\<lambda>discount.
     if discount = 0 then ret ()
     else bind (query (\<lambda>d t. Inr (list_ex (\<lambda>r. r_order r = orderID \<and> r_status r = ''reserved'' \<and>
                   (t < r_expires r \<or> payment_started orderID d)) (redemptions d)))) (\<lambda>valid.
          require valid (Http 409 ''XP quote expired or replaced. Review your total again.'')))"

definition consumeXP :: "string \<Rightarrow> (db, unit) prog" where
  "consumeXP orderID =
     bind (query (\<lambda>d t. row (map_option o_xp_discount (order_of orderID d)))) (\<lambda>discount.
     if discount = 0 then ret ()
     else
       bind (attempt (stmt (\<lambda>d t.
           let p = (\<lambda>r. r_order r = orderID \<and> r_status r = ''reserved'')
           in case find p (redemptions d) of
                None \<Rightarrow> Inl NoRows
              | Some r \<Rightarrow> (case update_rows redemptions set_redemptions p (\<lambda>r. r\<lparr>r_status := ''consumed''\<rparr>) d of
                   Inl e \<Rightarrow> Inl e | Inr (n, d') \<Rightarrow> Inr ((r_user r, r_points r), d'))))) (\<lambda>res.
       case res of
         Inl e \<Rightarrow> fail (if e = NoRows then Msg ''XP reservation unavailable for paid order'' else e)
       | Inr (userID, points) \<Rightarrow>
           bind (stmt (\<lambda>d t. insert_ignore xp_txns set_xp (clash xp_key)
             \<lparr>x_user = userID, x_amount = - points, x_reason = ''service_fee_redemption'',
              x_reference = ''xp-order:'' @ orderID\<rparr> d)) (\<lambda>_. ret ())))"

definition ReleaseXPQuote :: "string \<Rightarrow> string \<Rightarrow> (db, response) prog" where
  "ReleaseXPQuote userID orderID = transaction (
     bind (lockXPUser userID) (\<lambda>_.
     bind (or_else (query (\<lambda>d t. row (map_option o_status
             (find (\<lambda>o'. o_id o' = orderID \<and> o_user o' = userID) (orders d)))))
           (Http 404 ''Order not found'')) (\<lambda>status.
     bind (query (\<lambda>d t. Inr (payment_started orderID d))) (\<lambda>started.
     bind (require (\<not> (started \<or> status \<noteq> ''Pending''))
       (Http 409 ''Payment has started. Check payment status before changing rewards.'')) (\<lambda>_.
     bind (stmt (\<lambda>d t. update_rows redemptions set_redemptions
       (\<lambda>r. r_order r = orderID \<and> r_user r = userID \<and> r_status r = ''reserved'')
       (\<lambda>r. r\<lparr>r_status := ''released''\<rparr>) d)) (\<lambda>_.
     ret (Commit (Resp 200 (JObj [(''released'', JBool True)])))))))))"

section \<open>Rewards (reward_service.go)\<close>

definition award ::
  "string \<Rightarrow> string \<Rightarrow> int \<Rightarrow> string \<Rightarrow> string \<Rightarrow> string \<Rightarrow> string \<Rightarrow> string \<Rightarrow> (db, bool) prog" where
  "award userID orderID amount reason referenceID eventKey title body = transaction (
     bind (stmt (\<lambda>d t. insert_ignore xp_txns set_xp (clash xp_key)
       \<lparr>x_user = userID, x_amount = amount, x_reason = reason, x_reference = referenceID\<rparr> d)) (\<lambda>affected.
     if affected = 0 then ret (Commit False)
     else bind (insertNotification userID orderID None ''xp_earned'' title body
                 (JObj [(''xp'', JInt amount), (''naira_value'', JInt amount), (''reason'', JStr reason)]) eventKey) (\<lambda>_.
          ret (Commit True))))"

definition AwardWelcome :: "string \<Rightarrow> (db, bool) prog" where
  "AwardWelcome userID = award userID [] welcomeXP ''welcome'' ''account-welcome'' (''welcome-xp:'' @ userID)
     ''Welcome to Atlantic Express - 5 XP earned''
     (''You received 5 XP. This welcome bonus is awarded once per account.'' @ xpUsage)"

definition AwardDailyLogin :: "string \<Rightarrow> int \<Rightarrow> (db, bool) prog" where
  "AwardDailyLogin userID stamp = (let day = utc_date stamp; claimDate = date_str day in transaction (
     bind (stmt (\<lambda>d t. if (userID, day) \<in> set (daily_logins d) then Inr (False, d)
                       else Inr (True, d\<lparr>daily_logins := daily_logins d @ [(userID, day)]\<rparr>))) (\<lambda>inserted.
     if \<not> inserted then ret (Commit False)
     else
       bind (stmt (\<lambda>d t. insert_ignore xp_txns set_xp (clash xp_key)
         \<lparr>x_user = userID, x_amount = 1, x_reason = ''daily_login'', x_reference = ''daily-'' @ claimDate\<rparr> d)) (\<lambda>_.
       bind (insertNotification userID [] None ''xp_earned'' ''Daily login reward''
               (''You earned 1 XP for logging in today.'' @ xpUsage)
               (JObj [(''xp'', JInt 1), (''reason'', JStr ''daily_login'')])
               (''daily-login:'' @ userID @ '':'' @ claimDate)) (\<lambda>_.
       ret (Commit True))))))"

definition purchase_award_amount :: "f64 \<Rightarrow> f64 \<Rightarrow> int" where
  "purchase_award_amount tot retainedFee =
     f_to_int (f_min (f_of_int (purchaseXP tot)) (f_floor (f_mul retainedFee (fl (1/10)))))"

definition AwardPurchase :: "string \<Rightarrow> string \<Rightarrow> f64 \<Rightarrow> (db, bool \<times> int) prog" where
  "AwardPurchase userID orderID tot =
     bind (query (\<lambda>d t. let rs = filter (\<lambda>o'. o_id o' = orderID \<and> o_user o' = userID) (orders d)
        in Inr (list_ex (\<lambda>o'. o_status o' = ''Completed'' \<and> o_currency o' = ''NGN'') rs,
                scan_num (case map o_fee rs of [] \<Rightarrow> 0 | x # xs \<Rightarrow> fold max xs x)))) (\<lambda>(completed, retainedFee).
     if \<not> completed then ret (False, 0)
     else (let amount = purchase_award_amount tot retainedFee in
       if amount = 0 then ret (False, 0)
       else bind (award userID orderID amount ''purchase'' (''purchase-'' @ orderID) (''purchase-xp:'' @ orderID)
                   ''Purchase reward earned''
                   (''You earned '' @ int_str amount @ '' XP from your completed purchase.'' @ xpUsage)) (\<lambda>awarded.
            ret (awarded, amount))))"

text \<open>\<open>createReviewRewardTx\<close> and \<open>creditReviewReward\<close> (ops_controller.go).\<close>

definition review_purchase_amount :: "int \<Rightarrow> int" where
  "review_purchase_amount fee = min 25 (fee div 1000)"

definition createReviewRewardTx :: "string \<Rightarrow> string \<Rightarrow> (db, unit) prog" where
  "createReviewRewardTx userID orderID =
     bind (stmt (\<lambda>d t.
        case find (\<lambda>o'. o_id o' = orderID \<and> o_user o' = userID \<and> o_status o' = ''Completed'' \<and>
                        o_currency o' = ''NGN'' \<and> 1000 \<le> o_fee o') (orders d) of
          None \<Rightarrow> Inr (0, d)
        | Some o' \<Rightarrow> insert_ignore xp_txns set_xp (clash xp_key)
            \<lparr>x_user = o_user o', x_amount = review_purchase_amount (o_fee o'), x_reason = ''purchase'',
             x_reference = ''purchase-'' @ o_id o'\<rparr> d)) (\<lambda>_.
     bind (stmt (\<lambda>d t.
        if list_ex (\<lambda>r. rr_user r = userID \<and> rr_order r = orderID) (review_rewards d) then Inr (0::nat, d)
        else Inr (1, d\<lparr>review_rewards := review_rewards d @
               [\<lparr>rr_user = userID, rr_order = orderID, rr_amount = reviewRewardXP, rr_claimed = False\<rparr>]\<rparr>))) (\<lambda>_.
     bind (insertNotification userID orderID None ''review_request''
             (''Review and earn '' @ int_str reviewRewardXP @ '' XP!'')
             (''Your order is complete. Leave a review to earn '' @ int_str reviewRewardXP @ '' XP.'' @ xpUsage)
             (JObj [(''reward_amount'', JInt reviewRewardXP)]) (''review-request:'' @ orderID)) (\<lambda>_. ret ())))"

definition creditReviewReward :: "string \<Rightarrow> string \<Rightarrow> (db, bool) prog" where
  "creditReviewReward userID orderID = transaction (
     bind (stmt (\<lambda>d t.
        let p = (\<lambda>r. rr_user r = userID \<and> rr_order r = orderID \<and> \<not> rr_claimed r \<and>
                     (userID, orderID) \<in> set (reviews d))
        in Inr (cnt p (review_rewards d),
                d\<lparr>review_rewards := upd p (\<lambda>r. r\<lparr>rr_claimed := True\<rparr>) (review_rewards d)\<rparr>))) (\<lambda>affected.
     if affected = 0 then ret (Commit False)
     else
       bind (stmt (\<lambda>d t. insert_ignore xp_txns set_xp (clash xp_key)
         \<lparr>x_user = userID, x_amount = reviewRewardXP, x_reason = ''review_reward'',
          x_reference = ''review-reward-'' @ orderID\<rparr> d)) (\<lambda>_.
       bind (insertNotification userID orderID None ''xp_earned'' ''Review reward claimed''
               (int_str reviewRewardXP @ '' XP has been added to your rewards balance.'' @ xpUsage)
               (JObj [(''xp'', JInt reviewRewardXP), (''naira_value'', JInt reviewRewardXP), (''reason'', JStr ''review_reward'')])
               (''review-reward-claimed:'' @ orderID)) (\<lambda>_.
       ret (Commit True)))))"

definition ClaimReviewReward :: "string \<Rightarrow> string \<Rightarrow> (db, response) prog" where
  "ClaimReviewReward userID orderID =
     bind (or_else (creditReviewReward userID orderID) (Http 500 ''claim failed'')) (\<lambda>claimed.
     if \<not> claimed then fail (Http 404 ''submit a review before claiming this reward'')
     else ret (Resp 200 (JObj [(''claimed'', JBool True),
            (''reward'', JStr (int_str reviewRewardXP @ '' XP added to your withdrawable balance'')),
            (''xp_credited'', JInt reviewRewardXP)])))"

section \<open>Withdrawals (xp_withdrawals.go)\<close>

record withdrawal_request =
  q_key :: string
  q_points :: int
  q_bank :: string
  q_account :: string
  q_name :: string

definition withdrawalAccount :: "string \<Rightarrow> bool" where
  "withdrawalAccount s = (length s = 10 \<and> list_all is_digit s)"

definition bank_details :: "withdrawal_request \<Rightarrow> string \<times> string \<times> string" where
  "bank_details req = (trim_space (q_bank req), trim_space (q_account req), trim_space (q_name req))"

definition withdrawal_valid :: "withdrawal_request \<Rightarrow> bool" where
  "withdrawal_valid req = (case bank_details req of (bank, account, name) \<Rightarrow>
     \<not> (q_points req < 1000 \<or> 100000000 < q_points req \<or> length bank < 2 \<or> 100 < length bank \<or>
        length name < 2 \<or> 150 < length name \<or> \<not> withdrawalAccount account))"

definition RequestWithdrawal :: "env \<Rightarrow> string \<Rightarrow> string \<Rightarrow> withdrawal_request option \<Rightarrow> (db, response) prog" where
  "RequestWithdrawal env newID userID body = (case body of
     None \<Rightarrow> fail (Http 400 ''Invalid withdrawal request'')
   | Some req \<Rightarrow>
     bind (require (uuid_ok env (q_key req)) (Http 400 ''A valid request key is required'')) (\<lambda>_.
     bind (require (withdrawal_valid req) (Http 400
       ''Enter at least 1,000 XP, your bank, account name and 10-digit Nigerian account number'')) (\<lambda>_.
     transaction (
       bind (lockXPUser userID) (\<lambda>_.
       bind (attempt (query (\<lambda>d t. row (map_option
              (\<lambda>w. (w_id w, w_points w = q_points req \<and> w_bank w = bank_details req))
              (find (\<lambda>w. w_user w = userID \<and> w_key w = q_key req) (withdrawals d)))))) (\<lambda>res.
       case res of
         Inr (existing, same) \<Rightarrow>
           (if \<not> same then fail (Http 409
              ''This request was already saved with different details. Refresh your withdrawal history.'')
            else ret (Abandon (Resp 200 (JObj [(''id'', JStr existing), (''already_requested'', JBool True)]))))
       | Inl e \<Rightarrow> if e \<noteq> NoRows then fail e else
           bind (query (\<lambda>d t. Inr (list_ex (\<lambda>w. w_user w = userID \<and> withdrawal_open w) (withdrawals d)))) (\<lambda>opn.
           bind (require (\<not> opn) (Http 409 ''Your previous withdrawal is still being reviewed'')) (\<lambda>_.
           bind (releaseUnusedXP userID False) (\<lambda>_.
           bind (availableXP userID) (\<lambda>(available, _).
           bind (require (q_points req \<le> available) (Http 409 ''You do not have enough available XP'')) (\<lambda>_.
           bind (stmt (\<lambda>d t. insert_row withdrawals set_withdrawals
             \<lparr>w_id = newID, w_user = userID, w_key = q_key req, w_points = q_points req,
              w_bank = bank_details req, w_status = ''pending'', w_reference = [], w_note = [], w_reviewer = []\<rparr> d)) (\<lambda>_.
           bind (stmt (\<lambda>d t. insert_row xp_txns set_xp
             \<lparr>x_user = userID, x_amount = - q_points req, x_reason = ''withdrawal_reserved'', x_reference = newID\<rparr> d)) (\<lambda>_.
           ret (Commit (Resp 201 (JObj [(''id'', JStr newID), (''status'', JStr ''pending''),
             (''amount_ngn'', JInt (q_points req)),
             (''message'', JStr ''Request saved. Points are reserved while an admin reviews your bank details and arranges payment.'')]))))))))))))))))"

record review_request =
  v_status :: string
  v_reference :: string
  v_note :: string

definition AdminReviewWithdrawal ::
  "env \<Rightarrow> string \<Rightarrow> string \<Rightarrow> string \<Rightarrow> review_request option \<Rightarrow> (db, response) prog" where
  "AdminReviewWithdrawal env adminID role i body =
     bind (require (uuid_ok env i) (Http 400 ''Bad Request'')) (\<lambda>_.
     case body of None \<Rightarrow> fail (Http 400 ''Bad Request'') | Some req \<Rightarrow>
     (let reference = trim_space (v_reference req); note = trim_space (v_note req); target = v_status req in
     bind (require (target = ''processing'' \<or> target = ''paid'' \<or> target = ''rejected'')
       (Http 400 ''Choose processing, paid or rejected'')) (\<lambda>_.
     bind (require (\<not> (1000 < length note \<or> 200 < length reference \<or> (target = ''paid'' \<and> reference = []) \<or>
                      (target = ''rejected'' \<and> note = [])))
       (Http 400 ''Paid requests need the bank transfer reference. Rejected requests need a reason.'')) (\<lambda>_.
     bind (require (role = ''super_admin'' \<or> role = ''finance_admin'') (Http 403 ''Forbidden'')) (\<lambda>_.
     bind (require (\<not> (target = ''paid'' \<and> role \<noteq> ''super_admin''))
       (Http 403 ''A Super Admin must approve the completed payout'')) (\<lambda>_.
     transaction (
       bind (or_else (query (\<lambda>d t. row (map_option w_user (find (\<lambda>w. w_id w = i) (withdrawals d)))))
         (Http 404 ''Not Found'')) (\<lambda>userID.
       bind (lockXPUser userID) (\<lambda>_.
       bind (query (\<lambda>d t. row (map_option (\<lambda>w. (w_status w, w_points w, w_reference w))
               (find (\<lambda>w. w_id w = i) (withdrawals d))))) (\<lambda>(status, points, oldref).
       if status = target then
         (if status = ''paid'' \<and> oldref \<noteq> reference
          then fail (Http 409 ''This withdrawal was paid with a different reference'')
          else ret (Abandon (Resp 200 (JObj [(''id'', JStr i), (''status'', JStr status), (''already_processed'', JBool True)]))))
       else
         bind (require (\<not> (status = ''paid'' \<or> status = ''rejected'')) (Http 409 ''This withdrawal is already closed'')) (\<lambda>_.
         bind (require (\<not> (target = ''paid'' \<and> status \<noteq> ''processing''))
           (Http 409 ''Mark the request processing before recording its completed bank transfer'')) (\<lambda>_.
         bind (if target = ''rejected''
               then stmt (\<lambda>d t. insert_ignore xp_txns set_xp (clash xp_key)
                 \<lparr>x_user = userID, x_amount = points, x_reason = ''withdrawal_released'', x_reference = i\<rparr> d)
               else ret 0) (\<lambda>_.
         bind (or_else (stmt (\<lambda>d t. update_rows withdrawals set_withdrawals (\<lambda>w. w_id w = i)
                 (\<lambda>w. w\<lparr>w_status := target, w_reference := reference, w_note := note, w_reviewer := adminID\<rparr>) d))
               (Http 409 ''Could not save this withdrawal. Check that its transfer reference has not already been used.'')) (\<lambda>_.
         bind (insertNotification userID [] None ''xp_withdrawal'' ''XP withdrawal update''
                 (''Your withdrawal is '' @ target @ ''. '' @ note)
                 (JObj [(''withdrawal_id'', JStr i), (''status'', JStr target), (''amount_ngn'', JInt points)])
                 (''withdrawal:'' @ i @ '':'' @ target)) (\<lambda>_.
         ret (Commit (Resp 200 (JObj [(''id'', JStr i), (''status'', JStr target)]))))))))))))))))))"

definition withdrawalList :: "string \<Rightarrow> (db, withdrawal_row list) prog" where
  "withdrawalList userID = or_else (query (\<lambda>d t.
     Inr (take 100 (rev (filter (\<lambda>w. userID = [] \<or> w_user w = userID) (withdrawals d))))))
     (Http 503 ''Withdrawal history unavailable'')"

section \<open>Balance and claims (xp_controller.go)\<close>

definition GetBalance :: "string \<Rightarrow> (db, response) prog" where
  "GetBalance userID = transaction_with (\<lambda>_. Http 500 ''XP balance unavailable'') (\<lambda>e. e) (
     bind (lockXPUser userID) (\<lambda>_.
     bind (releaseUnusedXP userID False) (\<lambda>_.
     bind (or_else (availableXP userID) (Http 500 ''XP balance unavailable'')) (\<lambda>(available, reserved).
     ret (Commit (Resp 200 (JObj [(''xp'', JInt available), (''reserved_xp'', JInt reserved),
       (''total_xp'', JInt (available + reserved)), (''naira_value'', JInt available),
       (''redemption_enabled'', JBool False), (''withdrawal_enabled'', JBool True),
       (''minimum_withdrawal_xp'', JInt 1000), (''usage'', JStr (trim_space xpUsage))])))))))"

definition ClaimDailyLogin :: "string \<Rightarrow> (db, response) prog" where
  "ClaimDailyLogin userID =
     bind clock (\<lambda>t.
     bind (or_else (AwardDailyLogin userID t) (Http 500 ''daily reward unavailable'')) (\<lambda>claimed.
     if \<not> claimed
     then ret (Resp 200 (JObj [(''claimed'', JBool False),
            (''message'', JStr ''Today's login reward was already claimed''), (''xp'', JInt 0)]))
     else ret (Resp 200 (JObj [(''claimed'', JBool True),
            (''message'', JStr (''You earned 1 XP for today's login'' @ xpUsage)), (''xp'', JInt 1)]))))"

definition AwardPurchaseXP :: "string \<Rightarrow> string \<Rightarrow> (db, response) prog" where
  "AwardPurchaseXP userID orderID =
     bind (or_else (query (\<lambda>d t. row (map_option (\<lambda>o'. (o_status o', scan_num (o_total o')))
             (find (\<lambda>o'. o_id o' = orderID \<and> o_user o' = userID) (orders d)))))
           (Http 404 ''order not found'')) (\<lambda>(orderStatus, tot).
     bind (require (orderStatus = ''Completed'')
       (Http 409 ''purchase reward is available after delivery completion'')) (\<lambda>_.
     bind (or_else (AwardPurchase userID orderID tot) (Http 500 ''purchase reward unavailable'')) (\<lambda>(awarded, amount).
     ret (Resp 200 (JObj [(''awarded'', JBool awarded), (''xp'', JInt amount),
       (''message'', JStr (if awarded then ''Purchase XP awarded'' @ xpUsage
                          else ''Purchase XP was already awarded''))])))))"

end
