(* ===== verification/Services.thy ===== *)
theory Services
  imports XP
begin

text \<open>
  The service marketplace (provider_marketplace_controller.go, provider_identity.go,
  business_contact_access.go, driver_documents.go): providers and their verification, service
  listings and their moderation, availability slots, booking requests with the chat they open, reviews.

  The triggers that keep the review baseline of a listing (migration 075) and that ask for driver papers
  (migration 096) are modelled. The trigger with the post limits of a plan (migrations 095 to 107) is the parameter
  \<open>sv_policy\<close>, the limit the plan gives is \<open>sv_limit\<close>, what the column types make of a content (NUMERIC
  scales, canonical jsonb, checks) is \<open>sv_store\<close>, the regular expression for driver listings is
  \<open>sv_driver\<close>, PostgreSQL's cast to uuid is \<open>sv_uuid\<close>, the copy of a driver document in the object
  store is \<open>sv_freeze\<close>, new ids are \<open>sv_id\<close> and \<open>sv_conversation\<close>.
  Slugs, search texts and time stamps of rows are left out, as no modelled statement reads them.
\<close>

section \<open>Tables\<close>

record listing_content =
  lc_type :: string
  lc_title :: string
  lc_description :: string
  lc_category :: string
  lc_email :: string
  lc_phone :: string
  lc_address :: string
  lc_city :: string
  lc_state :: string
  lc_country :: string
  lc_price :: "f64 option"
  lc_currency :: string
  lc_unit :: string
  lc_capacity :: int
  lc_media :: "string list"
  lc_attributes :: "(string \<times> json) list"
  lc_latitude :: "f64 option"
  lc_longitude :: "f64 option"
  lc_radius :: "f64 option"
  lc_mobile :: bool
  lc_available :: bool

record listing_row =
  sl_id :: string
  sl_provider :: string
  sl_content :: listing_content
  sl_status :: string
  sl_revision :: int
  sl_snapshot :: "listing_content option"
  sl_notes :: string
  sl_published :: "int option"

record provider_row =
  pv_id :: string
  pv_owner :: string
  pv_name :: string
  pv_type :: string
  pv_type_other :: string
  pv_description :: string
  pv_email :: string
  pv_phone :: string
  pv_website :: string
  pv_address :: string
  pv_city :: string
  pv_state :: string
  pv_country :: string
  pv_logo :: string
  pv_driver :: bool
  pv_active :: bool
  pv_verification :: string
  pv_notes :: string

record provider_member_row =
  vm_provider :: string
  vm_user :: string
  vm_role :: string
  vm_active :: bool

record document_row =
  dc_id :: string
  dc_provider :: string
  dc_type :: string
  dc_url :: string
  dc_status :: string
  dc_notes :: string

record slot_row =
  st_id :: string
  st_listing :: string
  st_starts :: int
  st_ends :: int
  st_capacity :: int
  st_remaining :: int
  st_status :: string

record request_row =
  rq_id :: string
  rq_listing :: string
  rq_provider :: string
  rq_user :: string
  rq_type :: string
  rq_slot :: "string option"
  rq_party :: int
  rq_message :: string
  rq_status :: string
  rq_key :: string

record service_review_row =
  sw_request :: string
  sw_listing :: string
  sw_user :: string
  sw_rating :: int
  sw_text :: string

record service_xp_row =
  sx_user :: string
  sx_amount :: int
  sx_reason :: string
  sx_reference :: string

record conversation_row =
  cv_id :: string
  cv_thread :: string
  cv_listing :: string
  cv_provider :: string
  cv_user :: string

record service_market =
  sm_country :: string
  sm_currency :: string
  sm_active :: bool
  sm_gateways :: "string list"

record service_db =
  providers :: "provider_row list"
  provider_members :: "provider_member_row list"
  documents :: "document_row list"
  listings :: "listing_row list"
  slots :: "slot_row list"
  requests :: "request_row list"
  service_reviews :: "service_review_row list"
  service_xp :: "service_xp_row list"
  service_notes :: "(string \<times> string) list"
  conversations :: "conversation_row list"
  request_messages :: "(string \<times> string) list"
  activity :: "(string \<times> string) list"
  reveals :: "(string \<times> string \<times> bool) list"
  reports :: "(string \<times> string \<times> string) list"
  service_markets :: "service_market list"
  service_users :: "(string \<times> string) list"
  provider_products :: "(string \<times> string) list"
  driver_presence :: "string list"
  service_mails :: "(string \<times> string) list"
  service_admins :: "string list"

record service_env =
  sv_id :: string
  sv_conversation :: string
  sv_store :: "listing_content \<Rightarrow> err + listing_content"
  sv_policy :: "service_db \<Rightarrow> int \<Rightarrow> listing_row option \<Rightarrow> listing_row \<Rightarrow> string option"
  sv_limit :: "service_db \<Rightarrow> int \<Rightarrow> string \<Rightarrow> err + int"
  sv_driver :: "string \<Rightarrow> bool"
  sv_uuid :: "string \<Rightarrow> string option"
  sv_freeze :: "string \<Rightarrow> string \<Rightarrow> err + string"

section \<open>Providers\<close>

definition providerForUser :: "string \<Rightarrow> (service_db, string \<times> string) prog" where
  "providerForUser userID = query (\<lambda>d t. row (map_option (\<lambda>m. (vm_provider m, vm_role m))
     (find (\<lambda>m. vm_user m = userID \<and> vm_active m \<and> list_ex (\<lambda>p. pv_id p = vm_provider m \<and> pv_active p) (providers d)) (provider_members d))))"

definition forbid :: err where
  "forbid = Http 403 ''Forbidden''"

definition not_found :: err where
  "not_found = Http 404 ''Not Found''"

definition server_error :: err where
  "server_error = Http 500 ''Internal Server Error''"

definition normalizeProviderType :: "string \<Rightarrow> string" where
  "normalizeProviderType raw = (let value = to_lower (trim_space raw) in
     if value \<in> {''product_merchant'', ''service_professional'', ''property_host'', ''mobility_provider'', ''mixed'', ''other''} then value else [])"

text \<open>Whether a provider of this type sells products, and whether it offers services.\<close>

definition providerTypeCapabilities :: "string \<Rightarrow> bool \<times> bool" where
  "providerTypeCapabilities providerType =
     (if providerType = ''product_merchant'' then (True, False)
      else if providerType \<in> {''service_professional'', ''property_host'', ''mobility_provider''} then (False, True)
      else (True, True))"

definition providerCapabilities :: "string \<Rightarrow> (service_db, bool \<times> bool) prog" where
  "providerCapabilities providerID =
     bind (query (\<lambda>d t. row (map_option pv_type (find (\<lambda>p. pv_id p = providerID \<and> pv_active p) (providers d))))) (\<lambda>ty.
     ret (providerTypeCapabilities ty))"

definition providerListingLimit :: "service_env \<Rightarrow> string \<Rightarrow> (service_db, int) prog" where
  "providerListingLimit e providerID = query (\<lambda>d t. sv_limit e d t providerID)"

definition subscriptionsRequired :: bool where
  "subscriptionsRequired = False"

definition validProviderAssetURL :: "string \<Rightarrow> bool" where
  "validProviderAssetURL raw = (let raw = trim_space raw in has_prefix raw ''https://'' \<or> has_prefix raw ''/api/v1/public/images/view/'')"

definition verified :: "string \<Rightarrow> service_db \<Rightarrow> bool" where
  "verified providerID d = list_ex (\<lambda>p. pv_id p = providerID \<and> pv_active p \<and> pv_verification p = ''approved'') (providers d)"

definition requirePublishingEligibility :: "string \<Rightarrow> (service_db, unit) prog" where
  "requirePublishingEligibility providerID =
     bind (or_else (query (\<lambda>d t. if list_ex (\<lambda>p. pv_id p = providerID) (providers d) then Inr (verified providerID d) else Inl NoRows))
       (Http 403 ''Provider document approval is required before publishing.'')) (\<lambda>eligible.
     require eligible (Http 402 ''Your business documents must be approved before publishing.''))"

definition providerCapacityError :: "err \<Rightarrow> err option" where
  "providerCapacityError x = (case x of
     Constraint m \<Rightarrow> if contains_str m ''listing limit'' \<or> contains_str m ''Free allows'' \<or> has_prefix m ''Your plan'' \<or> has_prefix m ''Driver verification''
       then Some (Http 409 m) else None
   | _ \<Rightarrow> None)"

definition policy_error :: "err \<Rightarrow> err" where
  "policy_error x = (case providerCapacityError x of Some y \<Rightarrow> y | None \<Rightarrow> server_error)"

record provider_profile =
  pf_name :: string
  pf_type :: string
  pf_type_other :: string
  pf_description :: string
  pf_email :: string
  pf_phone :: string
  pf_website :: string
  pf_address :: string
  pf_city :: string
  pf_state :: string
  pf_country :: string
  pf_logo :: string
  pf_driver :: bool

definition or_NG :: "string \<Rightarrow> string" where
  "or_NG s = (if s = [] then ''NG'' else s)"

definition profile_complete :: "provider_profile \<Rightarrow> bool" where
  "profile_complete req = (trim_space (pf_name req) \<noteq> [] \<and> trim_space (pf_email req) \<noteq> [] \<and> trim_space (pf_phone req) \<noteq> [])"

definition missing_profile :: err where
  "missing_profile = Http 422 ''business_name, contact_email, and contact_phone are required''"

definition new_provider :: "service_env \<Rightarrow> string \<Rightarrow> provider_profile \<Rightarrow> provider_row" where
  "new_provider e userID req = \<lparr>pv_id = sv_id e, pv_owner = userID, pv_name = trim_space (pf_name req), pv_type = normalizeProviderType (pf_type req),
     pv_type_other = trim_space (pf_type_other req), pv_description = trim_space (pf_description req), pv_email = trim_space (pf_email req),
     pv_phone = trim_space (pf_phone req), pv_website = trim_space (pf_website req), pv_address = trim_space (pf_address req),
     pv_city = trim_space (pf_city req), pv_state = trim_space (pf_state req), pv_country = or_NG (to_upper (trim_space (pf_country req))),
     pv_logo = trim_space (pf_logo req), pv_driver = False, pv_active = True, pv_verification = ''pending'', pv_notes = []\<rparr>"

definition insert_provider :: "provider_row \<Rightarrow> (service_db, unit) prog" where
  "insert_provider p = stmt (\<lambda>d t.
     if list_ex (\<lambda>q. pv_id q = pv_id p \<or> pv_owner q = pv_owner p) (providers d) then Inl (Constraint ''provider_organizations_key'')
     else if pv_owner p \<notin> fst ` set (service_users d) then Inl (Constraint ''provider_organizations_fkey'')
     else Inr ((), d\<lparr>providers := providers d @ [p]\<rparr>))"

definition onboard_error :: "err \<Rightarrow> err" where
  "onboard_error x = (if x = Constraint ''provider_organizations_key'' then Http 409 ''provider profile already exists''
     else if x = Constraint ''provider_organizations_fkey'' then Http 401 ''your account session is no longer valid; sign in again''
     else Http 500 ''could not create provider profile'')"

definition log_activity :: "string \<Rightarrow> string \<Rightarrow> (service_db, unit) prog" where
  "log_activity providerID eventType = stmt (\<lambda>d t. Inr ((), d\<lparr>activity := activity d @ [(providerID, eventType)]\<rparr>))"

definition Onboard :: "service_env \<Rightarrow> string \<Rightarrow> provider_profile \<Rightarrow> (service_db, string \<times> bool \<times> bool) prog" where
  "Onboard e userID req =
     bind (require (sv_uuid e userID \<noteq> None) (Http 401 ''sign in again to create a provider profile'')) (\<lambda>_.
     bind (require (profile_complete req) missing_profile) (\<lambda>_.
     let providerType = normalizeProviderType (pf_type req) in
     bind (require (providerType \<noteq> []) (Http 422 ''choose the provider type that best describes your work'')) (\<lambda>_.
     bind (require (\<not> (providerType = ''other'' \<and> trim_space (pf_type_other req) = [])) (Http 422 ''describe the products or services you intend to offer'')) (\<lambda>_.
     bind (transaction_or server_error (Http 500 ''could not finish provider onboarding'') (
       bind (map_err onboard_error (insert_provider (new_provider e userID req))) (\<lambda>_.
       bind (if pf_driver req then or_else (stmt (\<lambda>d t. Inr ((), d\<lparr>providers := upd (\<lambda>p. pv_id p = sv_id e) (\<lambda>p. p\<lparr>pv_driver := True\<rparr>) (providers d)\<rparr>)))
           (Http 500 ''Could not save driver verification requirements.'') else ret ()) (\<lambda>_.
       bind (or_else (stmt (\<lambda>d t. Inr ((), d\<lparr>provider_members := provider_members d @ [\<lparr>vm_provider = sv_id e, vm_user = userID, vm_role = ''owner'', vm_active = True\<rparr>]\<rparr>)))
         (Http 500 ''could not assign provider account owner'')) (\<lambda>_.
       bind (or_else (log_activity (sv_id e) ''provider_onboarded'') (Http 500 ''could not record provider onboarding'')) (\<lambda>_.
       ret (Commit ()))))))) (\<lambda>_.
     let (products, services) = providerTypeCapabilities providerType in ret (sv_id e, products, services))))))"

text \<open>\<open>queueProviderActivity\<close>: a record for the provider and a mail to its owner, or to the first member; failures are ignored.\<close>

definition provider_contact :: "string \<Rightarrow> service_db \<Rightarrow> string option" where
  "provider_contact providerID d = (let ms = filter (\<lambda>m. vm_provider m = providerID \<and> vm_active m) (provider_members d)
     in map_option vm_user (case find (\<lambda>m. vm_role m = ''owner'') ms of Some m \<Rightarrow> Some m | None \<Rightarrow> (case ms of [] \<Rightarrow> None | m # _ \<Rightarrow> Some m)))"

definition note_mail :: "string \<Rightarrow> string \<Rightarrow> (service_db, unit) prog" where
  "note_mail user key = stmt (\<lambda>d t. Inr ((), if key \<in> snd ` set (service_mails d) then d else d\<lparr>service_mails := service_mails d @ [(user, key)]\<rparr>))"

definition queueProviderActivity :: "string \<Rightarrow> string \<Rightarrow> string \<Rightarrow> (service_db, unit) prog" where
  "queueProviderActivity providerID eventType key =
     bind (ignore (log_activity providerID eventType)) (\<lambda>_.
     bind (attempt (query (\<lambda>d t. row (provider_contact providerID d)))) (\<lambda>r. case r of
       Inl _ \<Rightarrow> ret () | Inr user \<Rightarrow> ignore (note_mail user key)))"

section \<open>Verification of providers\<close>

definition driverDocument :: "string \<Rightarrow> bool" where
  "driverDocument kind = (kind = ''drivers_license'' \<or> kind = ''driver_vehicle'' \<or> kind = ''driver_plate'')"

definition manages :: "string \<Rightarrow> (service_db, string) prog" where
  "manages userID = bind (attempt (providerForUser userID)) (\<lambda>r. case r of
     Inl _ \<Rightarrow> fail forbid
   | Inr (providerID, role) \<Rightarrow> bind (require (role = ''owner'' \<or> role = ''manager'') forbid) (\<lambda>_. ret providerID))"

definition UpdateMyProvider :: "service_env \<Rightarrow> string \<Rightarrow> provider_profile \<Rightarrow> (service_db, unit) prog" where
  "UpdateMyProvider e userID req =
     bind (manages userID) (\<lambda>providerID.
     bind (require (profile_complete req) missing_profile) (\<lambda>_.
     bind (require (pf_logo req = [] \<or> validProviderAssetURL (pf_logo req)) (Http 422 ''logo_url must use approved HTTPS storage'')) (\<lambda>_.
     bind (map_err policy_error (stmt (\<lambda>d t. Inr (cnt (\<lambda>p. pv_id p = providerID) (providers d), d\<lparr>providers := upd (\<lambda>p. pv_id p = providerID)
       (\<lambda>p. p\<lparr>pv_name := trim_space (pf_name req), pv_description := trim_space (pf_description req), pv_email := trim_space (pf_email req),
         pv_phone := trim_space (pf_phone req), pv_website := trim_space (pf_website req), pv_address := trim_space (pf_address req),
         pv_city := trim_space (pf_city req), pv_state := trim_space (pf_state req), pv_country := or_NG (to_upper (trim_space (pf_country req))),
         pv_logo := trim_space (pf_logo req)\<rparr>) (providers d)\<rparr>)))) (\<lambda>affected.
     require (affected \<noteq> 0) not_found))))"

definition AddVerificationDocument :: "service_env \<Rightarrow> string \<Rightarrow> string \<Rightarrow> string \<Rightarrow> (service_db, string) prog" where
  "AddVerificationDocument e userID kind url =
     bind (manages userID) (\<lambda>providerID.
     bind (require (trim_space kind \<noteq> [] \<and> validProviderAssetURL url) (Http 422 ''document_type and an approved document_url are required'')) (\<lambda>_.
     let kind = to_lower (trim_space kind) in
     bind (if driverDocument kind then (case sv_freeze e providerID url of Inl x \<Rightarrow> fail x | Inr u \<Rightarrow> ret u) else ret url) (\<lambda>url.
     bind (or_else (stmt (\<lambda>d t. if list_ex (\<lambda>x. dc_id x = sv_id e) (documents d) then Inl (Constraint ''provider_verification_documents_pkey'')
       else Inr ((), d\<lparr>documents := documents d @ [\<lparr>dc_id = sv_id e, dc_provider = providerID, dc_type = trim_space kind, dc_url = trim_space url,
         dc_status = ''pending'', dc_notes = []\<rparr>]\<rparr>))) server_error) (\<lambda>_. ret (sv_id e)))))"

definition driver_documents_approved :: "string \<Rightarrow> service_db \<Rightarrow> bool" where
  "driver_documents_approved providerID d = list_all (\<lambda>kind. list_ex (\<lambda>x. dc_provider x = providerID \<and> dc_status x = ''approved'' \<and> dc_type x = kind) (documents d))
     [''drivers_license'', ''driver_vehicle'', ''driver_plate'']"

text \<open>\<open>$1::uuid\<close> of a text that is no uuid is an error of the statement; int parameters are int4.\<close>

definition cast_id :: "service_env \<Rightarrow> string \<Rightarrow> err + string" where
  "cast_id e s = (case sv_uuid e s of None \<Rightarrow> Inl (Msg ''invalid input syntax for type uuid'') | Some i \<Rightarrow> Inr i)"

definition with_id :: "service_env \<Rightarrow> string \<Rightarrow> (string \<Rightarrow> err + 'a) \<Rightarrow> err + 'a" where
  "with_id e s f = (case cast_id e s of Inl x \<Rightarrow> Inl x | Inr i \<Rightarrow> f i)"

definition with_int4 :: "int \<Rightarrow> err + 'a \<Rightarrow> err + 'a" where
  "with_int4 n r = (if \<bar>n\<bar> \<le> 2147483647 then r else Inl (Msg ''value out of range for int4''))"

section \<open>Listings and their triggers\<close>

definition driver_text :: "listing_content \<Rightarrow> string" where
  "driver_text c = lc_category c @ '' '' @ lc_title c"

definition driver_papers_missing :: err where
  "driver_papers_missing = Constraint ''Driver verification requires approved clear licence, vehicle and plate-number photos before approval.''"

text \<open>Trigger \<open>listing_driver_documents\<close>: an approved driver listing needs the papers.\<close>

definition listing_papers :: "service_env \<Rightarrow> service_db \<Rightarrow> listing_row \<Rightarrow> err option" where
  "listing_papers e d l = (if sl_status l = ''approved'' \<and> sv_driver e (driver_text (sl_content l)) \<and> \<not> driver_documents_approved (sl_provider l) d
     then Some driver_papers_missing else None)"

text \<open>Trigger \<open>provider_listing_review_baseline\<close>.\<close>

definition baseline :: "listing_row \<Rightarrow> listing_row \<Rightarrow> listing_row" where
  "baseline old new =
     (let changed = (sl_content new \<noteq> sl_content old);
          new = new\<lparr>sl_revision := sl_revision old + (if changed then 1 else 0), sl_snapshot := sl_snapshot old\<rparr>;
          new = (if sl_status old = ''approved'' \<and> sl_snapshot new = None then new\<lparr>sl_snapshot := Some (sl_content old)\<rparr> else new);
          new = (if sl_status old = ''approved'' \<and> changed then new\<lparr>sl_status := ''pending''\<rparr> else new);
          new = (if sl_status old = ''approved'' \<and> \<not> changed \<and> sl_status new = ''pending'' then new\<lparr>sl_status := ''approved'', sl_notes := sl_notes old\<rparr> else new)
      in if sl_status new = ''approved'' then new\<lparr>sl_snapshot := Some (sl_content new)\<rparr> else new)"

text \<open>\<open>UPDATE provider_listings SET ... WHERE id = i AND cond\<close>, with its triggers in the order they fire.\<close>

definition update_listing :: "service_env \<Rightarrow> string \<Rightarrow> (listing_row \<Rightarrow> bool) \<Rightarrow> (listing_row \<Rightarrow> listing_row) \<Rightarrow> service_db \<Rightarrow> int \<Rightarrow> err + (listing_row option \<times> service_db)" where
  "update_listing e i cond f d t = (case find (\<lambda>l. sl_id l = i \<and> cond l) (listings d) of
     None \<Rightarrow> Inr (None, d)
   | Some l \<Rightarrow> (case listing_papers e d (f l) of
       Some x \<Rightarrow> Inl x
     | None \<Rightarrow> let new = baseline l (f l) in
         (case sv_policy e d t (Some l) new of
            Some m \<Rightarrow> Inl (Constraint m)
          | None \<Rightarrow> Inr (Some new, d\<lparr>listings := upd (\<lambda>l. sl_id l = i \<and> cond l) (\<lambda>_. new) (listings d)\<rparr>))))"

text \<open>Trigger \<open>driver_document_revoked\<close>: without its papers a driver loses the approved listings and the presence.\<close>

definition revoke_driver :: "service_env \<Rightarrow> string \<Rightarrow> service_db \<Rightarrow> service_db" where
  "revoke_driver e providerID d = (if driver_documents_approved providerID d then d else
     d\<lparr>listings := upd (\<lambda>l. sl_provider l = providerID \<and> sl_status l = ''approved'' \<and> sv_driver e (driver_text (sl_content l)))
         (\<lambda>l. baseline l (l\<lparr>sl_status := ''suspended''\<rparr>)) (listings d),
       driver_presence := filter (\<lambda>p. p \<noteq> providerID) (driver_presence d)\<rparr>)"

definition review_document :: "service_env \<Rightarrow> string \<Rightarrow> string \<Rightarrow> string \<Rightarrow> string \<Rightarrow> service_db \<Rightarrow> nat \<times> service_db" where
  "review_document e providerID documentID status notes d =
     (let hit = (\<lambda>x. dc_id x = documentID \<and> dc_provider x = providerID);
          d' = d\<lparr>documents := upd hit (\<lambda>x. x\<lparr>dc_status := status, dc_notes := notes\<rparr>) (documents d)\<rparr>
      in (cnt hit (documents d), if list_ex (\<lambda>x. hit x \<and> driverDocument (dc_type x)) (documents d) then revoke_driver e providerID d' else d'))"

definition AdminReviewVerificationDocument :: "service_env \<Rightarrow> string \<Rightarrow> string \<Rightarrow> string \<Rightarrow> string \<Rightarrow> string \<Rightarrow> (service_db, unit) prog" where
  "AdminReviewVerificationDocument e adminID providerID documentID status notes =
     (let status = to_lower (trim_space status) in
     bind (require (status = ''approved'' \<or> status = ''rejected'') (Http 422 ''status must be approved or rejected'')) (\<lambda>_.
     bind (map_err policy_error (stmt (\<lambda>d t. with_id e adminID (\<lambda>_. with_id e documentID (\<lambda>doc. with_id e providerID (\<lambda>pv.
       Inr (review_document e pv doc status (trim_space notes) d))))))) (\<lambda>affected.
     require (affected \<noteq> 0) not_found)))"

section \<open>Listings of a provider\<close>

definition validListingType :: "string \<Rightarrow> bool" where
  "validListingType t = (t \<in> {''hotel'', ''short_let'', ''car_rental'', ''car_wash'', ''mechanic'', ''plumber'', ''carpenter'', ''fuel_station'', ''food_vendor'',
     ''artisan'', ''shop_rental'', ''property'', ''land''})"

definition directBookingType :: "string \<Rightarrow> bool" where
  "directBookingType t = (t \<in> {''hotel'', ''short_let'', ''car_rental'', ''car_wash'', ''mechanic'', ''plumber'', ''carpenter'', ''fuel_station'', ''food_vendor'',
     ''artisan''})"

text \<open>\<open>len([]rune(s))\<close> of a UTF-8 text: the bytes that do not continue a rune.\<close>

definition rune_count :: "string \<Rightarrow> nat" where
  "rune_count s = length (filter (\<lambda>c. (of_char c :: nat) div 64 \<noteq> 2) s)"

definition pricing_problem :: "listing_content \<Rightarrow> string option" where
  "pricing_problem req = (case map_of (lc_attributes req) ''price_mode'' of
     None \<Rightarrow> None
   | Some mode \<Rightarrow>
       if mode = JStr ''fixed'' then (if lc_price req = None then Some ''enter the set price'' else None)
       else if mode = JStr ''from'' then (case lc_price req of None \<Rightarrow> Some ''enter a starting price greater than zero''
         | Some p \<Rightarrow> if f_le p (f_of_int 0) then Some ''enter a starting price greater than zero'' else None)
       else if mode = JStr ''quote'' then (if lc_price req \<noteq> None then Some ''leave the price empty when the job needs a quote'' else None)
       else Some ''choose fixed, from, or quote pricing'')"

definition notes_problem :: "listing_content \<Rightarrow> string option" where
  "notes_problem req = (case map_of (lc_attributes req) ''price_notes'' of
     None \<Rightarrow> None
   | Some (JStr text) \<Rightarrow> if rune_count text > 500 then Some ''price notes must be text of at most 500 characters'' else None
   | Some _ \<Rightarrow> Some ''price notes must be text of at most 500 characters'')"

definition location_problem :: "listing_content \<Rightarrow> string option" where
  "location_problem req = (case (lc_latitude req, lc_longitude req) of
     (Some lat, Some lon) \<Rightarrow> if f_lt lat (f_of_int (- 90)) \<or> f_lt (f_of_int 90) lat \<or> f_lt lon (f_of_int (- 180)) \<or> f_lt (f_of_int 180) lon
        then Some ''invalid service coordinates'' else None
   | (None, None) \<Rightarrow> if directBookingType (to_lower (trim_space (lc_type req))) then Some ''capture the service location before saving this listing'' else None
   | _ \<Rightarrow> Some (if directBookingType (to_lower (trim_space (lc_type req))) then ''capture the service location before saving this listing''
        else ''latitude and longitude must be supplied together''))"

definition bad_image :: "string \<Rightarrow> bool" where
  "bad_image url = (\<not> has_prefix url ''https://'' \<and> \<not> has_prefix url ''/api/v1/public/images/view/'')"

definition bad_price :: "f64 option \<Rightarrow> bool" where
  "bad_price p = (case p of None \<Rightarrow> False | Some p \<Rightarrow> f_lt p (f_of_int 0) \<or> f_is_nan p \<or> f_is_inf p)"

definition bad_radius :: "f64 option \<Rightarrow> bool" where
  "bad_radius r = (case r of None \<Rightarrow> False | Some r \<Rightarrow> f_le r (f_of_int 0) \<or> f_lt (f_of_int 500) r)"

definition first_some :: "'a option list \<Rightarrow> 'a option" where
  "first_some xs = (case filter (\<lambda>x. x \<noteq> None) xs of [] \<Rightarrow> None | x # _ \<Rightarrow> x)"

definition problem_if :: "bool \<Rightarrow> string \<Rightarrow> string option" where
  "problem_if b m = (if b then Some m else None)"

definition validateListing :: "listing_content \<Rightarrow> string option" where
  "validateListing req = first_some
     [problem_if (\<not> validListingType (to_lower (trim_space (lc_type req)))) ''unsupported listing_type'',
      problem_if (trim_space (lc_title req) = [] \<or> trim_space (lc_description req) = [] \<or> trim_space (lc_city req) = []) ''title, description, and city are required'',
      problem_if (lc_media req = []) ''at least one listing image is required'',
      problem_if (length (lc_media req) > 20) ''a listing can have at most 20 images'',
      problem_if (list_ex bad_image (lc_media req)) ''listing images must use approved HTTPS storage'',
      problem_if (bad_price (lc_price req)) ''price must be a valid nonnegative amount'',
      pricing_problem req, notes_problem req, location_problem req,
      problem_if (bad_radius (lc_radius req)) ''service_radius_km must be between 0 and 500'']"

definition validated :: "listing_content \<Rightarrow> (service_db, unit) prog" where
  "validated req = (case validateListing req of None \<Rightarrow> ret () | Some m \<Rightarrow> fail (Http 422 m))"

text \<open>The columns \<open>CreateListing\<close> and \<open>UpdateListing\<close> write.\<close>

definition or_NGN :: "string \<Rightarrow> string" where
  "or_NGN s = (if s = [] then ''NGN'' else s)"

definition listing_columns :: "listing_content \<Rightarrow> listing_content" where
  "listing_columns req = req\<lparr>lc_type := to_lower (trim_space (lc_type req)), lc_title := trim_space (lc_title req), lc_description := trim_space (lc_description req),
     lc_category := trim_space (lc_category req), lc_email := trim_space (lc_email req), lc_phone := trim_space (lc_phone req), lc_address := trim_space (lc_address req),
     lc_city := trim_space (lc_city req), lc_state := trim_space (lc_state req), lc_country := or_NG (to_upper (trim_space (lc_country req))),
     lc_currency := or_NGN (to_upper (trim_space (lc_currency req))), lc_unit := trim_space (lc_unit req), lc_capacity := max 1 (lc_capacity req)\<rparr>"

definition listing_count :: "string \<Rightarrow> service_db \<Rightarrow> int" where
  "listing_count providerID d = int (cnt (\<lambda>l. sl_provider l = providerID \<and> sl_status l \<noteq> ''archived'') (listings d)) +
     int (cnt (\<lambda>p. fst p = providerID \<and> snd p \<noteq> ''archived'') (provider_products d))"

definition new_listing :: "service_env \<Rightarrow> string \<Rightarrow> listing_content \<Rightarrow> listing_row" where
  "new_listing e providerID c = \<lparr>sl_id = sv_id e, sl_provider = providerID, sl_content = c, sl_status = ''draft'', sl_revision = 0, sl_snapshot = None, sl_notes = [], sl_published = None\<rparr>"

definition add_listing :: "service_env \<Rightarrow> string \<Rightarrow> listing_content \<Rightarrow> service_db \<Rightarrow> int \<Rightarrow> err + (unit \<times> service_db)" where
  "add_listing e providerID req d t = (case sv_store e (listing_columns req) of Inl x \<Rightarrow> Inl x | Inr c \<Rightarrow>
     (case sv_policy e d t None (new_listing e providerID c) of Some m \<Rightarrow> Inl (Constraint m) | None \<Rightarrow>
      if list_ex (\<lambda>x. sl_id x = sv_id e) (listings d) then Inl (Constraint ''provider_listings_pkey'')
      else Inr ((), d\<lparr>listings := listings d @ [new_listing e providerID c]\<rparr>)))"

definition insert_listing :: "service_env \<Rightarrow> string \<Rightarrow> listing_content \<Rightarrow> (service_db, unit) prog" where
  "insert_listing e providerID req = stmt (add_listing e providerID req)"

definition create_error :: "err \<Rightarrow> err" where
  "create_error x = (case providerCapacityError x of Some y \<Rightarrow> y | None \<Rightarrow> Http 500 ''could not create listing'')"

definition no_plan :: "string \<Rightarrow> err \<Rightarrow> err" where
  "no_plan m x = (if x = NoRows then Http 402 m else server_error)"

definition CreateListing :: "service_env \<Rightarrow> string \<Rightarrow> listing_content \<Rightarrow> (service_db, string) prog" where
  "CreateListing e userID req =
     bind (or_else (providerForUser userID) (Http 403 ''provider access required'')) (\<lambda>(providerID, _).
     bind (or_else (providerCapabilities providerID) server_error) (\<lambda>(_, services).
     bind (require services (Http 403 ''this provider profile is registered for products, not service listings'')) (\<lambda>_.
     bind (validated req) (\<lambda>_.
     bind (map_err (no_plan ''an active provider subscription is required to create listings'') (providerListingLimit e providerID)) (\<lambda>limit.
     bind (or_else (query (\<lambda>d t. Inr (listing_count providerID d))) server_error) (\<lambda>count.
     bind (require (\<not> limit \<le> count) (Http 409 ''the active subscription plan listing limit has been reached'')) (\<lambda>_.
     bind (map_err create_error (insert_listing e providerID req)) (\<lambda>_. ret (sv_id e)))))))))"

definition change_row :: "service_env \<Rightarrow> string \<Rightarrow> (listing_row \<Rightarrow> bool) \<Rightarrow> (listing_row \<Rightarrow> err + listing_row) \<Rightarrow> service_db \<Rightarrow> int \<Rightarrow> err + (listing_row option \<times> service_db)" where
  "change_row e listingID cond f d t = with_id e listingID (\<lambda>i.
     case find (\<lambda>l. sl_id l = i \<and> cond l) (listings d) of None \<Rightarrow> Inr (None, d) | Some l \<Rightarrow>
       (case f l of Inl x \<Rightarrow> Inl x | Inr l' \<Rightarrow> update_listing e i cond (\<lambda>_. l') d t))"

definition change_listing :: "service_env \<Rightarrow> string \<Rightarrow> (listing_row \<Rightarrow> bool) \<Rightarrow> (listing_row \<Rightarrow> err + listing_row) \<Rightarrow> (service_db, listing_row option) prog" where
  "change_listing e listingID cond f = map_err policy_error (stmt (change_row e listingID cond f))"

definition UpdateListing :: "service_env \<Rightarrow> string \<Rightarrow> string \<Rightarrow> listing_content \<Rightarrow> (service_db, unit) prog" where
  "UpdateListing e userID listingID req =
     bind (or_else (providerForUser userID) forbid) (\<lambda>(providerID, _).
     bind (validated req) (\<lambda>_.
     bind (change_listing e listingID (\<lambda>l. sl_provider l = providerID \<and> sl_status l \<noteq> ''archived'')
       (\<lambda>l. case sv_store e (listing_columns req) of Inl x \<Rightarrow> Inl x
          | Inr c \<Rightarrow> Inr (l\<lparr>sl_content := c, sl_status := if sl_status l \<in> {''pending'', ''approved''} then ''pending'' else sl_status l, sl_notes := []\<rparr>))) (\<lambda>hit.
     require (hit \<noteq> None) not_found)))"

definition ArchiveListing :: "service_env \<Rightarrow> string \<Rightarrow> string \<Rightarrow> (service_db, unit) prog" where
  "ArchiveListing e userID listingID =
     bind (or_else (providerForUser userID) forbid) (\<lambda>(providerID, _).
     bind (change_listing e listingID (\<lambda>l. sl_provider l = providerID \<and> sl_status l \<noteq> ''archived'') (\<lambda>l. Inr (l\<lparr>sl_status := ''archived''\<rparr>))) (\<lambda>hit.
     require (hit \<noteq> None) not_found))"

definition queueAdminMarketplaceEmail :: "string \<Rightarrow> (service_db, unit) prog" where
  "queueAdminMarketplaceEmail key =
     bind (attempt (query (\<lambda>d t. Inr (service_admins d)))) (\<lambda>r. case r of
       Inl _ \<Rightarrow> ret ()
     | Inr admins \<Rightarrow> for_each (\<lambda>email. ignore (note_mail email (key @ '':'' @ to_lower email))) admins)"

definition SubmitListing :: "service_env \<Rightarrow> string \<Rightarrow> string \<Rightarrow> (service_db, unit) prog" where
  "SubmitListing e userID listingID =
     bind (or_else (providerForUser userID) forbid) (\<lambda>(providerID, _).
     bind (requirePublishingEligibility providerID) (\<lambda>_.
     bind (map_err (no_plan ''an active provider subscription is required to publish listings'') (providerListingLimit e providerID)) (\<lambda>_.
     bind (change_listing e listingID (\<lambda>l. sl_provider l = providerID \<and> sl_status l \<in> {''draft'', ''rejected''} \<and>
         (\<not> directBookingType (lc_type (sl_content l)) \<or> lc_latitude (sl_content l) \<noteq> None \<and> lc_longitude (sl_content l) \<noteq> None))
       (\<lambda>l. Inr (l\<lparr>sl_status := ''pending''\<rparr>))) (\<lambda>hit.
     bind (require (hit \<noteq> None) (Http 409 ''listing cannot be submitted; service listings require a captured location'')) (\<lambda>_.
     bind (attempt (query (\<lambda>d t. with_id e listingID (\<lambda>i. row (find (\<lambda>l. sl_id l = i) (listings d)))))) (\<lambda>r. case r of
       Inl _ \<Rightarrow> ret () | Inr _ \<Rightarrow> queueAdminMarketplaceEmail (''listing-submitted:'' @ listingID)))))))"

section \<open>Decisions of the staff\<close>

text \<open>\<open>AdminVerifyProvider\<close>, with the trigger \<open>provider_driver_documents\<close>.\<close>

definition decision :: "string \<Rightarrow> bool" where
  "decision status = (status = ''approved'' \<or> status = ''rejected'' \<or> status = ''suspended'')"

definition needs_driver_papers :: "service_env \<Rightarrow> provider_row \<Rightarrow> service_db \<Rightarrow> bool" where
  "needs_driver_papers e p d = (pv_driver p \<or> list_ex (\<lambda>l. sl_provider l = pv_id p \<and> sv_driver e (driver_text (sl_content l))) (listings d))"

definition set_verification :: "service_env \<Rightarrow> string \<Rightarrow> string \<Rightarrow> string \<Rightarrow> service_db \<Rightarrow> err + (nat \<times> service_db)" where
  "set_verification e i status notes d =
     (let hit = (\<lambda>p. pv_id p = i \<and> (status \<noteq> ''approved'' \<or> list_ex (\<lambda>x. dc_provider x = i \<and> dc_status x = ''approved'') (documents d)))
      in if status = ''approved'' \<and> list_ex (\<lambda>p. hit p \<and> needs_driver_papers e p d) (providers d) \<and> \<not> driver_documents_approved i d then Inl driver_papers_missing
         else Inr (cnt hit (providers d), d\<lparr>providers := upd hit (\<lambda>p. p\<lparr>pv_verification := status, pv_notes := notes\<rparr>) (providers d)\<rparr>))"

definition AdminVerifyProvider :: "service_env \<Rightarrow> string \<Rightarrow> string \<Rightarrow> string \<Rightarrow> string \<Rightarrow> (service_db, unit) prog" where
  "AdminVerifyProvider e adminID providerID status notes =
     (let status = to_lower (trim_space status) in
     bind (require (decision status) (Http 400 ''invalid verification status'')) (\<lambda>_.
     bind (map_err policy_error (stmt (\<lambda>d t. with_id e adminID (\<lambda>_. with_id e providerID (\<lambda>i. set_verification e i status (trim_space notes) d))))) (\<lambda>affected.
     bind (require (affected \<noteq> 0) (if status = ''approved'' then Http 409 ''approve at least one verification document before approving the provider'' else not_found)) (\<lambda>_.
     queueProviderActivity providerID (''provider_'' @ status) (''provider-verification:'' @ providerID @ '':'' @ status)))))"

text \<open>\<open>AdminModerateListing\<close>: an approval may name the content revision the admin has read.\<close>

definition moderable :: "string \<Rightarrow> int option \<Rightarrow> service_db \<Rightarrow> listing_row \<Rightarrow> bool" where
  "moderable status expected d l = (sl_status l \<noteq> ''archived'' \<and> (status \<noteq> ''approved'' \<or> verified (sl_provider l) d) \<and>
     (case expected of None \<Rightarrow> True | Some r \<Rightarrow> sl_revision l = r))"

definition moderate_row :: "service_env \<Rightarrow> string \<Rightarrow> string \<Rightarrow> string \<Rightarrow> string \<Rightarrow> int option \<Rightarrow> service_db \<Rightarrow> int \<Rightarrow> err + (listing_row \<times> service_db)" where
  "moderate_row e adminID listingID status notes expected d t = with_id e adminID (\<lambda>_. with_id e listingID (\<lambda>i.
     case update_listing e i (moderable status expected d) (\<lambda>l. l\<lparr>sl_status := status, sl_notes := notes,
         sl_published := if status = ''approved'' \<and> sl_published l = None then Some t else sl_published l\<rparr>) d t of
       Inl x \<Rightarrow> Inl x | Inr (None, d') \<Rightarrow> Inl NoRows | Inr (Some l, d') \<Rightarrow> Inr (l, d')))"

definition moderate_listing :: "service_env \<Rightarrow> string \<Rightarrow> string \<Rightarrow> string \<Rightarrow> string \<Rightarrow> int option \<Rightarrow> (service_db, listing_row) prog" where
  "moderate_listing e adminID listingID status notes expected = stmt (moderate_row e adminID listingID status notes expected)"

definition listing_exists :: "service_env \<Rightarrow> string \<Rightarrow> (service_db, bool) prog" where
  "listing_exists e listingID = query (\<lambda>d t. with_id e listingID (\<lambda>i. Inr (list_ex (\<lambda>l. sl_id l = i \<and> sl_status l \<noteq> ''archived'') (listings d))))"

definition moderation_missed :: "service_env \<Rightarrow> string \<Rightarrow> (service_db, listing_row) prog" where
  "moderation_missed e listingID = bind (attempt (listing_exists e listingID)) (\<lambda>r. if r = Inr True
     then fail (Http 409 ''This listing changed after you opened it. Reload listings and review the latest changes before approving.'') else fail not_found)"

definition may_publish :: "service_env \<Rightarrow> string \<Rightarrow> (service_db, unit) prog" where
  "may_publish e listingID = bind (or_else (query (\<lambda>d t. with_id e listingID (\<lambda>i. row (map_option sl_provider (find (\<lambda>l. sl_id l = i) (listings d)))))) not_found)
     requirePublishingEligibility"

definition AdminModerateListing :: "service_env \<Rightarrow> string \<Rightarrow> string \<Rightarrow> string \<Rightarrow> string \<Rightarrow> int option \<Rightarrow> (service_db, string) prog" where
  "AdminModerateListing e adminID listingID status notes expected =
     (let status = to_lower (trim_space status) in
     bind (require (decision status) (Http 400 ''invalid moderation status'')) (\<lambda>_.
     bind (if status = ''approved'' then may_publish e listingID else ret ()) (\<lambda>_.
     bind (attempt (moderate_listing e adminID listingID status (trim_space notes) expected)) (\<lambda>r.
     bind (case r of Inr l \<Rightarrow> ret l | Inl x \<Rightarrow> if x = NoRows then moderation_missed e listingID else fail (policy_error x)) (\<lambda>l.
     bind (queueProviderActivity (sl_provider l) (''listing_'' @ sl_status l) (''listing-moderation:'' @ listingID @ '':'' @ sl_status l)) (\<lambda>_.
     ret (sl_status l)))))))"

end
