(* ===== verification/Bookings.thy ===== *)
theory Bookings
  imports Services
begin

text \<open>
  Requests of customers to service providers (provider_marketplace_controller.go,
  provider_conversation_controller.go, business_contact_access.go): contact details, availability
  slots, booking requests and the chat they open, their acceptance and completion, reviews.

  \<open>CreateRequest\<close> decides and writes in one transaction whose slot statement both tests and takes the
  seats, so transactions are atomic here. The branch of a request that a concurrent copy
  inserted first is modelled too, although atomic transactions never reach it.
\<close>

section \<open>Who may deal with a listing\<close>

definition market_open :: "listing_content \<Rightarrow> service_db \<Rightarrow> bool" where
  "market_open c d = list_ex (\<lambda>m. sm_country m = lc_country c \<and> sm_currency m = lc_currency c \<and> sm_active m \<and> ''flutterwave'' \<in> set (sm_gateways m)) (service_markets d)"

definition open_listing :: "string \<Rightarrow> service_db \<Rightarrow> listing_row option" where
  "open_listing i d = find (\<lambda>l. sl_id l = i \<and> sl_status l = ''approved'' \<and> verified (sl_provider l) d \<and> market_open (sl_content l) d) (listings d)"

definition businessContactAccess :: "string \<Rightarrow> string \<Rightarrow> service_db \<Rightarrow> bool \<times> bool" where
  "businessContactAccess providerID userID d =
     (list_ex (\<lambda>p. pv_id p = providerID \<and> (pv_owner p = userID \<or> list_ex (\<lambda>m. vm_provider m = pv_id p \<and> vm_user m = userID \<and> vm_active m) (provider_members d))) (providers d),
      list_ex (\<lambda>p. pv_id p = providerID \<and> pv_active p \<and> list_ex (\<lambda>m. vm_provider m = pv_id p \<and> vm_user m = userID \<and> vm_active m \<and>
        (vm_role m = ''owner'' \<or> vm_role m = ''manager'')) (provider_members d)) (providers d))"

definition independentBusinessContact :: "string \<Rightarrow> string \<Rightarrow> (service_db, unit) prog" where
  "independentBusinessContact providerID userID =
     bind (or_else (query (\<lambda>d t. Inr (businessContactAccess providerID userID d))) server_error) (\<lambda>(own, _).
     require (\<not> own) (Http 403 ''You cannot message your own business. Manage your listing from the provider workspace.''))"

definition propertySafetyWarning :: string where
  "propertySafetyWarning = 
    ''Never pay a provider before you inspect and independently verify the property, its ownership, and the provider in person. Atlantic Express does not collect property or land payments.''"

definition contact_details :: "service_db \<Rightarrow> listing_row \<Rightarrow> string \<times> string" where
  "contact_details d l = (case find (\<lambda>p. pv_id p = sl_provider l) (providers d) of None \<Rightarrow> ([], []) | Some p \<Rightarrow>
     (if lc_email (sl_content l) = [] then pv_email p else lc_email (sl_content l), if lc_phone (sl_content l) = [] then pv_phone p else lc_phone (sl_content l)))"

definition requires_ack :: "listing_row \<Rightarrow> bool" where
  "requires_ack l = (let lt = lc_type (sl_content l) in lt = ''property'' \<or> lt = ''land'' \<or> lt = ''shop_rental'')"

definition RevealContact :: "service_env \<Rightarrow> string \<Rightarrow> string \<Rightarrow> bool \<Rightarrow> (service_db, string \<times> string) prog" where
  "RevealContact e userID listingID ack =
     bind (map_err (\<lambda>x. if x = NoRows then Http 402 ''provider contact is unavailable until the provider is eligible'' else server_error)
       (query (\<lambda>d t. with_id e listingID (\<lambda>i. row (map_option (\<lambda>l. (l, contact_details d l)) (open_listing i d)))))) (\<lambda>(l, contact).
     bind (require (\<not> (requires_ack l \<and> \<not> ack)) (Http 422 propertySafetyWarning)) (\<lambda>_.
     bind (or_else (stmt (\<lambda>d t. with_id e listingID (\<lambda>i. Inr ((), d\<lparr>reveals := reveals d @ [(i, userID, ack)]\<rparr>)))) server_error) (\<lambda>_.
     ret contact)))"

section \<open>Availability\<close>

record slot_request =
  sq_starts :: "int option"
  sq_ends :: "int option"
  sq_capacity :: int
  sq_status :: string

text \<open>A slot of the same listing and times keeps the seats that are taken, as far as the new capacity has room.\<close>

definition resize_slot :: "int \<Rightarrow> string \<Rightarrow> slot_row \<Rightarrow> slot_row" where
  "resize_slot capacity status s = s\<lparr>st_capacity := capacity, st_remaining := max (capacity - (st_capacity s - st_remaining s)) 0, st_status := status\<rparr>"

definition upsert_slot :: "service_env \<Rightarrow> string \<Rightarrow> string \<Rightarrow> int \<Rightarrow> int \<Rightarrow> int \<Rightarrow> string \<Rightarrow> (service_db, string) prog" where
  "upsert_slot e listingID providerID starts ends capacity status = stmt (\<lambda>d t. with_id e listingID (\<lambda>i. with_int4 capacity (
     if \<not> list_ex (\<lambda>l. sl_id l = i \<and> sl_provider l = providerID) (listings d) then Inl NoRows
     else (case find (\<lambda>s. st_listing s = i \<and> st_starts s = starts \<and> st_ends s = ends) (slots d) of
       Some s \<Rightarrow> Inr (st_id s, d\<lparr>slots := upd (\<lambda>s. st_listing s = i \<and> st_starts s = starts \<and> st_ends s = ends) (resize_slot capacity status) (slots d)\<rparr>)
     | None \<Rightarrow> if list_ex (\<lambda>s. st_id s = sv_id e) (slots d) then Inl (Constraint ''provider_availability_slots_pkey'')
         else Inr (sv_id e, d\<lparr>slots := slots d @ [\<lparr>st_id = sv_id e, st_listing = i, st_starts = starts, st_ends = ends, st_capacity = capacity,
           st_remaining = capacity, st_status = status\<rparr>]\<rparr>)))))"

definition UpsertAvailability :: "service_env \<Rightarrow> string \<Rightarrow> string \<Rightarrow> slot_request \<Rightarrow> (service_db, string) prog" where
  "UpsertAvailability e userID listingID req =
     bind (or_else (providerForUser userID) forbid) (\<lambda>(providerID, _).
     case (sq_starts req, sq_ends req) of
       (Some starts, Some ends) \<Rightarrow>
         bind (require (starts < ends) (Http 400 ''valid starts_at and ends_at are required'')) (\<lambda>_.
         let status = (if sq_status req = [] then ''open'' else sq_status req) in
         bind (require (status = ''open'' \<or> status = ''blocked'' \<or> status = ''closed'') (Http 422 ''invalid availability status'')) (\<lambda>_.
         map_err (\<lambda>x. if x = NoRows then not_found else server_error) (upsert_slot e listingID providerID starts ends (max 1 (sq_capacity req)) status)))
     | _ \<Rightarrow> fail (Http 400 ''valid starts_at and ends_at are required''))"

section \<open>Booking requests\<close>

record booking_request =
  bq_type :: string
  bq_slot :: string
  bq_message :: string
  bq_key :: string
  bq_party :: int

datatype booking = Booked string string | Replayed string string

definition prior_request :: "string \<Rightarrow> string \<Rightarrow> service_db \<Rightarrow> err + booking" where
  "prior_request userID key d = row (map_option (\<lambda>r. Replayed (rq_id r) (rq_status r)) (find (\<lambda>r. rq_user r = userID \<and> rq_key r = key) (requests d)))"

definition type_fits :: "string \<Rightarrow> string \<Rightarrow> (service_db, unit) prog" where
  "type_fits lt wanted = (if directBookingType lt
     then require (wanted = ''booking'' \<or> wanted = ''appointment'') (Http 422 ''this service accepts booking or appointment requests'')
     else require (wanted = ''inspection'' \<or> wanted = ''enquiry'') (Http 422 ''property, land, and shop listings are enquiry-only''))"

definition seat_free :: "string \<Rightarrow> string \<Rightarrow> int \<Rightarrow> slot_row \<Rightarrow> bool" where
  "seat_free i listing party s = (st_id s = i \<and> st_listing s = listing \<and> st_status s = ''open'' \<and> party \<le> st_remaining s)"

text \<open>The statement tests the seats and takes them.\<close>

definition take_seats :: "service_env \<Rightarrow> string \<Rightarrow> string \<Rightarrow> int \<Rightarrow> (service_db, nat) prog" where
  "take_seats e slotID listingID party = stmt (\<lambda>d t. with_id e slotID (\<lambda>i. with_id e listingID (\<lambda>l. with_int4 party (
     Inr (cnt (seat_free i l party) (slots d),
          d\<lparr>slots := upd (seat_free i l party) (\<lambda>s. s\<lparr>st_remaining := st_remaining s - party\<rparr>) (slots d)\<rparr>)))))"

definition reserve_slot :: "service_env \<Rightarrow> string \<Rightarrow> string \<Rightarrow> int \<Rightarrow> (service_db, string option) prog" where
  "reserve_slot e slotID listingID party =
     (if trim_space slotID = [] then ret None
      else bind (or_else (take_seats e slotID listingID party) server_error) (\<lambda>affected.
           bind (require (affected \<noteq> 0) (Http 409 ''selected availability is no longer available'')) (\<lambda>_. ret (Some slotID))))"

definition cast_slot :: "service_env \<Rightarrow> string option \<Rightarrow> err + string option" where
  "cast_slot e s = (case s of None \<Rightarrow> Inr None | Some s \<Rightarrow> (case cast_id e s of Inl x \<Rightarrow> Inl x | Inr i \<Rightarrow> Inr (Some i)))"

text \<open>\<open>INSERT ... ON CONFLICT(user_id,idempotency_key) DO NOTHING RETURNING id\<close>.\<close>

definition add_request :: "service_env \<Rightarrow> request_row \<Rightarrow> service_db \<Rightarrow> err + (string \<times> service_db)" where
  "add_request e r d = with_id e (rq_listing r) (\<lambda>l. case cast_slot e (rq_slot r) of Inl x \<Rightarrow> Inl x | Inr slot \<Rightarrow>
     with_int4 (rq_party r) (
     if list_ex (\<lambda>x. rq_user x = rq_user r \<and> rq_key x = rq_key r) (requests d) then Inl NoRows
     else if list_ex (\<lambda>x. rq_id x = rq_id r) (requests d) then Inl (Constraint ''provider_requests_pkey'')
     else Inr (rq_id r, d\<lparr>requests := requests d @ [r\<lparr>rq_listing := l, rq_slot := slot\<rparr>]\<rparr>)))"

definition insert_request :: "service_env \<Rightarrow> request_row \<Rightarrow> (service_db, string) prog" where
  "insert_request e r = stmt (\<lambda>d t. add_request e r d)"

text \<open>\<open>linkRequestConversation\<close>: one conversation per listing and customer, one thread per provider and
  customer (trigger \<open>provider_conversation_thread\<close>), one message per request.\<close>

definition thread_for :: "service_db \<Rightarrow> string \<Rightarrow> string \<Rightarrow> string \<Rightarrow> string" where
  "thread_for d providerID userID i = (case find (\<lambda>c. cv_provider c = providerID \<and> cv_user c = userID) (conversations d) of None \<Rightarrow> i | Some c \<Rightarrow> cv_thread c)"

definition link_conversation :: "service_env \<Rightarrow> string \<Rightarrow> (service_db, string) prog" where
  "link_conversation e requestID = stmt (\<lambda>d t. case find (\<lambda>r. rq_id r = requestID) (requests d) of
     None \<Rightarrow> Inl NoRows
   | Some r \<Rightarrow> (case find (\<lambda>c. cv_listing c = rq_listing r \<and> cv_user c = rq_user r) (conversations d) of
       Some c \<Rightarrow> Inr (cv_id c, d)
     | None \<Rightarrow> if list_ex (\<lambda>c. cv_id c = sv_conversation e) (conversations d) then Inl (Constraint ''provider_conversations_pkey'')
         else Inr (sv_conversation e, d\<lparr>conversations := conversations d @ [\<lparr>cv_id = sv_conversation e,
           cv_thread = thread_for d (rq_provider r) (rq_user r) (sv_conversation e), cv_listing = rq_listing r, cv_provider = rq_provider r, cv_user = rq_user r\<rparr>]\<rparr>)))"

definition link_message :: "string \<Rightarrow> string \<Rightarrow> (service_db, unit) prog" where
  "link_message requestID conversationID = stmt (\<lambda>d t. Inr ((), if requestID \<in> fst ` set (request_messages d) then d
     else d\<lparr>request_messages := request_messages d @ [(requestID, conversationID)]\<rparr>))"

definition linkRequestConversation :: "service_env \<Rightarrow> string \<Rightarrow> (service_db, string) prog" where
  "linkRequestConversation e requestID =
     bind (link_conversation e requestID) (\<lambda>conversationID.
     bind (link_message requestID conversationID) (\<lambda>_.
     query (\<lambda>d t. row (map_option cv_thread (find (\<lambda>c. cv_id c = conversationID) (conversations d))))))"

definition bookable :: "service_env \<Rightarrow> string \<Rightarrow> string \<Rightarrow> (service_db, listing_row) prog" where
  "bookable e userID listingID = or_else (query (\<lambda>d t. with_id e listingID (\<lambda>i. row (case open_listing i d of
     None \<Rightarrow> None | Some l \<Rightarrow> if userID \<in> fst ` set (service_users d) then Some l else None)))) not_found"

text \<open>The transaction of \<open>CreateRequest\<close> after the look-up of the key; \<open>None\<close> is the copy that came second.\<close>

definition place_request :: "service_env \<Rightarrow> string \<Rightarrow> string \<Rightarrow> booking_request \<Rightarrow> (service_db, (string \<times> booking) option outcome) prog" where
  "place_request e userID listingID req =
     (let party = max 1 (bq_party req); wanted = to_lower (trim_space (bq_type req)) in
     bind (bookable e userID listingID) (\<lambda>l.
     bind (independentBusinessContact (sl_provider l) userID) (\<lambda>_.
     bind (type_fits (lc_type (sl_content l)) wanted) (\<lambda>_.
     bind (reserve_slot e (bq_slot req) listingID party) (\<lambda>slot.
     bind (attempt (insert_request e \<lparr>rq_id = sv_id e, rq_listing = listingID, rq_provider = sl_provider l, rq_user = userID, rq_type = wanted,
       rq_slot = slot, rq_party = party, rq_message = trim_space (bq_message req), rq_status = ''pending'', rq_key = trim_space (bq_key req)\<rparr>)) (\<lambda>r. case r of
       Inl x \<Rightarrow> if x = NoRows then ret (Abandon None) else fail server_error
     | Inr requestID \<Rightarrow> bind (or_else (linkRequestConversation e requestID) server_error) (\<lambda>conversation.
         ret (Commit (Some (sl_provider l, Booked requestID conversation))))))))))"

definition book :: "service_env \<Rightarrow> string \<Rightarrow> string \<Rightarrow> booking_request \<Rightarrow> (service_db, (string \<times> booking) option) prog" where
  "book e userID listingID req = transaction_or server_error server_error (
     bind (attempt (query (\<lambda>d t. prior_request userID (trim_space (bq_key req)) d))) (\<lambda>r. case r of
       Inr b \<Rightarrow> ret (Abandon (Some ([], b)))
     | Inl x \<Rightarrow> bind (require (x = NoRows) server_error) (\<lambda>_. place_request e userID listingID req)))"

definition CreateRequest :: "service_env \<Rightarrow> string \<Rightarrow> string \<Rightarrow> booking_request \<Rightarrow> (service_db, booking) prog" where
  "CreateRequest e userID listingID req =
     bind (require (trim_space (bq_key req) \<noteq> []) (Http 400 ''idempotency_key is required'')) (\<lambda>_.
     bind (book e userID listingID req) (\<lambda>r. case r of
       None \<Rightarrow> or_else (query (\<lambda>d t. prior_request userID (trim_space (bq_key req)) d)) (Http 409 ''Conflict'')
     | Some (providerID, Booked requestID conversation) \<Rightarrow>
         bind (queueProviderActivity providerID ''request_created'' (''provider-request:'' @ requestID)) (\<lambda>_. ret (Booked requestID conversation))
     | Some (_, b) \<Rightarrow> ret b))"

section \<open>Acceptance, completion and reviews\<close>

definition request_step :: "string \<Rightarrow> string \<Rightarrow> bool" where
  "request_step old new = ((new = ''accepted'' \<or> new = ''rejected'') \<and> old = ''pending'' \<or> new = ''completed'' \<and> old = ''accepted'')"

definition move_request :: "service_env \<Rightarrow> string \<Rightarrow> string \<Rightarrow> string \<Rightarrow> (service_db, string \<times> string) prog" where
  "move_request e requestID providerID status = stmt (\<lambda>d t. with_id e requestID (\<lambda>i.
     case find (\<lambda>r. rq_id r = i \<and> rq_provider r = providerID \<and> request_step (rq_status r) status) (requests d) of
       None \<Rightarrow> Inl NoRows
     | Some r \<Rightarrow> Inr ((rq_user r, rq_listing r), d\<lparr>requests := upd (\<lambda>r. rq_id r = i \<and> rq_provider r = providerID \<and> request_step (rq_status r) status)
         (\<lambda>r. r\<lparr>rq_status := status\<rparr>) (requests d)\<rparr>)))"

definition service_notice :: "string \<Rightarrow> string \<Rightarrow> (service_db, unit) prog" where
  "service_notice user key = stmt (\<lambda>d t. Inr ((), if key \<in> snd ` set (service_notes d) then d else d\<lparr>service_notes := service_notes d @ [(user, key)]\<rparr>))"

definition UpdateProviderRequest :: "service_env \<Rightarrow> string \<Rightarrow> string \<Rightarrow> string \<Rightarrow> (service_db, unit) prog" where
  "UpdateProviderRequest e userID requestID status =
     bind (or_else (providerForUser userID) forbid) (\<lambda>(providerID, _).
     let status = to_lower (trim_space status) in
     bind (require (status = ''accepted'' \<or> status = ''rejected'' \<or> status = ''completed'') (Http 422 ''status must be accepted, rejected, or completed'')) (\<lambda>_.
     bind (map_err (\<lambda>x. if x = NoRows then Http 409 ''request status has changed; reload and try again'' else server_error)
       (move_request e requestID providerID status)) (\<lambda>(buyer, listing).
     bind (ignore (query (\<lambda>d t. row (find (\<lambda>l. sl_id l = listing) (listings d))))) (\<lambda>_.
     bind (ignore (service_notice buyer (''provider-request-status:'' @ requestID @ '':'' @ status))) (\<lambda>_.
     ignore (note_mail buyer (''provider-request-email:'' @ requestID @ '':'' @ status)))))))"

definition reviewable :: "string \<Rightarrow> string \<Rightarrow> string \<Rightarrow> service_db \<Rightarrow> request_row \<Rightarrow> bool" where
  "reviewable i listing userID d r = (rq_id r = i \<and> rq_listing r = listing \<and> rq_user r = userID \<and> rq_status r = ''completed'' \<and>
     \<not> list_ex (\<lambda>m. vm_provider m = rq_provider r \<and> vm_user m = userID \<and> vm_active m) (provider_members d))"

definition insert_review :: "service_env \<Rightarrow> string \<Rightarrow> service_review_row \<Rightarrow> (service_db, nat) prog" where
  "insert_review e requestID v = stmt (\<lambda>d t. with_id e requestID (\<lambda>i.
     if list_ex (\<lambda>x. sw_request x = i) (service_reviews d) then Inr (0, d)
     else Inr (1, d\<lparr>service_reviews := service_reviews d @ [v\<lparr>sw_request := i\<rparr>]\<rparr>)))"

definition change_review :: "service_env \<Rightarrow> string \<Rightarrow> service_review_row \<Rightarrow> (service_db, nat) prog" where
  "change_review e requestID v = stmt (\<lambda>d t. with_id e requestID (\<lambda>i.
     let hit = (\<lambda>x. sw_request x = i \<and> sw_listing x = sw_listing v \<and> sw_user x = sw_user v) in
     Inr (cnt hit (service_reviews d), d\<lparr>service_reviews := upd hit (\<lambda>x. x\<lparr>sw_rating := sw_rating v, sw_text := sw_text v\<rparr>) (service_reviews d)\<rparr>)))"

definition review_reward :: "string \<Rightarrow> string \<Rightarrow> (service_db, unit) prog" where
  "review_reward userID requestID = stmt (\<lambda>d t.
     let x = \<lparr>sx_user = userID, sx_amount = reviewRewardXP, sx_reason = ''provider_review'', sx_reference = ''provider-review-'' @ requestID\<rparr> in
     Inr ((), if list_ex (\<lambda>y. sx_user y = sx_user x \<and> sx_reason y = sx_reason x \<and> sx_reference y = sx_reference x) (service_xp d) then d
       else d\<lparr>service_xp := service_xp d @ [x]\<rparr>))"

definition write_review :: "service_env \<Rightarrow> string \<Rightarrow> service_review_row \<Rightarrow> (service_db, bool) prog" where
  "write_review e requestID v =
     bind (or_else (insert_review e requestID v) server_error) (\<lambda>inserted.
     bind (if inserted = 0 then bind (or_else (change_review e requestID v) forbid) (\<lambda>affected. require (affected \<noteq> 0) forbid)
       else or_else (review_reward (sw_user v) requestID) server_error) (\<lambda>_.
     bind (if inserted \<noteq> 0 then or_else (service_notice (sw_user v) (''service-review-xp:'' @ requestID)) server_error else ret ()) (\<lambda>_.
     ret (inserted \<noteq> 0))))"

definition UpsertListingReview :: "service_env \<Rightarrow> string \<Rightarrow> string \<Rightarrow> string \<Rightarrow> int \<Rightarrow> string \<Rightarrow> (service_db, int) prog" where
  "UpsertListingReview e userID listingID requestID rating text =
     bind (require (trim_space requestID \<noteq> []) (Http 400 ''request_id is required'')) (\<lambda>_.
     bind (require (1 \<le> rating \<and> rating \<le> 5) (Http 422 ''rating must be between 1 and 5'')) (\<lambda>_.
     bind (require (\<not> rune_count (trim_space text) > 1000) (Http 422 ''review_text must be 1000 characters or fewer'')) (\<lambda>_.
     bind (transaction_or errUnavailable server_error (
       bind (map_err (\<lambda>x. if x = NoRows then Http 403 ''a completed service request is required before reviewing'' else server_error)
         (query (\<lambda>d t. with_id e requestID (\<lambda>i. with_id e listingID (\<lambda>l. row (map_option rq_listing (find (reviewable i l userID d) (requests d)))))))) (\<lambda>listing.
       bind (write_review e requestID \<lparr>sw_request = requestID, sw_listing = listing, sw_user = userID, sw_rating = rating, sw_text = trim_space text\<rparr>) (\<lambda>created.
       ret (Commit created))))) (\<lambda>created.
     ret (if created then reviewRewardXP else 0)))))"

definition ReportListing :: "service_env \<Rightarrow> string \<Rightarrow> string \<Rightarrow> string \<Rightarrow> (service_db, unit) prog" where
  "ReportListing e userID listingID reason =
     bind (require (trim_space reason \<noteq> []) (Http 400 ''reason is required'')) (\<lambda>_.
     or_else (stmt (\<lambda>d t. with_id e listingID (\<lambda>i. if list_ex (\<lambda>l. sl_id l = i) (listings d)
       then Inr ((), d\<lparr>reports := reports d @ [(i, userID, trim_space reason)]\<rparr>) else Inl (Constraint ''provider_listing_reports_fkey'')))) server_error)"

end
