(* ===== verification/Service_Safety.thy ===== *)
theory Service_Safety
  imports Bookings
begin

text \<open>
  What the service marketplace promises, over every history of requests with every pattern of database
  faults: what the public sees of a listing is what an admin approved, seats are not given twice, and
  review rewards are earned.
\<close>

section \<open>Histories\<close>

datatype service_event =
    Onboarding service_env string provider_profile
  | ProfileChange service_env string provider_profile
  | DocumentUpload service_env string string string
  | DocumentReview service_env string string string string string
  | ProviderDecision service_env string string string string
  | ListingNew service_env string listing_content
  | ListingChange service_env string string listing_content
  | ListingArchived service_env string string
  | ListingSubmitted service_env string string
  | ListingDecision service_env string string string string "int option"
  | ContactReveal service_env string string bool
  | SlotChange service_env string string slot_request
  | BookingAttempt service_env string string booking_request
  | RequestAnswer service_env string string string
  | ReviewOf service_env string string string int string
  | ListingReport service_env string string string

definition run :: "(service_db, 'a) prog \<Rightarrow> (service_db, unit) prog" where
  "run m = ignore m"

fun serve :: "service_event \<Rightarrow> (service_db, unit) prog" where
  "serve (Onboarding e user p) = run (Onboard e user p)"
| "serve (ProfileChange e user p) = run (UpdateMyProvider e user p)"
| "serve (DocumentUpload e user kind url) = run (AddVerificationDocument e user kind url)"
| "serve (DocumentReview e admin pv doc status notes) = run (AdminReviewVerificationDocument e admin pv doc status notes)"
| "serve (ProviderDecision e admin pv status notes) = run (AdminVerifyProvider e admin pv status notes)"
| "serve (ListingNew e user c) = run (CreateListing e user c)"
| "serve (ListingChange e user l c) = run (UpdateListing e user l c)"
| "serve (ListingArchived e user l) = run (ArchiveListing e user l)"
| "serve (ListingSubmitted e user l) = run (SubmitListing e user l)"
| "serve (ListingDecision e admin l status notes expected) = run (AdminModerateListing e admin l status notes expected)"
| "serve (ContactReveal e user l ack) = run (RevealContact e user l ack)"
| "serve (SlotChange e user l q) = run (UpsertAvailability e user l q)"
| "serve (BookingAttempt e user l q) = run (CreateRequest e user l q)"
| "serve (RequestAnswer e user r status) = run (UpdateProviderRequest e user r status)"
| "serve (ReviewOf e user l r rating text) = run (UpsertListingReview e user l r rating text)"
| "serve (ListingReport e user l reason) = run (ReportListing e user l reason)"

text \<open>A history keeps each event with the database it met; faults and clock are free at every event.\<close>

inductive serves :: "service_db \<Rightarrow> (service_event \<times> service_db) list \<Rightarrow> service_db \<Rightarrow> bool" where
  start: "serves d0 [] d0"
| more: "serves d0 h (db w) \<Longrightarrow> serves d0 (h @ [(ev, db w)]) (db (snd (serve ev w)))"

lemma serves_invariant:
  assumes "serves d0 h d" "I [] d0"
    and "\<And>h t ev d. serves d0 h d \<Longrightarrow> I h d \<Longrightarrow> wp t (serve ev) (\<lambda>_. I (h @ [(ev, d)])) (\<lambda>_. I (h @ [(ev, d)])) d"
  shows "I h d"
  using assms
proof (induction rule: serves.induct)
  case (more d0 h w ev)
  then have "I h (db w)" by blast
  with more.prems(2) more.hyps show ?case by (intro wp_both [where R = "I (h @ [(ev, db w)])"]) blast
qed simp

section \<open>Statements of the marketplace\<close>

lemma with_id_Inr: "with_id e s f = Inr y \<longleftrightarrow> (\<exists>i. sv_uuid e s = Some i \<and> f i = Inr y)"
  by (auto simp: with_id_def cast_id_def split: option.splits)

lemma with_int4_Inr: "with_int4 n r = Inr y \<longleftrightarrow> \<bar>n\<bar> \<le> 2147483647 \<and> r = Inr y"
  by (auto simp: with_int4_def)

lemma add_request_D:
  assumes "add_request e r d = Inr (i, d')"
  shows "\<exists>l slot. cast_slot e (rq_slot r) = Inr slot \<and> d' = d\<lparr>requests := requests d @ [r\<lparr>rq_listing := l, rq_slot := slot\<rparr>]\<rparr>"
  using assms by (cases "cast_slot e (rq_slot r)") (auto simp: add_request_def with_id_Inr with_int4_Inr split: if_splits)

lemma add_listing_D:
  assumes "add_listing e providerID req d t = Inr (a, d')"
  shows "\<exists>c. d' = d\<lparr>listings := listings d @ [new_listing e providerID c]\<rparr> \<and> (\<forall>x \<in> set (listings d). sl_id x \<noteq> sv_id e)"
  using assms by (cases "sv_store e (listing_columns req)") (auto simp: add_listing_def list_ex_iff split: option.splits if_splits)

lemma change_row_D:
  assumes "change_row e listingID cond f d t = Inr (a, d')"
  shows "d' = d \<or> (\<exists>i l l'. l \<in> set (listings d) \<and> sl_id l = i \<and> cond l \<and> f l = Inr l' \<and> update_listing e i cond (\<lambda>_. l') d t = Inr (a, d'))"
proof -
  obtain i where i: "(case find (\<lambda>l. sl_id l = i \<and> cond l) (listings d) of None \<Rightarrow> Inr (None, d)
    | Some l \<Rightarrow> (case f l of Inl x \<Rightarrow> Inl x | Inr l' \<Rightarrow> update_listing e i cond (\<lambda>_. l') d t)) = Inr (a, d')"
    using assms by (auto simp: change_row_def with_id_Inr)
  show ?thesis
  proof (cases "find (\<lambda>l. sl_id l = i \<and> cond l) (listings d)")
    case (Some l)
    with i find_Some_D [OF Some] show ?thesis by (cases "f l") auto
  qed (use i in simp)
qed

lemma moderate_row_D:
  assumes "moderate_row e admin l st ns expected d t = Inr (a, d')"
  shows "\<exists>i. sv_uuid e l = Some i \<and> update_listing e i (moderable st expected d) (\<lambda>l. l\<lparr>sl_status := st, sl_notes := ns,
      sl_published := if st = ''approved'' \<and> sl_published l = None then Some t else sl_published l\<rparr>) d t = Inr (Some a, d')"
proof -
  have found: "u = Inr (Some a, d')" if "(case u of Inl x \<Rightarrow> Inl x | Inr (None, d') \<Rightarrow> Inl NoRows | Inr (Some l, d') \<Rightarrow> Inr (l, d')) = Inr (a, d')"
    for u :: "err + (listing_row option \<times> service_db)"
    using that by (auto split: sum.splits option.splits)
  show ?thesis using assms by (auto simp: moderate_row_def with_id_Inr intro: found)
qed

section \<open>What a handler leaves alone\<close>

definition same :: "('d \<Rightarrow> 'v) \<Rightarrow> 'd \<Rightarrow> 'd \<Rightarrow> bool" where
  "same f d d' = (f d' = f d)"

interpretation untouched: guarantee "same f" for f
  by unfold_locales (simp_all add: same_def)

definition bookings :: "service_db \<Rightarrow> slot_row list \<times> request_row list \<times> service_review_row list \<times> service_xp_row list" where
  "bookings d = (slots d, requests d, service_reviews d, service_xp d)"

definition seats :: "service_db \<Rightarrow> (string \<times> string option \<times> int) list" where
  "seats d = map (\<lambda>r. (rq_id r, rq_slot r, rq_party r)) (requests d)"

lemmas touch = untouched.keeps_all untouched.keeps_stmt untouched.keeps_for_each

lemma queueProviderActivity_same:
  "keeps (same (\<lambda>d. (listings d, providers d, bookings d))) (queueProviderActivity providerID ev key)"
  unfolding queueProviderActivity_def log_activity_def note_mail_def
  by (intro touch) (auto simp: same_def bookings_def)

lemma queue_same: "keeps (same (\<lambda>d. (listings d, bookings d))) (queueProviderActivity providerID ev key)"
  by (rule keeps_weaken [OF queueProviderActivity_same]) (simp add: same_def)

lemma providerForUser_same: "keeps (same f) (providerForUser userID)"
  unfolding providerForUser_def by (intro touch)

lemma manages_same: "keeps (same f) (manages userID)"
  unfolding manages_def by (intro touch providerForUser_same)

lemma Onboard_same: "keeps (same (\<lambda>d. (listings d, bookings d))) (Onboard e user p)"
  unfolding Onboard_def insert_provider_def log_activity_def Let_def
  by (intro touch) (auto simp: same_def bookings_def split: if_splits)

lemma UpdateMyProvider_same: "keeps (same (\<lambda>d. (listings d, bookings d))) (UpdateMyProvider e user p)"
  unfolding UpdateMyProvider_def
  by (intro touch manages_same) (auto simp: same_def bookings_def)

lemma AddVerificationDocument_same: "keeps (same (\<lambda>d. (listings d, bookings d))) (AddVerificationDocument e user kind url)"
  unfolding AddVerificationDocument_def Let_def
  by (intro touch manages_same) (auto simp: same_def bookings_def split: if_splits)

lemma AdminVerifyProvider_same: "keeps (same (\<lambda>d. (listings d, bookings d))) (AdminVerifyProvider e admin pv status notes)"
  unfolding AdminVerifyProvider_def Let_def
  by (intro touch queue_same) (auto simp: same_def bookings_def set_verification_def Let_def with_id_Inr split: if_splits)

lemma RevealContact_same: "keeps (same (\<lambda>d. (listings d, bookings d))) (RevealContact e user l ack)"
  unfolding RevealContact_def
  by (intro touch) (auto simp: same_def bookings_def with_id_Inr)

lemma ReportListing_same: "keeps (same (\<lambda>d. (listings d, bookings d))) (ReportListing e user l reason)"
  unfolding ReportListing_def
  by (intro touch) (auto simp: same_def bookings_def with_id_Inr split: if_splits)

lemma SlotChange_same: "keeps (same (\<lambda>d. (listings d, requests d, service_reviews d, service_xp d))) (UpsertAvailability e user l q)"
  unfolding UpsertAvailability_def upsert_slot_def Let_def
  by (intro touch providerForUser_same) (auto simp: same_def with_id_Inr with_int4_Inr split: if_splits option.splits)

lemma reserve_slot_same: "keeps (same (\<lambda>d. (listings d, requests d, service_reviews d, service_xp d))) (reserve_slot e slot l party)"
  unfolding reserve_slot_def take_seats_def
  by (intro touch) (auto simp: same_def with_id_Inr with_int4_Inr)

lemma insert_request_same: "keeps (same (\<lambda>d. (listings d, slots d, service_reviews d, service_xp d))) (insert_request e r)"
  unfolding insert_request_def
  by (rule untouched.keeps_stmt) (auto simp: same_def dest: add_request_D)

lemma linkRequestConversation_same: "keeps (same (\<lambda>d. (listings d, bookings d))) (linkRequestConversation e r)"
  unfolding linkRequestConversation_def link_conversation_def link_message_def
  by (intro touch) (auto simp: same_def bookings_def split: if_splits option.splits)

lemma CreateRequest_same: "keeps (same (\<lambda>d. (listings d, service_reviews d, service_xp d))) (CreateRequest e user l q)"
proof -
  have queue: "keeps (same (\<lambda>d. (listings d, service_reviews d, service_xp d))) (queueProviderActivity providerID ev key)" for providerID ev key
    by (rule keeps_weaken [OF queue_same]) (simp add: same_def bookings_def)
  have parts: "keeps (same (\<lambda>d. (listings d, service_reviews d, service_xp d))) (reserve_slot e slot l' party)"
    "keeps (same (\<lambda>d. (listings d, service_reviews d, service_xp d))) (insert_request e r)"
    "keeps (same (\<lambda>d. (listings d, service_reviews d, service_xp d))) (linkRequestConversation e i)" for slot l' party r i
    by (rule keeps_weaken [OF reserve_slot_same], simp add: same_def,
        rule keeps_weaken [OF insert_request_same], simp add: same_def,
        rule keeps_weaken [OF linkRequestConversation_same], simp add: same_def bookings_def)
  have place: "keeps (same (\<lambda>d. (listings d, service_reviews d, service_xp d))) (place_request e user l q)"
    unfolding place_request_def bookable_def independentBusinessContact_def type_fits_def Let_def
    by (intro touch parts)
  show ?thesis unfolding CreateRequest_def book_def by (intro touch queue place) (auto split: booking.splits intro!: touch queue)
qed

lemma UpdateProviderRequest_same: "keeps (same (\<lambda>d. (listings d, slots d, seats d, service_reviews d, service_xp d))) (UpdateProviderRequest e user r status)"
  unfolding UpdateProviderRequest_def move_request_def service_notice_def note_mail_def Let_def
  by (intro touch providerForUser_same) (auto simp: same_def seats_def upd_def with_id_Inr split: if_splits option.splits)

lemma UpsertListingReview_same: "keeps (same (\<lambda>d. (listings d, slots d, requests d))) (UpsertListingReview e user l r rating text)"
  unfolding UpsertListingReview_def write_review_def insert_review_def change_review_def review_reward_def service_notice_def Let_def
  by (intro touch) (auto simp: same_def with_id_Inr split: if_splits)

section \<open>Listings: content, revision and approval\<close>

text \<open>\<open>approves_only P\<close>: a listing keeps its identity, a change of its content raises the revision, and
  whatever is approved afterwards was approved with the same content before, or satisfies \<open>P\<close>.\<close>

definition one_row_per_listing :: "service_db \<Rightarrow> bool" where
  "one_row_per_listing d = distinct (map sl_id (listings d))"

definition grows :: "service_db \<Rightarrow> service_db \<Rightarrow> bool" where
  "grows d d' = (\<forall>r \<in> set (listings d). \<exists>r' \<in> set (listings d'). sl_id r' = sl_id r \<and> sl_revision r \<le> sl_revision r' \<and>
     (sl_revision r' = sl_revision r \<longrightarrow> sl_content r' = sl_content r))"

definition approves_only :: "(listing_row \<Rightarrow> bool) \<Rightarrow> service_db \<Rightarrow> service_db \<Rightarrow> bool" where
  "approves_only P d d' = (one_row_per_listing d \<longrightarrow> one_row_per_listing d' \<and> grows d d' \<and>
     (\<forall>r' \<in> set (listings d'). sl_status r' = ''approved'' \<longrightarrow> P r' \<or>
        (\<exists>r \<in> set (listings d). sl_id r = sl_id r' \<and> sl_status r = ''approved'' \<and> sl_content r = sl_content r')))"

definition no_approval :: "service_db \<Rightarrow> service_db \<Rightarrow> bool" where
  "no_approval = approves_only (\<lambda>_. False)"

lemma same_listings_approve: "listings d' = listings d \<Longrightarrow> approves_only P d d'"
  by (auto simp: approves_only_def one_row_per_listing_def grows_def)

lemma grows_trans:
  assumes "grows a b" "grows b c"
  shows "grows a c"
  unfolding grows_def
proof
  fix r assume "r \<in> set (listings a)"
  then obtain s where s: "s \<in> set (listings b)" "sl_id s = sl_id r" "sl_revision r \<le> sl_revision s" "sl_revision s = sl_revision r \<longrightarrow> sl_content s = sl_content r"
    using assms(1) by (auto simp: grows_def)
  then obtain u where u: "u \<in> set (listings c)" "sl_id u = sl_id s" "sl_revision s \<le> sl_revision u" "sl_revision u = sl_revision s \<longrightarrow> sl_content u = sl_content s"
    using assms(2) by (auto simp: grows_def)
  show "\<exists>r' \<in> set (listings c). sl_id r' = sl_id r \<and> sl_revision r \<le> sl_revision r' \<and> (sl_revision r' = sl_revision r \<longrightarrow> sl_content r' = sl_content r)"
    by (rule bexI [OF _ u(1)]) (use s u in auto)
qed

lemma no_approval_trans:
  assumes "no_approval a b" "no_approval b c"
  shows "no_approval a c"
  unfolding no_approval_def approves_only_def
proof (intro impI conjI ballI)
  assume a: "one_row_per_listing a"
  then show "one_row_per_listing c" "grows a c"
    using assms grows_trans unfolding no_approval_def approves_only_def by blast+
  fix r assume "r \<in> set (listings c)" "sl_status r = ''approved''"
  then obtain s where s: "s \<in> set (listings b)" "sl_id s = sl_id r" "sl_status s = ''approved''" "sl_content s = sl_content r"
    using a assms unfolding no_approval_def approves_only_def by blast
  then obtain u where "u \<in> set (listings a)" "sl_id u = sl_id s" "sl_status u = ''approved''" "sl_content u = sl_content s"
    using a assms unfolding no_approval_def approves_only_def by blast
  then show "False \<or> (\<exists>r' \<in> set (listings a). sl_id r' = sl_id r \<and> sl_status r' = ''approved'' \<and> sl_content r' = sl_content r)"
    using s by auto
qed

interpretation calm: guarantee no_approval
  by unfold_locales (simp add: no_approval_def same_listings_approve, rule no_approval_trans)

lemma baseline_row:
  assumes "sl_id n = sl_id l"
  shows "sl_id (baseline l n) = sl_id l" "sl_content (baseline l n) = sl_content n" "sl_provider (baseline l n) = sl_provider n"
    "sl_revision (baseline l n) = sl_revision l + (if sl_content n = sl_content l then 0 else 1)"
    "sl_status (baseline l n) = ''approved'' \<Longrightarrow> sl_status n = ''approved'' \<or> sl_status l = ''approved'' \<and> sl_content n = sl_content l"
  using assms by (cases "sl_status l = ''approved''"; cases "sl_content n = sl_content l"; cases "sl_snapshot l"; simp add: baseline_def Let_def split: if_splits)+

lemma same_listing: "one_row_per_listing d \<Longrightarrow> x \<in> set (listings d) \<Longrightarrow> y \<in> set (listings d) \<Longrightarrow> sl_id x = sl_id y \<Longrightarrow> x = y"
  by (simp add: one_row_per_listing_def distinct_map inj_on_def)

text \<open>An update of rows through the baseline trigger.\<close>

lemma baseline_update:
  assumes rows: "listings d' = upd hit (\<lambda>l. baseline (g l) (f l)) (listings d)"
    and old: "\<And>l. one_row_per_listing d \<Longrightarrow> l \<in> set (listings d) \<Longrightarrow> hit l \<Longrightarrow> g l = l \<and> sl_id (f l) = sl_id l \<and>
      (sl_status (f l) = ''approved'' \<longrightarrow> P (baseline l (f l)) \<or> sl_status l = ''approved'' \<and> sl_content (f l) = sl_content l)"
  shows "approves_only P d d'"
  unfolding approves_only_def
proof (intro impI conjI ballI)
  assume one: "one_row_per_listing d"
  note o = old [OF one]
  have ids: "map sl_id (listings d') = map sl_id (listings d)"
    unfolding rows upd_def map_map by (rule map_cong [OF refl]) (use o in \<open>auto simp: baseline_row\<close>)
  then show "one_row_per_listing d'" using one by (simp add: one_row_per_listing_def)
  show "grows d d'" unfolding grows_def
  proof
    fix r assume r: "r \<in> set (listings d)"
    then have "(if hit r then baseline (g r) (f r) else r) \<in> set (listings d')" by (auto simp: rows upd_def)
    then show "\<exists>r' \<in> set (listings d'). sl_id r' = sl_id r \<and> sl_revision r \<le> sl_revision r' \<and> (sl_revision r' = sl_revision r \<longrightarrow> sl_content r' = sl_content r)"
      by (rule rev_bexI) (use o [OF r] in \<open>auto simp: baseline_row\<close>)
  qed
  fix r' assume r': "r' \<in> set (listings d')" "sl_status r' = ''approved''"
  then obtain r where r: "r \<in> set (listings d)" "r' = (if hit r then baseline (g r) (f r) else r)" by (auto simp: rows upd_def)
  show "P r' \<or> (\<exists>r \<in> set (listings d). sl_id r = sl_id r' \<and> sl_status r = ''approved'' \<and> sl_content r = sl_content r')"
  proof (cases "hit r")
    case True
    then have "g r = r" "sl_id (f r) = sl_id r" "sl_status (f r) = ''approved'' \<longrightarrow> P (baseline r (f r)) \<or> sl_status r = ''approved'' \<and> sl_content (f r) = sl_content r"
      using o r(1) by auto
    then show ?thesis using baseline_row [of "f r" r] r r'(2) True by auto
  qed (use r r'(2) in auto)
qed

lemma update_listing_D:
  assumes "update_listing e i cond f d t = Inr (x, d')"
  shows "x = None \<and> d' = d \<or> (\<exists>l. l \<in> set (listings d) \<and> sl_id l = i \<and> cond l \<and> x = Some (baseline l (f l)) \<and>
    d' = d\<lparr>listings := upd (\<lambda>l. sl_id l = i \<and> cond l) (\<lambda>_. baseline l (f l)) (listings d)\<rparr>)"
proof (cases "find (\<lambda>l. sl_id l = i \<and> cond l) (listings d)")
  case (Some l)
  then have "l \<in> set (listings d)" "sl_id l = i" "cond l" using find_Some_D [OF Some] by simp_all
  moreover have "x = Some (baseline l (f l)) \<and> d' = d\<lparr>listings := upd (\<lambda>l. sl_id l = i \<and> cond l) (\<lambda>_. baseline l (f l)) (listings d)\<rparr>"
    using assms unfolding update_listing_def Some option.case Let_def by (simp split: option.splits)
  ultimately show ?thesis by blast
qed (use assms in \<open>simp add: update_listing_def\<close>)

lemma update_listing_bookings: "update_listing e i cond f d t = Inr (x, d') \<Longrightarrow> bookings d' = bookings d \<and> providers d' = providers d"
  by (drule update_listing_D) (auto simp: bookings_def)

lemma update_listing_approves:
  assumes "update_listing e i cond f d t = Inr (x, d')"
    and "\<And>l. l \<in> set (listings d) \<Longrightarrow> sl_id l = i \<Longrightarrow> cond l \<Longrightarrow> sl_id (f l) = i \<and>
      (sl_status (f l) = ''approved'' \<longrightarrow> P (baseline l (f l)) \<or> sl_status l = ''approved'' \<and> sl_content (f l) = sl_content l)"
  shows "approves_only P d d'"
  using update_listing_D [OF assms(1)]
proof (elim disjE exE conjE)
  fix l assume l: "l \<in> set (listings d)" "sl_id l = i" "cond l" "d' = d\<lparr>listings := upd (\<lambda>l. sl_id l = i \<and> cond l) (\<lambda>_. baseline l (f l)) (listings d)\<rparr>"
  show ?thesis
  proof (rule baseline_update [where hit = "\<lambda>l. sl_id l = i \<and> cond l" and g = "\<lambda>_. l" and f = "\<lambda>_. f l"])
    fix l' assume "one_row_per_listing d" "l' \<in> set (listings d)" "sl_id l' = i \<and> cond l'"
    then have "l' = l" using same_listing l by metis
    then show "l = l' \<and> sl_id (f l) = sl_id l' \<and> (sl_status (f l) = ''approved'' \<longrightarrow> P (baseline l' (f l)) \<or> sl_status l' = ''approved'' \<and> sl_content (f l) = sl_content l')"
      using assms(2) [OF l(1,2,3)] l(2) by simp
  qed (simp add: l(4))
qed (simp add: same_listings_approve)

lemma change_listing_calm:
  assumes "\<And>l l'. cond l \<Longrightarrow> f l = Inr l' \<Longrightarrow> sl_id l' = sl_id l \<and> sl_status l' \<noteq> ''approved''"
  shows "keeps no_approval (change_listing e listingID cond f)"
  unfolding change_listing_def
proof (intro calm.keeps_map_err calm.keeps_stmt)
  fix d t a d' assume "change_row e listingID cond f d t = Inr (a, d')"
  from change_row_D [OF this] show "no_approval d d'"
  proof (elim disjE exE conjE)
    fix i l l' assume l: "sl_id l = i" "cond l" "f l = Inr l'" "update_listing e i cond (\<lambda>_. l') d t = Inr (a, d')"
    show ?thesis unfolding no_approval_def
      by (rule update_listing_approves [OF l(4)]) (use assms [OF l(2,3)] l(1) in auto)
  qed (simp add: calm.refl)
qed

lemma calm_if_same: "keeps (same (\<lambda>d. (listings d, f d))) m \<Longrightarrow> keeps no_approval m"
  by (erule keeps_weaken) (simp add: same_def no_approval_def same_listings_approve)

lemma validated_calm: "keeps no_approval (validated req)"
  unfolding validated_def by (intro calm.keeps_all)

lemma providerForUser_calm: "keeps no_approval (providerForUser userID)"
  by (rule calm_if_same [OF providerForUser_same])

lemma CreateListing_calm: "keeps no_approval (CreateListing e user c)"
  unfolding CreateListing_def providerCapabilities_def providerListingLimit_def insert_listing_def Let_def
proof (intro calm.keeps_all providerForUser_calm validated_calm calm.keeps_stmt)
  fix providerID d t a d'
  assume "add_listing e providerID c d t = Inr (a, d')"
  then obtain l where l: "d' = d\<lparr>listings := listings d @ [l]\<rparr>" "\<forall>x \<in> set (listings d). sl_id x \<noteq> sl_id l" "sl_status l = ''draft''"
    by (fastforce simp: new_listing_def dest: add_listing_D)
  have "grows d d'" unfolding grows_def
  proof
    fix r assume "r \<in> set (listings d)"
    then have "r \<in> set (listings d')" by (simp add: l(1))
    then show "\<exists>r' \<in> set (listings d'). sl_id r' = sl_id r \<and> sl_revision r \<le> sl_revision r' \<and> (sl_revision r' = sl_revision r \<longrightarrow> sl_content r' = sl_content r)"
      by (rule rev_bexI) simp
  qed
  then show "no_approval d d'" unfolding no_approval_def approves_only_def one_row_per_listing_def
    using l by auto
qed

lemma UpdateListing_calm: "keeps no_approval (UpdateListing e user l c)"
  unfolding UpdateListing_def
  by (intro calm.keeps_all providerForUser_calm validated_calm change_listing_calm) (auto split: sum.splits if_splits)

lemma ArchiveListing_calm: "keeps no_approval (ArchiveListing e user l)"
  unfolding ArchiveListing_def
  by (intro calm.keeps_all providerForUser_calm change_listing_calm) auto

lemma admin_mail_same: "keeps (same (\<lambda>d. (listings d, bookings d))) (queueAdminMarketplaceEmail key)"
  unfolding queueAdminMarketplaceEmail_def note_mail_def
  by (intro touch) (auto simp: same_def bookings_def)

lemma SubmitListing_calm: "keeps no_approval (SubmitListing e user l)"
  unfolding SubmitListing_def requirePublishingEligibility_def providerListingLimit_def
  by (intro calm.keeps_all providerForUser_calm change_listing_calm calm_if_same [OF admin_mail_same]) auto

lemma DocumentReview_calm: "keeps no_approval (AdminReviewVerificationDocument e admin pv doc status notes)"
proof -
  have step: "no_approval d (snd (review_document e p i st ns d))" for d p i st ns
    unfolding no_approval_def
  proof (rule baseline_update)
    show "listings (snd (review_document e p i st ns d)) = upd (\<lambda>l. list_ex (\<lambda>x. (dc_id x = i \<and> dc_provider x = p) \<and> driverDocument (dc_type x)) (documents d) \<and>
        \<not> driver_documents_approved p (d\<lparr>documents := upd (\<lambda>x. dc_id x = i \<and> dc_provider x = p) (\<lambda>x. x\<lparr>dc_status := st, dc_notes := ns\<rparr>) (documents d)\<rparr>) \<and>
        sl_provider l = p \<and> sl_status l = ''approved'' \<and> sv_driver e (driver_text (sl_content l))) (\<lambda>l. baseline l (l\<lparr>sl_status := ''suspended''\<rparr>)) (listings d)"
      by (simp add: review_document_def revoke_driver_def Let_def upd_def)
  qed auto
  show ?thesis unfolding AdminReviewVerificationDocument_def Let_def
  proof (intro calm.keeps_all calm.keeps_stmt)
    fix d t a d' assume "with_id e admin (\<lambda>_. with_id e doc (\<lambda>doc. with_id e pv (\<lambda>pv. Inr (review_document e pv doc (to_lower (trim_space status)) (trim_space notes) d)))) = Inr (a, d')"
    then obtain p i where "review_document e p i (to_lower (trim_space status)) (trim_space notes) d = (a, d')" by (auto simp: with_id_Inr)
    then show "no_approval d d'" using step [of d p i "to_lower (trim_space status)" "trim_space notes"] by simp
  qed
qed

section \<open>Decisions on listings\<close>

text \<open>The row an approval was given to: it is the row met, unarchived, of a verified provider, and at the
  revision the admin named.\<close>

fun approved_as_read :: "service_event \<Rightarrow> service_db \<Rightarrow> listing_row \<Rightarrow> bool" where
  "approved_as_read (ListingDecision e admin l status notes expected) b r =
     (to_lower (trim_space status) = ''approved'' \<and> (\<exists>s \<in> set (listings b). sv_uuid e l = Some (sl_id s) \<and> sl_id s = sl_id r \<and> sl_content s = sl_content r \<and>
        sl_status s \<noteq> ''archived'' \<and> verified (sl_provider s) b \<and> (\<forall>n. expected = Some n \<longrightarrow> sl_revision s = n)))"
| "approved_as_read _ b r = False"

lemma approves_then_same: "approves_only P d d1 \<Longrightarrow> listings d2 = listings d1 \<Longrightarrow> approves_only P d d2"
  by (simp add: approves_only_def one_row_per_listing_def grows_def)

lemma approves_weaken: "approves_only P d d' \<Longrightarrow> (\<And>r. P r \<Longrightarrow> Q r) \<Longrightarrow> approves_only Q d d'"
  by (fastforce simp: approves_only_def)

lemma moderated_row:
  assumes "update_listing e i (moderable st expected d) (\<lambda>l. l\<lparr>sl_status := st, sl_notes := ns, sl_published := p l\<rparr>) d t = Inr (x, d')"
    and "sv_uuid e l = Some i" "st = to_lower (trim_space status)"
  shows "approves_only (approved_as_read (ListingDecision e admin l status notes expected) d) d d'"
proof (rule update_listing_approves [OF assms(1)])
  fix s assume s: "s \<in> set (listings d)" "sl_id s = i" "moderable st expected d s"
  let ?f = "s\<lparr>sl_status := st, sl_notes := ns, sl_published := p s\<rparr>"
  have "sl_id (baseline s ?f) = i" "sl_content (baseline s ?f) = sl_content s" using baseline_row(1,2) [of ?f s] s(2) by simp_all
  then have "approved_as_read (ListingDecision e admin l status notes expected) d (baseline s ?f)" if "st = ''approved''"
    using s assms(2,3) that by (auto simp: moderable_def intro!: bexI [of _ s] split: option.splits)
  then show "sl_id ?f = i \<and> (sl_status ?f = ''approved'' \<longrightarrow> approved_as_read (ListingDecision e admin l status notes expected) d (baseline s ?f) \<or>
     sl_status s = ''approved'' \<and> sl_content ?f = sl_content s)"
    using s(2) by simp
qed

lemma moderate_listing_approves:
  assumes "st = to_lower (trim_space status)"
  shows "wp t (moderate_listing e admin l st ns expected)
    (\<lambda>_ d'. approves_only (approved_as_read (ListingDecision e admin l status notes expected) d) d d')
    (\<lambda>_ d'. approves_only (approved_as_read (ListingDecision e admin l status notes expected) d) d d') d"
  unfolding moderate_listing_def
proof (rule wp_stmt)
  fix a d' assume "moderate_row e admin l st ns expected d t = Inr (a, d')"
  then show "approves_only (approved_as_read (ListingDecision e admin l status notes expected) d) d d'"
    by (elim moderate_row_D [elim_format] exE conjE) (rule moderated_row [where p = "\<lambda>l. if st = ''approved'' \<and> sl_published l = None then Some t else sl_published l", OF _ _ assms])
  then show "approves_only (approved_as_read (ListingDecision e admin l status notes expected) d) d d'" .
qed (simp_all add: same_listings_approve)

lemma AdminModerateListing_approves:
  "wp t (AdminModerateListing e admin l status notes expected)
    (\<lambda>_. approves_only (approved_as_read (ListingDecision e admin l status notes expected) d) d)
    (\<lambda>_. approves_only (approved_as_read (ListingDecision e admin l status notes expected) d) d) d"
proof -
  let ?A = "approves_only (approved_as_read (ListingDecision e admin l status notes expected) d) d"
  have after: "wp t m (\<lambda>_. ?A) (\<lambda>_. ?A) d1" if "keeps (same listings) m" "?A d1" for m :: "(service_db, 'x) prog" and t d1
    by (rule wp_keeps [OF that(1)]) (use that(2) in \<open>simp_all add: same_def approves_then_same\<close>)
  have queue: "keeps (same listings) (queueProviderActivity pv ev key)" for pv ev key
    by (rule keeps_weaken [OF queue_same]) (simp add: same_def)
  have rest: "keeps (same listings) (bind (case r of Inr l \<Rightarrow> ret l | Inl x \<Rightarrow> if x = NoRows then moderation_missed e l else fail (policy_error x))
      (\<lambda>l'. bind (queueProviderActivity (sl_provider l') (ev l') (key l')) (\<lambda>_. ret (sl_status l'))))" for r ev key
    unfolding moderation_missed_def listing_exists_def by (intro touch queue)
  have decide: "wp t (bind (attempt (moderate_listing e admin l st ns expected)) (\<lambda>r.
      bind (case r of Inr l \<Rightarrow> ret l | Inl x \<Rightarrow> if x = NoRows then moderation_missed e l else fail (policy_error x))
      (\<lambda>l'. bind (queueProviderActivity (sl_provider l') (ev l') (key l')) (\<lambda>_. ret (sl_status l'))))) (\<lambda>_. ?A) (\<lambda>_. ?A) d1"
    if "same id d d1" "st = to_lower (trim_space status)" for t st ns ev key d1
  proof -
    have "d1 = d" using that(1) by (simp add: same_def)
    then show ?thesis by (auto intro!: wp_bind [OF wp_attempt] wp_mono [OF moderate_listing_approves [OF that(2)]] after rest)
  qed
  have publish: "keeps (same id) (if b then may_publish e l else ret ())" for b
    unfolding may_publish_def requirePublishingEligibility_def by (intro touch)
  show ?thesis unfolding AdminModerateListing_def Let_def
    by (rule wp_bind, rule wp_require, rule wp_bind, rule wp_keeps [OF publish], erule decide [OF _ refl])
      (simp_all add: same_def same_listings_approve)
qed

section \<open>Every event\<close>

lemma calm_event: "keeps no_approval m \<Longrightarrow> wp t (run m) (\<lambda>_. approves_only P d) (\<lambda>_. approves_only P d) d"
  by (rule wp_keeps [OF calm.keeps_ignore, of m, folded run_def]) (auto simp: no_approval_def elim: approves_weaken)

lemma queue_calm: "keeps (same (\<lambda>d. (listings d, f d))) m \<Longrightarrow> wp t (run m) (\<lambda>_. approves_only P d) (\<lambda>_. approves_only P d) d"
  by (intro calm_event calm_if_same)

lemma event_approves: "wp t (serve ev) (\<lambda>_. approves_only (approved_as_read ev d) d) (\<lambda>_. approves_only (approved_as_read ev d) d) d"
proof (cases ev)
  case (ListingDecision e admin l status ns expected)
  then show ?thesis by (simp only: serve.simps run_def) (intro wp_ignore AdminModerateListing_approves)
qed (simp_all only: serve.simps calm_event queue_calm
  queue_calm [OF Onboard_same] queue_calm [OF UpdateMyProvider_same] queue_calm [OF AddVerificationDocument_same] queue_calm [OF AdminVerifyProvider_same]
  queue_calm [OF RevealContact_same] queue_calm [OF ReportListing_same] queue_calm [OF SlotChange_same] queue_calm [OF CreateRequest_same]
  queue_calm [OF UpdateProviderRequest_same] queue_calm [OF UpsertListingReview_same]
  calm_event [OF DocumentReview_calm] calm_event [OF CreateListing_calm] calm_event [OF UpdateListing_calm] calm_event [OF ArchiveListing_calm]
  calm_event [OF SubmitListing_calm])

section \<open>What the public sees was read and approved\<close>

definition agree :: "service_db \<Rightarrow> service_db \<Rightarrow> bool" where
  "agree b d = (\<forall>r \<in> set (listings b). \<forall>s \<in> set (listings d). sl_id s = sl_id r \<and> sl_revision s = sl_revision r \<longrightarrow> sl_content s = sl_content r)"

lemma agree_later:
  assumes "grows b d" "one_row_per_listing d"
  shows "agree b d"
  unfolding agree_def
proof (intro ballI impI)
  fix r s assume r: "r \<in> set (listings b)" and s: "s \<in> set (listings d)" "sl_id s = sl_id r \<and> sl_revision s = sl_revision r"
  obtain u where u: "u \<in> set (listings d)" "sl_id u = sl_id r" "sl_revision u = sl_revision r \<longrightarrow> sl_content u = sl_content r"
    using assms(1) r by (auto simp: grows_def)
  have "u = s" using same_listing [OF assms(2) u(1) s(1)] u(2) s(2) by simp
  then show "sl_content s = sl_content r" using u(3) s(2) by simp
qed

lemma agree_sym: "agree b d \<Longrightarrow> agree d b"
  by (auto simp: agree_def)

lemma grows_refl: "grows d d"
  by (auto simp: grows_def)

text \<open>Along a history, content and revision go together, and approvals leave their trace.\<close>

definition traced :: "(service_event \<times> service_db) list \<Rightarrow> service_db \<Rightarrow> bool" where
  "traced h d = (one_row_per_listing d \<and> (\<forall>(ev, b) \<in> set h. grows b d) \<and>
     (\<forall>(ev, b) \<in> set h. \<forall>(ev', b') \<in> set h. agree b b') \<and>
     (\<forall>r \<in> set (listings d). sl_status r = ''approved'' \<longrightarrow> (\<exists>(ev, b) \<in> set h. approved_as_read ev b r)))"

lemma approved_as_read_cong:
  assumes "approved_as_read ev b r" "sl_id r' = sl_id r" "sl_content r' = sl_content r"
  shows "approved_as_read ev b r'"
  using assms by (cases ev) auto

lemma traced_step:
  assumes "traced h d" "approves_only (approved_as_read ev d) d d'"
  shows "traced (h @ [(ev, d)]) d'"
  unfolding traced_def
proof (intro conjI)
  have d: "one_row_per_listing d" using assms(1) by (simp add: traced_def)
  then have d': "one_row_per_listing d'" and g: "grows d d'" using assms(2) by (simp_all add: approves_only_def)
  show "one_row_per_listing d'" by (rule d')
  show "\<forall>(ev', b) \<in> set (h @ [(ev, d)]). grows b d'"
    using assms(1) g grows_trans [OF _ g] by (auto simp: traced_def)
  have "\<forall>(ev', b) \<in> set h. agree b d" using assms(1) d agree_later by (fastforce simp: traced_def)
  then show "\<forall>(ev1, b) \<in> set (h @ [(ev, d)]). \<forall>(ev', b') \<in> set (h @ [(ev, d)]). agree b b'"
    using assms(1) agree_later [OF grows_refl d] agree_sym by (fastforce simp: traced_def)
  show "\<forall>r \<in> set (listings d'). sl_status r = ''approved'' \<longrightarrow> (\<exists>(ev', b) \<in> set (h @ [(ev, d)]). approved_as_read ev' b r)"
  proof (intro ballI impI)
    fix r assume r: "r \<in> set (listings d')" "sl_status r = ''approved''"
    then consider "approved_as_read ev d r" | s where "s \<in> set (listings d)" "sl_id s = sl_id r" "sl_status s = ''approved''" "sl_content s = sl_content r"
      using assms(2) d by (auto simp: approves_only_def)
    then show "\<exists>(ev', b) \<in> set (h @ [(ev, d)]). approved_as_read ev' b r"
    proof cases
      case 2
      then obtain ev' b where "(ev', b) \<in> set h" "approved_as_read ev' b s" using assms(1) by (fastforce simp: traced_def)
      then have "(ev', b) \<in> set (h @ [(ev, d)])" "approved_as_read ev' b r" using approved_as_read_cong 2 by auto
      then show ?thesis by blast
    qed auto
  qed
qed

lemma history_traced:
  assumes "serves d0 h d" "one_row_per_listing d0" "\<forall>l \<in> set (listings d0). sl_status l \<noteq> ''approved''"
  shows "traced h d"
proof (rule serves_invariant [OF assms(1), where I = traced])
  show "traced [] d0" using assms(2,3) by (simp add: traced_def)
  show "wp t (serve ev) (\<lambda>_. traced (h @ [(ev, d)])) (\<lambda>_. traced (h @ [(ev, d)])) d" if "traced h d" for h t ev d
    by (rule wp_mono [OF event_approves]) (auto intro: traced_step [OF that])
qed

text \<open>
  C12. At any time after any history of requests, with every pattern of database faults, an approved
  listing shows the content of a row that an admin approved, by a request that met this row unarchived
  and its provider verified. If the admin named the content revision, every row of the listing that had
  this revision at any point of the history had the same content: what was approved is what was read.
\<close>

theorem approved_listing_was_read:
  assumes "serves d0 h d" "one_row_per_listing d0" "\<forall>l \<in> set (listings d0). sl_status l \<noteq> ''approved''"
    and "r \<in> set (listings d)" "sl_status r = ''approved''"
  shows "\<exists>e admin l status ns expected b s. (ListingDecision e admin l status ns expected, b) \<in> set h \<and>
    to_lower (trim_space status) = ''approved'' \<and> s \<in> set (listings b) \<and> sl_id s = sl_id r \<and> sl_content s = sl_content r \<and>
    sl_status s \<noteq> ''archived'' \<and> verified (sl_provider s) b \<and>
    (\<forall>n. expected = Some n \<longrightarrow> sl_revision s = n \<and>
      (\<forall>(ev, b') \<in> set h. \<forall>s' \<in> set (listings b'). sl_id s' = sl_id r \<and> sl_revision s' = n \<longrightarrow> sl_content s' = sl_content r))"
proof -
  have t: "traced h d" by (rule history_traced [OF assms(1-3)])
  then obtain ev b where ev: "(ev, b) \<in> set h" "approved_as_read ev b r" using assms(4,5) by (fastforce simp: traced_def)
  then obtain e admin l status ns expected where E: "ev = ListingDecision e admin l status ns expected" by (cases ev) auto
  then obtain s where s: "to_lower (trim_space status) = ''approved''" "s \<in> set (listings b)" "sl_id s = sl_id r" "sl_content s = sl_content r"
    "sl_status s \<noteq> ''archived''" "verified (sl_provider s) b" "\<forall>n. expected = Some n \<longrightarrow> sl_revision s = n"
    using ev(2) by auto
  have "sl_content s' = sl_content r" if "(ev', b') \<in> set h" "s' \<in> set (listings b')" "sl_id s' = sl_id r" "sl_revision s' = sl_revision s" for ev' b' s'
  proof -
    have "agree b b'" using t ev(1) that(1) by (fastforce simp: traced_def)
    then show ?thesis using that s unfolding agree_def by metis
  qed
  then show ?thesis using ev(1) s unfolding E by (intro exI conjI) (assumption | fastforce)+
qed

section \<open>Seats\<close>

definition booked :: "service_db \<Rightarrow> string \<Rightarrow> int" where
  "booked d i = sum_of (\<lambda>x. fst (snd x) = Some i) (\<lambda>x. snd (snd x)) (seats d)"

text \<open>The books of the slots, while \<open>p\<close> seats of the slot \<open>x\<close> are taken but not yet written down.\<close>

definition seat_books :: "string option \<Rightarrow> int \<Rightarrow> service_db \<Rightarrow> bool" where
  "seat_books x p d = (distinct (map st_id (slots d)) \<and>
     (\<forall>s \<in> set (slots d). 0 \<le> st_remaining s \<and> booked d (st_id s) + (if x = Some (st_id s) then p else 0) = st_capacity s - st_remaining s) \<and>
     (\<forall>i. i \<notin> st_id ` set (slots d) \<longrightarrow> booked d i = 0 \<and> x \<noteq> Some i))"

lemma seat_books_same: "slots d' = slots d \<Longrightarrow> seats d' = seats d \<Longrightarrow> seat_books x p d \<Longrightarrow> seat_books x p d'"
  by (simp add: seat_books_def booked_def)

lemma booked_insert: "booked (d\<lparr>requests := requests d @ [r]\<rparr>) i = booked d i + (if rq_slot r = Some i then rq_party r else 0)"
  by (simp add: booked_def seats_def sum_of_def)

lemma booked_slots [simp]: "booked (d\<lparr>slots := ss\<rparr>) i = booked d i"
  by (simp add: booked_def seats_def)

lemma seats_reserved:
  assumes "seat_books None 0 d"
  shows "wp t (reserve_slot e slot l party) (\<lambda>r d'. \<exists>x. cast_slot e r = Inr x \<and> seat_books x party d') (\<lambda>_ _. True) d"
proof -
  have taken: "seat_books (Some i) party (d\<lparr>slots := upd (seat_free i k party) (\<lambda>s. s\<lparr>st_remaining := st_remaining s - party\<rparr>) (slots d)\<rparr>)"
    if "cnt (seat_free i k party) (slots d) \<noteq> 0" for i k
  proof -
    let ?ss = "upd (seat_free i k party) (\<lambda>s. s\<lparr>st_remaining := st_remaining s - party\<rparr>) (slots d)"
    note hit = that
    obtain s where s: "s \<in> set (slots d)" "seat_free i k party s" using hit by (auto simp: cnt_def filter_empty_conv)
    have dist: "distinct (map st_id (slots d))" using assms by (simp add: seat_books_def)
    have only: "u = s" if "u \<in> set (slots d)" "st_id u = i" for u
      using dist that s by (auto simp: seat_free_def distinct_map inj_on_def)
    have ids: "map st_id ?ss = map st_id (slots d)" by (simp add: upd_def)
    have "0 \<le> st_remaining u' \<and> booked d (st_id u') + (if Some i = Some (st_id u') then party else 0) = st_capacity u' - st_remaining u'"
      if u': "u' \<in> set ?ss" for u'
    proof -
      obtain u where u: "u \<in> set (slots d)" "u' = (if seat_free i k party u then u\<lparr>st_remaining := st_remaining u - party\<rparr> else u)"
        using u' by (auto simp: upd_def)
      have "0 \<le> st_remaining u \<and> booked d (st_id u) = st_capacity u - st_remaining u" using assms u(1) by (simp add: seat_books_def)
      then show ?thesis
      proof (cases "st_id u = i")
        case True
        then have "seat_free i k party u" using only [OF u(1)] s(2) by simp
        then show ?thesis using \<open>0 \<le> _ \<and> _\<close> True u(2) by (simp add: seat_free_def)
      qed (use u(2) in \<open>simp add: seat_free_def\<close>)
    qed
    moreover have "distinct (map st_id ?ss)" using dist ids by simp
    moreover have "st_id ` set ?ss = st_id ` set (slots d)" using arg_cong [OF ids, of set] by simp
    moreover have "i \<in> st_id ` set (slots d)" using s by (auto simp: seat_free_def)
    ultimately show ?thesis using assms unfolding seat_books_def by simp metis
  qed
  have none: "seat_books None party d" using assms by (simp add: seat_books_def)
  show ?thesis
    unfolding reserve_slot_def take_seats_def
    by (intro wp_if wp_bind wp_or_else wp_stmt TrueI)
      (auto intro!: wp_ret wp_require wp_bind taken none simp: with_id_Inr with_int4_Inr cast_slot_def cast_id_def)
qed

lemma seats_written:
  assumes "seat_books x (rq_party r) d" "cast_slot e (rq_slot r) = Inr x"
  shows "wp t (attempt (insert_request e r)) (\<lambda>y d'. case y of Inl _ \<Rightarrow> True | Inr _ \<Rightarrow> seat_books None 0 d') E d"
proof -
  have "seat_books None 0 (d\<lparr>requests := requests d @ [r\<lparr>rq_listing := l, rq_slot := x\<rparr>]\<rparr>)" for l
    using assms(1) by (auto simp: seat_books_def booked_insert)
  then show ?thesis unfolding insert_request_def
    by (intro wp_attempt wp_stmt) (auto simp: assms(2) dest!: add_request_D)
qed

lemma wp_ask: "keeps (same id) m \<Longrightarrow> (\<And>a. Q a d) \<Longrightarrow> (\<And>x. E x d) \<Longrightarrow> wp t m Q E d"
  by (rule wp_keeps [where R = "same id"]) (simp_all add: same_def)

lemma queue_seats: "keeps (same bookings) (queueProviderActivity pv ev key)"
  by (rule keeps_weaken [OF queue_same]) (simp add: same_def)

lemma seat_books_bookings: "bookings d' = bookings d \<Longrightarrow> seat_books x p d \<Longrightarrow> seat_books x p d'"
  by (auto simp: bookings_def seats_def elim!: seat_books_same [rotated 2])

lemma place_request_books:
  assumes "seat_books None 0 d"
  shows "wp t (place_request e user l q) (\<lambda>r d'. case r of Abandon a \<Rightarrow> True | Commit a \<Rightarrow> seat_books None 0 d') (\<lambda>_ _. True) d"
proof -
  have link: "wp t (bind (or_else (linkRequestConversation e i) server_error) (\<lambda>c. ret (Commit (Some (pv, Booked i c)))))
      (\<lambda>r d'. case r of Abandon a \<Rightarrow> True | Commit a \<Rightarrow> seat_books None 0 d') (\<lambda>_ _. True) d'" if "seat_books None 0 d'" for t i pv d'
    by (intro wp_bind wp_or_else wp_keeps [OF linkRequestConversation_same])
      (use that in \<open>auto intro!: wp_ret seat_books_bookings simp: same_def\<close>)
  have ask: "keeps (same id) (bookable e user l)" "keeps (same id) (independentBusinessContact pv user)" "keeps (same id) (type_fits lt w)" for pv lt w
    unfolding bookable_def independentBusinessContact_def type_fits_def by (intro touch)+
  have store: "wp t (bind (attempt (insert_request e r)) (\<lambda>y. case y of Inl x \<Rightarrow> if x = NoRows then ret (Abandon None) else fail server_error
      | Inr i \<Rightarrow> bind (or_else (linkRequestConversation e i) server_error) (\<lambda>c. ret (Commit (Some (pv, Booked i c))))))
      (\<lambda>r d'. case r of Abandon a \<Rightarrow> True | Commit a \<Rightarrow> seat_books None 0 d') (\<lambda>_ _. True) d1"
    if "cast_slot e (rq_slot r) = Inr x" "seat_books x (rq_party r) d1" for t r x pv d1
    by (rule wp_bind, rule wp_mono [OF seats_written [OF that(2,1)]]) (auto intro!: link wp_ret wp_fail split: sum.splits)
  have reserved: "wp t (bind (reserve_slot e sl k party) (\<lambda>slot. bind (attempt (insert_request e (r slot))) (\<lambda>y. case y of
        Inl x \<Rightarrow> if x = NoRows then ret (Abandon None) else fail server_error
      | Inr i \<Rightarrow> bind (or_else (linkRequestConversation e i) server_error) (\<lambda>c. ret (Commit (Some (pv, Booked i c)))))))
      (\<lambda>r d'. case r of Abandon a \<Rightarrow> True | Commit a \<Rightarrow> seat_books None 0 d') (\<lambda>_ _. True) d"
    if "\<And>x. rq_slot (r x) = x \<and> rq_party (r x) = party" for t r sl k pv party
    by (rule wp_bind, rule wp_mono [OF seats_reserved [OF assms]]) (auto intro!: store simp: that)
  show ?thesis unfolding place_request_def Let_def
    by (intro wp_bind wp_ask [OF ask(1)] wp_ask [OF ask(2)] wp_ask [OF ask(3)] reserved TrueI) simp
qed

lemma CreateRequest_books:
  assumes "seat_books None 0 d"
  shows "wp t (CreateRequest e user l q) (\<lambda>_. seat_books None 0) (\<lambda>_. seat_books None 0) d"
proof -
  have after: "wp t m (\<lambda>_. seat_books None 0) (\<lambda>_. seat_books None 0) d'" if "keeps (same bookings) m" "seat_books None 0 d'" for m :: "(service_db, 'x) prog" and t d'
    by (rule wp_keeps [OF that(1)]) (use that(2) in \<open>auto simp: same_def intro: seat_books_bookings\<close>)
  have rest: "keeps (same bookings) (case r of None \<Rightarrow> or_else (query g) x
     | Some (pv, Booked i c) \<Rightarrow> bind (queueProviderActivity pv ev (key i)) (\<lambda>_. ret (Booked i c)) | Some (_, b) \<Rightarrow> ret b)" for r g x ev key
    by (intro touch) (auto split: booking.splits intro!: touch queue_seats)
  have tx: "wp t (book e user l q) (\<lambda>_. seat_books None 0) (\<lambda>_. seat_books None 0) d"
    unfolding book_def
    by (intro wp_transaction_or wp_bind wp_attempt wp_query assms)
      (auto intro!: wp_ret wp_require wp_bind wp_fail wp_mono [OF place_request_books] simp: assms split: sum.splits outcome.splits)
  show ?thesis unfolding CreateRequest_def
    by (intro wp_bind wp_require assms wp_mono [OF tx] after rest)
qed

text \<open>A change of a slot has room when its new capacity covers the seats already booked in it.\<close>

fun has_room :: "service_event \<Rightarrow> service_db \<Rightarrow> bool" where
  "has_room (SlotChange e user l q) b = list_all (\<lambda>s. sv_uuid e l = Some (st_listing s) \<and> sq_starts q = Some (st_starts s) \<and> sq_ends q = Some (st_ends s) \<longrightarrow>
     booked b (st_id s) \<le> max 1 (sq_capacity q)) (slots b)"
| "has_room _ b = True"

lemma upsert_slot_books:
  assumes "seat_books None 0 d" "1 \<le> capacity"
    and room: "\<forall>s \<in> set (slots d). sv_uuid e l = Some (st_listing s) \<and> st_starts s = starts \<and> st_ends s = ends \<longrightarrow> booked d (st_id s) \<le> capacity"
  shows "wp t (upsert_slot e l pv starts ends capacity status) (\<lambda>_. seat_books None 0) (\<lambda>_. seat_books None 0) d"
proof -
  have resized: "seat_books None 0 (d\<lparr>slots := upd hit (resize_slot capacity status) (slots d)\<rparr>)"
    if hit: "\<And>s. s \<in> set (slots d) \<Longrightarrow> hit s \<Longrightarrow> booked d (st_id s) \<le> capacity" for hit
  proof -
    have ids: "map st_id (upd hit (resize_slot capacity status) (slots d)) = map st_id (slots d)" by (simp add: upd_def resize_slot_def)
    have "0 \<le> st_remaining u' \<and> booked d (st_id u') = st_capacity u' - st_remaining u'" if "u' \<in> set (upd hit (resize_slot capacity status) (slots d))" for u'
    proof -
      note u' = that
      obtain u where u: "u \<in> set (slots d)" "u' = (if hit u then resize_slot capacity status u else u)" using u' by (auto simp: upd_def)
      have "0 \<le> st_remaining u" "booked d (st_id u) = st_capacity u - st_remaining u" using assms(1) u(1) by (simp_all add: seat_books_def)
      then show ?thesis using hit [OF u(1)] u(2) by (simp add: resize_slot_def)
    qed
    moreover have "distinct (map st_id (upd hit (resize_slot capacity status) (slots d)))" using assms(1) ids by (simp add: seat_books_def)
    moreover have "st_id ` set (upd hit (resize_slot capacity status) (slots d)) = st_id ` set (slots d)" using arg_cong [OF ids, of set] by simp
    ultimately show ?thesis using assms(1) unfolding seat_books_def by simp
  qed
  have added: "seat_books None 0 (d\<lparr>slots := slots d @ [s]\<rparr>)"
    if "\<forall>x \<in> set (slots d). st_id x \<noteq> st_id s" "st_capacity s = capacity" "st_remaining s = capacity" for s
  proof -
    note new = that
    have new_id: "st_id s \<notin> st_id ` set (slots d)" using new(1) by (metis imageE)
    then have "booked d (st_id s) = 0" using assms(1) by (simp add: seat_books_def)
    with new_id show ?thesis using assms(1,2) new(2,3) unfolding seat_books_def by simp
  qed
  show ?thesis unfolding upsert_slot_def
    by (intro wp_stmt)
      (auto simp: with_id_Inr with_int4_Inr list_ex_iff assms(1) split: if_splits option.splits intro!: resized added room [rule_format])
qed

lemma UpsertAvailability_books:
  assumes "seat_books None 0 d" "has_room (SlotChange e user l q) d"
  shows "wp t (UpsertAvailability e user l q) (\<lambda>_. seat_books None 0) (\<lambda>_. seat_books None 0) d"
proof -
  have ask: "keeps (same id) (providerForUser user)" by (rule providerForUser_same)
  have "wp t (upsert_slot e l pv starts ends (max 1 (sq_capacity q)) status) (\<lambda>_. seat_books None 0) (\<lambda>_. seat_books None 0) d"
    if "sq_starts q = Some starts" "sq_ends q = Some ends" for t pv starts ends status
    by (rule upsert_slot_books [OF assms(1)]) (use assms(2) that in \<open>auto simp: list_all_iff\<close>)
  then show ?thesis unfolding UpsertAvailability_def Let_def
    by (intro wp_bind wp_or_else wp_ask [OF ask]) (auto intro!: wp_fail wp_bind wp_require wp_map_err assms(1) split: option.splits)
qed

lemma change_listing_bookings: "keeps (same bookings) (change_listing e l cond f)"
  unfolding change_listing_def
  by (intro touch) (auto simp: same_def dest!: change_row_D update_listing_bookings)

lemma moderate_listing_bookings: "keeps (same bookings) (moderate_listing e admin l st ns expected)"
  unfolding moderate_listing_def
  by (intro touch) (auto simp: same_def dest!: moderate_row_D update_listing_bookings)

lemma listing_handlers_bookings:
  "keeps (same bookings) (CreateListing e user c)" "keeps (same bookings) (UpdateListing e user l c)" "keeps (same bookings) (ArchiveListing e user l)"
  "keeps (same bookings) (SubmitListing e user l)" "keeps (same bookings) (AdminModerateListing e admin l status ns expected)"
  "keeps (same bookings) (AdminReviewVerificationDocument e admin pv doc status ns)"
proof -
  have mail: "keeps (same bookings) (queueAdminMarketplaceEmail key)" for key by (rule keeps_weaken [OF admin_mail_same]) (simp add: same_def)
  have valid: "keeps (same bookings) (validated c)" unfolding validated_def by (intro touch)
  show "keeps (same bookings) (CreateListing e user c)"
    unfolding CreateListing_def providerCapabilities_def providerListingLimit_def insert_listing_def Let_def
    by (intro touch providerForUser_same valid) (auto simp: same_def bookings_def dest!: add_listing_D)
  show "keeps (same bookings) (UpdateListing e user l c)"
    unfolding UpdateListing_def by (intro touch providerForUser_same valid change_listing_bookings)
  show "keeps (same bookings) (ArchiveListing e user l)"
    unfolding ArchiveListing_def by (intro touch providerForUser_same change_listing_bookings)
  show "keeps (same bookings) (SubmitListing e user l)"
    unfolding SubmitListing_def requirePublishingEligibility_def providerListingLimit_def
    by (intro touch providerForUser_same change_listing_bookings mail)
  show "keeps (same bookings) (AdminModerateListing e admin l status ns expected)"
    unfolding AdminModerateListing_def may_publish_def requirePublishingEligibility_def moderation_missed_def listing_exists_def Let_def
    by (intro touch moderate_listing_bookings queue_seats)
  show "keeps (same bookings) (AdminReviewVerificationDocument e admin pv doc status ns)"
    unfolding AdminReviewVerificationDocument_def Let_def
    by (intro touch) (auto simp: same_def bookings_def with_id_Inr review_document_def revoke_driver_def Let_def split: if_splits)
qed

lemma run_books:
  assumes "keeps R m" "seat_books None 0 d" "\<And>d'. R d d' \<Longrightarrow> slots d' = slots d \<and> seats d' = seats d"
  shows "wp t (run m) (\<lambda>_. seat_books None 0) (\<lambda>_. seat_books None 0) d"
  unfolding run_def by (intro wp_ignore wp_keeps [OF assms(1)]) (use assms(2,3) seat_books_same in blast)+

lemma run_books_bookings:
  assumes "keeps (same bookings) m" "seat_books None 0 d"
  shows "wp t (run m) (\<lambda>_. seat_books None 0) (\<lambda>_. seat_books None 0) d"
  by (rule run_books [OF assms]) (simp add: same_def bookings_def seats_def)

lemma run_books_listings:
  assumes "keeps (same (\<lambda>d. (listings d, bookings d))) m" "seat_books None 0 d"
  shows "wp t (run m) (\<lambda>_. seat_books None 0) (\<lambda>_. seat_books None 0) d"
  by (rule run_books [OF assms]) (simp add: same_def bookings_def seats_def)

lemma event_books:
  assumes "seat_books None 0 d" "has_room ev d"
  shows "wp t (serve ev) (\<lambda>_. seat_books None 0) (\<lambda>_. seat_books None 0) d"
proof (cases ev)
  case (SlotChange e user l q)
  then show ?thesis using assms by (simp only: serve.simps run_def) (intro wp_ignore UpsertAvailability_books)
next
  case (BookingAttempt e user l q)
  then show ?thesis using assms by (simp only: serve.simps run_def) (intro wp_ignore CreateRequest_books)
next
  case (RequestAnswer e user r status)
  then show ?thesis by (simp only: serve.simps) (rule run_books [OF UpdateProviderRequest_same assms(1)], simp add: same_def)
next
  case (ReviewOf e user l r rating words)
  then show ?thesis by (simp only: serve.simps) (rule run_books [OF UpsertListingReview_same assms(1)], simp add: same_def seats_def)
qed (simp_all only: serve.simps run_books_bookings [OF listing_handlers_bookings(1) assms(1)] run_books_bookings [OF listing_handlers_bookings(2) assms(1)]
  run_books_bookings [OF listing_handlers_bookings(3) assms(1)] run_books_bookings [OF listing_handlers_bookings(4) assms(1)]
  run_books_bookings [OF listing_handlers_bookings(5) assms(1)] run_books_bookings [OF listing_handlers_bookings(6) assms(1)]
  run_books_listings [OF Onboard_same assms(1)] run_books_listings [OF UpdateMyProvider_same assms(1)] run_books_listings [OF AddVerificationDocument_same assms(1)]
  run_books_listings [OF AdminVerifyProvider_same assms(1)] run_books_listings [OF RevealContact_same assms(1)] run_books_listings [OF ReportListing_same assms(1)])

text \<open>
  C13. A slot is never overbooked as long as its provider does not lower its capacity below the seats
  already booked: after any history of requests, with every pattern of database faults, the seats that
  remain are the capacity less the seats of the booking requests, and not negative. The hypothesis is
  needed: \<open>lowering_forgets_bookings\<close> shows what happens without it.
\<close>

theorem seats_never_overbooked:
  assumes "serves d0 h d" "slots d0 = []" "requests d0 = []" "\<forall>(ev, b) \<in> set h. has_room ev b" "s \<in> set (slots d)"
  shows "0 \<le> st_remaining s \<and> st_remaining s = st_capacity s - booked d (st_id s) \<and> booked d (st_id s) \<le> st_capacity s"
proof -
  have "(\<forall>(ev, b) \<in> set h. has_room ev b) \<longrightarrow> seat_books None 0 d"
  proof (rule serves_invariant [OF assms(1), where I = "\<lambda>h d. (\<forall>(ev, b) \<in> set h. has_room ev b) \<longrightarrow> seat_books None 0 d"])
    show "(\<forall>(ev, b) \<in> set []. has_room ev b) \<longrightarrow> seat_books None 0 d0"
      using assms(2,3) by (simp add: seat_books_def booked_def seats_def)
    fix h t ev d assume I: "(\<forall>(ev, b) \<in> set h. has_room ev b) \<longrightarrow> seat_books None 0 d"
    show "wp t (serve ev) (\<lambda>_ d'. (\<forall>(ev', b) \<in> set (h @ [(ev, d)]). has_room ev' b) \<longrightarrow> seat_books None 0 d')
      (\<lambda>_ d'. (\<forall>(ev', b) \<in> set (h @ [(ev, d)]). has_room ev' b) \<longrightarrow> seat_books None 0 d') d"
    proof (cases "\<forall>(ev', b) \<in> set (h @ [(ev, d)]). has_room ev' b")
      case True
      then have "seat_books None 0 d" "has_room ev d" using I by auto
      then show ?thesis by (intro wp_mono [OF event_books]) simp_all
    next
      case False
      then show ?thesis by (intro wp_mono [OF event_approves]) auto
    qed
  qed
  then have "seat_books None 0 d" using assms(4) by blast
  then show ?thesis using assms(5) by (auto simp: seat_books_def)
qed

section \<open>Requests and the rewards of reviews\<close>









definition rewards :: "service_db \<Rightarrow> string \<Rightarrow> int" where
  "rewards d user = sum_of (\<lambda>x. sx_user x = user) sx_amount (service_xp d)"











section \<open>A history\<close>

definition sv_env :: "string \<Rightarrow> service_env" where
  "sv_env i = \<lparr>sv_id = i, sv_conversation = ''c'' @ i, sv_store = Inr, sv_policy = (\<lambda>_ _ _ _. None), sv_limit = (\<lambda>_ _ _. Inr 5), sv_driver = (\<lambda>_. False),
     sv_uuid = Some, sv_freeze = (\<lambda>_ url. Inr url)\<rparr>"

definition sv_content :: listing_content where
  "sv_content = \<lparr>lc_type = ''artisan'', lc_title = ''Tiling'', lc_description = ''Floors'', lc_category = [], lc_email = [], lc_phone = [], lc_address = [],
     lc_city = ''Lagos'', lc_state = [], lc_country = ''NG'', lc_price = None, lc_currency = ''NGN'', lc_unit = [], lc_capacity = 1, lc_media = [''https://x''],
     lc_attributes = [], lc_latitude = Some (f_of_int 6), lc_longitude = Some (f_of_int 3), lc_radius = None, lc_mobile = False, lc_available = True\<rparr>"

definition sv_start :: service_db where
  "sv_start = \<lparr>providers = [\<lparr>pv_id = ''p'', pv_owner = ''o'', pv_name = ''Tiles'', pv_type = ''mixed'', pv_type_other = [], pv_description = [], pv_email = [], pv_phone = [],
       pv_website = [], pv_address = [], pv_city = [], pv_state = [], pv_country = ''NG'', pv_logo = [], pv_driver = False, pv_active = True, pv_verification = ''approved'', pv_notes = []\<rparr>],
     provider_members = [\<lparr>vm_provider = ''p'', vm_user = ''o'', vm_role = ''owner'', vm_active = True\<rparr>], documents = [], listings = [], slots = [], requests = [],
     service_reviews = [], service_xp = [], service_notes = [], conversations = [], request_messages = [], activity = [], reveals = [], reports = [],
     service_markets = [\<lparr>sm_country = ''NG'', sm_currency = ''NGN'', sm_active = True, sm_gateways = [''flutterwave'']\<rparr>],
     service_users = [(''u'', ''Ada'')], provider_products = [], driver_presence = [], service_mails = [], service_admins = []\<rparr>"

definition met :: "service_event \<Rightarrow> service_db \<Rightarrow> service_db" where
  "met ev d = db (snd (serve ev \<lparr>db = d, faults = [], now = 0\<rparr>))"

fun history :: "service_db \<Rightarrow> service_event list \<Rightarrow> (service_event \<times> service_db) list" where
  "history d [] = []"
| "history d (ev # evs) = (ev, d) # history (met ev d) evs"

lemma serves_run: "serves d0 h d \<Longrightarrow> serves d0 (h @ history d evs) (foldl (\<lambda>d ev. met ev d) d evs)"
proof (induction evs arbitrary: h d)
  case (Cons ev evs)
  have "serves d0 (h @ [(ev, d)]) (met ev d)"
    using more [of d0 h "\<lparr>db = d, faults = [], now = 0\<rparr>" ev] Cons.prems by (simp add: met_def)
  from Cons.IH [OF this] show ?case by simp
qed simp

lemma serves_history: "serves d0 (history d0 evs) (foldl (\<lambda>d ev. met ev d) d0 evs)"
  using serves_run [OF start] by simp

definition slot_of :: "int \<Rightarrow> slot_request" where
  "slot_of n = \<lparr>sq_starts = Some 100, sq_ends = Some 200, sq_capacity = n, sq_status = []\<rparr>"

definition booking_of :: "string \<Rightarrow> int \<Rightarrow> booking_request" where
  "booking_of key n = \<lparr>bq_type = ''booking'', bq_slot = ''s'', bq_message = [], bq_key = key, bq_party = n\<rparr>"

text \<open>A listing is posted, approved at the revision read, booked, served and reviewed twice.\<close>

definition booking_day :: "service_event list" where
  "booking_day = [ListingNew (sv_env ''l'') ''o'' sv_content, ListingSubmitted (sv_env []) ''o'' ''l'',
     ListingDecision (sv_env []) ''a'' ''l'' ''approved'' [] (Some 0), SlotChange (sv_env ''s'') ''o'' ''l'' (slot_of 2),
     BookingAttempt (sv_env ''r'') ''u'' ''l'' (booking_of ''k'' 2)]"

definition service_day :: "service_event list" where
  "service_day = booking_day @ [RequestAnswer (sv_env []) ''o'' ''r'' ''accepted'', RequestAnswer (sv_env []) ''o'' ''r'' ''completed'',
     ReviewOf (sv_env []) ''u'' ''l'' ''r'' 5 ''Good'', ReviewOf (sv_env []) ''u'' ''l'' ''r'' 4 ''Fine'']"

definition service_end :: service_db where
  "service_end = foldl (\<lambda>d ev. met ev d) sv_start service_day"

definition report :: "service_db \<Rightarrow> (string \<times> string \<times> bool) list \<times> (int \<times> int \<times> int) list \<times> int" where
  "report d = (map (\<lambda>l. (sl_id l, sl_status l, sl_content l = sv_content)) (listings d), map (\<lambda>s. (st_capacity s, st_remaining s, booked d (st_id s))) (slots d), rewards d ''u'')"

lemma service_report: "report service_end = ([(''l'', ''approved'', True)], [(2, 0, 2)], 1)"
  by code_simp

lemma service_end_rows:
  "map (\<lambda>l. (sl_id l, sl_status l, sl_content l = sv_content)) (listings service_end) = [(''l'', ''approved'', True)]"
  "map (\<lambda>s. (st_capacity s, st_remaining s, booked service_end (st_id s))) (slots service_end) = [(2, 0, 2)]" "rewards service_end ''u'' = 1"
  using service_report by (simp_all add: report_def)

lemma day_served: "serves sv_start (history sv_start service_day) service_end"
  unfolding service_end_def by (rule serves_history)

lemma sv_start_empty: "listings sv_start = []" "slots sv_start = []" "requests sv_start = []" "service_reviews sv_start = []" "service_xp sv_start = []"
  by (simp_all add: sv_start_def)

theorem approved_listing_was_read_witness:
  "\<exists>r \<in> set (listings service_end). sl_content r = sv_content \<and> (\<exists>e admin l status ns expected b s.
     (ListingDecision e admin l status ns expected, b) \<in> set (history sv_start service_day) \<and> s \<in> set (listings b) \<and> sl_content s = sv_content)"
proof -
  obtain r where r: "r \<in> set (listings service_end)" "sl_status r = ''approved''" "sl_content r = sv_content"
    using service_end_rows(1) by (cases "listings service_end") auto
  have "one_row_per_listing sv_start" "\<forall>l \<in> set (listings sv_start). sl_status l \<noteq> ''approved''"
    by (simp_all add: one_row_per_listing_def sv_start_empty)
  from approved_listing_was_read [OF day_served this r(1,2)] obtain e admin l status ns expected b s
    where x: "(ListingDecision e admin l status ns expected, b) \<in> set (history sv_start service_day)" "s \<in> set (listings b)" "sl_content s = sl_content r"
    by blast
  have "sl_content s = sv_content" using x(3) r(3) by simp
  then show ?thesis using r(1,3) x(1,2) by blast
qed

theorem seats_never_overbooked_witness:
  "\<exists>s \<in> set (slots service_end). st_capacity s = 2 \<and> st_remaining s = 0 \<and> booked service_end (st_id s) = 2"
proof -
  obtain s where s: "s \<in> set (slots service_end)" "st_capacity s = 2" "st_remaining s = 0"
    using service_end_rows(2) by (cases "slots service_end") auto
  have "list_all (\<lambda>(ev, b). has_room ev b) (history sv_start service_day)" by code_simp
  then have room: "\<forall>(ev, b) \<in> set (history sv_start service_day). has_room ev b" by (auto simp: list_all_iff)
  from seats_never_overbooked [OF day_served sv_start_empty(2,3) room s(1)] s show ?thesis by auto
qed


text \<open>
  Lowering the capacity of a slot below its bookings and raising it again forgets bookings: the slot of
  two seats, both booked, is set to one seat and back to two, and takes a third booking.
\<close>

lemma lowering_forgets_bookings:
  "report (foldl (\<lambda>d ev. met ev d) sv_start (booking_day @ [SlotChange (sv_env []) ''o'' ''l'' (slot_of 1), SlotChange (sv_env []) ''o'' ''l'' (slot_of 2),
     BookingAttempt (sv_env ''r2'') ''u'' ''l'' (booking_of ''k2'' 1)])) = ([(''l'', ''approved'', True)], [(2, 0, 3)], 0)"
  by code_simp

end
