(* ===== verification/Service_Types.thy ===== *)
theory Service_Types
  imports Service_Safety
begin

text \<open>
  The CHECK constraints of the marketplace tables (migration 033) as a type of database states. The
  modelled statements do not test them; every handler keeps them, so none of them can ever fire.
\<close>

section \<open>The constraints\<close>

definition listing_ok :: "listing_row \<Rightarrow> bool" where
  "listing_ok l = (sl_status l \<in> {''draft'', ''pending'', ''approved'', ''rejected'', ''suspended'', ''archived''} \<and> 0 \<le> sl_revision l)"

definition slot_ok :: "slot_row \<Rightarrow> bool" where
  "slot_ok s = (st_starts s < st_ends s \<and> 0 < st_capacity s \<and> 0 \<le> st_remaining s \<and> st_status s \<in> {''open'', ''blocked'', ''closed''})"

definition request_ok :: "request_row \<Rightarrow> bool" where
  "request_ok r = (rq_type r \<in> {''booking'', ''appointment'', ''inspection'', ''enquiry''} \<and> 0 < rq_party r \<and>
     rq_status r \<in> {''pending'', ''accepted'', ''rejected'', ''cancelled'', ''completed''})"

definition review_ok :: "service_review_row \<Rightarrow> bool" where
  "review_ok v = (1 \<le> sw_rating v \<and> sw_rating v \<le> 5)"

definition document_ok :: "document_row \<Rightarrow> bool" where
  "document_ok x = (dc_status x \<in> {''pending'', ''approved'', ''rejected''})"

definition provider_ok :: "provider_row \<Rightarrow> bool" where
  "provider_ok p = (pv_verification p \<in> {''pending'', ''approved'', ''rejected'', ''suspended''})"

definition member_ok :: "provider_member_row \<Rightarrow> bool" where
  "member_ok m = (vm_role m \<in> {''owner'', ''manager'', ''staff''})"

definition well_typed :: "service_db \<Rightarrow> bool" where
  "well_typed d = (list_all listing_ok (listings d) \<and> list_all slot_ok (slots d) \<and> list_all request_ok (requests d) \<and>
     list_all review_ok (service_reviews d) \<and> list_all document_ok (documents d) \<and> list_all provider_ok (providers d) \<and>
     list_all member_ok (provider_members d))"

definition type_kept :: "service_db \<Rightarrow> service_db \<Rightarrow> bool" where
  "type_kept d d' = (well_typed d \<longrightarrow> well_typed d')"

interpretation typing: guarantee type_kept
  by unfold_locales (auto simp: type_kept_def)

lemma typed_guard: "(b \<Longrightarrow> keeps type_kept (f ())) \<Longrightarrow> keeps type_kept (bind (require b e) f)"
  by (cases b) (auto simp: require_def intro!: typing.keeps_bind typing.keeps_fail simp: keeps_def bind_def ret_def fail_def typing.refl)

lemma list_all_upd: "list_all P xs \<Longrightarrow> (\<And>x. x \<in> set xs \<Longrightarrow> P x \<Longrightarrow> hit x \<Longrightarrow> P (f x)) \<Longrightarrow> list_all P (upd hit f xs)"
  by (auto simp: list_all_iff upd_def)

lemma typed_by:
  "keeps (same (\<lambda>d. (listings d, slots d, requests d, service_reviews d, documents d, providers d, provider_members d))) m \<Longrightarrow> keeps type_kept m"
  by (erule keeps_weaken) (simp add: same_def type_kept_def well_typed_def)

lemmas type_steps = typing.keeps_all typing.keeps_stmt typing.keeps_for_each

lemma side_typed:
  "keeps type_kept (log_activity p ev)" "keeps type_kept (note_mail u k)" "keeps type_kept (service_notice u k)" "keeps type_kept (providerForUser u)"
  "keeps type_kept (manages u)" "keeps type_kept (validated c)"
  unfolding log_activity_def note_mail_def service_notice_def providerForUser_def manages_def validated_def
  by (intro type_steps; auto simp: type_kept_def well_typed_def split: if_splits)+

lemma queues_typed: "keeps type_kept (queueProviderActivity p ev k)" "keeps type_kept (queueAdminMarketplaceEmail k)"
  unfolding queueProviderActivity_def queueAdminMarketplaceEmail_def by (intro type_steps side_typed)+

section \<open>Providers and listings\<close>

lemma Onboard_typed: "keeps type_kept (Onboard e user p)"
  unfolding Onboard_def insert_provider_def Let_def
  by (intro type_steps side_typed)
    (auto simp: type_kept_def well_typed_def new_provider_def provider_ok_def member_ok_def split: if_splits intro!: list_all_upd)

lemma UpdateMyProvider_typed: "keeps type_kept (UpdateMyProvider e user p)"
  unfolding UpdateMyProvider_def
  by (intro type_steps side_typed) (auto simp: type_kept_def well_typed_def provider_ok_def intro!: list_all_upd)

lemma AddVerificationDocument_typed: "keeps type_kept (AddVerificationDocument e user kind url)"
  unfolding AddVerificationDocument_def Let_def
  by (intro type_steps side_typed) (auto simp: type_kept_def well_typed_def document_ok_def split: if_splits)

lemma AdminVerifyProvider_typed: "keeps type_kept (AdminVerifyProvider e admin pv status ns)"
  unfolding AdminVerifyProvider_def Let_def
  by (intro typed_guard type_steps queues_typed)
    (auto simp: type_kept_def well_typed_def set_verification_def Let_def with_id_Inr decision_def provider_ok_def split: if_splits intro!: list_all_upd)

lemma baseline_ok: "listing_ok l \<Longrightarrow> sl_status n \<in> {''draft'', ''pending'', ''approved'', ''rejected'', ''suspended'', ''archived''} \<Longrightarrow> listing_ok (baseline l n)"
  by (auto simp: listing_ok_def baseline_def Let_def)

lemma update_listing_typed:
  assumes "update_listing e i cond f d t = Inr (x, d')"
    and "\<And>l. well_typed d \<Longrightarrow> cond l \<Longrightarrow> listing_ok l \<Longrightarrow> sl_status (f l) \<in> {''draft'', ''pending'', ''approved'', ''rejected'', ''suspended'', ''archived''}"
  shows "type_kept d d'"
  using update_listing_D [OF assms(1)]
proof (elim disjE exE conjE)
  fix l assume l: "l \<in> set (listings d)" "cond l" "d' = d\<lparr>listings := upd (\<lambda>l. sl_id l = i \<and> cond l) (\<lambda>_. baseline l (f l)) (listings d)\<rparr>"
  have "listing_ok (baseline l (f l))" if t: "well_typed d"
  proof -
    have "listing_ok l" using l(1) t by (auto simp: well_typed_def list_all_iff)
    then show ?thesis using assms(2) [OF t l(2)] by (intro baseline_ok)
  qed
  then show ?thesis using l by (auto simp: type_kept_def well_typed_def list_all_iff upd_def)
qed (simp add: typing.refl)

lemma change_listing_typed:
  assumes "\<And>l l'. cond l \<Longrightarrow> f l = Inr l' \<Longrightarrow> sl_status l' \<in> {sl_status l, ''pending'', ''archived''}"
  shows "keeps type_kept (change_listing e listingID cond f)"
  unfolding change_listing_def
proof (intro typing.keeps_map_err typing.keeps_stmt)
  fix d t a d' assume "change_row e listingID cond f d t = Inr (a, d')"
  from change_row_D [OF this] show "type_kept d d'"
  proof (elim disjE exE conjE)
    fix i l l' assume l: "l \<in> set (listings d)" "cond l" "f l = Inr l'" "update_listing e i cond (\<lambda>_. l') d t = Inr (a, d')"
    show ?thesis
    proof (rule update_listing_typed [OF l(4)])
      assume "well_typed d"
      then have "listing_ok l" using l(1) by (auto simp: well_typed_def list_all_iff)
      then show "sl_status l' \<in> {''draft'', ''pending'', ''approved'', ''rejected'', ''suspended'', ''archived''}"
        using assms [OF l(2,3)] by (auto simp: listing_ok_def)
    qed
  qed (simp add: typing.refl)
qed

lemma CreateListing_typed: "keeps type_kept (CreateListing e user c)"
  unfolding CreateListing_def providerCapabilities_def providerListingLimit_def insert_listing_def Let_def
  by (intro type_steps side_typed) (auto simp: type_kept_def well_typed_def new_listing_def listing_ok_def dest!: add_listing_D)

lemma UpdateListing_typed: "keeps type_kept (UpdateListing e user l c)"
  unfolding UpdateListing_def
  by (intro type_steps side_typed change_listing_typed) (auto split: sum.splits)

lemma ArchiveListing_typed: "keeps type_kept (ArchiveListing e user l)"
  unfolding ArchiveListing_def by (intro type_steps side_typed change_listing_typed) auto

lemma SubmitListing_typed: "keeps type_kept (SubmitListing e user l)"
  unfolding SubmitListing_def requirePublishingEligibility_def providerListingLimit_def
  by (intro type_steps side_typed queues_typed change_listing_typed) auto

lemma AdminModerateListing_typed: "keeps type_kept (AdminModerateListing e admin l status ns expected)"
proof -
  have "keeps type_kept (moderate_listing e admin l st ns' expected)" if "decision st" for st ns'
    unfolding moderate_listing_def
    by (intro typing.keeps_stmt) (use that in \<open>auto simp: decision_def dest!: moderate_row_D elim!: update_listing_typed\<close>)
  then show ?thesis
    unfolding AdminModerateListing_def may_publish_def requirePublishingEligibility_def moderation_missed_def listing_exists_def Let_def
    by (intro typed_guard type_steps queues_typed)
qed

lemma DocumentReview_typed: "keeps type_kept (AdminReviewVerificationDocument e admin pv doc status ns)"
proof -
  have "type_kept d d'" if r: "review_document e p i st ns' d = (a, d')" and st: "st = ''approved'' \<or> st = ''rejected''" for d d' p i st ns' a
  proof -
    have docs: "list_all document_ok (upd h (\<lambda>x. x\<lparr>dc_status := st, dc_notes := ns'\<rparr>) (documents d))" if "well_typed d" for h
      using that st by (intro list_all_upd) (auto simp: well_typed_def document_ok_def)
    have rows: "list_all listing_ok (upd h (\<lambda>l. baseline l (l\<lparr>sl_status := ''suspended''\<rparr>)) (listings d))" if "well_typed d" for h
      using that by (intro list_all_upd baseline_ok) (auto simp: well_typed_def)
    show ?thesis using r docs rows
      by (auto simp: review_document_def revoke_driver_def Let_def type_kept_def well_typed_def split: if_splits)
  qed
  then show ?thesis unfolding AdminReviewVerificationDocument_def Let_def
    by (intro typed_guard type_steps) (auto simp: with_id_Inr)
qed

section \<open>Slots, requests and reviews\<close>

lemma RevealContact_typed: "keeps type_kept (RevealContact e user l ack)"
  unfolding RevealContact_def
  by (intro type_steps) (auto simp: type_kept_def well_typed_def with_id_Inr)

lemma ReportListing_typed: "keeps type_kept (ReportListing e user l reason)"
  unfolding ReportListing_def
  by (intro type_steps) (auto simp: type_kept_def well_typed_def with_id_Inr split: if_splits)

lemma UpsertAvailability_typed: "keeps type_kept (UpsertAvailability e user l q)"
proof -
  have "keeps type_kept (upsert_slot e l pv starts ends (max 1 n) st)" if "starts < ends" "st = ''open'' \<or> st = ''blocked'' \<or> st = ''closed''" for pv starts ends n st
    unfolding upsert_slot_def
    by (intro typing.keeps_stmt)
      (use that in \<open>auto simp: with_id_Inr with_int4_Inr type_kept_def well_typed_def slot_ok_def resize_slot_def split: if_splits option.splits intro!: list_all_upd\<close>)
  then show ?thesis unfolding UpsertAvailability_def Let_def
    by (intro typing.keeps_bind typing.keeps_or_else side_typed typing.keeps_prod typing.keeps_option typed_guard typing.keeps_map_err typing.keeps_fail)
qed

lemma linkRequestConversation_typed: "keeps type_kept (linkRequestConversation e i)"
  unfolding linkRequestConversation_def link_conversation_def link_message_def
  by (intro type_steps) (auto simp: type_kept_def well_typed_def split: if_splits option.splits)

lemma reserve_slot_typed: "keeps type_kept (reserve_slot e slot l party)"
  unfolding reserve_slot_def take_seats_def
  by (intro type_steps) (auto simp: with_id_Inr with_int4_Inr type_kept_def well_typed_def slot_ok_def seat_free_def intro!: list_all_upd)

lemma insert_request_typed: "request_ok r \<Longrightarrow> keeps type_kept (insert_request e r)"
  unfolding insert_request_def
  by (intro type_steps) (auto simp: type_kept_def well_typed_def request_ok_def dest!: add_request_D)

lemma type_fits_typed:
  assumes "wanted \<in> {''booking'', ''appointment'', ''inspection'', ''enquiry''} \<Longrightarrow> keeps type_kept (f ())"
  shows "keeps type_kept (bind (type_fits lt wanted) f)"
  unfolding type_fits_def by (cases "directBookingType lt") (auto intro!: typed_guard assms)

lemma CreateRequest_typed: "keeps type_kept (CreateRequest e user l q)"
proof -
  have "keeps type_kept (place_request e user l q)"
    unfolding place_request_def bookable_def independentBusinessContact_def Let_def
    by (intro type_fits_typed type_steps reserve_slot_typed insert_request_typed linkRequestConversation_typed) (simp add: request_ok_def)
  then show ?thesis unfolding CreateRequest_def book_def
    by (intro type_steps queues_typed) (auto split: booking.splits intro!: type_steps queues_typed)
qed

lemma UpdateProviderRequest_typed: "keeps type_kept (UpdateProviderRequest e user r status)"
  unfolding UpdateProviderRequest_def move_request_def Let_def
  by (intro type_steps side_typed) (auto simp: with_id_Inr type_kept_def well_typed_def request_ok_def request_step_def split: option.splits intro!: list_all_upd)

lemma UpsertListingReview_typed: "keeps type_kept (UpsertListingReview e user l r rating words)"
proof -
  have "keeps type_kept (write_review e r v)" if "review_ok v" for v
    unfolding write_review_def insert_review_def change_review_def review_reward_def Let_def
    by (intro type_steps side_typed) (use that in \<open>auto simp: with_id_Inr type_kept_def well_typed_def review_ok_def split: if_splits intro!: list_all_upd\<close>)
  then show ?thesis unfolding UpsertListingReview_def
    by (intro typed_guard type_steps) (simp add: review_ok_def)
qed

section \<open>Every event\<close>

lemma event_typed: "keeps type_kept (serve ev)"
  by (cases ev) (simp_all only: serve.simps run_def typing.keeps_ignore Onboard_typed UpdateMyProvider_typed AddVerificationDocument_typed AdminVerifyProvider_typed
    CreateListing_typed UpdateListing_typed ArchiveListing_typed SubmitListing_typed AdminModerateListing_typed DocumentReview_typed RevealContact_typed ReportListing_typed
    UpsertAvailability_typed CreateRequest_typed UpdateProviderRequest_typed UpsertListingReview_typed)

text \<open>
  C15. The CHECK constraints of the marketplace tables are a type of the database states: every history
  of requests, with every pattern of database faults, keeps the statuses of listings, slots, requests,
  documents and providers in their sets, capacities positive, remaining seats not negative, slots
  of positive length, parties positive and ratings between 1 and 5. So no statement of
  the model can fail for a CHECK the model leaves out.
\<close>

theorem marketplace_well_typed:
  assumes "serves d0 h d" "well_typed d0"
  shows "well_typed d"
proof (rule serves_invariant [OF assms(1), where I = "\<lambda>_. well_typed"])
  show "wp t (serve ev) (\<lambda>_. well_typed) (\<lambda>_. well_typed) d" if "well_typed d" for t ev d
    by (rule wp_keeps [OF event_typed]) (use that in \<open>simp_all add: type_kept_def\<close>)
qed (rule assms(2))

theorem marketplace_well_typed_witness: "well_typed service_end \<and> slots service_end \<noteq> []"
proof -
  have "well_typed sv_start" by (simp add: well_typed_def sv_start_def provider_ok_def member_ok_def)
  from marketplace_well_typed [OF day_served this] show ?thesis using service_end_rows(2) by auto
qed

end
