(* ===== verification/XP_Books.thy ===== *)
theory XP_Books
  imports XP
begin

text \<open>
  Correctness of the loyalty points (theory XP): the books invariant and its preservation by
  every handler under every fault pattern, the life of a withdrawal, retries.
\<close>

section \<open>The books\<close>

definition wd_reason :: "string \<Rightarrow> bool" where
  "wd_reason s = (s = ''withdrawal_reserved'' \<or> s = ''withdrawal_released'')"

definition wd_ledger :: "string \<Rightarrow> xp_row list \<Rightarrow> int" where
  "wd_ledger u X = sum_of (\<lambda>x. x_user x = u \<and> wd_reason (x_reason x)) x_amount X"

definition wd_points :: "string \<Rightarrow> withdrawal_row list \<Rightarrow> int" where
  "wd_points u W = sum_of (\<lambda>w. w_user w = u \<and> w_status w \<noteq> ''rejected'') w_points W"

definition released_rejected :: "xp_row list \<Rightarrow> withdrawal_row list \<Rightarrow> bool" where
  "released_rejected X W = (\<forall>x \<in> set X. x_reason x = ''withdrawal_released'' \<longrightarrow>
     (\<exists>w \<in> set W. w_id w = x_reference x \<and> w_status w = ''rejected''))"

definition xp_books :: "db \<Rightarrow> bool" where
  "xp_books d = (xp_ok (xp_txns d) \<and> redemptions_ok (redemptions d) \<and> withdrawals_ok (withdrawals d) \<and>
     orders_ok (orders d) \<and> released_rejected (xp_txns d) (withdrawals d) \<and>
     (\<forall>u. wd_ledger u (xp_txns d) = - wd_points u (withdrawals d)) \<and>
     (\<forall>u. xp_reserved u d \<le> xp_total u d))"

lemma xp_books_other [simp]:
  "xp_books (d\<lparr>notifications := N\<rparr>) = xp_books d"
  "xp_books (d\<lparr>daily_logins := D\<rparr>) = xp_books d"
  "xp_books (d\<lparr>review_rewards := V\<rparr>) = xp_books d"
  by (simp_all add: xp_books_def xp_reserved_def xp_total_def)

lemma reserved_upd_le:
  assumes "redemptions_ok R" "s \<noteq> ''reserved''"
  shows "sum_of (\<lambda>r. r_user r = u \<and> r_status r = ''reserved'') r_points
           (upd p (r_status_update (\<lambda>_. s)) R)
       \<le> sum_of (\<lambda>r. r_user r = u \<and> r_status r = ''reserved'') r_points R"
proof -
  have "list_all (\<lambda>r. 0 < r_points r) R" using assms(1) by (simp add: redemptions_ok_def)
  then show ?thesis using assms(2) by (induction R) auto
qed

lemma xp_books_release:
  assumes "xp_books d" "R = redemptions d" "redemptions_ok (upd p (r_status_update (\<lambda>_. s)) R)" "s \<noteq> ''reserved''"
  shows "xp_books (d\<lparr>redemptions := upd p (r_status_update (\<lambda>_. s)) R\<rparr>)"
proof -
  have "sum_of (\<lambda>r. r_user r = u \<and> r_status r = ''reserved'') r_points
           (upd p (r_status_update (\<lambda>_. s)) (redemptions d)) \<le> xp_total u d" for u
    using reserved_upd_le [of "redemptions d" s u p] assms(1,4)
    by (auto simp: xp_books_def xp_reserved_def intro: order_trans)
  with assms show ?thesis by (simp add: xp_books_def xp_reserved_def xp_total_def)
qed

lemma xp_books_add:
  assumes "xp_books d" "X = xp_txns d" "xp_ok (X @ [r])" "0 \<le> x_amount r" "\<not> wd_reason (x_reason r)"
  shows "xp_books (d\<lparr>xp_txns := X @ [r]\<rparr>)"
proof -
  have rs: "x_reason r \<noteq> ''withdrawal_released''" using assms(5) by (simp add: wd_reason_def)
  have "xp_reserved u d \<le> xp_total u d" for u using assms(1) by (simp add: xp_books_def)
  then have "xp_reserved u d \<le> xp_total u d + x_amount r" for u using assms(4) by (rule add_increasing2 [rotated])
  then show ?thesis using assms rs
    by (auto simp: xp_books_def released_rejected_def wd_ledger_def xp_total_def xp_reserved_def)
qed

lemma xp_books_withdraw:
  assumes "xp_books d" "W = withdrawals d" "X = xp_txns d" "withdrawals_ok (W @ [w])" "xp_ok (X @ [x])"
    and "x_user x = w_user w" "x_amount x = - w_points w" "x_reason x = ''withdrawal_reserved''"
    and "w_status w = ''pending''" "w_points w \<le> xp_total (w_user w) d - xp_reserved (w_user w) d"
  shows "xp_books (d\<lparr>withdrawals := W @ [w], xp_txns := X @ [x]\<rparr>)"
  using assms
  by (auto simp: xp_books_def released_rejected_def wd_ledger_def wd_points_def wd_reason_def
        xp_total_def xp_reserved_def)

lemmas xp_prog_defs = lockXPUser_def releaseUnusedXP_def availableXP_def validateXPReservation_def
  consumeXP_def

lemma RequestWithdrawal_books:
  assumes "xp_books d"
  shows "wp t (RequestWithdrawal env i u b) (\<lambda>_. xp_books) (\<lambda>_. xp_books) d"
  unfolding RequestWithdrawal_def xp_prog_defs
  by (intro wp_rules; simp add: assms)
     (auto intro!: xp_books_withdraw xp_books_release assms)

text \<open>A withdrawal id occurs once, so the review works on the row it read.\<close>

lemma wd_points_upd:
  assumes "uniq (\<lambda>r. Some (w_id r)) W" "w \<in> set W" "w_id w = i"
    and "\<And>x. w_user (f x) = w_user x" "\<And>x. w_points (f x) = w_points x" "\<And>x. w_status (f x) = s"
    and "w_status w \<noteq> ''rejected''"
  shows "wd_points u (upd (\<lambda>x. w_id x = i) f W) =
    wd_points u W - (if s = ''rejected'' \<and> w_user w = u then w_points w else 0)"
  unfolding wd_points_def
  by (subst sum_of_upd_one [OF assms(1,2), where x = i]) (use assms(3-7) in auto)

lemma withdrawals_uniq: "withdrawals_ok W \<Longrightarrow> uniq (\<lambda>r. Some (w_id r)) W"
  by (simp add: withdrawals_ok_def)

lemma no_release_clash:
  assumes "xp_books d" "w \<in> set (withdrawals d)" "w_id w = i" "w_status w \<noteq> ''rejected''"
    and "x_reason x = ''withdrawal_released''" "x_reference x = i"
  shows "\<not> clash xp_key x (xp_txns d)"
proof
  assume "clash xp_key x (xp_txns d)"
  then obtain y where y: "y \<in> set (xp_txns d)" "x_reason y = ''withdrawal_released''" "x_reference y = i"
    using assms(5,6) by (auto simp: clash_def xp_key_def set_keys split: if_splits)
  then obtain v where v: "v \<in> set (withdrawals d)" "w_id v = i" "w_status v = ''rejected''"
    using assms(1) by (auto simp: xp_books_def released_rejected_def)
  have "uniq (\<lambda>r. Some (w_id r)) (withdrawals d)"
    using assms(1) by (auto simp: xp_books_def withdrawals_uniq)
  from uniq_rows [OF this v(1) assms(2)] v assms(3,4) show False by auto
qed

lemma released_kept:
  assumes "xp_books d" "w \<in> set (withdrawals d)" "w_id w = i" "w_status w \<noteq> ''rejected''"
    and "\<And>x. w_id (f x) = w_id x"
  shows "released_rejected (xp_txns d) (upd (\<lambda>x. w_id x = i) f (withdrawals d))"
  unfolding released_rejected_def
proof (intro ballI impI)
  fix x assume x: "x \<in> set (xp_txns d)" "x_reason x = ''withdrawal_released''"
  then obtain v where v: "v \<in> set (withdrawals d)" "w_id v = x_reference x" "w_status v = ''rejected''"
    using assms(1) by (auto simp: xp_books_def released_rejected_def)
  have u: "uniq (\<lambda>r. Some (w_id r)) (withdrawals d)"
    using assms(1) by (auto simp: xp_books_def withdrawals_uniq)
  have "w_id v \<noteq> i" using uniq_rows [OF u v(1) assms(2)] v assms(3,4) by auto
  then have "v \<in> set (upd (\<lambda>x. w_id x = i) f (withdrawals d))" using v(1) by (force simp: set_upd)
  with v show "\<exists>w \<in> set (upd (\<lambda>x. w_id x = i) f (withdrawals d)). w_id w = x_reference x \<and> w_status w = ''rejected''"
    by blast
qed

lemma xp_books_reject:
  assumes b: "xp_books d" and w: "w \<in> set (withdrawals d)" "w_id w = i" "w_status w \<noteq> ''rejected''"
    and W: "W = withdrawals d" and X: "X = xp_txns d"
    and x: "x_user x = w_user w" "x_amount x = w_points w" "x_reason x = ''withdrawal_released''" "x_reference x = i"
    and ok: "xp_ok (X @ [x])" "withdrawals_ok (upd (\<lambda>x. w_id x = i) f W)"
    and f: "\<And>x. w_user (f x) = w_user x" "\<And>x. w_points (f x) = w_points x" "\<And>x. w_id (f x) = w_id x"
      "\<And>x. w_status (f x) = ''rejected''"
  shows "xp_books (d\<lparr>xp_txns := X @ [x], withdrawals := upd (\<lambda>x. w_id x = i) f W\<rparr>)"
proof -
  have u: "uniq (\<lambda>r. Some (w_id r)) (withdrawals d)"
    using b by (auto simp: xp_books_def withdrawals_uniq)
  have pts: "wd_points v (upd (\<lambda>x. w_id x = i) f (withdrawals d)) =
      wd_points v (withdrawals d) - (if w_user w = v then w_points w else 0)" for v
    using wd_points_upd [OF u w(1,2) f(1,2,4) w(3)] by simp
  have "0 \<le> w_points w"
    using b w(1) by (auto simp: xp_books_def withdrawals_ok_def list_all_iff)
  moreover have "xp_reserved v d \<le> xp_total v d" for v using b by (simp add: xp_books_def)
  ultimately have tot: "xp_reserved v d \<le> xp_total v d + w_points w" for v by (rule add_increasing2)
  have rel: "released_rejected (xp_txns d @ [x]) (upd (\<lambda>x. w_id x = i) f (withdrawals d))"
  proof -
    have "f w \<in> set (upd (\<lambda>x. w_id x = i) f (withdrawals d))" using w(1,2) by (force simp: set_upd)
    then have "\<exists>v \<in> set (upd (\<lambda>x. w_id x = i) f (withdrawals d)). w_id v = x_reference x \<and> w_status v = ''rejected''"
      using w(2) x(4) f(3,4) by metis
    then show ?thesis using released_kept [OF b w(1) w(2,3), of f] f(3) by (simp add: released_rejected_def)
  qed
  have led: "wd_ledger v (xp_txns d @ [x]) = wd_ledger v (xp_txns d) + (if w_user w = v then w_points w else 0)" for v
    using x by (simp add: wd_ledger_def wd_reason_def)
  have "\<forall>v. wd_ledger v (xp_txns d) = - wd_points v (withdrawals d)" using b by (simp add: xp_books_def)
  then have "\<forall>v. wd_ledger v (xp_txns d @ [x]) = - wd_points v (upd (\<lambda>x. w_id x = i) f (withdrawals d))"
    using led pts by simp
  moreover have "\<forall>v. xp_reserved v (d\<lparr>xp_txns := xp_txns d @ [x], withdrawals := upd (\<lambda>x. w_id x = i) f (withdrawals d)\<rparr>) \<le>
      xp_total v (d\<lparr>xp_txns := xp_txns d @ [x], withdrawals := upd (\<lambda>x. w_id x = i) f (withdrawals d)\<rparr>)"
    using tot b x by (auto simp: xp_books_def xp_total_def xp_reserved_def)
  ultimately show ?thesis
    using b ok rel unfolding W X xp_books_def by simp
qed

lemma xp_books_review:
  assumes b: "xp_books d" and w: "w \<in> set (withdrawals d)" "w_id w = i" "w_status w \<noteq> ''rejected''"
    and W: "W = withdrawals d" and ok: "withdrawals_ok (upd (\<lambda>x. w_id x = i) f W)"
    and f: "\<And>x. w_user (f x) = w_user x" "\<And>x. w_points (f x) = w_points x" "\<And>x. w_id (f x) = w_id x"
      "\<And>x. w_status (f x) = s" "s \<noteq> ''rejected''"
  shows "xp_books (d\<lparr>withdrawals := upd (\<lambda>x. w_id x = i) f W\<rparr>)"
proof -
  have u: "uniq (\<lambda>r. Some (w_id r)) (withdrawals d)"
    using b by (auto simp: xp_books_def withdrawals_uniq)
  have pts: "wd_points v (upd (\<lambda>x. w_id x = i) f (withdrawals d)) = wd_points v (withdrawals d)" for v
    using wd_points_upd [OF u w(1,2) f(1,2,4) w(3)] f(5) by simp
  show ?thesis
    using b ok pts released_kept [OF b w(1) w(2,3), of f] f(3)
    by (simp add: W xp_books_def xp_total_def xp_reserved_def)
qed

lemma AdminReviewWithdrawal_books:
  assumes b: "xp_books d"
  shows "wp t (AdminReviewWithdrawal env a r i b') (\<lambda>_. xp_books) (\<lambda>_. xp_books) d"
proof -
  note reject = xp_books_reject [OF b _ refl _ refl refl]
  note review = xp_books_review [OF b _ refl _ refl]
  note clash = no_release_clash [OF b]
  show ?thesis
    unfolding AdminReviewWithdrawal_def xp_prog_defs
    apply (intro wp_rules wp_notify)
    apply (simp_all add: b row_def split: option.splits)
    apply (safe dest!: find_Some_D)
    apply (auto simp add: b clash intro: review reject split: if_splits)
    done
qed

lemma xp_books_insert:
  assumes "xp_books d" "insert_ignore xp_txns set_xp (clash xp_key) x d = Inr (n, d')"
    and "0 \<le> x_amount x" "\<not> wd_reason (x_reason x)"
  shows "xp_books d'"
  using assms xp_books_add [of d "xp_txns d" x] by auto

lemma wp_award:
  assumes "xp_books d" "0 \<le> x_amount x" "\<not> wd_reason (x_reason x)"
    and "\<And>n d'. xp_books d' \<Longrightarrow> Q n d'" "\<And>e d'. xp_books d' \<Longrightarrow> E e d'"
  shows "wp t (stmt (\<lambda>d t. insert_ignore xp_txns set_xp (clash xp_key) x d)) Q E d"
  by (rule wp_stmt) (use assms xp_books_insert [OF assms(1) _ assms(2,3)] in \<open>auto simp del: insert_ignore_Inr\<close>)

lemma award_books:
  assumes "xp_books d" "0 \<le> amount" "\<not> wd_reason reason"
  shows "wp t (award u i amount reason ref k ti bo) (\<lambda>_. xp_books) (\<lambda>_. xp_books) d"
  unfolding award_def by (intro wp_rules wp_award wp_notify) (simp_all add: assms)

lemma AwardDailyLogin_books:
  assumes "xp_books d"
  shows "wp t (AwardDailyLogin u s) (\<lambda>_. xp_books) (\<lambda>_. xp_books) d"
  unfolding AwardDailyLogin_def Let_def
  by (intro wp_rules wp_award wp_notify) (auto simp: assms wd_reason_def split: if_splits)

lemma createReviewRewardTx_books:
  assumes "xp_books d"
  shows "wp t (createReviewRewardTx u i) (\<lambda>_. xp_books) (\<lambda>_ _. True) d"
proof -
  have fee: "0 \<le> review_purchase_amount (o_fee x)" if "find p (orders d) = Some x" for p x
    using find_Some_D [OF that] assms
    by (auto simp: xp_books_def orders_ok_def list_all_iff review_purchase_amount_def min_def)
  show ?thesis
    unfolding createReviewRewardTx_def
    by (intro wp_rules wp_notify)
       (auto simp: assms wd_reason_def fee split: if_splits option.splits intro!: xp_books_add)
qed

lemma creditReviewReward_books:
  assumes "xp_books d"
  shows "wp t (creditReviewReward u i) (\<lambda>_. xp_books) (\<lambda>_. xp_books) d"
  unfolding creditReviewReward_def Let_def
  by (intro wp_rules wp_award wp_notify) (auto simp: assms wd_reason_def reviewRewardXP_def)

lemma ReleaseXPQuote_books:
  assumes "xp_books d"
  shows "wp t (ReleaseXPQuote u i) (\<lambda>_. xp_books) (\<lambda>_. xp_books) d"
  unfolding ReleaseXPQuote_def xp_prog_defs
  by (intro wp_rules) (auto simp: assms intro!: xp_books_release)

lemma GetBalance_books:
  assumes "xp_books d"
  shows "wp t (GetBalance u) (\<lambda>_. xp_books) (\<lambda>_. xp_books) d"
  unfolding GetBalance_def xp_prog_defs
  by (intro wp_rules wp_transaction_with) (auto simp: assms intro!: xp_books_release)

text \<open>The purchase award is between 0 and 25 points.\<close>

lemma purchase_award_range:
  assumes "0 \<le> fee" "num_range fee"
  shows "0 \<le> purchase_award_amount tot (scan_num fee) \<and> purchase_award_amount tot (scan_num fee) \<le> 25"
proof -
  have t: "fl (1/10) = Fin (rnd (1/10))" by (intro fl_Fin) simp
  have "0 \<le> rnd (of_int fee / 100) * rnd (1/10)"
    using assms(1) by (intro mult_nonneg_nonneg rnd_nonneg) auto
  then have "f_mul (scan_num fee) (fl (1/10)) = PInf \<or> (\<exists>r. f_mul (scan_num fee) (fl (1/10)) = Fin r \<and> 0 \<le> r)"
    using fl_nonneg by (simp add: scan_num_Fin assms t)
  from f_min_small [OF _ _ this] purchaseXP_range [of tot] show ?thesis
    unfolding purchase_award_amount_def by (meson order_trans)
qed

lemma AwardPurchase_books:
  assumes "xp_books d"
  shows "wp t (AwardPurchase u i tot) (\<lambda>_. xp_books) (\<lambda>_. xp_books) d"
proof -
  have fees: "0 \<le> fold max xs x \<and> num_range (fold max xs x)"
    if "map o_fee (filter p (orders d)) = x # xs" for p x xs
  proof -
    have "\<forall>k \<in> set (x # xs). 0 \<le> k \<and> num_range k"
      unfolding that [symmetric] using assms by (auto simp: xp_books_def orders_ok_def list_all_iff)
    then show ?thesis by (induction xs arbitrary: x) (auto simp: max_def)
  qed
  have z: "0 \<le> purchase_award_amount tot (scan_num (case map o_fee (filter p (orders d)) of [] \<Rightarrow> 0 | x # xs \<Rightarrow> fold max xs x))" for p
    using purchase_award_range [of "case map o_fee (filter p (orders d)) of [] \<Rightarrow> 0 | x # xs \<Rightarrow> fold max xs x" tot]
      fees [of p] by (auto split: list.splits simp: num_range_def)
  show ?thesis
    unfolding AwardPurchase_def Let_def
    by (intro wp_rules wp_mono [OF award_books]) (auto simp: assms wd_reason_def z intro!: wp_rules)
qed

lemma xp_books_consume:
  assumes b: "xp_books d" and R: "R = redemptions d" and X: "X = xp_txns d"
    and r: "find (\<lambda>r. r_order r = i \<and> r_status r = ''reserved'') R = Some r"
    and ok: "redemptions_ok (upd (\<lambda>r. r_order r = i \<and> r_status r = ''reserved'') (r_status_update (\<lambda>_. ''consumed'')) R)"
  shows "xp_books (d\<lparr>redemptions := upd (\<lambda>r. r_order r = i \<and> r_status r = ''reserved'')
      (r_status_update (\<lambda>_. ''consumed'')) R\<rparr>)"
    and "x_user x = r_user r \<Longrightarrow> x_amount x = - r_points r \<Longrightarrow> \<not> wd_reason (x_reason x) \<Longrightarrow> xp_ok (X @ [x]) \<Longrightarrow>
      xp_books (d\<lparr>redemptions := upd (\<lambda>r. r_order r = i \<and> r_status r = ''reserved'')
        (r_status_update (\<lambda>_. ''consumed'')) R, xp_txns := X @ [x]\<rparr>)"
proof -
  let ?p = "\<lambda>r. r_order r = i \<and> r_status r = ''reserved''"
  have rr: "r \<in> set (redemptions d)" "?p r" using find_Some_D [OF r] R by auto
  have u: "uniq (\<lambda>r. Some (r_order r)) (redemptions d)" using b by (simp add: xp_books_def redemptions_ok_def)
  have res: "sum_of (\<lambda>r. r_user r = v \<and> r_status r = ''reserved'') r_points
      (upd ?p (r_status_update (\<lambda>_. ''consumed'')) (redemptions d)) = xp_reserved v d - (if r_user r = v then r_points r else 0)" for v
    unfolding xp_reserved_def by (subst sum_of_upd_one [OF u rr(1), where x = i]) (use rr in auto)
  have pos: "0 < r_points r" using b rr(1) by (auto simp: xp_books_def redemptions_ok_def list_all_iff)
  have sol: "xp_reserved v d \<le> xp_total v d" for v using b by (simp add: xp_books_def)
  have "xp_reserved v d - (if r_user r = v then r_points r else 0) \<le> xp_total v d" for v
    using sol [of v] pos by simp
  then show "xp_books (d\<lparr>redemptions := upd ?p (r_status_update (\<lambda>_. ''consumed'')) R\<rparr>)"
    using b ok by (simp add: R xp_books_def xp_total_def xp_reserved_def [of _ "_\<lparr>redemptions := _\<rparr>"] res)
  assume x: "x_user x = r_user r" "x_amount x = - r_points r" "\<not> wd_reason (x_reason x)" "xp_ok (X @ [x])"
  then have "x_reason x \<noteq> ''withdrawal_released''" by (simp add: wd_reason_def)
  then show "xp_books (d\<lparr>redemptions := upd ?p (r_status_update (\<lambda>_. ''consumed'')) R, xp_txns := X @ [x]\<rparr>)"
    using b ok x sol
    by (simp add: R X xp_books_def xp_total_def xp_reserved_def [of _ "_\<lparr>xp_txns := _\<rparr>"] res wd_ledger_def
          released_rejected_def)
qed

lemma consumeXP_books:
  assumes "xp_books d"
  shows "wp t (consumeXP i) (\<lambda>_. xp_books) (\<lambda>_ _. True) d"
  unfolding consumeXP_def Let_def
  apply (intro wp_rules)
  apply (auto simp: assms wd_reason_def split: option.splits sum.splits intro!: xp_books_consume)
  done

section \<open>Any sequence of requests\<close>

datatype xp_op =
    XpRequest string string "withdrawal_request option"
  | XpReview string string string "review_request option"
  | XpWelcome string
  | XpDaily string
  | XpPurchase string string
  | XpReviewReward string string
  | XpReleaseQuote string string
  | XpBalance string

fun run_xp :: "env \<Rightarrow> xp_op \<Rightarrow> (db, unit) prog" where
  "run_xp env (XpRequest i u b) = ignore (RequestWithdrawal env i u b)"
| "run_xp env (XpReview a r i b) = ignore (AdminReviewWithdrawal env a r i b)"
| "run_xp env (XpWelcome u) = ignore (AwardWelcome u)"
| "run_xp env (XpDaily u) = ignore (ClaimDailyLogin u)"
| "run_xp env (XpPurchase u i) = ignore (AwardPurchaseXP u i)"
| "run_xp env (XpReviewReward u i) = ignore (ClaimReviewReward u i)"
| "run_xp env (XpReleaseQuote u i) = ignore (ReleaseXPQuote u i)"
| "run_xp env (XpBalance u) = ignore (GetBalance u)"

definition run_xps :: "env \<Rightarrow> xp_op list \<Rightarrow> (db, unit) prog" where
  "run_xps env ops = for_each (run_xp env) ops"

lemma AwardPurchaseXP_books:
  assumes "xp_books d"
  shows "wp t (AwardPurchaseXP u i) (\<lambda>_. xp_books) (\<lambda>_. xp_books) d"
  unfolding AwardPurchaseXP_def
  by (intro wp_rules wp_mono [OF AwardPurchase_books]) (auto simp: assms intro!: wp_rules)

lemma run_xp_books:
  assumes "xp_books d"
  shows "wp t (run_xp env x) (\<lambda>_. xp_books) (\<lambda>_. xp_books) d"
proof (cases x)
  case (XpDaily u)
  then show ?thesis unfolding run_xp.simps ClaimDailyLogin_def
    by (simp only: run_xp.simps ClaimDailyLogin_def,
        intro wp_rules wp_mono [OF AwardDailyLogin_books]) (auto simp: assms intro!: wp_rules)
next
  case (XpReviewReward u i)
  then show ?thesis
    by (simp only: run_xp.simps ClaimReviewReward_def,
        intro wp_rules wp_mono [OF creditReviewReward_books]) (auto simp: assms intro!: wp_rules)
qed (auto simp: AwardWelcome_def wd_reason_def welcomeXP_def assms intro!: wp_ignore award_books
      RequestWithdrawal_books AdminReviewWithdrawal_books AwardPurchaseXP_books ReleaseXPQuote_books GetBalance_books)

text \<open>
  C4. Whatever sequence of point requests arrives (withdrawal requests and reviews, rewards,
  purchase and review awards, quote releases, balance reads) and however the database fails in
  between, the books stay right: no buyer's reserved points exceed the balance, and the ledger's
  withdrawal entries of each buyer add up to exactly the points of the withdrawals that are
  not rejected.
\<close>

theorem xp_books_always:
  assumes "xp_books (db w)"
  shows "xp_books (db (snd (run_xps env ops w)))"
  unfolding run_xps_def
  by (rule wp_both) (rule wp_for_each, rule run_xp_books, auto simp: assms)

lemma xp_books_always_witness:
  "xp_books (db (snd (run_xps env0 [XpRequest ''w1'' ''u'' (Some \<lparr>q_key = ''k'', q_points = 1200,
      q_bank = ''Bank'', q_account = ''0123456789'', q_name = ''Ada''\<rparr>), XpReview ''a'' ''finance_admin'' ''w1''
      (Some \<lparr>v_status = ''rejected'', v_reference = [], v_note = ''name differs''\<rparr>)]
    (world0 (empty_db\<lparr>xp_txns := [\<lparr>x_user = ''u'', x_amount = 1500, x_reason = ''purchase'', x_reference = ''purchase-1''\<rparr>]\<rparr>) 0))))"
  by (rule xp_books_always)
     (simp add: xp_books_def empty_db_def xp_ok_def uniq_def xp_key_def redemptions_ok_def withdrawals_ok_def
        orders_ok_def released_rejected_def wd_ledger_def wd_points_def wd_reason_def xp_reserved_def xp_total_def)

section \<open>The life of a withdrawal\<close>

text \<open>A guarantee: the table stays well formed and no closed withdrawal is touched.\<close>

definition closed_kept :: "db \<Rightarrow> db \<Rightarrow> bool" where
  "closed_kept d d' = (withdrawals_ok (withdrawals d) \<longrightarrow> withdrawals_ok (withdrawals d') \<and>
     (\<forall>w \<in> set (withdrawals d). \<not> withdrawal_open w \<longrightarrow> w \<in> set (withdrawals d')))"

interpretation closed: guarantee closed_kept
  by unfold_locales (auto simp: closed_kept_def)

lemma closed_kept_same [simp]: "withdrawals d' = withdrawals d \<Longrightarrow> closed_kept d d'"
  by (simp add: closed_kept_def)

lemma closed_kept_append:
  "withdrawals_ok (W @ [w]) \<Longrightarrow> W = withdrawals d \<Longrightarrow> withdrawals d' = W @ [w] \<Longrightarrow> closed_kept d d'"
  by (simp add: closed_kept_def)

lemma closed_kept_review:
  assumes "find (\<lambda>w. w_id w = i) W = Some w" "w_status w \<noteq> ''paid''" "w_status w \<noteq> ''rejected''"
    and "W = withdrawals d" "withdrawals_ok (upd (\<lambda>w. w_id w = i) f W)" "withdrawals d' = upd (\<lambda>w. w_id w = i) f W"
  shows "closed_kept d d'"
  unfolding closed_kept_def
proof (intro impI conjI ballI)
  show "withdrawals_ok (withdrawals d')" using assms(5,6) by simp
  fix v assume ok: "withdrawals_ok (withdrawals d)" and v: "v \<in> set (withdrawals d)" "\<not> withdrawal_open v"
  have w: "w \<in> set (withdrawals d)" "w_id w = i" using find_Some_D [OF assms(1)] assms(4) by auto
  have "withdrawal_open w" using ok w(1) assms(2,3) by (auto simp: withdrawals_ok_def list_all_iff withdrawal_open_def)
  moreover have "v = w" if "w_id v = i"
    using uniq_rows [OF withdrawals_uniq [OF ok] v(1) w(1)] that w(2) by auto
  ultimately have "w_id v \<noteq> i" using v(2) by auto
  then show "v \<in> set (withdrawals d')" using v(1) assms(4,6) by (force simp: set_upd)
qed

lemma AdminReviewWithdrawal_closed:
  "wp t (AdminReviewWithdrawal env a r i b) (\<lambda>_. closed_kept d) (\<lambda>_. closed_kept d) d"
  unfolding AdminReviewWithdrawal_def xp_prog_defs
  apply (intro wp_rules wp_notify)
  apply (simp_all add: row_def split: option.splits)
  apply (auto elim!: closed_kept_review)
  done

lemma RequestWithdrawal_closed:
  "wp t (RequestWithdrawal env i u b) (\<lambda>_. closed_kept d) (\<lambda>_. closed_kept d) d"
  unfolding RequestWithdrawal_def xp_prog_defs
  by (intro wp_rules) (auto elim!: closed_kept_append)

lemma closed_stmts:
  "keeps closed_kept (insertNotification u i b ty ti bo da k)"
  "keeps closed_kept (stmt (\<lambda>d t. insert_ignore xp_txns set_xp c x d))"
  "keeps closed_kept (stmt (\<lambda>d t. update_rows redemptions set_redemptions (p d t) f d))"
  by (auto simp: insertNotification_def intro!: closed.keeps_stmt)

lemma award_closed: "keeps closed_kept (award u i amount reason ref k ti bo)"
  unfolding award_def by (intro closed.keeps_all closed_stmts)

lemma run_xp_closed: "keeps closed_kept (run_xp env x)"
proof (cases x)
  case (XpRequest i u b)
  then show ?thesis using keeps_wp [of "RequestWithdrawal env i u b" closed_kept] RequestWithdrawal_closed
    by (simp add: closed.keeps_ignore)
next
  case (XpReview a r i b)
  then show ?thesis using keeps_wp [of "AdminReviewWithdrawal env a r i b" closed_kept] AdminReviewWithdrawal_closed
    by (simp add: closed.keeps_ignore)
next
  case (XpWelcome u)
  then show ?thesis by (simp add: AwardWelcome_def closed.keeps_ignore award_closed)
next
  case (XpDaily u)
  then show ?thesis unfolding XpDaily run_xp.simps ClaimDailyLogin_def AwardDailyLogin_def
    by (intro closed.keeps_all closed_stmts closed.keeps_stmt) (auto split: if_splits)
next
  case (XpPurchase u i)
  then show ?thesis unfolding XpPurchase run_xp.simps AwardPurchaseXP_def AwardPurchase_def
    by (intro closed.keeps_all award_closed)
next
  case (XpReviewReward u i)
  then show ?thesis unfolding XpReviewReward run_xp.simps ClaimReviewReward_def creditReviewReward_def
    by (intro closed.keeps_all closed_stmts closed.keeps_stmt) (auto simp: Let_def)
next
  case (XpReleaseQuote u i)
  then show ?thesis unfolding XpReleaseQuote run_xp.simps ReleaseXPQuote_def lockXPUser_def
    by (intro closed.keeps_all closed_stmts)
next
  case (XpBalance u)
  then show ?thesis unfolding XpBalance run_xp.simps GetBalance_def xp_prog_defs
    by (intro closed.keeps_all closed.keeps_transaction_with closed_stmts)
qed

text \<open>
  C26. A closed withdrawal is final: through any sequence of point requests and failures, a row
  that is paid or rejected stays in the table exactly as it is.
\<close>

theorem closed_withdrawals_final:
  assumes "withdrawals_ok (withdrawals (db w))" "v \<in> set (withdrawals (db w))" "\<not> withdrawal_open v"
  shows "v \<in> set (withdrawals (db (snd (run_xps env ops w))))"
proof -
  have "keeps closed_kept (run_xps env ops)"
    unfolding run_xps_def by (rule closed.keeps_for_each) (rule run_xp_closed)
  then show ?thesis using assms unfolding keeps_def closed_kept_def by blast
qed

definition paid_row :: withdrawal_row where
  "paid_row = \<lparr>w_id = ''w1'', w_user = ''u'', w_key = ''k'', w_points = 1200,
     w_bank = (''Bank'', ''0123456789'', ''Ada''), w_status = ''paid'', w_reference = ''T1'', w_note = [],
     w_reviewer = ''a''\<rparr>"

lemma closed_withdrawals_final_witness:
  "paid_row \<in> set (withdrawals (db (snd (run_xps env0
     [XpReview ''a'' ''super_admin'' ''w1'' (Some \<lparr>v_status = ''rejected'', v_reference = [], v_note = ''x''\<rparr>)]
     (world0 (empty_db\<lparr>withdrawals := [paid_row]\<rparr>) 0)))))"
  by (rule closed_withdrawals_final)
     (simp_all add: empty_db_def paid_row_def withdrawals_ok_def uniq_def withdrawal_open_def
        trim_space_def trim_by_def trim_left_def trim_right_def is_space_def)

text \<open>
  C27. A withdrawal becomes paid only by a Super Admin's review that carries a bank reference, of
  a request that was being processed; the review changes no other withdrawal.
\<close>

theorem AdminReviewWithdrawal_paid:
  assumes "withdrawals_ok (withdrawals (db w))"
    and "v \<in> set (withdrawals (db (snd (AdminReviewWithdrawal env a r i b w))))" "w_status v = ''paid''"
    and "v \<notin> set (withdrawals (db w))"
  shows "r = ''super_admin'' \<and> w_id v = i \<and> w_reference v \<noteq> [] \<and>
    (\<exists>req. b = Some req \<and> w_reference v = trim_space (v_reference req)) \<and>
    (\<exists>u \<in> set (withdrawals (db w)). w_id u = i \<and> w_status u = ''processing'' \<and> w_points u = w_points v)"
proof -
  define W where "W = withdrawals (db w)"
  define P where "P = (\<lambda>v. v \<in> set W \<or> w_status v \<noteq> ''paid'' \<or> r = ''super_admin'' \<and> w_id v = i \<and> w_reference v \<noteq> [] \<and>
    (\<exists>req. b = Some req \<and> w_reference v = trim_space (v_reference req)) \<and>
    (\<exists>u \<in> set W. w_id u = i \<and> w_status u = ''processing'' \<and> w_points u = w_points v))"
  have one: "u = u'" if "u \<in> set W" "u' \<in> set W" "w_id u = w_id u'" for u u'
    using uniq_rows [OF withdrawals_uniq [OF assms(1)]] that unfolding W_def by blast
  have old: "\<forall>v \<in> set W. P v" by (simp add: P_def)
  have new: "P v"
    if "v \<in> set (upd (\<lambda>w. w_id w = i) (\<lambda>w. w\<lparr>w_status := s, w_reference := trim_space (v_reference q),
        w_note := n, w_reviewer := a\<rparr>) (withdrawals (db w)))"
      "find (\<lambda>w. w_id w = i) (withdrawals (db w)) = Some u" "b = Some q"
      "s = ''paid'' \<longrightarrow> r = ''super_admin'' \<and> w_status u = ''processing'' \<and> trim_space (v_reference q) \<noteq> []"
    for v u q s n
    using find_Some_D [OF that(2)] one that(1,3,4) by (auto simp: P_def set_upd W_def) metis+
  have "wp (now w) (AdminReviewWithdrawal env a r i b) (\<lambda>_ d. \<forall>v \<in> set (withdrawals d). P v)
          (\<lambda>_ d. \<forall>v \<in> set (withdrawals d). P v) (db w)"
    unfolding AdminReviewWithdrawal_def xp_prog_defs
    apply (intro wp_rules wp_notify)
    apply (simp_all add: row_def old [unfolded W_def] split: option.splits)
    apply (auto intro: new)
    done
  from wp_both [OF this] assms show ?thesis unfolding P_def W_def by blast
qed

lemma AdminReviewWithdrawal_paid_witness:
  "paid_row \<in> set (withdrawals (db (snd (AdminReviewWithdrawal env0 ''a'' ''super_admin'' ''w1''
       (Some \<lparr>v_status = ''paid'', v_reference = '' T1 '', v_note = []\<rparr>)
       (world0 (empty_db\<lparr>withdrawals := [paid_row\<lparr>w_status := ''processing'', w_reference := []\<rparr>]\<rparr>) 0))))) \<and>
   w_id paid_row = ''w1'' \<and> w_reference paid_row \<noteq> []"
proof -
  let ?b = "Some \<lparr>v_status = ''paid'', v_reference = '' T1 '', v_note = []\<rparr>"
  let ?w = "world0 (empty_db\<lparr>withdrawals := [paid_row\<lparr>w_status := ''processing'', w_reference := []\<rparr>]\<rparr>) 0"
  have 1: "paid_row \<in> set (withdrawals (db (snd (AdminReviewWithdrawal env0 ''a'' ''super_admin'' ''w1'' ?b ?w))))"
    by code_simp
  have 2: "withdrawals_ok (withdrawals (db ?w))" by code_simp
  have 3: "w_status paid_row = ''paid''" "paid_row \<notin> set (withdrawals (db ?w))" by code_simp+
  from AdminReviewWithdrawal_paid [OF 2 1 3] 1 show ?thesis by blast
qed

section \<open>Retries\<close>

text \<open>
  C28. A request key is spent once: when a withdrawal of the buyer is saved under the key, a
  further request with that key changes nothing, whatever the faults; it is answered with the
  saved withdrawal when the details agree and refused as a conflict when they differ.
\<close>

theorem RequestWithdrawal_retry:
  assumes "withdrawals_ok (withdrawals (db w))" "v \<in> set (withdrawals (db w))" "w_user v = u" "w_key v = q_key req"
    and "uuid_ok env (q_key req)" "withdrawal_valid req"
    and "RequestWithdrawal env i u (Some req) w = (r, w')"
  shows "db w' = db w \<and> ((\<exists>x. r = Inl (Fault x)) \<or>
    (if w_points v = q_points req \<and> w_bank v = bank_details req
     then r = Inr (Resp 200 (JObj [(''id'', JStr (w_id v)), (''already_requested'', JBool True)]))
     else \<exists>m. r = Inl (Http 409 m)))"
proof -
  let ?same = "w_points v = q_points req \<and> w_bank v = bank_details req"
  have uq: "uniq (\<lambda>r. Some (w_user r, w_key r)) (withdrawals (db w))" using assms(1) by (simp add: withdrawals_ok_def)
  have "x = v" if "x \<in> set (withdrawals (db w))" "w_user x = u" "w_key x = q_key req" for x
    using uniq_rows [OF uq that(1) assms(2)] that(2,3) assms(3,4) by simp
  note one = this
  have f: "find (\<lambda>x. w_user x = u \<and> w_key x = q_key req) (withdrawals (db w)) = Some v"
  proof (cases "find (\<lambda>x. w_user x = u \<and> w_key x = q_key req) (withdrawals (db w))")
    case None
    from find_None_D [OF this assms(2)] assms(3,4) show ?thesis by simp
  next
    case (Some x)
    with find_Some_D [OF this] one show ?thesis by simp
  qed
  have "wp (now w) (RequestWithdrawal env i u (Some req))
      (\<lambda>a d. d = db w \<and> ?same \<and> a = Resp 200 (JObj [(''id'', JStr (w_id v)), (''already_requested'', JBool True)]))
      (\<lambda>e d. d = db w \<and> ((\<exists>x. e = Fault x) \<or> \<not> ?same \<and> (\<exists>m. e = Http 409 m))) (db w)"
    unfolding RequestWithdrawal_def xp_prog_defs option.case
    by (intro wp_rules) (auto simp add: assms(5,6) f row_def)
  from wpD [OF this, unfolded assms(7)] show ?thesis by (cases r) auto
qed

lemma RequestWithdrawal_retry_witness:
  "db (snd (RequestWithdrawal env0 ''w2'' ''u'' (Some \<lparr>q_key = ''k'', q_points = 1500, q_bank = ''Bank'',
      q_account = ''0123456789'', q_name = ''Ada''\<rparr>) (world0 (empty_db\<lparr>withdrawals := [paid_row]\<rparr>) 0)))
   = empty_db\<lparr>withdrawals := [paid_row]\<rparr>"
proof -
  let ?q = "\<lparr>q_key = ''k'', q_points = 1500, q_bank = ''Bank'', q_account = ''0123456789'', q_name = ''Ada''\<rparr>"
  let ?w = "world0 (empty_db\<lparr>withdrawals := [paid_row]\<rparr>) 0"
  have 1: "withdrawals_ok (withdrawals (db ?w))" "uuid_ok env0 (q_key ?q)" "withdrawal_valid ?q" by code_simp+
  have 2: "paid_row \<in> set (withdrawals (db ?w))" "w_user paid_row = ''u''" "w_key paid_row = q_key ?q" by code_simp+
  obtain r w' where run: "RequestWithdrawal env0 ''w2'' ''u'' (Some ?q) ?w = (r, w')"
    by (cases "RequestWithdrawal env0 ''w2'' ''u'' (Some ?q) ?w")
  from RequestWithdrawal_retry [OF 1(1) 2 1(2,3) run] run show ?thesis by simp
qed

text \<open>
  One login reward per buyer and UTC day: once a claim of the day has gone through, every
  further claim of that day awards nothing and leaves the database as it is.
\<close>

theorem AwardDailyLogin_once:
  assumes "AwardDailyLogin u s w = (Inr b, w1)" "utc_date s' = utc_date s" "db w2 = db w1"
    and "AwardDailyLogin u s' w2 = (r, w3)"
  shows "db w3 = db w1 \<and> r \<noteq> Inr True"
proof -
  have ran: "wp (now w) (AwardDailyLogin u s) (\<lambda>_ d. (u, utc_date s) \<in> set (daily_logins d)) (\<lambda>_ _. True) (db w)"
    unfolding AwardDailyLogin_def Let_def insertNotification_def
    by (intro wp_rules) (auto split: if_splits)
  from wp_run [OF ran assms(1)] have in1: "(u, utc_date s') \<in> set (daily_logins (db w2))"
    using assms(2,3) by simp
  have "wp (now w2) (AwardDailyLogin u s') (\<lambda>b d. d = db w2 \<and> \<not> b) (\<lambda>_ d. d = db w2) (db w2)"
    unfolding AwardDailyLogin_def Let_def insertNotification_def
    by (intro wp_rules) (auto simp: in1)
  from wpD [OF this, unfolded assms(4)] show ?thesis using assms(3) by (cases r) simp_all
qed

lemma AwardDailyLogin_once_witness:
  "db (snd (AwardDailyLogin ''u'' 5000 (snd (AwardDailyLogin ''u'' 100 (world0 empty_db 0)))))
   = db (snd (AwardDailyLogin ''u'' 100 (world0 empty_db 0)))"
proof -
  let ?w1 = "snd (AwardDailyLogin ''u'' 100 (world0 empty_db 0))"
  have ok: "fst (AwardDailyLogin ''u'' 100 (world0 empty_db 0)) = Inr True" by code_simp
  then have "AwardDailyLogin ''u'' 100 (world0 empty_db 0) = (Inr True, ?w1)"
    by (metis prod.collapse)
  from AwardDailyLogin_once [OF this, of 5000 ?w1 "fst (AwardDailyLogin ''u'' 5000 ?w1)"
      "snd (AwardDailyLogin ''u'' 5000 ?w1)"]
  show ?thesis by (simp add: utc_date_def)
qed

end
