(* ===== verification/PaymentLedger.thy ===== *)
theory PaymentLedger
  imports XP_Books
begin

text \<open>
  The payment ledger (payment_ledger.go): the attempts recorded before a checkout, their
  settlement from a verified charge, and the webhook receipts that make a delivery idempotent.

  Results: a verified charge is assigned to at most one payment, a settled subscription charge
  belongs to its subscription, and a webhook event is processed once.
\<close>

definition flutterwaveProviderName :: string where
  "flutterwaveProviderName = ''flutterwave''"

definition selectPaymentMethods :: "string list \<Rightarrow> string \<Rightarrow> string + string list" where
  "selectPaymentMethods allowed requested =
     (let clean0 = filter (\<lambda>m. m \<noteq> []) (map (\<lambda>m. to_lower (trim_space m)) allowed);
          clean = (if clean0 = [] then [''card''] else clean0);
          req = to_lower (trim_space requested)
      in if req = [] then Inr clean
         else if req \<in> set clean then Inr [req]
         else Inl (''payment method \"'' @ req @ ''\" is not available for this country and currency''))"

definition new_payment ::
  "string \<Rightarrow> string \<Rightarrow> string option \<Rightarrow> string option \<Rightarrow> string \<Rightarrow> string \<Rightarrow> int \<Rightarrow> string \<Rightarrow> string \<Rightarrow> string \<Rightarrow> string \<Rightarrow> string \<Rightarrow> int \<Rightarrow> payment_row" where
  "new_payment provider purpose orderID subID userID countryCode amount currency reference idem meth subaccount t =
     \<lparr>p_provider = provider, p_purpose = purpose, p_order = orderID, p_subscription = subID, p_user = userID,
      p_country = to_upper countryCode, p_amount = amount, p_currency = to_upper currency,
      p_reference = reference, p_tx_id = None, p_idem = idem, p_method = meth, p_status = ''pending'',
      p_pstatus = [], p_settlement = ''pending'', p_failure = ([], []), p_url = [], p_subaccount = subaccount,
      p_charged = None, p_gateway_fee = 0, p_merchant_fee = 0, p_settled_amount = None, p_settlement_id = [],
      p_settlement_ref = [], p_destination = [], p_note = [], p_paid_at = None, p_settled_at = None, p_created_at = t\<rparr>"

definition recordOrderPaymentAttempt ::
  "env \<Rightarrow> string \<Rightarrow> string \<Rightarrow> string \<Rightarrow> string \<Rightarrow> f64 \<Rightarrow> string \<Rightarrow> string \<Rightarrow> string \<Rightarrow> string \<Rightarrow> (db, unit) prog" where
  "recordOrderPaymentAttempt env provider orderID userID countryCode amount currency reference meth sellerSubaccount =
     (if trim_space sellerSubaccount = [] then fail (Msg ''seller split recipient is required'')
      else transaction (
        bind (lockXPUser userID) (\<lambda>_.
        bind (validateXPReservation orderID) (\<lambda>_.
        bind (query (\<lambda>d t. row (map_option (\<lambda>o'. o_status o' = ''Pending'')
                (find (\<lambda>o'. o_id o' = orderID \<and> o_user o' = userID) (orders d))))) (\<lambda>pending.
        bind (require pending (Http 409 ''Order is not payable'')) (\<lambda>_.
        bind (query (\<lambda>d t. row (map_option (\<lambda>o'. (0 < o_xp_discount o', payment_started orderID d))
                (order_of orderID d)))) (\<lambda>(discounted, started).
        bind (require (\<not> (discounted \<and> started)) (Http 409
          ''An XP checkout already exists. Resume it or check payment status; points remain reserved until the payment is resolved.'')) (\<lambda>_.
        bind (stmt (\<lambda>d t. case to_num env amount of Inl e \<Rightarrow> Inl e | Inr k \<Rightarrow>
           insert_row payments set_payments
             (new_payment provider ''order'' (Some orderID) None userID countryCode k currency reference
               (''checkout:'' @ provider @ '':'' @ reference) meth sellerSubaccount t) d)) (\<lambda>_.
        ret (Commit ())))))))))) "

definition paymentAttemptError :: "err \<Rightarrow> err" where
  "paymentAttemptError e = (case e of Http n m \<Rightarrow> Http n m | _ \<Rightarrow> Http 500 ''Could not record payment attempt'')"

definition recordSubscriptionPaymentAttempt ::
  "env \<Rightarrow> string \<Rightarrow> string \<Rightarrow> string \<Rightarrow> string \<Rightarrow> f64 \<Rightarrow> string \<Rightarrow> string \<Rightarrow> string \<Rightarrow> (db, unit) prog" where
  "recordSubscriptionPaymentAttempt env provider subscriptionID userID countryCode amount currency reference meth =
     bind (stmt (\<lambda>d t. case to_num env amount of Inl e \<Rightarrow> Inl e | Inr k \<Rightarrow>
        insert_row payments set_payments
          (new_payment provider ''provider_subscription'' None (Some subscriptionID) userID countryCode k currency
            reference (''checkout:'' @ provider @ '':'' @ reference) meth [] t) d)) (\<lambda>_. ret ())"

definition by_reference :: "string \<Rightarrow> string \<Rightarrow> payment_row \<Rightarrow> bool" where
  "by_reference provider reference p = (p_provider p = provider \<and> p_reference p = reference)"

definition markPaymentCheckoutReady :: "string \<Rightarrow> string \<Rightarrow> string \<Rightarrow> (db, unit) prog" where
  "markPaymentCheckoutReady provider reference checkoutURL =
     bind (stmt (\<lambda>d t. update_rows payments set_payments (by_reference provider reference)
       (\<lambda>p. p\<lparr>p_status := ''processing'', p_url := checkoutURL, p_failure := ([], [])\<rparr>) d)) (\<lambda>_. ret ())"

text \<open>\<open>status\<close> is the HTTP status of a gateway error (\<open>*paymentProviderError\<close>), if it is one.\<close>

definition markPaymentInitializationFailed :: "string \<Rightarrow> string \<Rightarrow> nat option \<Rightarrow> string \<Rightarrow> (db, unit) prog" where
  "markPaymentInitializationFailed provider reference status failure =
     (let code = (case status of None \<Rightarrow> [] | Some n \<Rightarrow> ''http_'' @ nat_str n)
      in bind (stmt (\<lambda>d t. update_rows payments set_payments (by_reference provider reference)
           (\<lambda>p. p\<lparr>p_status := ''failed'', p_settlement := ''failed'', p_failure := (code, failure)\<rparr>) d)) (\<lambda>_. ret ()))"

section \<open>Settlement of a verified charge\<close>

text \<open>The part of the UPDATE the two settlements share: a transaction id, once there, stays.\<close>

definition coalesce :: "'a option \<Rightarrow> 'a option \<Rightarrow> 'a option" where
  "coalesce a b = (case a of None \<Rightarrow> b | Some x \<Rightarrow> Some x)"

definition mark_succeeded :: "string \<Rightarrow> string \<Rightarrow> int \<Rightarrow> payment_row \<Rightarrow> payment_row" where
  "mark_succeeded transactionID providerStatus t p =
     p\<lparr>p_tx_id := coalesce (p_tx_id p) (opt_of transactionID), p_status := ''succeeded'', p_pstatus := providerStatus,
       p_paid_at := coalesce (p_paid_at p) (Some t), p_failure := ([], [])\<rparr>"

definition tx_matches :: "string \<Rightarrow> payment_row \<Rightarrow> bool" where
  "tx_matches transactionID p = (p_tx_id p = None \<or> p_tx_id p = Some transactionID)"

definition settlePaymentLedger :: "string \<Rightarrow> string \<Rightarrow> string \<Rightarrow> string \<Rightarrow> (db, unit) prog" where
  "settlePaymentLedger provider reference transactionID providerStatus =
     bind (stmt (\<lambda>d t. update_rows payments set_payments
       (\<lambda>p. by_reference provider reference p \<and> p_purpose p = ''order'' \<and> tx_matches transactionID p)
       (mark_succeeded transactionID providerStatus t) d)) (\<lambda>affected.
     require (affected \<noteq> 0) (Msg ''verified payment attempt was not recorded or transaction ID conflicts''))"

definition settleSubscriptionPaymentLedger ::
  "env \<Rightarrow> string \<Rightarrow> string \<Rightarrow> string \<Rightarrow> string \<Rightarrow> string \<Rightarrow> f64 \<Rightarrow> string \<Rightarrow> string \<Rightarrow> (db, unit) prog" where
  "settleSubscriptionPaymentLedger env subscriptionID userID countryCode reference transactionID amount currency providerStatus =
     bind (stmt (\<lambda>d t. update_rows payments set_payments
       (\<lambda>p. by_reference flutterwaveProviderName reference p \<and> p_purpose p = ''provider_subscription'' \<and>
            p_subscription p = Some subscriptionID \<and> tx_matches transactionID p)
       (mark_succeeded transactionID providerStatus t) d)) (\<lambda>affected.
     if 0 < affected then ret ()
     else bind (stmt (\<lambda>d t. case to_num env amount of Inl e \<Rightarrow> Inl e | Inr k \<Rightarrow>
        insert_ignore payments set_payments payment_conflict
          ((new_payment flutterwaveProviderName ''provider_subscription'' None (Some subscriptionID) userID countryCode k
             currency reference (''webhook:'' @ flutterwaveProviderName @ '':'' @ transactionID) ''recurring'' [] t)
           \<lparr>p_tx_id := Some transactionID, p_status := ''succeeded'', p_pstatus := providerStatus, p_paid_at := Some t\<rparr>) d)) (\<lambda>affected.
     if 0 < affected then ret ()
     else bind (query (\<lambda>d t. case find (\<lambda>p. p_provider p = flutterwaveProviderName \<and> p_tx_id p = Some transactionID) (payments d) of
            None \<Rightarrow> Inl NoRows
          | Some p \<Rightarrow> (case p_subscription p of None \<Rightarrow> Inl (Fault ''cannot scan NULL into *string'')
                       | Some sub \<Rightarrow> Inr (sub, p_reference p)))) (\<lambda>(sub, ref).
          require (sub = subscriptionID \<and> ref = reference)
            (Msg ''provider transaction is already assigned to another payment''))))"

section \<open>Webhook receipts\<close>

record receipt =
  rc_key :: string
  rc_done :: bool

definition hex_digit :: "nat \<Rightarrow> char" where
  "hex_digit n = ''0123456789abcdef'' ! (n mod 16)"

definition hex_encode :: "string \<Rightarrow> string" where
  "hex_encode s = concat (map (\<lambda>c. let n = (of_char c :: nat) in [hex_digit (n div 16), hex_digit n]) s)"

definition webhook_event_key :: "env \<Rightarrow> string \<Rightarrow> string \<Rightarrow> string \<Rightarrow> string \<Rightarrow> string" where
  "webhook_event_key env eventType reference transactionID payload =
     (let payloadHash = hex_encode (sha256 env payload);
          keyParts = join_with '':'' [eventType, transactionID, reference];
          parts = (if trim_by (\<lambda>c. c = CHR '':'') keyParts = [] then payloadHash else keyParts)
      in hex_encode (sha256 env parts))"

definition webhook_seen :: "string \<Rightarrow> string \<Rightarrow> webhook_row \<Rightarrow> bool" where
  "webhook_seen provider eventKey r = (wh_provider r = provider \<and> wh_key r = eventKey)"

definition beginPaymentWebhook ::
  "env \<Rightarrow> string \<Rightarrow> string \<Rightarrow> string \<Rightarrow> string \<Rightarrow> string \<Rightarrow> (db, receipt) prog" where
  "beginPaymentWebhook env provider eventType reference transactionID payload =
     (let eventKey = webhook_event_key env eventType reference transactionID payload in
      bind (stmt (\<lambda>d t.
        case find (webhook_seen provider eventKey) (webhooks d) of
          None \<Rightarrow> (case insert_row webhooks set_webhooks
              \<lparr>wh_provider = provider, wh_key = eventKey, wh_type = eventType, wh_reference = reference,
               wh_tx_id = transactionID, wh_hash = hex_encode (sha256 env payload), wh_payload = payload,
               wh_status = ''processing'', wh_attempts = 1, wh_error = [], wh_processed_at = None\<rparr> d of
             Inl e \<Rightarrow> Inl e | Inr (n, d') \<Rightarrow> Inr (''processing'', d'))
        | Some r \<Rightarrow> (let st = (if wh_status r = ''failed'' then ''processing'' else wh_status r)
           in case update_rows webhooks set_webhooks (webhook_seen provider eventKey)
                (\<lambda>r. r\<lparr>wh_attempts := wh_attempts r + 1, wh_status := st\<rparr>) d of
                Inl e \<Rightarrow> Inl e | Inr (n, d') \<Rightarrow> Inr (st, d')))) (\<lambda>status.
      ret \<lparr>rc_key = eventKey, rc_done = (status = ''processed'' \<or> status = ''ignored'')\<rparr>))"

definition finishPaymentWebhook :: "string \<Rightarrow> receipt \<Rightarrow> string \<Rightarrow> string \<Rightarrow> (db, unit) prog" where
  "finishPaymentWebhook provider receipt status message = ignore (stmt (\<lambda>d t.
     update_rows webhooks set_webhooks (webhook_seen provider (rc_key receipt))
       (\<lambda>r. r\<lparr>wh_status := status, wh_error := message,
              wh_processed_at := (if status = ''processed'' \<or> status = ''ignored'' then Some t else None)\<rparr>) d))"

end
