(* ===== verification/Sessions.thy ===== *)
theory Sessions
  imports PaymentLedger
begin

text \<open>
  Session tokens (internal/auth/tokens.go): claims, base64url without padding, the keyed
  signature, issue and verification. The JSON text of the claims is written out; reading it
  back (json.Unmarshal into the claims) is the parameter \<open>dec\<close>, for which the theorems assume
  only that it reads what was written.
\<close>

section \<open>Base64url\<close>

text \<open>The alphabet A-Z, a-z, 0-9, minus and underscore.\<close>

definition url64_char :: "nat \<Rightarrow> char" where
  "url64_char n = (if n < 26 then char_of (n + 65) else if n < 52 then char_of (n + 71) else if n < 62 then char_of (n - 4)
     else if n = 62 then CHR ''-'' else CHR ''_'')"

fun url64_encode :: "string \<Rightarrow> string" where
  "url64_encode [] = []"
| "url64_encode [a] = (let x = of_char a :: nat in [url64_char (x div 4), url64_char (x mod 4 * 16)])"
| "url64_encode [a, b] = (let x = of_char a :: nat; y = of_char b
     in [url64_char (x div 4), url64_char (x mod 4 * 16 + y div 16), url64_char (y mod 16 * 4)])"
| "url64_encode (a # b # c # s) = (let x = of_char a :: nat; y = of_char b; z = of_char c
     in [url64_char (x div 4), url64_char (x mod 4 * 16 + y div 16), url64_char (y mod 16 * 4 + z div 64), url64_char (z mod 64)]
        @ url64_encode s)"

text \<open>The value of a character; the decoder skips line breaks.\<close>

definition url64_val :: "char \<Rightarrow> nat option" where
  "url64_val c = (let n = (of_char c :: nat) in
     if 65 \<le> n \<and> n \<le> 90 then Some (n - 65)
     else if 97 \<le> n \<and> n \<le> 122 then Some (n - 71)
     else if 48 \<le> n \<and> n \<le> 57 then Some (n + 4)
     else if n = 45 then Some 62 else if n = 95 then Some 63 else None)"

fun url64_values :: "string \<Rightarrow> nat list option" where
  "url64_values [] = Some []"
| "url64_values (c # s) =
     (if c = CHR 0x0D \<or> c = CHR 0x0A then url64_values s
      else case url64_val c of None \<Rightarrow> None
        | Some v \<Rightarrow> map_option (\<lambda>vs. v # vs) (url64_values s))"

fun url64_bytes :: "nat list \<Rightarrow> string option" where
  "url64_bytes [] = Some []"
| "url64_bytes [a] = None"
| "url64_bytes [a, b] = Some [char_of (a * 4 + b div 16)]"
| "url64_bytes [a, b, c] = Some [char_of (a * 4 + b div 16), char_of (b mod 16 * 16 + c div 4)]"
| "url64_bytes (a # b # c # d # vs) =
     map_option (\<lambda>s. char_of (a * 4 + b div 16) # char_of (b mod 16 * 16 + c div 4) # char_of (c mod 4 * 64 + d) # s) (url64_bytes vs)"

definition url64_decode :: "string \<Rightarrow> string option" where
  "url64_decode s = (case url64_values s of None \<Rightarrow> None | Some vs \<Rightarrow> url64_bytes vs)"

section \<open>Claims and tokens\<close>

record Claims =
  cl_user :: string
  cl_expires :: int
  cl_version :: int

text \<open>\<open>json.Marshal\<close> of the claims: a version of zero is omitted. The characters of a user id (a
  UUID) need no escape.\<close>

definition claims_json :: "Claims \<Rightarrow> string" where
  "claims_json c = ''{\"sub\":\"'' @ cl_user c @ ''\",\"exp\":'' @ int_str (cl_expires c) @
     (if cl_version c = 0 then [] else '',\"ver\":'' @ int_str (cl_version c)) @ ''}''"

definition signature :: "env \<Rightarrow> string \<Rightarrow> string \<Rightarrow> string" where
  "signature env body secret = url64_encode (hmac env secret body)"

definition SignWithVersion :: "env \<Rightarrow> string \<Rightarrow> string \<Rightarrow> int \<Rightarrow> int \<Rightarrow> int \<Rightarrow> string \<times> int" where
  "SignWithVersion env userID secret ttl version t =
     (let c = \<lparr>cl_user = userID, cl_expires = t + ttl, cl_version = version\<rparr>;
          body = url64_encode (claims_json c)
      in (body @ ''.'' @ signature env body secret, t + ttl))"

definition Sign :: "env \<Rightarrow> string \<Rightarrow> string \<Rightarrow> int \<Rightarrow> int \<Rightarrow> string \<times> int" where
  "Sign env userID secret ttl t = SignWithVersion env userID secret ttl 0 t"

definition VerifyToken :: "env \<Rightarrow> (string \<Rightarrow> Claims option) \<Rightarrow> string \<Rightarrow> string \<Rightarrow> int \<Rightarrow> err + Claims" where
  "VerifyToken env dec token secret t = (case split_on (CHR ''.'') token of
     [body, sig] \<Rightarrow>
       if sig \<noteq> signature env body secret then Inl (Msg ''invalid token signature'')
       else (case url64_decode body of None \<Rightarrow> Inl (Msg ''illegal base64 data'')
         | Some raw \<Rightarrow> (case dec raw of None \<Rightarrow> Inl (Msg ''invalid claims'')
           | Some c \<Rightarrow> if cl_user c = [] \<or> t \<ge> cl_expires c then Inl (Msg ''expired token'') else Inr c))
   | _ \<Rightarrow> Inl (Msg ''invalid token''))"

section \<open>Base64url reads what it writes\<close>

declare url64_values.simps(2) [simp del]

lemma url64_val_char:
  assumes "n < 64"
  shows "url64_val (url64_char n) = Some n" "url64_char n \<noteq> CHR 0x0D" "url64_char n \<noteq> CHR 0x0A" "url64_char n \<noteq> CHR ''.''"
proof -
  have o: "(of_char (url64_char n) :: nat) = (if n < 26 then n + 65 else if n < 52 then n + 71 else if n < 62 then n - 4 else if n = 62 then 45 else 95)"
    using assms by (simp add: url64_char_def)
  show "url64_val (url64_char n) = Some n" using assms unfolding url64_val_def o Let_def by (simp split: if_splits) arith
  have "(of_char (url64_char n) :: nat) \<notin> {13, 10, 46}" using assms by (simp add: o) arith
  then show "url64_char n \<noteq> CHR 0x0D" "url64_char n \<noteq> CHR 0x0A" "url64_char n \<noteq> CHR ''.''" by auto
qed

lemma url64_values_char [simp]: "n < 64 \<Longrightarrow> url64_values (url64_char n # s) = map_option (\<lambda>vs. n # vs) (url64_values s)"
  using url64_val_char [of n] by (simp add: url64_values.simps)

lemma digits_back: "r < n \<Longrightarrow> (q * n + r) div n = q" "r < n \<Longrightarrow> (q * n + r) mod n = r" for q r n :: nat
  by simp_all

lemma url64_groups:
  fixes x y z :: nat
  assumes "x < 256" "y < 256" "z < 256"
  shows "x div 4 < 64" "x mod 4 * 16 + y div 16 < 64" "y mod 16 * 4 + z div 64 < 64" "z mod 64 < 64" "x mod 4 * 16 < 64" "y mod 16 * 4 < 64"
    "(x mod 4 * 16 + y div 16) div 16 = x mod 4" "(x mod 4 * 16 + y div 16) mod 16 = y div 16"
    "(y mod 16 * 4 + z div 64) div 4 = y mod 16" "(y mod 16 * 4 + z div 64) mod 4 = z div 64"
    "y div 16 mod 16 = y div 16" "z div 64 mod 4 = z div 64"
proof -
  have d: "y div 16 < 16" "z div 64 < 4" "x mod 4 < 4" "y mod 16 < 16" using assms by auto
  then show "x mod 4 * 16 + y div 16 < 64" "y mod 16 * 4 + z div 64 < 64" by linarith+
  show "x mod 4 * 16 < 64" "y mod 16 * 4 < 64" using d by linarith+
  show "(x mod 4 * 16 + y div 16) div 16 = x mod 4" "(x mod 4 * 16 + y div 16) mod 16 = y div 16"
    "(y mod 16 * 4 + z div 64) div 4 = y mod 16" "(y mod 16 * 4 + z div 64) mod 4 = z div 64"
    using d by (simp_all only: digits_back)
qed (use assms in auto)

lemma char_less: "(of_char c :: nat) < 256"
  by simp

lemmas url64_bytes_of = url64_groups [OF char_less char_less char_less]

lemma url64_roundtrip: "url64_decode (url64_encode s) = Some s"
proof -
  have "\<exists>vs. url64_values (url64_encode s) = Some vs \<and> url64_bytes vs = Some s"
  proof (induction s rule: url64_encode.induct)
    case (2 a)
    show ?case by (simp add: Let_def url64_bytes_of div_mult_mod_eq)
  next
    case (3 a b)
    show ?case by (simp add: Let_def url64_bytes_of div_mult_mod_eq)
  next
    case (4 a b c s)
    then obtain vs where "url64_values (url64_encode s) = Some vs" "url64_bytes vs = Some s" by blast
    then show ?case by (simp add: Let_def url64_bytes_of div_mult_mod_eq)
  qed simp
  then show ?thesis by (auto simp: url64_decode_def)
qed

lemma url64_no_dot: "CHR ''.'' \<notin> set (url64_encode s)"
proof -
  have n: "n < 64 \<Longrightarrow> CHR ''.'' \<noteq> url64_char n" for n using url64_val_char(4) [of n] by metis
  show ?thesis by (induction s rule: url64_encode.induct) (simp_all add: Let_def n url64_bytes_of)
qed

end
