(* ===== verification/Subscriptions.thy ===== *)
theory Subscriptions
  imports PaymentLedger
begin

text \<open>
  Settlement of a provider subscription payment (\<open>settleProviderSubscription\<close> in
  provider_marketplace_controller.go). One transaction: the pending subscription is found by its
  checkout reference, the charge is checked against the price saved at checkout, recorded in the
  payment ledger and in \<open>provider_subscription_payments\<close>, and only a charge that is new extends
  the entitlement.

  Results: no activation without a sufficient NGN charge, a transaction is credited once and to
  one subscription, a new period never overlaps a period the provider has already paid.
\<close>

definition sub_row_of :: "string \<Rightarrow> db \<Rightarrow> (subscription_row \<times> org_row) option" where
  "sub_row_of txRef d =
     (case find (\<lambda>s. s_tx_ref s = txRef \<and> s_channel s = ''flutterwave'') (subscriptions d) of
        None \<Rightarrow> None
      | Some s \<Rightarrow> (case find (\<lambda>g. g_id g = s_provider s) (orgs d) of None \<Rightarrow> None | Some g \<Rightarrow> Some (s, g)))"

text \<open>\<open>GREATEST(now(), MAX(current_period_end))\<close> over the provider's other running subscriptions.\<close>

definition running_ends :: "string \<Rightarrow> string \<Rightarrow> int \<Rightarrow> subscription_row list \<Rightarrow> int list" where
  "running_ends providerID subscriptionID t S =
     List.map_filter (\<lambda>s. if s_provider s = providerID \<and> s_status s = ''active'' \<and> s_id s \<noteq> subscriptionID
       then (case s_period_end s of None \<Rightarrow> None | Some e \<Rightarrow> if t < e then Some e else None) else None) S"

definition entitlement_start :: "string \<Rightarrow> string \<Rightarrow> int \<Rightarrow> subscription_row list \<Rightarrow> int" where
  "entitlement_start providerID subscriptionID t S = fold max (running_ends providerID subscriptionID t S) t"

definition activate_new :: "env \<Rightarrow> string \<Rightarrow> int \<Rightarrow> int \<Rightarrow> int \<Rightarrow> subscription_row \<Rightarrow> subscription_row" where
  "activate_new env transactionID start months t s =
     s\<lparr>s_status := ''active'', s_tx_id := Some transactionID, s_starts_at := Some start,
       s_period_end := Some (add_months env start months), s_last_payment := Some t, s_version := s_version s + 1\<rparr>"

definition needs_repair :: "int \<Rightarrow> subscription_row \<Rightarrow> bool" where
  "needs_repair t s = (s_status s \<noteq> ''active'' \<or> s_tx_id s = None \<or> s_starts_at s = None \<or>
     (case s_period_end s of None \<Rightarrow> True | Some e \<Rightarrow> e \<le> t))"

definition activate_again :: "env \<Rightarrow> string \<Rightarrow> int \<Rightarrow> subscription_row \<Rightarrow> subscription_row" where
  "activate_again env transactionID t s =
     s\<lparr>s_status := ''active'', s_tx_id := Some transactionID, s_starts_at := coalesce (s_starts_at s) (Some t),
       s_period_end := (case s_period_end s of None \<Rightarrow> Some (add_months env t 1)
         | Some e \<Rightarrow> if e \<le> t then Some (add_months env t 1) else Some e),
       s_last_payment := coalesce (s_last_payment s) (Some t), s_version := s_version s + 1\<rparr>"

definition update_subscriptions ::
  "(subscription_row \<Rightarrow> bool) \<Rightarrow> (subscription_row \<Rightarrow> subscription_row) \<Rightarrow> db \<Rightarrow> err + (nat \<times> db)" where
  "update_subscriptions p f d =
     Inr (cnt p (subscriptions d), d\<lparr>subscriptions := upd p f (subscriptions d)\<rparr>)"

definition settleProviderSubscription ::
  "env \<Rightarrow> string \<Rightarrow> string \<Rightarrow> f64 \<Rightarrow> string \<Rightarrow> (db, unit) prog" where
  "settleProviderSubscription env txRef0 transactionID0 paidAmount currency =
     (let txRef = trim_space txRef0; transactionID = trim_space transactionID0; cur = to_upper (trim_space currency) in
     bind (require (\<not> (txRef = [] \<or> transactionID = [])) (Msg ''provider subscription payment reference is required'')) (\<lambda>_.
     transaction (
       bind (or_else (query (\<lambda>d t. row (sub_row_of txRef d))) (Msg ''provider subscription not found'')) (\<lambda>(s, g).
       bind (require (\<not> (s_mode s = ''one_time'' \<and> coalesce (s_tx_id s) (Some []) \<noteq> Some [] \<and>
                        s_tx_id s \<noteq> Some transactionID))
         (Msg ''this prepaid payment has already been confirmed'')) (\<lambda>_.
       bind (require (\<not> (cur \<noteq> ''NGN'' \<or> underpaid (1/100) paidAmount (scan_num (s_expected s))))
         (Msg ''provider subscription amount mismatch'')) (\<lambda>_.
       bind (settleSubscriptionPaymentLedger env (s_id s) (g_owner g) (g_country g) txRef transactionID paidAmount
               currency ''successful'') (\<lambda>_.
       bind (or_else (query (\<lambda>d t. row (find (\<lambda>g. g_id g = s_provider s) (orgs d))))
         (Msg ''provider subscription owner not found'')) (\<lambda>_.
       bind (stmt (\<lambda>d t. case to_num env paidAmount of Inl e \<Rightarrow> Inl e | Inr k \<Rightarrow>
         insert_ignore sub_payments set_sub_payments (clash (\<lambda>r. Some (sp_tx_id r)))
           \<lparr>sp_subscription = s_id s, sp_tx_id = transactionID, sp_tx_ref = txRef, sp_amount = k, sp_currency = cur\<rparr> d)) (\<lambda>affected.
       let isNew = (0 < affected) in
       bind (if isNew then ret ()
             else bind (query (\<lambda>d t. row (find (\<lambda>r. sp_tx_id r = transactionID) (sub_payments d)))) (\<lambda>r.
                  require (sp_subscription r = s_id s \<and> sp_tx_ref r = txRef)
                    (Msg ''provider subscription payment reference conflict''))) (\<lambda>_.
       if \<not> isNew \<and> s_mode s = ''one_time'' then ret (Commit ())
       else
         bind (stmt (\<lambda>d t.
           if isNew
           then (let start = entitlement_start (s_provider s) (s_id s) t (subscriptions d)
                 in update_subscriptions (\<lambda>x. s_id x = s_id s) (activate_new env transactionID start (s_months s) t) d)
           else update_subscriptions (\<lambda>x. s_id x = s_id s \<and> needs_repair t x) (activate_again env transactionID t) d)) (\<lambda>updated.
         bind (if isNew \<or> 0 < updated
               then stmt (\<lambda>d t. Inr ((), d\<lparr>provider_events := provider_events d @
                 [(s_provider s, ''subscription_activated'',
                   JObj [(''subscription_id'', JStr (s_id s)), (''tx_ref'', JStr txRef)])]\<rparr>))
               else ret ()) (\<lambda>_.
         ret (Commit ())))))))))))))"

lemma update_subscriptions_Inr [simp]:
  "(update_subscriptions p f d = Inr (n, d')) =
     (n = cnt p (subscriptions d) \<and> d' = d\<lparr>subscriptions := upd p f (subscriptions d)\<rparr>)"
  by (auto simp: update_subscriptions_def)

lemma wp_settleSubscriptionPaymentLedger:
  assumes "\<And>P. Q () (d\<lparr>payments := P\<rparr>)" "\<And>e P. E e (d\<lparr>payments := P\<rparr>)"
  shows "wp t (settleSubscriptionPaymentLedger env i u c ref tx a cur st) Q E d"
proof -
  have "E e d" for e using assms(2) [of e "payments d"] by simp
  moreover have "Q () d" using assms(1) [of "payments d"] by simp
  ultimately show ?thesis
    unfolding settleSubscriptionPaymentLedger_def
    by (intro wp_rules) (auto simp: assms split: sum.splits)
qed

text \<open>Everything a run can do to the subscriptions: nothing; or activate the one that was checked,
  with a transaction that is new; or repair it on a replay.\<close>

definition settles :: "env \<Rightarrow> string \<Rightarrow> string \<Rightarrow> f64 \<Rightarrow> string \<Rightarrow> int \<Rightarrow> db \<Rightarrow> subscription_row \<Rightarrow> db \<Rightarrow> bool" where
  "settles env txRef tx paid cur t d s d' =
     (s \<in> set (subscriptions d) \<and> s_tx_ref s = trim_space txRef \<and> to_upper (trim_space cur) = ''NGN'' \<and>
      \<not> underpaid (1/100) paid (scan_num (s_expected s)) \<and>
      ((\<forall>r \<in> set (sub_payments d). sp_tx_id r \<noteq> trim_space tx) \<and>
         subscriptions d' = upd (\<lambda>x. s_id x = s_id s)
           (activate_new env (trim_space tx) (entitlement_start (s_provider s) (s_id s) t (subscriptions d)) (s_months s) t)
           (subscriptions d) \<or>
       s_mode s \<noteq> ''one_time'' \<and>
         (\<exists>r \<in> set (sub_payments d). sp_tx_id r = trim_space tx \<and> sp_subscription r = s_id s \<and> sp_tx_ref r = trim_space txRef) \<and>
         subscriptions d' = upd (\<lambda>x. s_id x = s_id s \<and> needs_repair t x) (activate_again env (trim_space tx) t) (subscriptions d)))"

lemma sub_row_of_D: "sub_row_of r d = Some (s, g) \<Longrightarrow> s \<in> set (subscriptions d) \<and> s_tx_ref s = r"
  by (auto simp: sub_row_of_def dest!: find_Some_D split: option.splits)

lemma settles_new:
  assumes "sub_row_of (trim_space txRef) d = Some (s, g)" "to_upper (trim_space cur) = ''NGN''"
    and "\<not> underpaid (1/100) paid (scan_num (s_expected s))"
    and "\<not> clash (\<lambda>r. Some (sp_tx_id r)) x (sub_payments d)" "sp_tx_id x = trim_space tx"
    and "subscriptions d' = upd (\<lambda>x. s_id x = s_id s)
      (activate_new env (trim_space tx) (entitlement_start (s_provider s) (s_id s) t (subscriptions d)) (s_months s) t)
      (subscriptions d)"
  shows "settles env txRef tx paid cur t d s d'"
  using assms sub_row_of_D [OF assms(1)] by (auto simp: settles_def clash_def set_keys)

lemma settles_again:
  assumes "sub_row_of (trim_space txRef) d = Some (s, g)" "to_upper (trim_space cur) = ''NGN''"
    and "\<not> underpaid (1/100) paid (scan_num (s_expected s))" "s_mode s \<noteq> ''one_time''"
    and "find (\<lambda>r. sp_tx_id r = trim_space tx) (sub_payments d) = Some r" "sp_subscription r = s_id s"
      "sp_tx_ref r = trim_space txRef"
    and "subscriptions d' = upd (\<lambda>x. s_id x = s_id s \<and> needs_repair t x) (activate_again env (trim_space tx) t) (subscriptions d)"
  shows "settles env txRef tx paid cur t d s d'"
  using assms sub_row_of_D [OF assms(1)] find_Some_D [OF assms(5)] unfolding settles_def by blast

lemma settleProviderSubscription_wp:
  "wp t (settleProviderSubscription env txRef tx paid cur)
     (\<lambda>_ d'. subscriptions d' = subscriptions d \<or> (\<exists>s. settles env txRef tx paid cur t d s d'))
     (\<lambda>_ d'. subscriptions d' = subscriptions d \<or> (\<exists>s. settles env txRef tx paid cur t d s d')) d"
  unfolding settleProviderSubscription_def
  apply (intro wp_rules wp_settleSubscriptionPaymentLedger)
  apply (simp_all add: row_def split: option.splits sum.splits if_splits)
  apply (auto intro!: exI intro: settles_new settles_again)
  done
lemma settles_or_same:
  assumes "settleProviderSubscription env txRef tx paid cur w = (r, w')" "subscriptions (db w') \<noteq> subscriptions (db w)"
  obtains s where "settles env txRef tx paid cur (now w) (db w) s (db w')"
proof -
  have "wp (now w) (settleProviderSubscription env txRef tx paid cur)
     (\<lambda>_ d'. subscriptions d' = subscriptions (db w) \<or> (\<exists>s. settles env txRef tx paid cur (now w) (db w) s d'))
     (\<lambda>_ d'. subscriptions d' = subscriptions (db w) \<or> (\<exists>s. settles env txRef tx paid cur (now w) (db w) s d')) (db w)"
    by (rule settleProviderSubscription_wp)
  from wp_both [OF this] assms that show thesis by auto
qed

text \<open>A pending monthly subscription of 5,000 NGN, for the witnesses.\<close>

definition sub0 :: subscription_row where
  "sub0 = \<lparr>s_id = ''s1'', s_provider = ''g1'', s_tx_ref = ''PROVIDER-1'', s_expected = 500000, s_mode = ''recurring'',
     s_channel = ''flutterwave'', s_months = 1, s_status = ''pending'', s_tx_id = None, s_starts_at = None,
     s_period_end = None, s_last_payment = None, s_version = 1, s_created_at = 0\<rparr>"

definition sub_db :: db where
  "sub_db = empty_db\<lparr>subscriptions := [sub0],
     orgs := [\<lparr>g_id = ''g1'', g_owner = ''u1'', g_country = ''ng'', g_active = True\<rparr>]\<rparr>"

abbreviation settle0 :: "db world \<Rightarrow> (err + unit) \<times> db world" where
  "settle0 \<equiv> settleProviderSubscription env0 ''PROVIDER-1'' ''T1'' (scan_num 500000) ''NGN''"




text \<open>
  C22. A charge pays once: when the transaction is already recorded, a further callback for it
  gives no prepaid subscription anything, and moves the end of no period that is still running.
\<close>

theorem settleProviderSubscription_replay:
  assumes "settleProviderSubscription env txRef tx paid cur w = (r, w')"
    and "p \<in> set (sub_payments (db w))" "sp_tx_id p = trim_space tx"
    and "s \<in> set (subscriptions (db w))" "\<forall>x \<in> set (subscriptions (db w)). s_id x = s_id s \<longrightarrow> x = s"
  shows "\<exists>s' \<in> set (subscriptions (db w')). s_id s' = s_id s \<and>
    (s_mode s = ''one_time'' \<longrightarrow> s' = s) \<and>
    (\<forall>e. s_period_end s = Some e \<longrightarrow> now w < e \<longrightarrow> s_period_end s' = Some e)"
proof (cases "subscriptions (db w') = subscriptions (db w)")
  case True
  then show ?thesis using assms(4) by auto
next
  case False
  then obtain v where v: "settles env txRef tx paid cur (now w) (db w) v (db w')"
    using settles_or_same [OF assms(1)] by blast
  let ?f = "activate_again env (trim_space tx) (now w)"
  let ?p = "\<lambda>x. s_id x = s_id v \<and> needs_repair (now w) x"
  have u: "subscriptions (db w') = upd ?p ?f (subscriptions (db w))" "s_mode v \<noteq> ''one_time''"
    using v assms(2,3) unfolding settles_def by auto
  let ?s = "if ?p s then ?f s else s"
  have "?s \<in> set (subscriptions (db w'))" using assms(4) unfolding u by (auto simp: set_upd)
  moreover have "s_mode s = ''one_time'' \<Longrightarrow> ?s = s"
    using u(2) v assms(5) unfolding settles_def by force
  moreover have "s_period_end s = Some e \<Longrightarrow> now w < e \<Longrightarrow> s_period_end ?s = Some e" for e
    by (simp add: activate_again_def)
  ultimately show ?thesis by (intro bexI [of _ ?s]) (auto simp: activate_again_def)
qed

lemma settleProviderSubscription_replay_witness:
  "\<exists>s' \<in> set (subscriptions (db (snd (settle0 (snd (settle0 (world0 sub_db 1000))))))). s_id s' = ''s1'' \<and>
     s_period_end s' = Some 2593000"
proof -
  let ?w = "snd (settle0 (world0 sub_db 1000))"
  let ?s = "hd (subscriptions (db ?w))" and ?p = "hd (sub_payments (db ?w))"
  have "?p \<in> set (sub_payments (db ?w))" "sp_tx_id ?p = trim_space ''T1''" "?s \<in> set (subscriptions (db ?w))"
    "\<forall>x \<in> set (subscriptions (db ?w)). s_id x = s_id ?s \<longrightarrow> x = ?s" by code_simp+
  from settleProviderSubscription_replay [OF prod.collapse [symmetric] this]
  have "\<exists>s' \<in> set (subscriptions (db (snd (settle0 ?w)))). s_id s' = s_id ?s \<and>
    (\<forall>e. s_period_end ?s = Some e \<longrightarrow> now ?w < e \<longrightarrow> s_period_end s' = Some e)" by blast
  moreover have "s_id ?s = ''s1'' \<and> s_period_end ?s = Some 2593000 \<and> now ?w < 2593000" by code_simp
  ultimately show ?thesis by auto
qed




end
