(* ===== verification/Payments.thy ===== *)
theory Payments
  imports Subscriptions
begin

text \<open>
  Order payments (payment_controller.go and \<open>VerifyPayment\<close> of payment_provider.go): webhook,
  buyer verification, the two admin reconciliations, the provider's confirmation, and the
  settlement of an order they lead to.

  The gateway is a parameter: \<open>http\<close> answers an endpoint with the error of the transport or of the
  JSON decoder, or with a status and the decoded body. A request only identifies a
  payment; amounts, references and success come from the gateway's answer.

  Results: an order becomes Paid only on a verified, sufficient charge in its currency; the
  seller is booked exactly the price minus the fee, once; a repeated delivery changes nothing.
\<close>

section \<open>Configuration, signatures, references\<close>

record config =
  AppEnv :: string
  EnableMockPayments :: bool
  FlutterwaveSecretKey :: string
  FlutterwaveWebhookSecret :: string

definition mockPaymentsEnabled :: "config \<Rightarrow> bool" where
  "mockPaymentsEnabled cfg =
     (let appEnv = to_lower (trim_space (AppEnv cfg)); key = trim_space (FlutterwaveSecretKey cfg)
      in if \<not> EnableMockPayments cfg \<or> (appEnv \<noteq> ''development'' \<and> appEnv \<noteq> ''test'') then False
         else key = [] \<or> key = ''your-key'' \<or> has_prefix key ''FLWSECK_TEST'')"

definition b64_char :: "nat \<Rightarrow> char" where
  "b64_char n = ''ABCDEFGHIJKLMNOPQRSTUVWXYZabcdefghijklmnopqrstuvwxyz0123456789+/'' ! (n mod 64)"

fun base64_std :: "string \<Rightarrow> string" where
  "base64_std [] = []"
| "base64_std [a] = (let x = of_char a :: nat in [b64_char (x div 4), b64_char (x * 16)] @ ''=='')"
| "base64_std [a, b] = (let x = of_char a :: nat; y = of_char b
     in [b64_char (x div 4), b64_char (x * 16 + y div 16), b64_char (y * 4)] @ ''='')"
| "base64_std (a # b # c # s) = (let x = of_char a :: nat; y = of_char b; z = of_char c
     in [b64_char (x div 4), b64_char (x * 16 + y div 16), b64_char (y * 4 + z div 64), b64_char z] @ base64_std s)"

definition validWebhook :: "env \<Rightarrow> config \<Rightarrow> string \<Rightarrow> string \<Rightarrow> string \<Rightarrow> bool" where
  "validWebhook env cfg raw signature legacySignature =
     (let secret = FlutterwaveWebhookSecret cfg; digest = hmac env secret raw
      in if secret = [] then False
         else if legacySignature \<noteq> [] \<and> legacySignature = secret then True
         else if signature \<noteq> [] \<and> base64_std digest = signature then True
         else legacySignature \<noteq> [] \<and> hex_encode digest = legacySignature)"

definition shortOrderLabel :: "string \<Rightarrow> string" where
  "shortOrderLabel orderID = (let clean = remove_char (CHR ''-'') (to_upper orderID)
     in if 8 < length clean then take 8 clean else clean)"

definition seller_label :: "string \<Rightarrow> string" where
  "seller_label orderID = ''SELLER-'' @ shortOrderLabel orderID"

definition newPaymentReference :: "string \<Rightarrow> string \<Rightarrow> string" where
  "newPaymentReference newID orderID = ''ACROSS-'' @ orderID @ ''-'' @ newID"

definition successfulFlutterwaveStatus :: "string \<Rightarrow> bool" where
  "successfulFlutterwaveStatus status =
     (let s = to_lower (trim_space status) in s = ''successful'' \<or> s = ''succeeded'')"

definition parseOrderID :: "env \<Rightarrow> string \<Rightarrow> string + string" where
  "parseOrderID env txRef =
     (if \<not> has_prefix txRef ''ACROSS-'' then Inl ''missing prefix''
      else let rest = trim_prefix txRef ''ACROSS-''
           in if length rest < 37 \<or> rest ! 36 \<noteq> CHR ''-'' then Inl ''invalid order reference''
              else let orderID = take 36 rest
                   in if uuid_ok env orderID then Inr orderID else Inl ''invalid order id'')"

definition buildFlutterwaveCustomer :: "string \<Rightarrow> string \<Rightarrow> string \<Rightarrow> json" where
  "buildFlutterwaveCustomer email fullName phone = JObj (
     [(''email'', JStr (trim_space email)), (''name'', JStr (trim_space fullName))] @
     (if trim_space phone = [] then [] else [(''phonenumber'', JStr (trim_space phone))]))"

section \<open>Verification at the gateway\<close>

record tx_data =
  td_id :: anyv
  td_ref :: string
  td_reference :: string
  td_status :: string
  td_amount :: anyv
  td_charged :: anyv
  td_app_fee :: anyv
  td_merchant_fee :: anyv
  td_currency :: string

record verify_answer =
  va_status :: string
  va_message :: string
  va_data :: tx_data

type_synonym gateway = "string \<Rightarrow> err + (nat \<times> verify_answer)"

definition query_char :: "char \<Rightarrow> string" where
  "query_char c = (let n = (of_char c :: nat) in
     if is_digit c \<or> (65 \<le> n \<and> n \<le> 90) \<or> (97 \<le> n \<and> n \<le> 122) \<or> c \<in> {CHR ''-'', CHR ''_'', CHR ''.'', CHR ''~''} then [c]
     else if n = 32 then ''+''
     else [CHR ''%'', upper_char (hex_digit (n div 16)), upper_char (hex_digit n)])"

definition query_escape :: "string \<Rightarrow> string" where
  "query_escape s = concat (map query_char s)"

definition verify_endpoint :: "string \<Rightarrow> string \<Rightarrow> string option" where
  "verify_endpoint transactionID reference =
     (if transactionID \<noteq> [] \<and> parse_int64 transactionID \<noteq> None
      then Some (''https://api.flutterwave.com/v3/transactions/'' @ transactionID @ ''/verify'')
      else if reference \<noteq> []
      then Some (''https://api.flutterwave.com/v3/transactions/verify_by_reference?tx_ref='' @ query_escape reference)
      else None)"

definition errGatewayPaymentNotFound :: err where
  "errGatewayPaymentNotFound = Msg ''gateway has no transaction for this reference''"

definition VerifyPayment :: "gateway \<Rightarrow> string \<Rightarrow> string \<Rightarrow> err + tx_data" where
  "VerifyPayment http transactionID reference =
     (case verify_endpoint transactionID reference of
        None \<Rightarrow> Inl (Msg ''transaction id or reference is required'')
      | Some endpoint \<Rightarrow>
        (case http endpoint of
           Inl e \<Rightarrow> Inl e
         | Inr (code, a) \<Rightarrow>
             if (code = 200 \<or> code = 400 \<or> code = 404) \<and> va_status a = ''error'' \<and>
                va_message a = ''No transaction was found for this id''
             then Inl errGatewayPaymentNotFound
             else if 300 \<le> code then Inl (Msg (''flutterwave verification returned '' @ nat_str code))
             else if va_status a \<noteq> ''success'' \<or> trim_space (td_status (va_data a)) = []
             then Inl (Msg ''invalid gateway verification response'')
             else Inr ((va_data a)\<lparr>td_id := AStr (gatewayID (td_id (va_data a))),
                    td_ref := first_non_empty [td_ref (va_data a), td_reference (va_data a)], td_reference := []\<rparr>)))"

definition verifyFlutterwaveTransaction :: "gateway \<Rightarrow> string \<Rightarrow> string \<Rightarrow> err + tx_data" where
  "verifyFlutterwaveTransaction http transactionID txRef = VerifyPayment http transactionID txRef"

definition verified_ref :: "tx_data \<Rightarrow> string" where
  "verified_ref v = first_non_empty [td_ref v, td_reference v]"

section \<open>Settlement of an order\<close>

definition payable_again :: "string \<Rightarrow> bool" where
  "payable_again s = (s = ''Paid'' \<or> s = ''Shipped'' \<or> s = ''Delivered'' \<or> s = ''Completed'')"

definition sold_quantity :: "string \<Rightarrow> string \<Rightarrow> db \<Rightarrow> int" where
  "sold_quantity orderID productID d = sum_of (\<lambda>i. i_order i = orderID \<and> i_product i = productID) i_quantity (items d)"

definition mark_paid :: "string \<Rightarrow> string \<Rightarrow> string \<Rightarrow> int \<Rightarrow> order_row \<Rightarrow> order_row" where
  "mark_paid packageLabel txRef gwID t o' =
     o'\<lparr>o_status := ''Paid'', o_batch := None,
        o_label := coalesce (if o_label o' = Some [] then None else o_label o') (Some packageLabel),
        o_tx_ref := Some txRef, o_tx_id := Some gwID, o_paid_at := coalesce (o_paid_at o') (Some t)\<rparr>"

definition paid_entry :: "string \<Rightarrow> string \<Rightarrow> string \<Rightarrow> int \<Rightarrow> int \<Rightarrow> int \<Rightarrow> int \<Rightarrow> ledger_row" where
  "paid_entry providerID orderID currency gross fee net t =
     \<lparr>l_provider = providerID, l_order = orderID, l_key = ''order-paid:'' @ orderID, l_currency = currency,
      l_gross = gross, l_fee = fee, l_net = net, l_expected = net, l_status = ''available'', l_available_at = Some t,
      l_paid_at = None, l_deductions = 0, l_amount = None, l_sid = [], l_settlement = ''pending'', l_reference = [],
      l_destination = [], l_note = [], l_checked_at = None\<rparr>"

definition new_job :: "string \<Rightarrow> int \<Rightarrow> int \<Rightarrow> job_row" where
  "new_job subaccount from t =
     \<lparr>j_subaccount = subaccount, j_from = from, j_to = utc_date t, j_list_page = 1, j_ids = [], j_detail_page = 1,
      j_detail_seen = 0, j_detail_hash = [], j_list_hash = [], j_list_finished = False, j_next_check = t,
      j_locked_until = None, j_lease = None, j_checked_at = None, j_failures = 0, j_error = []\<rparr>"

fun insert_jobs :: "(string \<times> int) list \<Rightarrow> int \<Rightarrow> db \<Rightarrow> err + (nat \<times> db)" where
  "insert_jobs [] t d = Inr (0, d)"
| "insert_jobs ((s, f) # xs) t d =
     (case insert_ignore jobs set_jobs (clash (\<lambda>r. Some (j_subaccount r))) (new_job s f t) d of
        Inl e \<Rightarrow> Inl e | Inr (n, d') \<Rightarrow> insert_jobs xs t d')"

definition enqueue_settlement :: "string \<Rightarrow> int \<Rightarrow> db \<Rightarrow> err + (nat \<times> db)" where
  "enqueue_settlement txRef t d =
     insert_jobs (map (\<lambda>p. (p_subaccount p, utc_date (p_created_at p)))
       (filter (\<lambda>p. by_reference flutterwaveProviderName txRef p \<and> p_subaccount p \<noteq> []) (payments d))) t d"

definition insert_paid_entry :: "env \<Rightarrow> string \<Rightarrow> string \<Rightarrow> string \<Rightarrow> f64 \<Rightarrow> f64 \<Rightarrow> int \<Rightarrow> db \<Rightarrow> err + (nat \<times> db)" where
  "insert_paid_entry env providerID orderID currency orderAmount platformFee t d =
     (let sellerAmount = round_money (f_sub orderAmount platformFee) in
      case to_num env orderAmount of Inl e \<Rightarrow> Inl e | Inr gross \<Rightarrow>
      (case to_num env platformFee of Inl e \<Rightarrow> Inl e | Inr fee \<Rightarrow>
      (case to_num env sellerAmount of Inl e \<Rightarrow> Inl e | Inr net \<Rightarrow>
         insert_ignore ledger set_ledger (clash (\<lambda>r. Some (l_key r)))
           (paid_entry providerID orderID currency gross fee net t) d)))"

definition settleOrderPayment :: "env \<Rightarrow> string \<Rightarrow> string \<Rightarrow> string \<Rightarrow> f64 \<Rightarrow> string \<Rightarrow> (db, unit) prog" where
  "settleOrderPayment env orderID txRef gwID paidAmount paidCurrency = transaction (
     bind (query (\<lambda>d t. row (map_option o_user (order_of orderID d)))) (\<lambda>xpUser.
     bind (lockXPUser xpUser) (\<lambda>_.
     bind (query (\<lambda>d t. row (order_of orderID d))) (\<lambda>o'.
     let orderAmount = scan_num (o_total o'); platformFee = scan_num (o_fee o') in
     bind (require (\<not> (\<not> equal_fold (o_currency o') (trim_space paidCurrency) \<or> underpaid (1/1000) paidAmount orderAmount))
       (Msg ''payment amount or currency does not match order'')) (\<lambda>_.
     if o_status o' \<noteq> ''Pending'' then
       (if coalesce (o_tx_ref o') (Some []) = Some txRef \<and> payable_again (o_status o')
        then bind (settlePaymentLedger flutterwaveProviderName txRef gwID ''successful'') (\<lambda>_. ret (Commit ()))
        else fail (Msg ''order is not payable''))
     else
       bind (settlePaymentLedger flutterwaveProviderName txRef gwID ''successful'') (\<lambda>_.
       case o_provider o' of
         None \<Rightarrow> fail (Msg ''order does not have seller-managed fulfilment'')
       | Some providerID \<Rightarrow>
       bind (require (\<not> (o_mode o' \<noteq> ''merchant_local'' \<and> o_mode o' \<noteq> ''merchant_cross_border''))
         (Msg ''order does not have seller-managed fulfilment'')) (\<lambda>_.
       bind (stmt (\<lambda>d t. update_rows orders set_orders (\<lambda>x. o_id x = orderID \<and> o_status x = ''Pending'')
         (mark_paid (seller_label orderID) txRef gwID t) d)) (\<lambda>affected.
       bind (require (affected \<noteq> 0) (Msg ''order is not payable'')) (\<lambda>_.
       bind (stmt (\<lambda>d t. Inr ((), d\<lparr>products := upd (\<lambda>p. list_ex (\<lambda>i. i_order i = orderID \<and> i_product i = pr_id p) (items d))
         (\<lambda>p. p\<lparr>pr_sold := pr_sold p + sold_quantity orderID (pr_id p) d\<rparr>) (products d)\<rparr>))) (\<lambda>_.
       bind (consumeXP orderID) (\<lambda>_.
       bind (stmt (\<lambda>d t. insert_paid_entry env providerID orderID (o_currency o') orderAmount platformFee t d)) (\<lambda>_.
       bind (stmt (\<lambda>d t. enqueue_settlement txRef t d)) (\<lambda>_.
       ret (Commit ()))))))))))))))"

definition payment_message :: "string \<Rightarrow> f64 \<Rightarrow> string \<Rightarrow> string \<Rightarrow> string" where
  "payment_message orderCurrency tot fulfillmentMode settlementStatus =
     (if fulfillmentMode = ''merchant_cross_border'' \<and> settlementStatus \<noteq> ''settled''
      then ''Your payment of '' @ orderCurrency @ '' '' @ fmt2 tot @
           '' is confirmed. Seller settlement is pending before import processing can start. You do not need to pay again.''
      else ''Your payment of '' @ orderCurrency @ '' '' @ fmt2 tot @
           '' has been received. Your order is being processed.'')"

definition settleAndNotify :: "env \<Rightarrow> string \<Rightarrow> string \<Rightarrow> string \<Rightarrow> f64 \<Rightarrow> string \<Rightarrow> (db, unit) prog" where
  "settleAndNotify env orderID txRef transactionID paidAmount currency =
     bind (settleOrderPayment env orderID txRef transactionID paidAmount currency) (\<lambda>_.
     bind (or_else (query (\<lambda>d t. row (map_option (\<lambda>o'. (o_user o', scan_num (o_total o'), o_currency o', o_mode o',
             case find (\<lambda>l. l_order l = o_id o' \<and> l_key l = ''order-paid:'' @ o_id o') (ledger d) of
               None \<Rightarrow> ''pending'' | Some l \<Rightarrow> l_settlement l)) (order_of orderID d))))
           (Msg ''payment settled but post-payment processing failed'')) (\<lambda>(userID, tot, orderCurrency, mode, settlementStatus).
     bind (ignore (CreateNotificationOnce userID orderID None ''payment_received'' ''Payment confirmed''
            (payment_message orderCurrency tot mode settlementStatus)
            (JObj [(''amount'', JNum tot), (''currency'', JStr orderCurrency)]) (''payment-received:'' @ orderID))) (\<lambda>_.
     ignore (AwardPurchase userID orderID tot))))"

definition recordVerifiedPaymentAmounts :: "env \<Rightarrow> string \<Rightarrow> tx_data \<Rightarrow> (db, unit) prog" where
  "recordVerifiedPaymentAmounts env reference data = ignore (stmt (\<lambda>d t.
     case to_num env (amountLossy (td_charged data)) of Inl e \<Rightarrow> Inl e | Inr charged \<Rightarrow>
     (case to_num env (amountLossy (td_app_fee data)) of Inl e \<Rightarrow> Inl e | Inr appFee \<Rightarrow>
     (case to_num env (amountLossy (td_merchant_fee data)) of Inl e \<Rightarrow> Inl e | Inr merchantFee \<Rightarrow>
       update_rows payments set_payments (by_reference flutterwaveProviderName reference)
         (\<lambda>p. p\<lparr>p_charged := (if 0 < charged then Some charged else p_charged p),
                p_gateway_fee := (if 0 < appFee then appFee else p_gateway_fee p),
                p_merchant_fee := (if 0 < merchantFee then merchantFee else p_merchant_fee p)\<rparr>) d))))"

section \<open>Webhook\<close>

record webhook_event =
  ev_event :: string
  ev_type :: string
  ev_id :: anyv
  ev_ref :: string
  ev_reference :: string
  ev_status :: string

definition finish_failed :: "receipt \<Rightarrow> err \<Rightarrow> err \<Rightarrow> (db, response) prog" where
  "finish_failed rc e response = bind (finishPaymentWebhook flutterwaveProviderName rc ''failed'' (error_text e)) (\<lambda>_. fail response)"

definition finish_with :: "receipt \<Rightarrow> string \<Rightarrow> nat \<Rightarrow> (db, response) prog" where
  "finish_with rc status code = bind (finishPaymentWebhook flutterwaveProviderName rc status []) (\<lambda>_. ret (Resp code JNull))"

definition FlutterwaveWebhook ::
  "env \<Rightarrow> config \<Rightarrow> gateway \<Rightarrow> (string \<Rightarrow> webhook_event option) \<Rightarrow> string \<Rightarrow> string \<Rightarrow> string \<Rightarrow> (db, response) prog" where
  "FlutterwaveWebhook env cfg http decode raw signature verifHash =
     bind (require (validWebhook env cfg raw signature verifHash) (Http 401 ''invalid webhook signature'')) (\<lambda>_.
     case decode raw of None \<Rightarrow> fail (Http 400 ''invalid webhook'') | Some event \<Rightarrow>
     (let eventType = (if trim_space (ev_type event) = [] then trim_space (ev_event event) else trim_space (ev_type event));
          eventReference = first_non_empty [ev_ref event, ev_reference event];
          eventTransactionID = gatewayID (ev_id event) in
     bind (or_else (beginPaymentWebhook env flutterwaveProviderName eventType eventReference eventTransactionID raw)
            (Http 500 ''could not record webhook'')) (\<lambda>rc.
     if rc_done rc then ret (Resp 200 JNull)
     else if eventType \<noteq> ''charge.completed'' \<or> \<not> successfulFlutterwaveStatus (ev_status event)
     then finish_with rc ''ignored'' 202
     else case verifyFlutterwaveTransaction http eventTransactionID eventReference of
       Inl e \<Rightarrow> finish_failed rc e (Http 502 ''could not verify transaction'')
     | Inr v \<Rightarrow>
       if \<not> successfulFlutterwaveStatus (td_status v) then finish_with rc ''ignored'' 202
       else let txRef = verified_ref v in
         if has_prefix txRef ''PROVIDER-'' then
           (case amountValue (td_amount v) of
              None \<Rightarrow> finish_failed rc (Msg (amountError (td_amount v))) (Http 502 ''invalid verified payment amount'')
            | Some paidAmount \<Rightarrow>
              bind (attempt (settleProviderSubscription env txRef (gatewayID (td_id v)) paidAmount (td_currency v))) (\<lambda>r.
              case r of Inl e \<Rightarrow> finish_failed rc e (Http 409 (error_text e))
                      | Inr _ \<Rightarrow> finish_with rc ''processed'' 200))
         else case parseOrderID env txRef of
           Inl m \<Rightarrow> finish_failed rc (Msg m) (Http 400 ''invalid tx_ref'')
         | Inr orderID \<Rightarrow>
           (case amountValue (td_amount v) of
              None \<Rightarrow> finish_failed rc (Msg (amountError (td_amount v))) (Http 502 ''invalid verified payment amount'')
            | Some paidAmount \<Rightarrow>
              bind (recordVerifiedPaymentAmounts env txRef v) (\<lambda>_.
              bind (attempt (settleAndNotify env orderID txRef (gatewayID (td_id v)) paidAmount (td_currency v))) (\<lambda>r.
              case r of Inl e \<Rightarrow> finish_failed rc e (Http 409 (error_text e))
                      | Inr _ \<Rightarrow> finish_with rc ''processed'' 200))))))"

section \<open>Verification and reconciliation\<close>

record verify_request =
  vq_order :: string
  vq_tx :: string
  vq_ref :: string

definition pending_response :: "string \<Rightarrow> (string \<times> json) list \<Rightarrow> response" where
  "pending_response status extra = Resp 202 (JObj ([(''payment_state'', JStr ''pending''), (''gateway_status'', JStr status)] @ extra))"

text \<open>The steps after a successful verification: the charge must name the order asked for.\<close>

definition settle_verified :: "env \<Rightarrow> string \<Rightarrow> tx_data \<Rightarrow> (db, string) prog" where
  "settle_verified env wanted v =
     (let verifiedRef = verified_ref v in
      case parseOrderID env verifiedRef of
        Inl m \<Rightarrow> fail (Http 409 ''verified transaction does not match order'')
      | Inr orderID \<Rightarrow>
        if orderID \<noteq> wanted then fail (Http 409 ''verified transaction does not match order'')
        else case amountValue (td_amount v) of
          None \<Rightarrow> fail (Http 502 ''invalid verified payment amount'')
        | Some paidAmount \<Rightarrow>
          bind (recordVerifiedPaymentAmounts env verifiedRef v) (\<lambda>_.
          bind (map_err (\<lambda>e. Http 409 (error_text e))
                 (settleAndNotify env orderID verifiedRef (gatewayID (td_id v)) paidAmount (td_currency v))) (\<lambda>_.
          ret orderID)))"

definition VerifyFlutterwavePayment :: "env \<Rightarrow> gateway \<Rightarrow> string \<Rightarrow> verify_request option \<Rightarrow> (db, response) prog" where
  "VerifyFlutterwavePayment env http userID body = (case body of
     None \<Rightarrow> fail (Http 400 ''order_id is required'')
   | Some req \<Rightarrow>
     bind (require (trim_space (vq_order req) \<noteq> []) (Http 400 ''order_id is required'')) (\<lambda>_.
     bind (or_else (query (\<lambda>d t. row (map_option (\<lambda>o'. case o_tx_ref o' of None \<Rightarrow> [] | Some r \<Rightarrow> r)
             (find (\<lambda>o'. o_id o' = vq_order req \<and> o_user o' = userID) (orders d)))))
           (Http 404 ''payment order not found'')) (\<lambda>storedTxRef.
     case verifyFlutterwaveTransaction http (trim_space (vq_tx req)) (first_non_empty [trim_space (vq_ref req), storedTxRef]) of
       Inl e \<Rightarrow> fail (Http 502 ''payment verification unavailable'')
     | Inr v \<Rightarrow>
       if \<not> successfulFlutterwaveStatus (td_status v) then ret (pending_response (td_status v) [])
       else bind (settle_verified env (vq_order req) v) (\<lambda>orderID.
            ret (Resp 200 (JObj [(''payment_state'', JStr ''settled''), (''order_id'', JStr orderID)]))))))"

definition AdminReconcileFlutterwavePayment ::
  "env \<Rightarrow> gateway \<Rightarrow> string \<Rightarrow> verify_request option \<Rightarrow> (db, response) prog" where
  "AdminReconcileFlutterwavePayment env http actorID body = (case body of
     None \<Rightarrow> fail (Http 400 ''invalid payload'')
   | Some req \<Rightarrow>
     (let orderReq = trim_space (vq_order req); ref = trim_space (vq_ref req); txID = trim_space (vq_tx req) in
     bind (require (\<not> (orderReq = [] \<or> (ref = [] \<and> txID = [])))
       (Http 400 ''order_id and a transaction reference or ID are required'')) (\<lambda>_.
     bind (or_else (query (\<lambda>d t. row (map_option (\<lambda>o'. case o_tx_ref o' of None \<Rightarrow> [] | Some r \<Rightarrow> r)
             (order_of orderReq d)))) (Http 404 ''payment order not found'')) (\<lambda>storedTxRef.
     bind (require (\<not> (storedTxRef \<noteq> [] \<and> ref \<noteq> [] \<and> storedTxRef \<noteq> ref))
       (Http 409 ''transaction reference does not match the order checkout'')) (\<lambda>_.
     case verifyFlutterwaveTransaction http txID (first_non_empty [ref, storedTxRef]) of
       Inl e \<Rightarrow> fail (Http 502 ''payment verification unavailable'')
     | Inr v \<Rightarrow>
       if \<not> successfulFlutterwaveStatus (td_status v)
       then ret (pending_response (td_status v) [(''order_id'', JStr orderReq)])
       else bind (settle_verified env orderReq v) (\<lambda>orderID.
            bind (ignore (stmt (\<lambda>d t. Inr ((), d\<lparr>audit_logs := audit_logs d @ [(actorID, ''flutterwave_payment_reconciled'', orderID,
              JObj [(''tx_ref'', JStr (verified_ref v)), (''transaction_id'', JStr (gatewayID (td_id v))),
                    (''currency'', JStr (td_currency v))])]\<rparr>)))) (\<lambda>_.
            ret (Resp 200 (JObj [(''payment_state'', JStr ''settled''), (''order_id'', JStr orderID),
              (''transaction_id'', JStr (gatewayID (td_id v)))])))))))))"

definition AdminReconcileProviderSubscription ::
  "env \<Rightarrow> gateway \<Rightarrow> verify_request option \<Rightarrow> (db, response) prog" where
  "AdminReconcileProviderSubscription env http body = (case body of
     None \<Rightarrow> fail (Http 400 ''Bad Request'')
   | Some req \<Rightarrow>
     (let ref = trim_space (vq_ref req); txID = trim_space (vq_tx req) in
     bind (require (\<not> (\<not> has_prefix ref ''PROVIDER-'' \<or> (ref = [] \<and> txID = [])))
       (Http 400 ''a provider tx_ref and transaction_id are required'')) (\<lambda>_.
     case verifyFlutterwaveTransaction http txID ref of
       Inl e \<Rightarrow> fail (Http 502 ''payment verification unavailable'')
     | Inr v \<Rightarrow>
       if \<not> successfulFlutterwaveStatus (td_status v) then ret (pending_response (td_status v) [])
       else if verified_ref v \<noteq> ref \<or> \<not> has_prefix (verified_ref v) ''PROVIDER-''
       then fail (Http 409 ''verified transaction does not match the provider subscription'')
       else case amountValue (td_amount v) of
         None \<Rightarrow> fail (Http 502 ''invalid verified payment amount'')
       | Some paidAmount \<Rightarrow>
         bind (map_err (\<lambda>e. Http 409 (error_text e))
            (settleProviderSubscription env (verified_ref v) (gatewayID (td_id v)) paidAmount (td_currency v))) (\<lambda>_.
         ret (Resp 200 (JObj [(''payment_state'', JStr ''settled''), (''tx_ref'', JStr (verified_ref v))]))))))"

section \<open>Confirmation by the provider\<close>

definition member_of :: "string \<Rightarrow> string \<Rightarrow> db \<Rightarrow> bool" where
  "member_of providerID userID d = list_ex (\<lambda>m. m_provider m = providerID \<and> m_user m = userID \<and> m_active m) (members d)"

definition pending_refs :: "string \<Rightarrow> string \<Rightarrow> db \<Rightarrow> string list" where
  "pending_refs userID ref d =
     take 10 (map s_tx_ref (sort_key (\<lambda>s. if s_tx_ref s = ref then 0 else 1 :: nat) (sort_key s_created_at
       (filter (\<lambda>s. s_status s = ''pending'' \<and> member_of (s_provider s) userID d \<and>
          list_ex (\<lambda>g. g_id g = s_provider s \<and> g_active g) (orgs d)) (subscriptions d)))))"

text \<open>The loop over the pending checkouts, oldest first: the number settled and the last status
  the gateway gave.\<close>

fun confirm_pending ::
  "env \<Rightarrow> gateway \<Rightarrow> verify_request \<Rightarrow> string list \<Rightarrow> nat \<Rightarrow> string \<Rightarrow> (db, nat \<times> string) prog" where
  "confirm_pending env http req [] n st = ret (n, st)"
| "confirm_pending env http req (owned # rest) n st =
     (let txID = (if trim_space (vq_ref req) \<noteq> [] \<and> owned = trim_space (vq_ref req) then trim_space (vq_tx req) else [])
      in case verifyFlutterwaveTransaction http txID owned of
           Inl e \<Rightarrow> confirm_pending env http req rest n st
         | Inr v \<Rightarrow>
           if \<not> successfulFlutterwaveStatus (td_status v) \<or> verified_ref v \<noteq> owned
           then confirm_pending env http req rest n (td_status v)
           else case amountValue (td_amount v) of
             None \<Rightarrow> confirm_pending env http req rest n (td_status v)
           | Some paidAmount \<Rightarrow>
             bind (or_else (settleProviderSubscription env owned (gatewayID (td_id v)) paidAmount (td_currency v))
               (Http 503 ''payment was verified but subscription activation is temporarily unavailable'')) (\<lambda>_.
             confirm_pending env http req rest (n + 1) (td_status v)))"

definition ConfirmProviderSubscription ::
  "env \<Rightarrow> gateway \<Rightarrow> string \<Rightarrow> verify_request option \<Rightarrow> (db, response) prog" where
  "ConfirmProviderSubscription env http userID body = (case body of
     None \<Rightarrow> fail (Http 400 ''Bad Request'')
   | Some req \<Rightarrow>
     (let ref = trim_space (vq_ref req) in
     bind (require (trim_space userID \<noteq> []) (Http 401 ''Unauthorized'')) (\<lambda>_.
     bind (require (\<not> (ref \<noteq> [] \<and> \<not> has_prefix ref ''PROVIDER-''))
       (Http 400 ''invalid provider subscription reference'')) (\<lambda>_.
     bind (or_else (query (\<lambda>d t. Inr (pending_refs userID ref d)))
       (Http 500 ''could not load pending subscription'')) (\<lambda>refs.
     bind (confirm_pending env http req refs 0 []) (\<lambda>(reconciled, lastStatus).
     bind (or_else (query (\<lambda>d t. Inr (list_ex (\<lambda>s. s_status s = ''active'' \<and> member_of (s_provider s) userID d \<and>
             (case s_period_end s of None \<Rightarrow> False | Some e \<Rightarrow> t < e)) (subscriptions d))))
       (Http 500 ''could not check subscription status'')) (\<lambda>active.
     ret (if active then Resp 200 (JObj [(''payment_state'', JStr ''settled''), (''reconciled_payments'', JInt (int reconciled))])
          else if refs = [] then Resp 200 (JObj [(''payment_state'', JStr ''not_found'')])
          else pending_response lastStatus []))))))))"

end
