(* ===== verification/Accounts.thy ===== *)
theory Accounts
  imports Sessions Payments "HOL-Library.List_Lexorder" "HOL-Library.Char_ord" "HOL-Library.Product_Lexorder"
begin

text \<open>
  Accounts and account e-mail: registration, sign-in with a password or with Privy, verification and
  password reset (auth_controller.go, identity_service.go), referral attribution
  (referral_controller.go), sessions (middleware/auth.go), the e-mail outbox and its delivery
  pass (services/email_outbox.go) and the feedback of the mail service (ses_controller.go).

  Bcrypt, random tokens and ids, Privy's answer about a token and the SMTP server are parameters.
  The columns of a user that no modelled statement reads or writes are left out; e-mail addresses
  are present. A message handed to SMTP is logged in \<open>mails\<close>, a call of AwardWelcome (modelled in
  theory XP) in \<open>welcomes\<close>; the database trigger that books referral points is not modelled.
\<close>

section \<open>Tables\<close>

record acct_user =
  au_id :: string
  au_country :: string
  au_email :: string
  au_phone :: "string option"
  au_password :: string
  au_name :: string
  au_active :: bool
  au_verified :: bool
  au_vtoken :: "string option"
  au_vexpires :: "int option"
  au_vsent :: "int option"
  au_resends :: int
  au_context :: string
  au_privy :: "string option"
  au_reset :: "string option"
  au_reset_expires :: "int option"
  au_reset_at :: "int option"
  au_version :: int

record identity_row =
  ii_user :: string
  ii_provider :: string
  ii_subject :: string
  ii_email :: string

record outbox_row =
  ob_id :: string
  ob_user :: "string option"
  ob_key :: string
  ob_email :: string
  ob_name :: string
  ob_template :: string
  ob_payload :: "(string \<times> string) list"
  ob_status :: string
  ob_attempts :: int
  ob_next :: int
  ob_locked :: "int option"
  ob_sent :: "int option"
  ob_error :: string
  ob_created :: int

record acct_country =
  ac_id :: string
  ac_code :: string
  ac_active :: bool
  ac_gateways :: "string list"

record acct_db =
  accts :: "acct_user list"
  identities :: "identity_row list"
  outbox :: "outbox_row list"
  suppressions :: "(string \<times> string) list"
  feedback :: "string list"
  codes :: "(string \<times> string) list"
  program :: bool
  referred :: "(string \<times> string) list"
  acct_countries :: "acct_country list"
  welcomes :: "string list"
  mails :: "(string \<times> string \<times> string) list"

text \<open>What one request gets from outside: a new user id, a random token, the digest bcrypt makes of a
  password, and bcrypt's comparison; ids of outbox rows by their key; what SMTP says of a message.\<close>

record acct_env =
  ae_env :: env
  ae_secret :: string
  ae_base :: string
  ae_decode :: "string \<Rightarrow> Claims option"
  ae_literal :: "string \<Rightarrow> bool"
  ae_bcrypt :: "string \<Rightarrow> string"
  ae_match :: "string \<Rightarrow> string \<Rightarrow> bool"
  ae_user :: string
  ae_token :: string
  ae_mail_id :: "string \<Rightarrow> string"
  ae_smtp :: "string \<Rightarrow> string option"

section \<open>E-mail outbox\<close>

definition ErrRecipientSuppressed :: err where
  "ErrRecipientSuppressed = Msg ''email recipient is suppressed''"

definition btrim :: "string \<Rightarrow> string" where
  "btrim s = trim_by (\<lambda>c. c = CHR '' '') s"

definition tokenDigest :: "acct_env \<Rightarrow> string \<Rightarrow> string" where
  "tokenDigest e token = hex_encode (sha256 (ae_env e) token)"

definition user_by_id :: "string \<Rightarrow> acct_db \<Rightarrow> acct_user option" where
  "user_by_id i d = find (\<lambda>u. au_id u = i) (accts d)"

definition suppressed :: "string \<Rightarrow> acct_db \<Rightarrow> bool" where
  "suppressed email d = (email \<in> fst ` set (suppressions d))"

definition new_mail ::
  "acct_env \<Rightarrow> string option \<Rightarrow> string \<Rightarrow> string \<Rightarrow> string \<Rightarrow> string \<Rightarrow> (string \<times> string) list \<Rightarrow> acct_db \<Rightarrow> int \<Rightarrow> outbox_row" where
  "new_mail e user key email recipient template payload d t = \<lparr>ob_id = ae_mail_id e key, ob_user = user, ob_key = key, ob_email = email,
     ob_name = recipient, ob_template = template, ob_payload = payload, ob_status = (if suppressed email d then ''suppressed'' else ''pending''),
     ob_attempts = 0, ob_next = t, ob_locked = None, ob_sent = None, ob_error = [], ob_created = t\<rparr>"

text \<open>The insertion with \<open>ON CONFLICT(dedupe_key) DO NOTHING\<close> and the status of the row of that key.\<close>

definition insert_mail :: "outbox_row \<Rightarrow> acct_db \<Rightarrow> err + (string \<times> acct_db)" where
  "insert_mail o' d =
     (if list_ex (\<lambda>x. ob_key x = ob_key o') (outbox d) then
        (case find (\<lambda>x. ob_key x = ob_key o' \<and> (ob_user o' = None \<or> ob_user x = ob_user o') \<and> ob_email x = ob_email o') (outbox d) of
           None \<Rightarrow> Inl NoRows | Some x \<Rightarrow> Inr (ob_status x, d))
      else if list_ex (\<lambda>x. ob_id x = ob_id o') (outbox d) then Inl (Constraint ''email_outbox_pkey'')
      else Inr (ob_status o', d\<lparr>outbox := outbox d @ [o']\<rparr>))"

definition queued :: "(acct_db, string) prog \<Rightarrow> (acct_db, unit) prog" where
  "queued m = bind m (\<lambda>status. require (status \<noteq> ''suppressed'') ErrRecipientSuppressed)"

definition queueUserEmail ::
  "acct_env \<Rightarrow> string \<Rightarrow> string \<Rightarrow> string \<Rightarrow> (string \<times> string) list \<Rightarrow> (acct_db, unit) prog" where
  "queueUserEmail e userID key template payload = queued (stmt (\<lambda>d t. case user_by_id userID d of
     None \<Rightarrow> Inl NoRows
   | Some u \<Rightarrow> insert_mail (new_mail e (Some userID) key (to_lower (btrim (au_email u))) (btrim (au_name u)) template payload d t) d))"

definition QueueMarketplaceEmail :: "acct_env \<Rightarrow> string \<Rightarrow> string \<Rightarrow> (string \<times> string) list \<Rightarrow> (acct_db, unit) prog" where
  "QueueMarketplaceEmail e userID key payload = queueUserEmail e userID key ''marketplace_activity'' payload"

definition QueueDirectMarketplaceEmail ::
  "acct_env \<Rightarrow> string \<Rightarrow> string \<Rightarrow> string \<Rightarrow> (string \<times> string) list \<Rightarrow> (acct_db, unit) prog" where
  "QueueDirectMarketplaceEmail e recipient recipientName key payload = (let email = to_lower (trim_space recipient) in
     bind (require (email \<noteq> []) (Msg ''recipient email is required'')) (\<lambda>_.
     queued (stmt (\<lambda>d t. insert_mail (new_mail e None key email (btrim recipientName) ''marketplace_activity'' payload d t) d))))"

definition base_url :: "acct_env \<Rightarrow> string" where
  "base_url e = (let b = trim_right (\<lambda>c. c = CHR ''/'') (trim_space (ae_base e))
     in if b = [] then ''http://localhost:8080'' else b)"

definition verification_url :: "acct_env \<Rightarrow> string \<Rightarrow> string" where
  "verification_url e token = base_url e @ ''/api/v1/auth/verify-email?token='' @ query_escape token"

definition verification_key :: "acct_env \<Rightarrow> string \<Rightarrow> string \<Rightarrow> string" where
  "verification_key e userID token = ''verification:'' @ userID @ '':'' @ tokenDigest e token"

definition QueueVerificationEmail :: "acct_env \<Rightarrow> string \<Rightarrow> string \<Rightarrow> (acct_db, unit) prog" where
  "QueueVerificationEmail e userID token =
     queueUserEmail e userID (verification_key e userID token) ''verification'' [(''verification_url'', verification_url e token)]"

definition QueueWelcomeEmailForContext :: "acct_env \<Rightarrow> string \<Rightarrow> string \<Rightarrow> (acct_db, unit) prog" where
  "QueueWelcomeEmailForContext e userID accountContext =
     queueUserEmail e userID (''welcome:'' @ userID) ''welcome''
       [(''account_context'', if accountContext \<noteq> ''provider'' then ''buyer'' else accountContext)]"

definition QueueWelcomeEmail :: "acct_env \<Rightarrow> string \<Rightarrow> (acct_db, unit) prog" where
  "QueueWelcomeEmail e userID = QueueWelcomeEmailForContext e userID ''buyer''"

definition QueuePasswordResetEmail :: "acct_env \<Rightarrow> string \<Rightarrow> string \<Rightarrow> (acct_db, unit) prog" where
  "QueuePasswordResetEmail e userID token =
     queueUserEmail e userID (''password-reset:'' @ userID @ '':'' @ tokenDigest e token) ''password_reset''
       [(''reset_url'', base_url e @ ''/api/v1/auth/reset-password?token='' @ query_escape token)]"

text \<open>The delivery pass: expired leases, suppressed recipients, the claim, the deliveries.\<close>

definition maxEmailAttempts :: int where
  "maxEmailAttempts = 6"

definition emailBatchLimit :: nat where
  "emailBatchLimit = 25"

definition recover_emails :: "(acct_db, unit) prog" where
  "recover_emails = stmt (\<lambda>d t. Inr ((), d\<lparr>outbox := upd (\<lambda>o'. ob_status o' = ''sending'' \<and> (case ob_locked o' of None \<Rightarrow> False | Some l \<Rightarrow> l < t - 300))
     (\<lambda>o'. o'\<lparr>ob_status := ''retry'', ob_next := t, ob_locked := None, ob_error := ''delivery lease expired''\<rparr>) (outbox d)\<rparr>))"

definition waiting :: "outbox_row \<Rightarrow> bool" where
  "waiting o' = (ob_status o' = ''pending'' \<or> ob_status o' = ''retry'')"

definition suppress_row :: "string \<Rightarrow> outbox_row \<Rightarrow> outbox_row" where
  "suppress_row reason o' = o'\<lparr>ob_status := ''suppressed'', ob_locked := None, ob_error := reason\<rparr>"

definition suppressed_reason :: string where
  "suppressed_reason = ''recipient is on the email suppression list''"

definition suppress_emails :: "(acct_db, unit) prog" where
  "suppress_emails = stmt (\<lambda>d t. Inr ((), d\<lparr>outbox := upd (\<lambda>o'. waiting o' \<and> suppressed (ob_email o') d) (suppress_row suppressed_reason) (outbox d)\<rparr>))"

definition due_emails :: "int \<Rightarrow> acct_db \<Rightarrow> outbox_row list" where
  "due_emails t d = take emailBatchLimit (sort_key (\<lambda>o'. (ob_next o', ob_created o', ob_id o')) (filter (\<lambda>o'. waiting o' \<and> ob_next o' \<le> t) (outbox d)))"

definition mark_sending :: "outbox_row \<Rightarrow> (acct_db, unit) prog" where
  "mark_sending item = stmt (\<lambda>d t. Inr ((), d\<lparr>outbox := upd (\<lambda>o'. ob_id o' = ob_id item)
     (\<lambda>o'. o'\<lparr>ob_status := ''sending'', ob_attempts := ob_attempts o' + 1, ob_locked := Some t\<rparr>) (outbox d)\<rparr>))"

definition claim_emails :: "(acct_db, outbox_row list) prog" where
  "claim_emails = transaction (
     bind (query (\<lambda>d t. Inr (due_emails t d))) (\<lambda>rows.
     let items = map (\<lambda>o'. o'\<lparr>ob_attempts := ob_attempts o' + 1\<rparr>) rows in
     bind (for_each mark_sending items) (\<lambda>_. ret (Commit items))))"

definition set_email :: "outbox_row \<Rightarrow> (int \<Rightarrow> outbox_row \<Rightarrow> outbox_row) \<Rightarrow> (acct_db, unit) prog" where
  "set_email item f = stmt (\<lambda>d t. Inr ((), d\<lparr>outbox := upd (\<lambda>o'. ob_id o' = ob_id item) (f t) (outbox d)\<rparr>))"

definition failEmail :: "outbox_row \<Rightarrow> string \<Rightarrow> (acct_db, unit) prog" where
  "failEmail item message = set_email item (\<lambda>t o'. o'\<lparr>ob_status := ''failed'', ob_locked := None, ob_error := take 500 message\<rparr>)"

text \<open>The back-off in seconds; \<open>attempts\<close> is at least 1 for a claimed row.\<close>

definition email_delay :: "int \<Rightarrow> int" where
  "email_delay attempts = min (30 * 2 ^ nat (min (attempts - 1) 9)) 21600"

definition retryEmail :: "outbox_row \<Rightarrow> string \<Rightarrow> (acct_db, unit) prog" where
  "retryEmail item message =
     bind (set_email item (\<lambda>t o'. o'\<lparr>ob_status := (if ob_attempts item \<ge> maxEmailAttempts then ''failed'' else ''retry''),
       ob_next := t + email_delay (ob_attempts item), ob_locked := None, ob_error := take 500 message\<rparr>)) (\<lambda>_.
     fail (Msg (''email delivery deferred: '' @ (if trim_space message = [] then ''unknown SMTP delivery error'' else trim_space message))))"

definition known_template :: "string \<Rightarrow> bool" where
  "known_template s = (s \<in> {''verification'', ''welcome'', ''password_reset'', ''marketplace_activity''})"

text \<open>\<open>SendOutboxTemplate\<close>: an unknown template is an error, the others are composed and handed to SMTP.\<close>

definition send_mail :: "acct_env \<Rightarrow> outbox_row \<Rightarrow> (acct_db, string option) prog" where
  "send_mail e item w =
     (if \<not> known_template (ob_template item) then (Inr (Some (''unsupported email template'')), w)
      else (Inr (ae_smtp e (ob_id item)), w\<lparr>db := (db w)\<lparr>mails := mails (db w) @ [(ob_id item, ob_email item, ob_template item)]\<rparr>\<rparr>))"

text \<open>The owner of a row is read again: the row with the owner's current address, or why it cannot be sent.\<close>

definition email_owner :: "outbox_row \<Rightarrow> (acct_db, string + outbox_row) prog" where
  "email_owner item = (case ob_user item of
     None \<Rightarrow> ret (Inr item)
   | Some i \<Rightarrow> bind (attempt (query (\<lambda>d t. row (map_option (\<lambda>u. (to_lower (btrim (au_email u)), btrim (au_name u))) (user_by_id i d))))) (\<lambda>r. case r of
       Inl _ \<Rightarrow> ret (Inl ''email owner no longer exists'')
     | Inr (currentEmail, currentName) \<Rightarrow>
         if currentEmail \<noteq> to_lower (trim_space (ob_email item)) then ret (Inl ''email recipient no longer belongs to the queued account'')
         else ret (Inr (item\<lparr>ob_email := currentEmail, ob_name := currentName\<rparr>))))"

definition finish_sent :: "outbox_row \<Rightarrow> string option \<Rightarrow> (acct_db, unit) prog" where
  "finish_sent item sent = (case sent of
     Some message \<Rightarrow> retryEmail item message
   | None \<Rightarrow> set_email item (\<lambda>t o'. o'\<lparr>ob_status := ''sent'', ob_sent := Some t, ob_locked := None, ob_error := []\<rparr>))"

definition send_checked :: "acct_env \<Rightarrow> outbox_row \<Rightarrow> (acct_db, unit) prog" where
  "send_checked e item =
     bind (attempt (query (\<lambda>d t. Inr (suppressed (ob_email item) d)))) (\<lambda>s. case s of
       Inl err \<Rightarrow> retryEmail item (error_text err)
     | Inr blocked \<Rightarrow> if blocked then set_email item (\<lambda>t. suppress_row suppressed_reason)
         else bind (send_mail e item) (finish_sent item))"

definition deliverEmail :: "acct_env \<Rightarrow> outbox_row \<Rightarrow> (acct_db, unit) prog" where
  "deliverEmail e item = bind (email_owner item) (\<lambda>owner. case owner of
     Inl message \<Rightarrow> failEmail item message
   | Inr item \<Rightarrow> send_checked e item)"

text \<open>The result: how many deliveries succeeded, and the first error.\<close>

definition RunEmailDeliveryBatch :: "acct_env \<Rightarrow> (acct_db, nat \<times> err option) prog" where
  "RunEmailDeliveryBatch e =
     bind recover_emails (\<lambda>_.
     bind suppress_emails (\<lambda>_.
     bind claim_emails (\<lambda>items.
     bind (collect (\<lambda>item. attempt (deliverEmail e item)) items) (\<lambda>results.
     ret (length (filter (\<lambda>r. \<not> isl r) results), map_option projl (find isl results))))))"

section \<open>Feedback of the mail service\<close>

record feedback_event =
  fe_notification :: string
  fe_event :: string
  fe_bounce :: string
  fe_bounced :: "string list"
  fe_complained :: "string list"

definition suppressions_of :: "string \<Rightarrow> feedback_event \<Rightarrow> (string \<times> string) list" where
  "suppressions_of eventType ev =
     (if eventType = ''complaint'' then map (\<lambda>m. (m, ''complaint'')) (fe_complained ev)
      else if eventType = ''bounce'' \<and> equal_fold (fe_bounce ev) ''Permanent'' then map (\<lambda>m. (m, ''permanent_bounce'')) (fe_bounced ev)
      else [])"

definition upsert_suppression :: "string \<Rightarrow> string \<Rightarrow> (string \<times> string) list \<Rightarrow> (string \<times> string) list" where
  "upsert_suppression email reason T =
     (if email \<in> fst ` set T then map (\<lambda>(m, r). if m = email then (m, if r = ''complaint'' then r else reason) else (m, r)) T
      else T @ [(email, reason)])"

definition suppress_one :: "string \<times> string \<Rightarrow> (acct_db, unit) prog" where
  "suppress_one item = (let email = to_lower (trim_space (fst item)); reason = snd item in
     if email = [] then ret ()
     else bind (stmt (\<lambda>d t. Inr ((), d\<lparr>suppressions := upsert_suppression email reason (suppressions d)\<rparr>))) (\<lambda>_.
       stmt (\<lambda>d t. Inr ((), d\<lparr>outbox := upd (\<lambda>o'. ob_email o' = email \<and> waiting o')
         (suppress_row (''recipient suppressed after SES '' @ reason)) (outbox d)\<rparr>))))"

definition feedback_type :: "feedback_event \<Rightarrow> string" where
  "feedback_type ev = (let a = to_lower (trim_space (fe_notification ev)) in if a = [] then to_lower (trim_space (fe_event ev)) else a)"

text \<open>\<open>processNotification\<close> of a verified message whose document decodes.\<close>

definition processNotification :: "string \<Rightarrow> feedback_event \<Rightarrow> (acct_db, unit) prog" where
  "processNotification messageID ev =
     bind (require (feedback_type ev \<noteq> []) (Msg ''SES feedback event type is missing'')) (\<lambda>_.
     transaction (
     bind (stmt (\<lambda>d t. if messageID \<in> set (feedback d) then Inr (0, d) else Inr (1 :: nat, d\<lparr>feedback := feedback d @ [messageID]\<rparr>))) (\<lambda>inserted.
     if inserted = 0 then ret (Commit ())
     else bind (for_each suppress_one (suppressions_of (feedback_type ev) ev)) (\<lambda>_. ret (Commit ())))))"

section \<open>Credentials\<close>

definition char_in :: "nat \<Rightarrow> nat \<Rightarrow> char \<Rightarrow> bool" where
  "char_in lo hi c = (let n = (of_char c :: nat) in lo \<le> n \<and> n \<le> hi)"

definition special_char :: "char \<Rightarrow> bool" where
  "special_char c = (char_in 33 47 c \<or> char_in 58 64 c \<or> char_in 91 96 c \<or> char_in 123 126 c)"

definition validNewPassword :: "string \<Rightarrow> bool" where
  "validNewPassword password = (8 \<le> length password \<and> length password \<le> 72 \<and>
     list_ex (char_in 65 90) password \<and> list_ex (char_in 97 122) password \<and> list_ex special_char password)"

text \<open>The addresses \<open>mail.ParseAddress\<close> returns unchanged: dotted atoms, or a bracketed literal as domain
  (parameter \<open>lit\<close>); bytes from 128 on are taken to be valid UTF-8.\<close>

definition is_atext :: "char \<Rightarrow> bool" where
  "is_atext c = (char_in 65 90 c \<or> char_in 97 122 c \<or> is_digit c \<or> c \<in> set ''!#$%&*+-/=?^_`{|}~'' \<or> c = CHR 0x27 \<or> (of_char c :: nat) \<ge> 128)"

definition dot_atom :: "string \<Rightarrow> bool" where
  "dot_atom s = list_all (\<lambda>w. w \<noteq> [] \<and> list_all is_atext w) (split_on (CHR ''.'') s)"

definition plain_address :: "(string \<Rightarrow> bool) \<Rightarrow> string \<Rightarrow> bool" where
  "plain_address lit s = (case split_on (CHR ''@'') s of [local, domain] \<Rightarrow> dot_atom local \<and> (dot_atom domain \<or> lit domain) | _ \<Rightarrow> False)"

definition normalizeEmail :: "acct_env \<Rightarrow> string \<Rightarrow> string option" where
  "normalizeEmail e value = (let email = to_lower (trim_space value) in if plain_address (ae_literal e) email then Some email else None)"

definition ensureCountry :: "string \<Rightarrow> (acct_db, string) prog" where
  "ensureCountry header = (let code = to_upper (trim_space header);
       code = (if length code = 2 \<and> list_all (char_in 65 90) code then code else ''NG'')
     in map_err (\<lambda>e. if e = NoRows then Http 400 ''buyer country is not yet enabled for checkout'' else e)
       (query (\<lambda>d t. row (map_option ac_id (find (\<lambda>c. ac_code c = code \<and> ac_active c \<and> ''flutterwave'' \<in> set (ac_gateways c)) (acct_countries d))))))"

text \<open>The e-mail column is CITEXT: addresses compare without case.\<close>

definition user_by_email :: "string \<Rightarrow> acct_db \<Rightarrow> acct_user option" where
  "user_by_email email d = find (\<lambda>u. equal_fold (au_email u) email) (accts d)"

definition insert_user :: "acct_user \<Rightarrow> (acct_db, string) prog" where
  "insert_user u = stmt (\<lambda>d t.
     if list_ex (\<lambda>x. au_id x = au_id u) (accts d) then Inl (Constraint ''users_pkey'')
     else if list_ex (\<lambda>x. equal_fold (au_email x) (au_email u)) (accts d) then Inl (Constraint ''users_email_key'')
     else if au_phone u \<noteq> None \<and> list_ex (\<lambda>x. au_phone x = au_phone u) (accts d) then Inl (Constraint ''users_phone_key'')
     else if au_vtoken u \<noteq> None \<and> list_ex (\<lambda>x. au_vtoken x = au_vtoken u) (accts d) then Inl (Constraint ''idx_users_verification_token'')
     else Inr (au_id u, d\<lparr>accts := accts d @ [u]\<rparr>))"

definition set_user :: "string \<Rightarrow> (int \<Rightarrow> acct_user \<Rightarrow> acct_user) \<Rightarrow> (acct_db, unit) prog" where
  "set_user i f = stmt (\<lambda>d t. Inr ((), d\<lparr>accts := upd (\<lambda>u. au_id u = i) (f t) (accts d)\<rparr>))"

section \<open>Referral attribution\<close>

definition normalizedReferralCode :: "string \<Rightarrow> err + string" where
  "normalizedReferralCode code = (let code = to_upper (trim_space code) in
     if code = [] then Inr []
     else if length code \<noteq> 12 then Inl (Msg ''Enter the 12-character referral code, or leave it blank'')
     else if \<not> list_all (\<lambda>c. char_in 65 90 c \<or> is_digit c) code then Inl (Msg ''Invalid referral code'')
     else Inr code)"

definition referrer_of :: "string \<Rightarrow> acct_db \<Rightarrow> string option" where
  "referrer_of code d = (case find (\<lambda>(u, c). c = code) (codes d) of None \<Rightarrow> None
     | Some (i, _) \<Rightarrow> (case user_by_id i d of None \<Rightarrow> None
       | Some u \<Rightarrow> if au_active u \<and> au_verified u \<and> program d then Some i else None))"

definition attachReferralTx :: "string \<Rightarrow> string \<Rightarrow> (acct_db, unit) prog" where
  "attachReferralTx userID raw = (case normalizedReferralCode raw of
     Inl e \<Rightarrow> fail (Http 422 (error_text e))
   | Inr code \<Rightarrow> if code = [] then ret ()
     else bind (attempt (query (\<lambda>d t. row (referrer_of code d)))) (\<lambda>r. case r of
       Inl e \<Rightarrow> fail (if e = NoRows then Http 422 ''This referral code is unavailable. Check it or leave it blank'' else e)
     | Inr referrer \<Rightarrow>
         if referrer = userID then fail (Http 422 ''This referral code is unavailable. Check it or leave it blank'')
         else stmt (\<lambda>d t. if userID \<in> fst ` set (referred d) then Inl (Constraint ''user_referrals_pkey'')
           else Inr ((), d\<lparr>referred := referred d @ [(userID, referrer)]\<rparr>))))"

section \<open>Identities\<close>

definition inactive_account :: err where
  "inactive_account = Http 403 ''This account is inactive. Verify your email or contact support.''"

definition keep_name :: "string \<Rightarrow> acct_user \<Rightarrow> string" where
  "keep_name new u = (if btrim (au_name u) = [] then new else au_name u)"

definition new_privy_user :: "string \<Rightarrow> string \<Rightarrow> string \<Rightarrow> string \<Rightarrow> string \<Rightarrow> acct_user" where
  "new_privy_user newID countryID subject email username = \<lparr>au_id = newID, au_country = countryID, au_email = email, au_phone = None,
     au_password = ''privy-google-oauth'', au_name = username, au_active = True, au_verified = True, au_vtoken = None, au_vexpires = None,
     au_vsent = None, au_resends = 0, au_context = ''buyer'', au_privy = Some subject, au_reset = None, au_reset_expires = None,
     au_reset_at = None, au_version = 0\<rparr>"

definition linked_elsewhere :: "string \<Rightarrow> acct_user \<Rightarrow> acct_db \<Rightarrow> bool" where
  "linked_elsewhere subject u d =
     ((case au_privy u of None \<Rightarrow> False | Some p \<Rightarrow> p \<noteq> [] \<and> p \<noteq> subject) \<or>
      list_ex (\<lambda>x. ii_user x = au_id u \<and> ii_provider x = ''privy'' \<and> ii_subject x \<noteq> subject) (identities d))"

definition save_identity :: "string \<Rightarrow> string \<Rightarrow> string \<Rightarrow> (acct_db, unit) prog" where
  "save_identity userID subject email = stmt (\<lambda>d t. Inr ((),
     if list_ex (\<lambda>x. ii_provider x = ''privy'' \<and> ii_subject x = subject) (identities d)
     then d\<lparr>identities := upd (\<lambda>x. ii_provider x = ''privy'' \<and> ii_subject x = subject) (\<lambda>x. x\<lparr>ii_email := email\<rparr>) (identities d)\<rparr>
     else d\<lparr>identities := identities d @ [\<lparr>ii_user = userID, ii_provider = ''privy'', ii_subject = subject, ii_email = email\<rparr>]\<rparr>))"

text \<open>\<open>UPDATE users SET email=...\<close> of a returning identity; another account may hold the address.\<close>

definition refresh_identity_user :: "string \<Rightarrow> string \<Rightarrow> string \<Rightarrow> string \<Rightarrow> (acct_db, unit) prog" where
  "refresh_identity_user userID subject email username = stmt (\<lambda>d t.
     if list_ex (\<lambda>x. au_id x \<noteq> userID \<and> equal_fold (au_email x) email) (accts d) then Inl (Constraint ''users_email_key'')
     else Inr ((), d\<lparr>accts := upd (\<lambda>u. au_id u = userID)
       (\<lambda>u. u\<lparr>au_email := email, au_name := keep_name username u, au_verified := True, au_privy := Some subject\<rparr>) (accts d)\<rparr>))"

text \<open>The three cases: a known subject, a known address, a new account. The answer is the user and
  whether the account is new.\<close>

definition known_subject :: "string \<Rightarrow> string \<Rightarrow> string \<Rightarrow> string \<Rightarrow> (acct_db, (string \<times> bool) outcome) prog" where
  "known_subject userID subject email username =
     bind (query (\<lambda>d t. row (user_by_id userID d))) (\<lambda>u.
     bind (require (au_active u) inactive_account) (\<lambda>_.
     bind (require (equal_fold (trim_space (au_email u)) email)
       (Http 409 ''Your linked email has changed. Sign in with your existing account and contact support to update it.'')) (\<lambda>_.
     bind (save_identity userID subject email) (\<lambda>_.
     bind (refresh_identity_user userID subject email username) (\<lambda>_. ret (Commit (userID, False)))))))"

definition known_address :: "acct_user \<Rightarrow> string \<Rightarrow> string \<Rightarrow> (acct_db, string) prog" where
  "known_address u subject username =
     bind (query (\<lambda>d t. Inr (linked_elsewhere subject u d))) (\<lambda>elsewhere.
     bind (require (au_active u) inactive_account) (\<lambda>_.
     bind (require (\<not> elsewhere)
       (Http 409 ''This account already has a different linked sign-in. Use your existing sign-in method.'')) (\<lambda>_.
     bind (set_user (au_id u) (\<lambda>t u. u\<lparr>au_name := keep_name username u, au_verified := True, au_privy := Some subject\<rparr>)) (\<lambda>_. ret (au_id u)))))"

definition new_subject :: "acct_env \<Rightarrow> string \<Rightarrow> string \<Rightarrow> string \<Rightarrow> string \<Rightarrow> string \<Rightarrow> (acct_db, (string \<times> bool) outcome) prog" where
  "new_subject e countryID subject email username referralCode =
     bind (attempt (query (\<lambda>d t. row (user_by_email email d)))) (\<lambda>found.
     bind (case found of
         Inl err \<Rightarrow> if err = NoRows then insert_user (new_privy_user (ae_user e) countryID subject email username) else fail err
       | Inr u \<Rightarrow> known_address u subject username) (\<lambda>userID.
     bind (save_identity userID subject (to_lower email)) (\<lambda>_.
     bind (if found = Inl NoRows then attachReferralTx userID referralCode else ret ()) (\<lambda>_.
     ret (Commit (userID, found = Inl NoRows))))))"

definition ResolvePrivyWithReferral :: "acct_env \<Rightarrow> string \<Rightarrow> string \<Rightarrow> string \<Rightarrow> string \<Rightarrow> string \<Rightarrow> (acct_db, string \<times> bool) prog" where
  "ResolvePrivyWithReferral e countryID subject email username referralCode = (case normalizeEmail e email of
     None \<Rightarrow> fail (Http 401 ''Unauthorized'')
   | Some email \<Rightarrow> if trim_space subject = [] then fail (Http 401 ''Unauthorized'')
     else transaction (
       bind lock (\<lambda>_. bind lock (\<lambda>_.
       bind (attempt (query (\<lambda>d t. row (map_option ii_user (find (\<lambda>x. ii_provider x = ''privy'' \<and> ii_subject x = subject) (identities d)))))) (\<lambda>owner.
       case owner of
         Inr userID \<Rightarrow> known_subject userID subject email username
       | Inl err \<Rightarrow> if err = NoRows then new_subject e countryID subject email username referralCode else fail err)))))"

definition ResolvePrivy :: "acct_env \<Rightarrow> string \<Rightarrow> string \<Rightarrow> string \<Rightarrow> string \<Rightarrow> (acct_db, string \<times> bool) prog" where
  "ResolvePrivy e countryID subject email username = ResolvePrivyWithReferral e countryID subject email username []"

section \<open>Registration and sessions\<close>

text \<open>The call of \<open>AwardWelcome\<close>, whose error is only logged.\<close>

definition note_welcome :: "string \<Rightarrow> (acct_db, unit) prog" where
  "note_welcome userID w = (Inr (), w\<lparr>db := (db w)\<lparr>welcomes := welcomes (db w) @ [userID]\<rparr>\<rparr>)"

definition signup_user :: "acct_env \<Rightarrow> string \<Rightarrow> string \<Rightarrow> string \<Rightarrow> string \<Rightarrow> string \<Rightarrow> string \<Rightarrow> int \<Rightarrow> acct_user" where
  "signup_user e countryID email phone fullName password ctx t = \<lparr>au_id = ae_user e, au_country = countryID, au_email = email,
     au_phone = (if trim_space phone = [] then None else Some (trim_space phone)), au_password = ae_bcrypt e password, au_name = fullName,
     au_active = False, au_verified = False, au_vtoken = Some (ae_token e), au_vexpires = Some (t + 86400), au_vsent = Some t, au_resends = 0,
     au_context = ctx, au_privy = None, au_reset = None, au_reset_expires = None, au_reset_at = None, au_version = 0\<rparr>"

definition signup_error :: "err \<Rightarrow> err" where
  "signup_error e = (case e of
     Constraint c \<Rightarrow> if c = ''users_phone_key'' then Http 409 ''phone number is already linked to another account''
       else Http 409 ''email account already exists; sign in or resend verification''
   | _ \<Rightarrow> Http 500 ''could not create account'')"

record signup_request =
  sr_name :: string
  sr_email :: string
  sr_phone :: string
  sr_password :: string
  sr_context :: string
  sr_referral :: string

definition Signup :: "acct_env \<Rightarrow> string \<Rightarrow> signup_request \<Rightarrow> (acct_db, string) prog" where
  "Signup e header req = (case normalizeEmail e (sr_email req) of
     None \<Rightarrow> fail (Http 400 ''Enter your name and a valid email address.'')
   | Some email \<Rightarrow>
     bind (require (trim_space (sr_name req) \<noteq> []) (Http 400 ''Enter your name and a valid email address.'')) (\<lambda>_.
     bind (require (length (sr_password req) \<le> 72) (Http 422 ''Password is too long. Choose a shorter password.'')) (\<lambda>_.
     bind (require (validNewPassword (sr_password req)) (Http 422 ''Use at least 8 characters, including an uppercase letter, a lowercase letter and a special character (for example !@#$).'')) (\<lambda>_.
     let ctx = (if sr_context req \<noteq> ''provider'' then ''buyer'' else sr_context req) in
     bind (ensureCountry header) (\<lambda>countryID.
     bind clock (\<lambda>t.
     transaction_or (Http 500 ''could not create account'') (Http 500 ''could not create account'') (
       bind (map_err signup_error (insert_user (signup_user e countryID email (sr_phone req) (trim_space (sr_name req)) (sr_password req) ctx t))) (\<lambda>userID.
       bind (attachReferralTx userID (sr_referral req)) (\<lambda>_.
       bind (map_err (\<lambda>x. if x = ErrRecipientSuppressed then Http 400 ''this email address cannot receive account messages; use another email''
           else Http 500 ''could not queue account verification'') (QueueVerificationEmail e userID (ae_token e))) (\<lambda>_.
       ret (Commit userID)))))))))))"

record session =
  ss_token :: string
  ss_expires :: int
  ss_user :: string

definition respondSession :: "acct_env \<Rightarrow> string \<Rightarrow> (acct_db, session) prog" where
  "respondSession e userID =
     bind (query (\<lambda>d t. row (map_option au_version (user_by_id userID d)))) (\<lambda>version.
     bind clock (\<lambda>t.
     let (token, expiresAt) = SignWithVersion (ae_env e) userID (ae_secret e) 2592000 version t in
     ret \<lparr>ss_token = token, ss_expires = expiresAt, ss_user = userID\<rparr>))"

definition Login :: "acct_env \<Rightarrow> string \<Rightarrow> string \<Rightarrow> (acct_db, session) prog" where
  "Login e email password = (case normalizeEmail e email of
     None \<Rightarrow> fail (Http 400 ''valid email required'')
   | Some email \<Rightarrow>
     bind (attempt (query (\<lambda>d t. row (user_by_email email d)))) (\<lambda>r. case r of
       Inl _ \<Rightarrow> fail (Http 401 ''invalid email or password'')
     | Inr u \<Rightarrow>
       bind (require (ae_match e (au_password u) password) (Http 401 ''invalid email or password'')) (\<lambda>_.
       bind (require (au_active u \<and> au_verified u) (Http 403 ''please verify your email before signing in'')) (\<lambda>_.
       respondSession e (au_id u)))))"

definition Gmail :: "(acct_db, session) prog" where
  "Gmail = fail (Http 410 ''Update ATL Xpress and use verified Google sign-in or your email and password'')"

text \<open>Privy's user document, read after its token was verified for the subject.\<close>

record privy_account =
  pa_type :: string
  pa_address :: string
  pa_email :: string
  pa_name :: string

definition privy_identity :: "acct_env \<Rightarrow> string \<Rightarrow> string \<times> privy_account list \<Rightarrow> err + (string \<times> string \<times> string)" where
  "privy_identity e subject doc = (case doc of (i, linked) \<Rightarrow>
     if i \<noteq> subject then Inl (Msg ''Privy user identity mismatch'')
     else
       let google = find (\<lambda>a. pa_type a = ''google_oauth'') linked;
           email = (case google of None \<Rightarrow> [] | Some a \<Rightarrow> trim_space (pa_email a));
           username = (case google of None \<Rightarrow> [] | Some a \<Rightarrow> trim_space (pa_name a));
           email = (if email = [] then (case find (\<lambda>a. pa_type a = ''email'') linked of None \<Rightarrow> [] | Some a \<Rightarrow> trim_space (pa_address a)) else email)
       in case normalizeEmail e email of
            None \<Rightarrow> Inl (Msg ''Privy user has no verified email account'')
          | Some email \<Rightarrow>
              let username = (if username = [] then trim_space (hd (split_on (CHR ''@'') email)) else username);
                  username = (if username = [] then ''Atlantic Express Buyer'' else username)
              in Inr (email, username, subject))"

text \<open>\<open>answer\<close> is what the verification of the token and the request for its user give: an error, or
  the subject and the document.\<close>

definition VerifyPrivy :: "acct_env \<Rightarrow> string \<Rightarrow> err + (string \<times> string \<times> privy_account list) \<Rightarrow> string \<Rightarrow> (acct_db, session) prog" where
  "VerifyPrivy e header answer referralCode = (case (case answer of Inl x \<Rightarrow> Inl x | Inr (subject, doc) \<Rightarrow> privy_identity e subject doc) of
     Inl x \<Rightarrow> fail (if x = Msg ''Privy server credentials are incomplete'' then Http 503 ''Google sign-in is not configured on the server''
       else Http 401 ''Google session verification failed; please sign in again'')
   | Inr (email, username, subject) \<Rightarrow>
     bind (ensureCountry header) (\<lambda>countryID.
     bind (map_err (\<lambda>x. case x of Http c m \<Rightarrow> Http c m | _ \<Rightarrow> Http 500 ''Google account could not be linked'')
       (ResolvePrivyWithReferral e countryID subject email username referralCode)) (\<lambda>(userID, created).
     bind (note_welcome userID) (\<lambda>_.
     bind (ignore (QueueWelcomeEmail e userID)) (\<lambda>_.
     respondSession e userID)))))"

section \<open>Verification and password reset\<close>

text \<open>\<open>UPDATE ... WHERE verification_token=$1 AND expires>=now() RETURNING\<close>: the token column is unique.\<close>

definition verifiable :: "string \<Rightarrow> int \<Rightarrow> acct_user \<Rightarrow> bool" where
  "verifiable token t u = (au_vtoken u = Some token \<and> (case au_vexpires u of None \<Rightarrow> False | Some x \<Rightarrow> x \<ge> t))"

definition mark_verified :: "string \<Rightarrow> (acct_db, acct_user) prog" where
  "mark_verified token = stmt (\<lambda>d t. case find (verifiable token t) (accts d) of None \<Rightarrow> Inl NoRows
   | Some u \<Rightarrow> Inr (u, d\<lparr>accts := upd (verifiable token t) (\<lambda>u. u\<lparr>au_verified := True, au_active := True, au_vtoken := None,
       au_vexpires := None, au_vsent := None, au_resends := 0\<rparr>) (accts d)\<rparr>))"

definition VerifyEmail :: "acct_env \<Rightarrow> string \<Rightarrow> (acct_db, string) prog" where
  "VerifyEmail e raw = (let token = trim_space raw in
     bind (require (token \<noteq> []) (Http 400 ''verification token required'')) (\<lambda>_.
     bind (transaction (
       bind (or_else (mark_verified token) (Http 400 ''Verification link unavailable'')) (\<lambda>u.
       bind (attempt (QueueWelcomeEmailForContext e (au_id u) (au_context u))) (\<lambda>r. case r of
         Inl err \<Rightarrow> if err = ErrRecipientSuppressed then ret (Commit u) else fail err
       | Inr _ \<Rightarrow> ret (Commit u))))) (\<lambda>u.
     bind (note_welcome (au_id u)) (\<lambda>_. ret (au_context u)))))"

definition queued_message :: string where
  "queued_message = ''If the email exists, a verification message will be sent. Check your inbox and Spam/Junk folder.''"

definition set_verification_token :: "acct_env \<Rightarrow> acct_user \<Rightarrow> (acct_db, unit) prog" where
  "set_verification_token e u = stmt (\<lambda>d t.
     if list_ex (\<lambda>x. au_id x \<noteq> au_id u \<and> au_vtoken x = Some (ae_token e)) (accts d) then Inl (Constraint ''idx_users_verification_token'')
     else Inr ((), d\<lparr>accts := upd (\<lambda>x. au_id x = au_id u) (\<lambda>x. x\<lparr>au_vtoken := Some (ae_token e), au_vexpires := Some (t + 86400),
       au_vsent := Some t, au_resends := au_resends u + 1\<rparr>) (accts d)\<rparr>))"

definition ResendVerification :: "acct_env \<Rightarrow> string \<Rightarrow> (acct_db, string) prog" where
  "ResendVerification e raw = (let email = to_lower (trim_space raw) in
     bind (require (email \<noteq> []) (Http 400 ''email required'')) (\<lambda>_.
     transaction_or (Http 500 ''could not resend verification'') (Http 500 ''could not resend verification'') (
       bind (attempt (query (\<lambda>d t. row (user_by_email email d)))) (\<lambda>r. case r of
         Inl _ \<Rightarrow> ret (Abandon queued_message)
       | Inr u \<Rightarrow>
         if au_verified u then ret (Abandon ''account is already verified'')
         else bind clock (\<lambda>t.
           if (case au_vsent u of None \<Rightarrow> False | Some s \<Rightarrow> t - s < 300)
           then ret (Abandon ''Your verification email is still being delivered. Check your inbox and Spam/Junk folder, and wait before requesting another.'')
           else bind (or_else (set_verification_token e u) (Http 500 ''could not resend verification'')) (\<lambda>_.
             bind (attempt (QueueVerificationEmail e (au_id u) (ae_token e))) (\<lambda>r. case r of
               Inl err \<Rightarrow> if err = ErrRecipientSuppressed then ret (Abandon queued_message) else fail (Http 500 ''could not queue verification email'')
             | Inr _ \<Rightarrow> ret (Commit ''Verification email queued. Check your inbox and Spam/Junk folder.''))))))))"

definition resetTokenDigest :: "acct_env \<Rightarrow> string \<Rightarrow> string" where
  "resetTokenDigest e token = hex_encode (sha256 (ae_env e) token)"

definition set_reset_token :: "acct_env \<Rightarrow> acct_user \<Rightarrow> (acct_db, unit) prog" where
  "set_reset_token e u = stmt (\<lambda>d t. let h = resetTokenDigest e (ae_token e) in
     if list_ex (\<lambda>x. au_id x \<noteq> au_id u \<and> au_reset x = Some h) (accts d) then Inl (Constraint ''users_password_reset_token_hash_idx'')
     else Inr ((), d\<lparr>accts := upd (\<lambda>x. au_id x = au_id u) (\<lambda>x. x\<lparr>au_reset := Some h, au_reset_expires := Some (t + 1800),
       au_reset_at := Some t\<rparr>) (accts d)\<rparr>))"

definition ForgotPassword :: "acct_env \<Rightarrow> string \<Rightarrow> (acct_db, unit) prog" where
  "ForgotPassword e raw = (let down = Http 503 ''password recovery is temporarily unavailable'' in case normalizeEmail e raw of
     None \<Rightarrow> ret ()
   | Some email \<Rightarrow> transaction_or down down (
       bind (attempt (query (\<lambda>d t. row (user_by_email email d)))) (\<lambda>r. case r of
         Inl err \<Rightarrow> if err = NoRows then ret (Abandon ()) else fail down
       | Inr u \<Rightarrow> bind clock (\<lambda>t.
           if (case au_reset_at u of None \<Rightarrow> False | Some s \<Rightarrow> t - s < 300) then ret (Abandon ())
           else bind (or_else (set_reset_token e u) down) (\<lambda>_.
             bind (attempt (QueuePasswordResetEmail e (au_id u) (ae_token e))) (\<lambda>r. case r of
               Inl err \<Rightarrow> if err = ErrRecipientSuppressed then ret (Abandon ()) else fail down
             | Inr _ \<Rightarrow> ret (Commit ())))))))"

definition resettable :: "string \<Rightarrow> int \<Rightarrow> acct_user \<Rightarrow> bool" where
  "resettable h t u = (au_reset u = Some h \<and> (case au_reset_expires u of None \<Rightarrow> False | Some x \<Rightarrow> x \<ge> t))"

definition apply_reset :: "acct_env \<Rightarrow> string \<Rightarrow> string \<Rightarrow> (acct_db, string) prog" where
  "apply_reset e h password = stmt (\<lambda>d t. case find (resettable h t) (accts d) of None \<Rightarrow> Inl NoRows
   | Some u \<Rightarrow> Inr (au_id u, d\<lparr>accts := upd (resettable h t) (\<lambda>u. u\<lparr>au_password := ae_bcrypt e password, au_reset := None,
       au_reset_expires := None, au_reset_at := None, au_version := au_version u + 1\<rparr>) (accts d)\<rparr>))"

definition ResetPassword :: "acct_env \<Rightarrow> string \<Rightarrow> string \<Rightarrow> string \<Rightarrow> (acct_db, string) prog" where
  "ResetPassword e rawToken password confirm = (let token = trim_space rawToken in
     bind (require (token \<noteq> [] \<and> 8 \<le> length password \<and> password = confirm)
       (Http 400 ''The passwords must match and contain at least eight characters.'')) (\<lambda>_.
     bind (require (length password \<le> 72) (Http 400 ''Password is too long. Choose a shorter password.'')) (\<lambda>_.
     bind (require (validNewPassword password) (Http 400 ''Use at least 8 characters, including an uppercase letter, a lowercase letter and a special character (for example !@#$).'')) (\<lambda>_.
     map_err (\<lambda>x. if x = NoRows then Http 400 ''This password reset link is invalid, expired, or has already been used.''
         else Http 500 ''could not reset password'') (apply_reset e (resetTokenDigest e token) password)))))"

section \<open>The session check\<close>

text \<open>\<open>RequireAuth\<close> on the value of the Authorization header: the user it lets through.\<close>

definition RequireAuth :: "acct_env \<Rightarrow> string \<Rightarrow> (acct_db, string) prog" where
  "RequireAuth e header =
     bind (require (has_prefix header ''Bearer '') (Http 401 ''missing bearer token'')) (\<lambda>_.
     bind clock (\<lambda>t.
     case VerifyToken (ae_env e) (ae_decode e) (trim_prefix header ''Bearer '') (ae_secret e) t of
       Inl _ \<Rightarrow> fail (Http 401 ''invalid or expired token'')
     | Inr c \<Rightarrow>
       bind (attempt (query (\<lambda>d t. row (user_by_id (cl_user c) d)))) (\<lambda>r. case r of
         Inl _ \<Rightarrow> fail (Http 401 ''session is no longer valid'')
       | Inr u \<Rightarrow> bind (require (au_active u \<and> au_version u = cl_version c) (Http 401 ''session is no longer valid'')) (\<lambda>_. ret (cl_user c)))))"

end
