(* ===== verification/Account_Safety.thy ===== *)
theory Account_Safety
  imports Accounts
begin

text \<open>
  What accounts and sessions promise: tokens verify exactly what was signed until they expire; a
  password reset ends every older session for good; an account becomes verified only by a link
  mailed to its own address or by an address that Privy vouches for; the delivery pass writes
  only to the current mailbox of the owner and never to a suppressed one.
\<close>

section \<open>Tokens\<close>

lemma split_on_end: "CHR ''.'' \<notin> set s \<Longrightarrow> split_on (CHR ''.'') s = [s]"
  by (induction s) auto

lemma split_on_two: "c \<notin> set a \<Longrightarrow> split_on c b = [b] \<Longrightarrow> split_on c (a @ [c] @ b) = [a, b]"
  by (induction a) auto

lemma split_on_join: "join_with [c] (split_on c s) = s \<and> split_on c s \<noteq> []"
proof (induction s)
  case (Cons a s)
  then show ?case by (cases "split_on c s"; cases "tl (split_on c s)") auto
qed simp

lemma signed_verifies:
  assumes "dec (claims_json \<lparr>cl_user = u, cl_expires = t + ttl, cl_version = v\<rparr>) = Some \<lparr>cl_user = u, cl_expires = t + ttl, cl_version = v\<rparr>" "u \<noteq> []"
  shows "VerifyToken env dec (fst (SignWithVersion env u secret ttl v t)) secret t' =
      (if t' < t + ttl then Inr \<lparr>cl_user = u, cl_expires = t + ttl, cl_version = v\<rparr> else Inl (Msg ''expired token''))"
proof -
  let ?body = "url64_encode (claims_json \<lparr>cl_user = u, cl_expires = t + ttl, cl_version = v\<rparr>)"
  have "split_on (CHR ''.'') (?body @ [CHR ''.''] @ signature env ?body secret) = [?body, signature env ?body secret]"
    by (intro split_on_two split_on_end) (simp_all add: signature_def url64_no_dot)
  then show ?thesis using assms by (simp add: VerifyToken_def SignWithVersion_def Let_def url64_roundtrip)
qed

text \<open>
  C16. Session tokens say what was signed and nothing else. A token issued for a user and a session
  version verifies to exactly these claims until its expiry and is refused from then on, as long as
  the JSON text of the claims reads back; and whatever token verifies consists of a body
  and the keyed signature of that body.
\<close>

theorem session_tokens:
  assumes "dec (claims_json \<lparr>cl_user = u, cl_expires = t + ttl, cl_version = v\<rparr>) = Some \<lparr>cl_user = u, cl_expires = t + ttl, cl_version = v\<rparr>" "u \<noteq> []"
  shows "VerifyToken env dec (fst (SignWithVersion env u secret ttl v t)) secret t' =
      (if t' < t + ttl then Inr \<lparr>cl_user = u, cl_expires = t + ttl, cl_version = v\<rparr> else Inl (Msg ''expired token'')) \<and>
    (\<forall>token c. VerifyToken env dec token secret t' = Inr c \<longrightarrow>
      (\<exists>body. token = body @ ''.'' @ signature env body secret \<and> t' < cl_expires c \<and> map_option dec (url64_decode body) = Some (Some c)))"
proof (intro conjI allI impI)
  show "VerifyToken env dec (fst (SignWithVersion env u secret ttl v t)) secret t' =
      (if t' < t + ttl then Inr \<lparr>cl_user = u, cl_expires = t + ttl, cl_version = v\<rparr> else Inl (Msg ''expired token''))"
    by (rule signed_verifies) fact+
next
  fix token c assume v: "VerifyToken env dec token secret t' = Inr c"
  then obtain body where s: "split_on (CHR ''.'') token = [body, signature env body secret]"
    by (auto simp: VerifyToken_def split: list.splits if_splits)
  have "token = body @ ''.'' @ signature env body secret" using split_on_join [of "CHR ''.''" token] s by simp
  moreover have "t' < cl_expires c \<and> map_option dec (url64_decode body) = Some (Some c)"
    using v s by (auto simp: VerifyToken_def split: option.splits if_splits)
  ultimately show "\<exists>body. token = body @ ''.'' @ signature env body secret \<and> t' < cl_expires c \<and> map_option dec (url64_decode body) = Some (Some c)"
    by blast
qed

lemma session_tokens_witness:
  "VerifyToken env0 (\<lambda>s. if s = claims_json \<lparr>cl_user = ''u1'', cl_expires = 1060, cl_version = 3\<rparr> then Some \<lparr>cl_user = ''u1'', cl_expires = 1060, cl_version = 3\<rparr> else None)
     (fst (SignWithVersion env0 ''u1'' ''k'' 60 3 1000)) ''k'' 1059 = Inr \<lparr>cl_user = ''u1'', cl_expires = 1060, cl_version = 3\<rparr>"
  by (subst session_tokens [THEN conjunct1]) simp_all

section \<open>Histories\<close>

datatype acct_call =
    Register acct_env string signup_request
  | SignIn acct_env string string
  | Privy acct_env string "err + (string \<times> string \<times> privy_account list)" string
  | Confirm acct_env string
  | Resend acct_env string
  | Forgot acct_env string
  | Reset acct_env string string string
  | Notify acct_env string string "(string \<times> string) list"
  | NotifyDirect acct_env string string string "(string \<times> string) list"
  | Deliver acct_env
  | Feedback string feedback_event

fun run_acct :: "acct_call \<Rightarrow> (acct_db, unit) prog" where
  "run_acct (Register e header req) = ignore (Signup e header req)"
| "run_acct (SignIn e email password) = ignore (Login e email password)"
| "run_acct (Privy e header answer referral) = ignore (VerifyPrivy e header answer referral)"
| "run_acct (Confirm e token) = ignore (VerifyEmail e token)"
| "run_acct (Resend e email) = ignore (ResendVerification e email)"
| "run_acct (Forgot e email) = ignore (ForgotPassword e email)"
| "run_acct (Reset e token password confirm) = ignore (ResetPassword e token password confirm)"
| "run_acct (Notify e userID key payload) = ignore (QueueMarketplaceEmail e userID key payload)"
| "run_acct (NotifyDirect e recipient recipientName key payload) = ignore (QueueDirectMarketplaceEmail e recipient recipientName key payload)"
| "run_acct (Deliver e) = ignore (RunEmailDeliveryBatch e)"
| "run_acct (Feedback i ev) = ignore (processNotification i ev)"

fun acct_calls :: "(acct_call \<times> fault list \<times> int) list \<Rightarrow> acct_db \<Rightarrow> acct_db" where
  "acct_calls [] d = d"
| "acct_calls ((c, fs, t) # cs) d = acct_calls cs (db (snd (run_acct c \<lparr>db = d, faults = fs, now = t\<rparr>)))"

section \<open>Mailboxes\<close>

definition mailbox :: "string \<Rightarrow> string" where
  "mailbox email = trim_space (to_lower email)"

lemma space_lower: "is_space (lower_char c) = is_space c"
proof -
  have "(of_char (lower_char c) :: nat) = (let n = of_char c in if 65 \<le> n \<and> n \<le> 90 then n + 32 else n)"
    by (simp add: lower_char_def Let_def)
  then show ?thesis by (auto simp: is_space_def Let_def)
qed

lemma lower_lower: "lower_char (lower_char c) = lower_char c"
  by (auto simp: lower_char_def Let_def)

lemma to_lower_idem [simp]: "to_lower (to_lower s) = to_lower s"
  by (simp add: to_lower_def lower_lower)

lemma trim_to_lower: "trim_space (to_lower s) = to_lower (trim_space s)"
proof -
  have "(is_space \<circ> lower_char) = is_space" by (simp add: fun_eq_iff space_lower)
  then show ?thesis
    by (simp add: trim_space_def trim_by_def trim_left_def trim_right_def to_lower_def dropWhile_map rev_map)
qed

lemma trim_right_Cons: "trim_right p (c # s) = (if trim_right p s = [] \<and> p c then [] else c # trim_right p s)"
  by (simp add: trim_right_def dropWhile_append dropWhile_eq_Nil_conv)

lemma drop_trim_right: "(\<And>c. p c \<Longrightarrow> q c) \<Longrightarrow> dropWhile q (trim_right p s) = trim_right p (dropWhile q s)"
  by (induction s) (auto simp: trim_right_Cons, simp_all add: trim_right_def)

lemma drop_drop: "(\<And>c. p c \<Longrightarrow> q c) \<Longrightarrow> dropWhile q (dropWhile p s) = dropWhile q s"
  by (induction s) auto

lemma trim_by_trim_by: "(\<And>c. p c \<Longrightarrow> q c) \<Longrightarrow> trim_by q (trim_by p s) = trim_by q s"
  by (simp add: trim_by_def trim_left_def drop_trim_right drop_drop) (simp add: trim_right_def drop_drop)

lemma trim_idem [simp]: "trim_space (trim_space s) = trim_space s"
  by (simp add: trim_space_def trim_by_trim_by)

lemma trim_btrim [simp]: "trim_space (btrim s) = trim_space s"
  by (simp add: trim_space_def btrim_def) (rule trim_by_trim_by, simp add: is_space_def)

lemma mailbox_btrim [simp]: "mailbox (to_lower (btrim s)) = mailbox s"
  by (simp add: mailbox_def trim_to_lower)

lemma mailbox_fold: "equal_fold a b \<Longrightarrow> mailbox a = mailbox b"
  by (simp add: mailbox_def equal_fold_def)

lemma mailbox_trim_fold: "equal_fold (trim_space a) b \<Longrightarrow> mailbox b = mailbox a"
  unfolding mailbox_def equal_fold_def by (metis trim_idem trim_to_lower)

section \<open>Evidence\<close>

text \<open>\<open>mailed\<close>: a message with the link of this token is in the outbox, for this account and to this mailbox.
  \<open>vouched\<close>: the address is one Privy vouches for (\<open>em\<close>), or a mailed token was presented (\<open>tk\<close>).\<close>

definition mail_key :: "outbox_row \<Rightarrow> string \<times> string option \<times> string" where
  "mail_key o' = (ob_key o', ob_user o', ob_email o')"

definition mailed :: "(string \<Rightarrow> string) \<Rightarrow> string \<Rightarrow> string \<Rightarrow> string \<Rightarrow> acct_db \<Rightarrow> bool" where
  "mailed sha i m tok d = (\<exists>o' \<in> set (outbox d). ob_key o' = ''verification:'' @ i @ '':'' @ hex_encode (sha tok) \<and>
     ob_user o' = Some i \<and> mailbox (ob_email o') = m)"

definition vouched :: "(string \<Rightarrow> string) \<Rightarrow> (string \<Rightarrow> bool) \<Rightarrow> (string \<Rightarrow> bool) \<Rightarrow> string \<Rightarrow> string \<Rightarrow> acct_db \<Rightarrow> bool" where
  "vouched sha tk em i m d = (em m \<or> (\<exists>tok. tk tok \<and> mailed sha i m tok d))"

definition one_row_each :: "acct_db \<Rightarrow> bool" where
  "one_row_each d = distinct (map au_id (accts d))"

definition proven :: "(string \<Rightarrow> string) \<Rightarrow> acct_db \<Rightarrow> bool" where
  "proven sha d = (one_row_each d \<and>
     (\<forall>u \<in> set (accts d). \<forall>tok. au_vtoken u = Some tok \<longrightarrow> mailed sha (au_id u) (mailbox (au_email u)) tok d))"

definition mail_grows :: "acct_db \<Rightarrow> acct_db \<Rightarrow> bool" where
  "mail_grows d d' = (mail_key ` set (outbox d) \<subseteq> mail_key ` set (outbox d'))"

definition same_accts :: "acct_db \<Rightarrow> acct_db \<Rightarrow> bool" where
  "same_accts d d' = (accts d' = accts d \<and> mail_grows d d')"

text \<open>What every request does to the accounts.\<close>

definition successor :: "acct_user \<Rightarrow> acct_user \<Rightarrow> bool" where
  "successor u u' = (au_id u' = au_id u \<and> mailbox (au_email u') = mailbox (au_email u) \<and> au_version u \<le> au_version u')"

definition acct_step :: "(string \<Rightarrow> string) \<Rightarrow> (string \<Rightarrow> bool) \<Rightarrow> (string \<Rightarrow> bool) \<Rightarrow> acct_db \<Rightarrow> acct_db \<Rightarrow> bool" where
  "acct_step sha tk em d d' = (mail_grows d d' \<and>
     (one_row_each d \<longrightarrow> one_row_each d' \<and> (\<forall>u \<in> set (accts d). \<exists>u' \<in> set (accts d'). successor u u')) \<and>
     (proven sha d \<longrightarrow> proven sha d' \<and> (\<forall>u' \<in> set (accts d'). au_verified u' \<longrightarrow>
        (\<exists>u \<in> set (accts d). au_id u = au_id u' \<and> au_verified u) \<or> vouched sha tk em (au_id u') (mailbox (au_email u')) d')))"

lemma mailed_grows: "mail_grows d d' \<Longrightarrow> mailed sha i m tok d \<Longrightarrow> mailed sha i m tok d'"
proof -
  have "mailed sha i m tok d = (\<exists>k \<in> mail_key ` set (outbox d). fst k = ''verification:'' @ i @ '':'' @ hex_encode (sha tok) \<and>
     fst (snd k) = Some i \<and> mailbox (snd (snd k)) = m)" for d
    by (simp add: mailed_def mail_key_def)
  then show "mail_grows d d' \<Longrightarrow> mailed sha i m tok d \<Longrightarrow> ?thesis" unfolding mail_grows_def by (meson subsetD)
qed

lemma vouched_grows: "mail_grows d d' \<Longrightarrow> vouched sha tk em i m d \<Longrightarrow> vouched sha tk em i m d'"
  unfolding vouched_def using mailed_grows by blast

interpretation mail: guarantee mail_grows
  by unfold_locales (auto simp: mail_grows_def)

interpretation same: guarantee same_accts
  by unfold_locales (auto simp: same_accts_def intro: mail.refl mail.trans)

lemma same_id: "one_row_each d \<Longrightarrow> u \<in> set (accts d) \<Longrightarrow> v \<in> set (accts d) \<Longrightarrow> au_id u = au_id v \<Longrightarrow> u = v"
  by (simp add: one_row_each_def distinct_map inj_on_def)

interpretation acct: guarantee "acct_step sha tk em" for sha tk em
proof unfold_locales
  show "acct_step sha tk em d d" for d by (auto simp: acct_step_def mail.refl successor_def)
  fix a b c assume ab: "acct_step sha tk em a b" and bc: "acct_step sha tk em b c"
  have m: "mail_grows a b" "mail_grows b c" using ab bc by (auto simp: acct_step_def)
  have s: "\<forall>u \<in> set (accts a). \<exists>u' \<in> set (accts c). successor u u'" if o: "one_row_each a"
  proof
    fix u assume "u \<in> set (accts a)"
    with o obtain v where v: "v \<in> set (accts b)" "successor u v" using ab by (auto simp: acct_step_def)
    then obtain w where "w \<in> set (accts c)" "successor v w" using ab bc o by (auto simp: acct_step_def)
    with v show "\<exists>u' \<in> set (accts c). successor u u'" by (auto simp: successor_def)
  qed
  have "(\<exists>u \<in> set (accts a). au_id u = au_id w \<and> au_verified u) \<or> vouched sha tk em (au_id w) (mailbox (au_email w)) c"
    if p: "proven sha a" and w: "w \<in> set (accts c)" "au_verified w" for w
  proof (cases "\<exists>v \<in> set (accts b). au_id v = au_id w \<and> au_verified v")
    case True
    then obtain v where v: "v \<in> set (accts b)" "au_id v = au_id w" "au_verified v" by blast
    have "proven sha c" "one_row_each b" using p ab bc by (auto simp: acct_step_def proven_def)
    then obtain w' where "w' \<in> set (accts c)" "successor v w'" using bc v(1) by (auto simp: acct_step_def)
    then have "w' = w" using same_id [of c w' w] \<open>proven sha c\<close> w(1) v(2) by (simp add: proven_def successor_def)
    then have "mailbox (au_email w) = mailbox (au_email v)" using \<open>successor v w'\<close> by (simp add: successor_def)
    moreover have "(\<exists>u \<in> set (accts a). au_id u = au_id v \<and> au_verified u) \<or> vouched sha tk em (au_id v) (mailbox (au_email v)) b"
      using ab p v unfolding acct_step_def by blast
    ultimately show ?thesis using v(2) vouched_grows [OF m(2)] by auto
  next
    case False
    then show ?thesis using ab bc p w by (auto simp: acct_step_def)
  qed
  then show "acct_step sha tk em a c" using s ab bc mail.trans [OF m] by (auto simp: acct_step_def)
qed

section \<open>Steps\<close>

lemma same_step: "same_accts d d' \<Longrightarrow> acct_step sha tk em d d'"
  using mailed_grows by (auto simp: same_accts_def acct_step_def successor_def proven_def one_row_each_def)

lemma mail_upd: "(\<And>o'. mail_key (f o') = mail_key o') \<Longrightarrow> mail_grows d (d\<lparr>outbox := upd p f (outbox d)\<rparr>)"
proof -
  assume "\<And>o'. mail_key (f o') = mail_key o'"
  then have "mail_key ` set (upd p f (outbox d)) = mail_key ` set (outbox d)"
    unfolding set_upd image_image by (intro image_cong) auto
  then show ?thesis by (simp add: mail_grows_def)
qed

text \<open>An update of account rows in place.\<close>

lemma step_upd:
  assumes f: "\<And>u. one_row_each d \<Longrightarrow> u \<in> set (accts d) \<Longrightarrow> p u \<Longrightarrow> successor u (f u) \<and> (au_vtoken (f u) = None \<or> au_vtoken (f u) = au_vtoken u)"
    and v: "\<And>u. proven sha d \<Longrightarrow> u \<in> set (accts d) \<Longrightarrow> p u \<Longrightarrow> au_verified (f u) \<Longrightarrow>
      au_verified u \<or> vouched sha tk em (au_id u) (mailbox (au_email (f u))) d"
  shows "acct_step sha tk em d (d\<lparr>accts := upd p f (accts d)\<rparr>)"
proof -
  let ?d' = "d\<lparr>accts := upd p f (accts d)\<rparr>"
  have m: "mail_grows d ?d'" by (simp add: mail_grows_def)
  have ids: "one_row_each d \<Longrightarrow> one_row_each ?d'"
  proof -
    assume o: "one_row_each d"
    have "map au_id (upd p f (accts d)) = map au_id (accts d)"
      using f [OF o] unfolding upd_def by (auto simp: successor_def)
    then show "one_row_each ?d'" using o by (simp add: one_row_each_def)
  qed
  have "mailed sha (au_id u') (mailbox (au_email u')) tok ?d'"
    if "proven sha d" "u' \<in> set (upd p f (accts d))" "au_vtoken u' = Some tok" for u' tok
  proof -
    note new = that
    have o: "one_row_each d" using new(1) by (simp add: proven_def)
    obtain u where u: "u \<in> set (accts d)" "u' = (if p u then f u else u)" using new(2) by (auto simp: set_upd)
    then have "au_vtoken u = Some tok" "successor u u'" using f [OF o u(1)] new(3) by (auto simp: successor_def split: if_splits)
    then show ?thesis using new(1) u(1) mailed_grows [OF m] by (auto simp: proven_def successor_def)
  qed
  then have "proven sha d \<longrightarrow> proven sha ?d'" using ids by (auto simp: proven_def)
  moreover have "(\<exists>u \<in> set (accts d). au_id u = au_id u' \<and> au_verified u) \<or> vouched sha tk em (au_id u') (mailbox (au_email u')) ?d'"
    if "proven sha d" "u' \<in> set (upd p f (accts d))" "au_verified u'" for u'
  proof -
    note new = that
    have o: "one_row_each d" using new(1) by (simp add: proven_def)
    obtain u where u: "u \<in> set (accts d)" "u' = (if p u then f u else u)" using new(2) by (auto simp: set_upd)
    then show ?thesis using new f [OF o u(1)] v [OF new(1) u(1)] vouched_grows [OF m] by (auto simp: successor_def split: if_splits)
  qed
  moreover have "\<exists>u' \<in> set (upd p f (accts d)). successor u u'" if "one_row_each d" "u \<in> set (accts d)" for u
    using that f [OF that] by (auto simp: set_upd successor_def)
  ultimately show ?thesis using m ids by (auto simp: acct_step_def)
qed

text \<open>A new account, without a token or with a mailed one.\<close>

lemma step_new:
  assumes d': "accts d' = accts d @ [u]" "mail_grows d d'" and u: "\<forall>x \<in> set (accts d). au_id x \<noteq> au_id u"
    and "\<And>tok. au_vtoken u = Some tok \<Longrightarrow> mailed sha (au_id u) (mailbox (au_email u)) tok d'"
    and "au_verified u \<Longrightarrow> vouched sha tk em (au_id u) (mailbox (au_email u)) d'"
  shows "acct_step sha tk em d d'"
  using assms mailed_grows [OF d'(2)] by (auto simp: acct_step_def proven_def successor_def one_row_each_def)

text \<open>A new verification token, mailed.\<close>

lemma step_token:
  assumes d': "accts d' = upd (\<lambda>x. au_id x = au_id u) f (accts d)" "mail_grows d d'"
    and f: "\<And>x. successor x (f x) \<and> au_verified (f x) = au_verified x \<and> au_vtoken (f x) = Some tok"
    and u: "u \<in> set (accts d)" "mailed sha (au_id u) (mailbox (au_email u)) tok d'"
  shows "acct_step sha tk em d d'"
proof -
  have "map au_id (accts d') = map au_id (accts d)" using f unfolding d' upd_def by (auto simp: successor_def)
  then have ids: "one_row_each d' = one_row_each d" by (simp add: one_row_each_def)
  have "mailed sha (au_id x') (mailbox (au_email x')) tok' d'"
    if p: "proven sha d" and x': "x' \<in> set (accts d')" "au_vtoken x' = Some tok'" for x' tok'
  proof -
    obtain x where x: "x \<in> set (accts d)" "x' = (if au_id x = au_id u then f x else x)" using x'(1) d'(1) by (auto simp: set_upd)
    show ?thesis
    proof (cases "au_id x = au_id u")
      case True
      then have "x = u" using p x(1) u(1) same_id by (auto simp: proven_def)
      then show ?thesis using x(2) x'(2) f [of u] u(2) by (auto simp: successor_def)
    next
      case False
      then show ?thesis using x x'(2) p mailed_grows [OF d'(2)] by (auto simp: proven_def)
    qed
  qed
  then have "proven sha d \<longrightarrow> proven sha d'" using ids by (auto simp: proven_def)
  moreover have "\<exists>x \<in> set (accts d). au_id x = au_id x' \<and> au_verified x" if "x' \<in> set (accts d')" "au_verified x'" for x'
    using that f d'(1) by (auto simp: set_upd successor_def split: if_splits)
  moreover have "\<exists>x' \<in> set (accts d'). successor x x'" if "x \<in> set (accts d)" for x
    using that f d'(1) by (auto simp: set_upd successor_def)
  ultimately show ?thesis using d'(2) ids by (auto simp: acct_step_def)
qed

section \<open>Requests that leave the accounts alone\<close>

lemma insert_mail_same: "insert_mail o' d = Inr (s, d') \<Longrightarrow> same_accts d d'"
  by (auto simp: insert_mail_def same_accts_def mail_grows_def split: if_splits option.splits)

lemma same_queueUserEmail: "keeps same_accts (queueUserEmail e i key template payload)"
  unfolding queueUserEmail_def queued_def
  by (intro same.keeps_all same.keeps_stmt) (auto intro: insert_mail_same split: option.splits)

lemma same_queues: "keeps same_accts (QueueVerificationEmail e i tok)" "keeps same_accts (QueueWelcomeEmailForContext e i c)"
  "keeps same_accts (QueuePasswordResetEmail e i tok)" "keeps same_accts (QueueMarketplaceEmail e i key payload)"
  "keeps same_accts (QueueDirectMarketplaceEmail e r n key payload)" "keeps same_accts (QueueWelcomeEmail e i)"
  unfolding QueueVerificationEmail_def QueueWelcomeEmail_def QueueWelcomeEmailForContext_def QueuePasswordResetEmail_def QueueMarketplaceEmail_def
    QueueDirectMarketplaceEmail_def Let_def queued_def
  by (intro same.keeps_all same_queueUserEmail same.keeps_stmt; auto intro: insert_mail_same)+

lemma same_set_email: "(\<And>t o'. mail_key (f t o') = mail_key o') \<Longrightarrow> keeps same_accts (set_email item f)"
  unfolding set_email_def by (rule same.keeps_stmt) (auto simp: same_accts_def intro!: mail_upd)

lemma same_deliver: "keeps same_accts (deliverEmail e item)"
proof -
  have "keeps same_accts (send_mail e item)" for item
    by (simp add: keeps_def send_mail_def same_accts_def mail_grows_def)
  then show ?thesis unfolding deliverEmail_def email_owner_def send_checked_def finish_sent_def retryEmail_def failEmail_def Let_def
    by (intro same.keeps_all same_set_email) (simp_all add: mail_key_def suppress_row_def)
qed

lemma same_mail_batch: "keeps same_accts (RunEmailDeliveryBatch e)"
  unfolding RunEmailDeliveryBatch_def recover_emails_def suppress_emails_def claim_emails_def mark_sending_def Let_def
  by (intro same.keeps_all same.keeps_collect same.keeps_for_each same_deliver same.keeps_stmt)
    (auto simp: same_accts_def mail_key_def suppress_row_def intro!: mail_upd)

lemma same_feedback: "keeps same_accts (processNotification i ev)"
  unfolding processNotification_def suppress_one_def Let_def
  by (intro same.keeps_all same.keeps_for_each same.keeps_stmt)
    (auto simp: same_accts_def mail_key_def suppress_row_def simp del: append.simps intro!: mail_upd simp: mail_grows_def [of _ "_\<lparr>feedback := _\<rparr>"]
       mail_grows_def [of _ "_\<lparr>suppressions := _\<rparr>"] mail.refl split: if_splits)

lemma same_respondSession: "keeps same_accts (respondSession e i)"
  unfolding respondSession_def Let_def by (intro same.keeps_all)

lemma same_note_welcome: "keeps same_accts (note_welcome i)"
  by (simp add: keeps_def note_welcome_def same_accts_def mail_grows_def)

lemma same_Login: "keeps same_accts (Login e email password)"
  unfolding Login_def Let_def by (intro same.keeps_all same_respondSession)

lemma same_attach: "keeps same_accts (attachReferralTx i raw)"
  unfolding attachReferralTx_def Let_def
  by (intro same.keeps_all same.keeps_stmt) (auto simp: same_accts_def mail_grows_def split: if_splits)

lemma same_ensureCountry: "keeps same_accts (ensureCountry h)"
  unfolding ensureCountry_def Let_def by (intro same.keeps_all)

lemma same_save_identity: "keeps same_accts (save_identity i subject email)"
  unfolding save_identity_def by (rule same.keeps_stmt) (auto simp: same_accts_def mail_grows_def split: if_splits)

section \<open>Requests that change accounts\<close>

text \<open>A transaction keeps a guarantee when its committed runs do.\<close>

lemma acct_transaction:
  assumes "\<And>t d. wp t body (\<lambda>r d'. case r of Commit a \<Rightarrow> acct_step sha tk em d d' | Abandon a \<Rightarrow> True) (\<lambda>_ _. True) d"
  shows "keeps (acct_step sha tk em) (transaction_with eb ec body)"
proof (rule keeps_wp, rule wp_transaction_with)
  fix t d
  show "wp t body (\<lambda>r d'. case r of Abandon a \<Rightarrow> acct_step sha tk em d d | Commit a \<Rightarrow> acct_step sha tk em d d' \<and> (\<forall>x. acct_step sha tk em d d')) (\<lambda>e _. acct_step sha tk em d d) d"
    by (rule wp_mono [OF assms [of t d]]) (auto simp: acct.refl split: outcome.splits)
qed (simp_all add: acct.refl)

lemma acct_transaction_all:
  assumes "\<And>t d. wp t body (\<lambda>_. acct_step sha tk em d) (\<lambda>_ _. True) d"
  shows "keeps (acct_step sha tk em) (transaction_with eb ec body)"
  by (intro acct_transaction wp_mono [OF assms]) (auto split: outcome.splits)

lemma acct_same: "keeps same_accts m \<Longrightarrow> keeps (acct_step sha tk em) m"
  by (rule keeps_weaken [OF _ same_step])

lemma insert_mail_row:
  "insert_mail o1 d = Inr (s, d') \<Longrightarrow> ob_user o1 = Some i \<Longrightarrow> \<exists>o' \<in> set (outbox d'). ob_key o' = ob_key o1 \<and> ob_user o' = Some i \<and> ob_email o' = ob_email o1"
  by (auto simp: insert_mail_def split: if_splits option.splits dest!: find_Some_D)

lemma insert_mail_mailed:
  assumes "insert_mail (new_mail e (Some i) (verification_key e i tok) (to_lower (btrim m)) n k p d0 t) d = Inr (s, d')"
  shows "mailed (sha256 (ae_env e)) i (mailbox m) tok d'"
  using insert_mail_row [OF assms] by (auto simp: new_mail_def mailed_def verification_key_def tokenDigest_def)

lemma user_by_id_D: "user_by_id i d = Some u \<Longrightarrow> u \<in> set (accts d) \<and> au_id u = i"
  by (auto simp: user_by_id_def dest: find_Some_D)

lemma queue_mailed:
  "wp t (QueueVerificationEmail e i tok)
    (\<lambda>_ d'. same_accts d d' \<and> (\<exists>u \<in> set (accts d). au_id u = i \<and> mailed (sha256 (ae_env e)) i (mailbox (au_email u)) tok d')) (\<lambda>_ _. True) d"
  unfolding QueueVerificationEmail_def queueUserEmail_def queued_def
  by (intro wp_bind wp_stmt) (auto intro!: wp_require insert_mail_same split: option.splits dest: insert_mail_mailed user_by_id_D)

lemma Signup_step: "keeps (acct_step (sha256 (ae_env e)) tk em) (Signup e header req)"
proof -
  have body: "keeps (acct_step (sha256 (ae_env e)) tk em) (transaction_or x y (
       bind (map_err signup_error (insert_user (signup_user e c email phone n pw ctx t))) (\<lambda>userID.
       bind (attachReferralTx userID r) (\<lambda>_.
       bind (map_err g (QueueVerificationEmail e userID (ae_token e))) (\<lambda>_.
       ret (Commit userID))))))" for x y g c email phone n pw ctx r and t :: int
    unfolding transaction_or_def
  proof (rule acct_transaction, rule wp_bind, rule wp_map_err)
    fix t' d
    let ?u = "signup_user e c email phone n pw ctx t"
    have "wp t' (bind (attachReferralTx userID r) (\<lambda>_.
       bind (map_err g (QueueVerificationEmail e userID (ae_token e))) (\<lambda>_. ret (Commit userID))))
      (\<lambda>r d'. case r of Commit a \<Rightarrow> acct_step (sha256 (ae_env e)) tk em d d' | Abandon a \<Rightarrow> True) (\<lambda>_ _. True) d1"
      if i: "userID = au_id ?u" "\<forall>x \<in> set (accts d). au_id x \<noteq> au_id ?u" and d1: "accts d1 = accts d @ [?u]" "outbox d1 = outbox d" for userID d1
    proof (rule wp_bind, rule wp_keeps [OF same_attach])
      fix d2 assume d2: "same_accts d1 d2"
      show "wp t' (bind (map_err g (QueueVerificationEmail e userID (ae_token e))) (\<lambda>_. ret (Commit userID)))
        (\<lambda>r d'. case r of Commit a \<Rightarrow> acct_step (sha256 (ae_env e)) tk em d d' | Abandon a \<Rightarrow> True) (\<lambda>_ _. True) d2"
      proof (rule wp_bind, rule wp_map_err, rule wp_mono [OF queue_mailed], rule wp_ret)
        fix d3 assume d3: "same_accts d2 d3 \<and>
          (\<exists>u \<in> set (accts d2). au_id u = userID \<and> mailed (sha256 (ae_env e)) userID (mailbox (au_email u)) (ae_token e) d3)"
        have "mail_grows d d1" using d1(2) by (simp add: mail_grows_def)
        moreover have "mail_grows d1 d2" "mail_grows d2 d3" using d2 d3 by (simp_all add: same_accts_def)
        ultimately have m: "mail_grows d d3" by (rule mail.trans [OF mail.trans])
        have a: "accts d3 = accts d @ [?u]" using d1 d2 d3 by (simp add: same_accts_def)
        obtain x where x: "x \<in> set (accts d2)" "au_id x = userID" "mailed (sha256 (ae_env e)) userID (mailbox (au_email x)) (ae_token e) d3"
          using d3 by blast
        have "accts d2 = accts d @ [?u]" using d1 d2 by (simp add: same_accts_def)
        then have "x = ?u" using x i by auto
        then have "mailed (sha256 (ae_env e)) (au_id ?u) (mailbox (au_email ?u)) (ae_token e) d3" using x(3) i(1) by simp
        then have "acct_step (sha256 (ae_env e)) tk em d d3"
          by (intro step_new [OF a m]) (use i in \<open>auto simp: signup_user_def\<close>)
        then show "case Commit userID of Commit a \<Rightarrow> acct_step (sha256 (ae_env e)) tk em d d3 | Abandon a \<Rightarrow> True" by simp
      qed simp
    qed simp
    then show "wp t' (insert_user ?u) (\<lambda>userID. wp t' (bind (attachReferralTx userID r) (\<lambda>_.
       bind (map_err g (QueueVerificationEmail e userID (ae_token e))) (\<lambda>_. ret (Commit userID))))
      (\<lambda>r d'. case r of Commit a \<Rightarrow> acct_step (sha256 (ae_env e)) tk em d d' | Abandon a \<Rightarrow> True) (\<lambda>_ _. True)) (\<lambda>_ _. True) d"
      unfolding insert_user_def by (intro wp_stmt) (auto simp: list_ex_iff split: if_splits)
  qed
  show ?thesis unfolding Signup_def Let_def
    by (intro acct.keeps_all body acct_same [OF same_ensureCountry])
qed

lemma step_no_index: "mail_grows d d' \<Longrightarrow> \<not> one_row_each d \<Longrightarrow> acct_step sha tk em d d'"
  by (simp add: acct_step_def proven_def)

lemma token_mailed:
  assumes u: "u \<in> set (accts d)" and f: "\<And>x. successor x (f x) \<and> au_verified (f x) = au_verified x \<and> au_vtoken (f x) = Some (ae_token e)"
  shows "wp t (QueueVerificationEmail e (au_id u) (ae_token e)) (\<lambda>_. acct_step (sha256 (ae_env e)) tk em d) (\<lambda>_ _. True)
    (d\<lparr>accts := upd (\<lambda>x. au_id x = au_id u) f (accts d)\<rparr>)"
proof (rule wp_mono [OF queue_mailed])
  let ?d1 = "d\<lparr>accts := upd (\<lambda>x. au_id x = au_id u) f (accts d)\<rparr>"
  fix d2 assume d2: "same_accts ?d1 d2 \<and>
    (\<exists>x \<in> set (accts ?d1). au_id x = au_id u \<and> mailed (sha256 (ae_env e)) (au_id u) (mailbox (au_email x)) (ae_token e) d2)"
  then have a: "accts d2 = upd (\<lambda>x. au_id x = au_id u) f (accts d)" "mail_grows d d2"
    by (auto simp: same_accts_def mail_grows_def)
  show "acct_step (sha256 (ae_env e)) tk em d d2"
  proof (cases "one_row_each d")
    case True
    obtain x where x: "x \<in> set (accts d)" "au_id x = au_id u" "mailed (sha256 (ae_env e)) (au_id u) (mailbox (au_email (f x))) (ae_token e) d2"
      using d2 f by (auto simp: set_upd successor_def split: if_splits)
    then have "x = u" using True u same_id by auto
    then have "mailed (sha256 (ae_env e)) (au_id u) (mailbox (au_email u)) (ae_token e) d2" using x(3) f [of u] by (simp add: successor_def)
    then show ?thesis using step_token [OF a f u] by blast
  qed (rule step_no_index [OF a(2)])
qed simp

lemma user_by_email_D: "user_by_email m d = Some u \<Longrightarrow> u \<in> set (accts d) \<and> equal_fold (au_email u) m"
  by (auto simp: user_by_email_def dest: find_Some_D)

lemma Resend_step: "keeps (acct_step (sha256 (ae_env e)) tk em) (ResendVerification e raw)"
proof -
  have tail: "wp t (set_verification_token e u) (\<lambda>_. wp t
       (bind (attempt (QueueVerificationEmail e (au_id u) (ae_token e))) (\<lambda>r. case r of
         Inl err \<Rightarrow> if err = ErrRecipientSuppressed then ret (Abandon m1) else fail y
       | Inr _ \<Rightarrow> ret (Commit m2)))
      (\<lambda>r d'. case r of Commit a \<Rightarrow> acct_step (sha256 (ae_env e)) tk em d d' | Abandon a \<Rightarrow> True) (\<lambda>_ _. True)) (\<lambda>_ _. True) d"
    if u: "u \<in> set (accts d)" for t u d y and m1 m2 :: string
    unfolding set_verification_token_def
    by (intro wp_bind wp_stmt wp_attempt TrueI)
      (auto simp: successor_def intro!: wp_rules wp_mono [OF token_mailed [OF u, where tk = tk and em = em]] split: if_splits)
  show ?thesis unfolding ResendVerification_def Let_def transaction_or_def
    by (intro acct.keeps_bind acct.keeps_require acct_transaction)
      (intro wp_rules; (rule TrueI)?; auto intro!: wp_rules tail split: option.splits dest: user_by_email_D simp: row_def)
qed

lemma set_reset_step: "keeps (acct_step sha tk em) (set_reset_token e u)"
  unfolding set_reset_token_def Let_def
  by (rule acct.keeps_stmt) (auto intro!: step_upd simp: successor_def split: if_splits)

lemma Forgot_step: "keeps (acct_step sha tk em) (ForgotPassword e raw)"
  unfolding ForgotPassword_def Let_def
  by (intro acct.keeps_all set_reset_step acct_same same_queues)

lemma Reset_step: "keeps (acct_step sha tk em) (ResetPassword e token password confirm)"
  unfolding ResetPassword_def apply_reset_def Let_def
  by (intro acct.keeps_all acct.keeps_stmt) (auto intro!: step_upd simp: successor_def split: option.splits)

lemma token_vouches: "proven sha d \<Longrightarrow> u \<in> set (accts d) \<Longrightarrow> au_vtoken u = Some token \<Longrightarrow> tk token \<Longrightarrow>
  vouched sha tk em (au_id u) (mailbox (au_email u)) d"
  unfolding vouched_def proven_def by blast

lemma mark_step:
  assumes "tk token"
  shows "keeps (acct_step sha tk em) (mark_verified token)"
  unfolding mark_verified_def
  by (rule acct.keeps_stmt) (auto intro!: step_upd token_vouches assms simp: successor_def verifiable_def split: option.splits)

lemma Verify_step:
  assumes "tk (trim_space raw)"
  shows "keeps (acct_step sha tk em) (VerifyEmail e raw)"
  unfolding VerifyEmail_def Let_def
  by (intro acct.keeps_all mark_step assms acct_same same_queues same_note_welcome)

lemma mailbox_normal: "normalizeEmail e m = Some n \<Longrightarrow> mailbox n = mailbox m"
  by (auto simp: normalizeEmail_def mailbox_def Let_def trim_to_lower split: if_splits)

lemma acct_then:
  assumes "wp t m (\<lambda>_. acct_step sha tk em d) (\<lambda>_ _. True) d1" "\<And>a. keeps (acct_step sha tk em) (f a)"
  shows "wp t (bind m f) (\<lambda>_. acct_step sha tk em d) (\<lambda>_ _. True) d1"
  by (rule wp_bind, rule wp_mono [OF assms(1)], rule wp_keeps [OF assms(2)]) (auto intro: acct.trans)

lemma known_subject_step:
  assumes "em (mailbox m)"
  shows "wp t (known_subject userID subject m username) (\<lambda>_. acct_step sha tk em d) (\<lambda>_ _. True) d"
proof -
  have "acct_step sha tk em d1 (d1\<lparr>accts := upd (\<lambda>u. au_id u = userID) (\<lambda>u. u\<lparr>au_email := m, au_name := keep_name username u, au_verified := True, au_privy := Some subject\<rparr>) (accts d1)\<rparr>)"
    if u: "user_by_id userID d = Some u" "equal_fold (trim_space (au_email u)) m" and d1: "same_accts d d1" for u d1
  proof -
    have "mailbox (au_email x) = mailbox m" if "one_row_each d1" "x \<in> set (accts d1)" "au_id x = userID" for x
      using that u d1 same_id [of d x u] mailbox_trim_fold [OF u(2)] user_by_id_D [OF u(1)] by (auto simp: same_accts_def one_row_each_def)
    then show ?thesis using assms by (intro step_upd) (auto simp: successor_def vouched_def proven_def)
  qed
  note refresh = this
  have "wp t (save_identity userID subject m) (\<lambda>_. wp t (bind (refresh_identity_user userID subject m username) (\<lambda>_. ret (Commit (userID, False))))
     (\<lambda>_. acct_step sha tk em d) (\<lambda>_ _. True)) (\<lambda>_ _. True) d"
    if u: "user_by_id userID d = Some u" "equal_fold (trim_space (au_email u)) m" for u
  proof (rule wp_keeps [OF same_save_identity])
    fix d1 assume d1: "same_accts d d1"
    show "wp t (bind (refresh_identity_user userID subject m username) (\<lambda>_. ret (Commit (userID, False)))) (\<lambda>_. acct_step sha tk em d) (\<lambda>_ _. True) d1"
      unfolding refresh_identity_user_def
      by (intro wp_bind wp_stmt TrueI wp_ret) (auto split: if_splits intro: acct.trans [OF same_step [OF d1]] refresh [OF u d1])
  qed simp
  then show ?thesis unfolding known_subject_def
    by (intro wp_bind wp_query wp_require TrueI) (auto simp: row_def split: option.splits)
qed

lemma known_address_step:
  assumes "em (mailbox m)" "u \<in> set (accts d)" "equal_fold (au_email u) m"
  shows "wp t (known_address u subject username) (\<lambda>_. acct_step sha tk em d) (\<lambda>_ _. True) d"
proof -
  have "acct_step sha tk em d (d\<lparr>accts := upd (\<lambda>x. au_id x = au_id u) (\<lambda>u. u\<lparr>au_name := keep_name username u, au_verified := True, au_privy := Some subject\<rparr>) (accts d)\<rparr>)"
  proof -
    have "mailbox (au_email x) = mailbox m" if "one_row_each d" "x \<in> set (accts d)" "au_id x = au_id u" for x
      using that same_id [OF that(1,2) assms(2)] mailbox_fold [OF assms(3)] by simp
    then show ?thesis using assms(1) by (intro step_upd) (auto simp: successor_def vouched_def proven_def)
  qed
  then show ?thesis unfolding known_address_def set_user_def
    by (intro wp_bind wp_query wp_require wp_stmt wp_ret TrueI) auto
qed

lemma new_account_step:
  assumes "em (mailbox m)"
  shows "keeps (acct_step sha tk em) (insert_user (new_privy_user i c subject m username))"
  unfolding insert_user_def using assms
  by (intro acct.keeps_stmt) (auto intro!: step_new simp: new_privy_user_def vouched_def mail_grows_def list_ex_iff split: if_splits)

lemma new_subject_step:
  assumes "em (mailbox m)"
  shows "wp t (new_subject e countryID subject m username code) (\<lambda>_. acct_step sha tk em d) (\<lambda>_ _. True) d"
  unfolding new_subject_def
proof (rule wp_bind, rule wp_attempt, rule wp_query)
  let ?rest = "\<lambda>b userID. bind (save_identity userID subject (to_lower m)) (\<lambda>_.
     bind (if b then attachReferralTx userID code else ret ()) (\<lambda>_. ret (Commit (userID, b))))"
  let ?tail = "\<lambda>r. bind (case r of Inl err \<Rightarrow> if err = NoRows then insert_user (new_privy_user (ae_user e) countryID subject m username) else fail err
      | Inr u \<Rightarrow> known_address u subject username) (?rest (r = Inl NoRows))"
  have rest: "keeps (acct_step sha tk em) (?rest b userID)" for b userID
    by (intro acct.keeps_all acct_same same_save_identity same_attach)
  show "wp t (?tail (Inr u)) (\<lambda>_. acct_step sha tk em d) (\<lambda>_ _. True) d" if "row (user_by_email m d) = Inr u" for u
    using that user_by_email_D [of m d u] by (intro acct_then rest) (auto simp: row_def intro!: known_address_step [of em m] assms split: option.splits)
  have missing: "wp t (?tail (Inl x)) (\<lambda>_. acct_step sha tk em d) (\<lambda>_ _. True) d" for x
    by (intro acct_then rest) (auto intro!: wp_fail wp_keeps [OF new_account_step [where em = em, OF assms]])
  show "wp t (?tail (Inl (Fault x))) (\<lambda>_. acct_step sha tk em d) (\<lambda>_ _. True) d" for x by (rule missing)
  show "wp t (?tail (Inl x)) (\<lambda>_. acct_step sha tk em d) (\<lambda>_ _. True) d" for x by (rule missing)
qed

lemma Resolve_step:
  assumes "em (mailbox m)"
  shows "keeps (acct_step sha tk em) (ResolvePrivyWithReferral e countryID subject m username code)"
proof -
  have "wp t (bind lock (\<lambda>_. bind lock (\<lambda>_.
       bind (attempt (query (\<lambda>d t. row (map_option ii_user (find (\<lambda>x. ii_provider x = ''privy'' \<and> ii_subject x = subject) (identities d)))))) (\<lambda>owner.
       case owner of
         Inr userID \<Rightarrow> known_subject userID subject n username
       | Inl err \<Rightarrow> if err = NoRows then new_subject e countryID subject n username code else fail err))))
      (\<lambda>_. acct_step sha tk em d) (\<lambda>_ _. True) d" if "normalizeEmail e m = Some n" for t n d
  proof -
    have em: "em (mailbox n)" using assms mailbox_normal [OF that] by simp
    show ?thesis
      by (intro wp_bind wp_lock TrueI wp_attempt wp_query; (rule wp_sum)?)
        (auto intro!: wp_fail known_subject_step [of em n] new_subject_step [of em n] em)
  qed
  note body = this
  show ?thesis
    by (cases "normalizeEmail e m")
      (auto simp: ResolvePrivyWithReferral_def transaction_def intro!: acct.keeps_fail acct_transaction_all body)
qed

definition privy_addresses :: "privy_account list \<Rightarrow> string set" where
  "privy_addresses linked = mailbox ` (pa_email ` {a \<in> set linked. pa_type a = ''google_oauth''} \<union> pa_address ` {a \<in> set linked. pa_type a = ''email''})"

lemma mailbox_trim [simp]: "mailbox (trim_space s) = mailbox s"
  by (simp add: mailbox_def trim_to_lower)

lemma privy_identity_vouched:
  assumes "privy_identity e subject doc = Inr (m, n, s)"
  shows "mailbox m \<in> privy_addresses (snd doc)"
proof -
  have none: "normalizeEmail e [] = None"
    by (simp add: normalizeEmail_def plain_address_def trim_space_def trim_by_def trim_left_def trim_right_def to_lower_def)
  define g where "g = (case find (\<lambda>a. pa_type a = ''google_oauth'') (snd doc) of None \<Rightarrow> [] | Some a \<Rightarrow> trim_space (pa_email a))"
  define x where "x = (if g = [] then (case find (\<lambda>a. pa_type a = ''email'') (snd doc) of None \<Rightarrow> [] | Some a \<Rightarrow> trim_space (pa_address a)) else g)"
  have "normalizeEmail e x = Some m"
    using assms by (cases "normalizeEmail e x") (auto simp: privy_identity_def Let_def x_def g_def split: prod.splits if_splits option.splits)
  then have "mailbox m = mailbox x" "x \<noteq> []" using mailbox_normal none by auto
  moreover have "g \<noteq> [] \<Longrightarrow> mailbox g \<in> privy_addresses (snd doc)"
    unfolding g_def privy_addresses_def by (auto split: option.splits dest!: find_Some_D)
  moreover have "g = [] \<Longrightarrow> x \<noteq> [] \<Longrightarrow> mailbox x \<in> privy_addresses (snd doc)"
    unfolding x_def privy_addresses_def by (auto split: option.splits dest!: find_Some_D)
  ultimately show ?thesis by (auto simp: x_def)
qed

lemma Privy_step:
  assumes "\<And>s doc m. answer = Inr (s, doc) \<Longrightarrow> m \<in> privy_addresses (snd doc) \<Longrightarrow> em m"
  shows "keeps (acct_step sha tk em) (VerifyPrivy e header answer code)"
proof (cases "case answer of Inl x \<Rightarrow> Inl x | Inr (subject, doc) \<Rightarrow> privy_identity e subject doc")
  case (Inl x)
  then show ?thesis by (auto simp: VerifyPrivy_def intro!: acct.keeps_fail)
next
  case (Inr b)
  obtain m n s where b: "b = (m, n, s)" by (cases b)
  then have "em (mailbox m)" using Inr assms privy_identity_vouched by (auto split: sum.splits prod.splits)
  then show ?thesis unfolding VerifyPrivy_def Inr b
    by (simp del: case_prod_conv add: case_prod_beta)
      (intro acct.keeps_all Resolve_step acct_same same_ensureCountry same_note_welcome same_queues same_respondSession)
qed

section \<open>Histories of requests\<close>

text \<open>What a request brings from outside: the links people opened and the addresses Privy vouched for.\<close>

fun opened :: "acct_call \<Rightarrow> string set" where
  "opened (Confirm e token) = {trim_space token}"
| "opened _ = {}"

fun privy_vouched :: "acct_call \<Rightarrow> string set" where
  "privy_vouched (Privy e header (Inr (subject, doc)) referral) = privy_addresses (snd doc)"
| "privy_vouched _ = {}"

fun digest_of :: "acct_call \<Rightarrow> (string \<Rightarrow> string) option" where
  "digest_of (Register e header req) = Some (sha256 (ae_env e))"
| "digest_of (Resend e email) = Some (sha256 (ae_env e))"
| "digest_of _ = None"

lemmas quiet_requests = same_Login [THEN acct_same] same_queues [THEN acct_same] same_mail_batch [THEN acct_same] same_feedback [THEN acct_same]

lemma run_acct_step:
  assumes "\<forall>tok \<in> opened c. tk tok" "\<forall>m \<in> privy_vouched c. em m" "digest_of c \<in> {None, Some sha}"
  shows "keeps (acct_step sha tk em) (run_acct c)"
proof (cases c)
  case (Privy e header answer referral)
  then show ?thesis using assms by (cases answer) (auto intro!: acct.keeps_ignore Privy_step)
qed (use assms in \<open>auto intro!: acct.keeps_ignore quiet_requests Verify_step Forgot_step Reset_step Signup_step Resend_step\<close>)

lemma run_acct_any:
  assumes "one_row_each (db w)"
  shows "one_row_each (db (snd (run_acct c w))) \<and> (\<forall>u \<in> set (accts (db w)). \<exists>u' \<in> set (accts (db (snd (run_acct c w)))). successor u u')"
proof -
  have "keeps (acct_step (case digest_of c of None \<Rightarrow> id | Some s \<Rightarrow> s) (\<lambda>_. True) (\<lambda>_. True)) (run_acct c)"
    by (rule run_acct_step) (auto split: option.splits)
  then show ?thesis using keepsD [OF _ prod.collapse [symmetric]] assms by (fastforce simp: acct_step_def)
qed

lemma acct_calls_any:
  assumes "one_row_each d" "u \<in> set (accts d)"
  shows "one_row_each (acct_calls cs d) \<and> (\<exists>u' \<in> set (accts (acct_calls cs d)). successor u u')"
  using assms
proof (induction cs d arbitrary: u rule: acct_calls.induct)
  case (1 d)
  then show ?case by (auto simp: successor_def)
next
  case (2 c fs t cs d)
  let ?w = "\<lparr>db = d, faults = fs, now = t\<rparr>"
  have "one_row_each (db (snd (run_acct c ?w))) \<and> (\<forall>u \<in> set (accts d). \<exists>u' \<in> set (accts (db (snd (run_acct c ?w)))). successor u u')"
    using run_acct_any [of ?w c] 2(2) by simp
  then obtain v where v: "v \<in> set (accts (db (snd (run_acct c ?w))))" "successor u v" "one_row_each (db (snd (run_acct c ?w)))"
    using 2(3) by blast
  have "successor v x \<Longrightarrow> successor u x" for x using v(2) by (auto simp: successor_def)
  then show ?case using 2(1) [OF v(3,1)] by auto
qed

lemma reset_bumps:
  assumes "one_row_each d" "u \<in> set (accts d)"
  shows "wp t (ResetPassword e token password confirm)
    (\<lambda>i d'. one_row_each d' \<and> (au_id u = i \<longrightarrow> (\<exists>u' \<in> set (accts d'). au_id u' = i \<and> au_version u' = au_version u + 1))) (\<lambda>_ _. True) d"
proof -
  let ?f = "\<lambda>u. u\<lparr>au_password := ae_bcrypt e password, au_reset := None, au_reset_expires := None, au_reset_at := None, au_version := au_version u + 1\<rparr>"
  have "\<exists>u' \<in> set (upd p ?f (accts d)). au_id u' = au_id x \<and> au_version u' = au_version u + 1" if "find p (accts d) = Some x" "au_id u = au_id x" for p x
  proof -
    have x: "x \<in> set (accts d)" "p x" "u = x" using find_Some_D [OF that(1)] same_id [OF assms(1,2), of x] that(2) by auto
    then have "?f x \<in> set (upd p ?f (accts d))" by (force simp: set_upd)
    then show ?thesis using x(3) by (intro bexI [of _ "?f x"]) simp_all
  qed
  moreover have "map au_id (upd p ?f (accts d)) = map au_id (accts d)" for p by (simp add: upd_def)
  ultimately show ?thesis using assms(1) unfolding ResetPassword_def apply_reset_def Let_def
    by (intro wp_bind wp_require wp_map_err wp_stmt TrueI) (auto simp: one_row_each_def split: option.splits)
qed

lemma require_auth_stale:
  assumes "VerifyToken (ae_env e) (ae_decode e) token (ae_secret e) (now w) = Inr c"
    and "one_row_each (db w)" "u \<in> set (accts (db w))" "au_id u = cl_user c" "cl_version c < au_version u"
  shows "fst (RequireAuth e (''Bearer '' @ token) w) = Inl (Http 401 ''session is no longer valid'')"
proof -
  have p: "has_prefix (p @ s) p" for p s by (induction p) auto
  have bearer: "trim_prefix (''Bearer '' @ token) ''Bearer '' = token"
    using p [of "''Bearer ''" token] by (simp add: trim_prefix_def)
  have "x = u" if "user_by_id (cl_user c) (db w) = Some x" for x
    using user_by_id_D [OF that] same_id [of "db w" x u] assms by simp
  then show ?thesis using assms p [of "''Bearer ''" token]
    by (auto simp: RequireAuth_def prog_defs split: option.splits list.splits fault.splits sum.splits simp del: append.simps simp: bearer)
qed

section \<open>Properties\<close>

text \<open>A small world for the examples.\<close>

definition acct_env0 :: acct_env where
  "acct_env0 = \<lparr>ae_env = env0, ae_secret = ''k'', ae_base = [], ae_decode = (\<lambda>s. None), ae_literal = (\<lambda>s. False),
     ae_bcrypt = (\<lambda>s. s), ae_match = (=), ae_user = ''u9'', ae_token = ''tok'', ae_mail_id = (\<lambda>s. s), ae_smtp = (\<lambda>s. None)\<rparr>"

definition user0 :: acct_user where
  "user0 = \<lparr>au_id = ''u1'', au_country = ''NG'', au_email = ''a@b.co'', au_phone = None, au_password = ''p'', au_name = ''A'',
     au_active = False, au_verified = False, au_vtoken = None, au_vexpires = None, au_vsent = None, au_resends = 0,
     au_context = ''buyer'', au_privy = None, au_reset = None, au_reset_expires = None, au_reset_at = None, au_version = 0\<rparr>"

definition acct_db0 :: acct_db where
  "acct_db0 = \<lparr>accts = [user0], identities = [], outbox = [], suppressions = [], feedback = [], codes = [], program = False,
     referred = [], acct_countries = [], welcomes = [], mails = []\<rparr>"

text \<open>
  C7. A password reset ends every session that was open. Once \<open>ResetPassword\<close> has answered with the
  account, every token of that account with the session version the account had before (or an
  earlier one) is refused by \<open>RequireAuth\<close>, whatever requests, faults and clock values follow.
\<close>

theorem reset_revokes_sessions:
  assumes "one_row_each d" "u \<in> set (accts d)"
    and "ResetPassword e resetToken password confirm \<lparr>db = d, faults = fs, now = t\<rparr> = (Inr (au_id u), w)"
    and "VerifyToken (ae_env e') (ae_decode e') token (ae_secret e') t' = Inr c" "cl_user c = au_id u" "cl_version c \<le> au_version u"
  shows "fst (RequireAuth e' (''Bearer '' @ token) \<lparr>db = acct_calls cs (db w), faults = fs', now = t'\<rparr>) = Inl (Http 401 ''session is no longer valid'')"
proof -
  let ?w = "\<lparr>db = d, faults = fs, now = t\<rparr>"
  have "wp (now ?w) (ResetPassword e resetToken password confirm)
    (\<lambda>i d'. one_row_each d' \<and> (au_id u = i \<longrightarrow> (\<exists>u' \<in> set (accts d'). au_id u' = i \<and> au_version u' = au_version u + 1))) (\<lambda>_ _. True) (db ?w)"
    using reset_bumps [OF assms(1,2)] by simp
  from wp_run [OF this assms(3)]
  obtain v where v: "one_row_each (db w)" "v \<in> set (accts (db w))" "au_id v = au_id u" "au_version v = au_version u + 1" by auto
  then obtain v' where "one_row_each (acct_calls cs (db w))" "v' \<in> set (accts (acct_calls cs (db w)))" "successor v v'"
    using acct_calls_any by blast
  then show ?thesis using assms(4-6) v by (intro require_auth_stale [where u = v']) (auto simp: successor_def)
qed

lemma reset_revokes_sessions_witness:
  "let token = fst (SignWithVersion env0 ''u1'' ''k'' 60 0 0);
       e = acct_env0\<lparr>ae_decode := (\<lambda>s. if s = claims_json \<lparr>cl_user = ''u1'', cl_expires = 60, cl_version = 0\<rparr>
         then Some \<lparr>cl_user = ''u1'', cl_expires = 60, cl_version = 0\<rparr> else None)\<rparr>;
       d = acct_db0\<lparr>accts := [user0\<lparr>au_active := True, au_reset := Some (hex_encode (sha256 env0 ''r'')), au_reset_expires := Some 50\<rparr>]\<rparr>;
       w = \<lparr>db = d, faults = [], now = 9\<rparr>
   in fst (RequireAuth e (''Bearer '' @ token) w) = Inr ''u1'' \<and> fst (ResetPassword e ''r'' ''Abcdefg!'' ''Abcdefg!'' w) = Inr ''u1'' \<and>
     fst (RequireAuth e (''Bearer '' @ token) \<lparr>db = acct_calls [(SignIn e ''a@b.co'' ''Abcdefg!'', [], 10)]
       (db (snd (ResetPassword e ''r'' ''Abcdefg!'' ''Abcdefg!'' w))), faults = [], now = 11\<rparr>) = Inl (Http 401 ''session is no longer valid'')"
proof -
  define u where "u = user0\<lparr>au_active := True, au_reset := Some (hex_encode (sha256 env0 ''r'')), au_reset_expires := Some 50\<rparr>"
  define e where "e = acct_env0\<lparr>ae_decode := (\<lambda>s. if s = claims_json \<lparr>cl_user = ''u1'', cl_expires = 60, cl_version = 0\<rparr>
         then Some \<lparr>cl_user = ''u1'', cl_expires = 60, cl_version = 0\<rparr> else None)\<rparr>"
  define token where "token = fst (SignWithVersion env0 ''u1'' ''k'' 60 0 0)"
  let ?w = "\<lparr>db = acct_db0\<lparr>accts := [u]\<rparr>, faults = [], now = 9\<rparr>"
  have v: "VerifyToken (ae_env e) (ae_decode e) token (ae_secret e) t = (if t < 60 then Inr \<lparr>cl_user = ''u1'', cl_expires = 60, cl_version = 0\<rparr> else Inl (Msg ''expired token''))" for t
    using signed_verifies [of "ae_decode e" "''u1''" 0 60 0 env0 "''k''" t] by (simp add: e_def token_def acct_env0_def)
  have u: "au_id u = ''u1''" "au_version u = 0" "au_active u" by (simp_all add: u_def user0_def)
  have r: "fst (ResetPassword e ''r'' ''Abcdefg!'' ''Abcdefg!'' ?w) = Inr ''u1''" unfolding e_def u_def by code_simp
  have "has_prefix (''Bearer '' @ token) ''Bearer ''" "trim_prefix (''Bearer '' @ token) ''Bearer '' = token" by (simp_all add: trim_prefix_def)
  then have a: "fst (RequireAuth e (''Bearer '' @ token) ?w) = Inr ''u1''"
    using v [of 9] u by (simp add: RequireAuth_def prog_defs user_by_id_def acct_db0_def del: append.simps)
  have "fst (RequireAuth e (''Bearer '' @ token) \<lparr>db = acct_calls [(SignIn e ''a@b.co'' ''Abcdefg!'', [], 10)]
       (db (snd (ResetPassword e ''r'' ''Abcdefg!'' ''Abcdefg!'' ?w))), faults = [], now = 11\<rparr>) = Inl (Http 401 ''session is no longer valid'')"
    by (rule reset_revokes_sessions [of "acct_db0\<lparr>accts := [u]\<rparr>" u e "''r''" "''Abcdefg!''" "''Abcdefg!''" "[]" 9 _ e token 11 "\<lparr>cl_user = ''u1'', cl_expires = 60, cl_version = 0\<rparr>"])
      (use v [of 11] u r in \<open>simp_all add: one_row_each_def acct_db0_def prod_eq_iff\<close>)
  then show ?thesis using a r unfolding Let_def e_def u_def token_def by simp
qed

text \<open>
  C8. Verification is proof of the mailbox. In any history of requests that starts from a sound
  database and hashes tokens with one function, an account that ends up verified was verified at
  the start, or Privy vouched for its address in one of the requests, or somebody opened a link whose
  token was mailed to that address for that account.
\<close>

theorem verified_by_mailbox:
  assumes "proven sha d" "\<forall>(c, fs, t) \<in> set cs. digest_of c \<in> {None, Some sha}"
    and "u' \<in> set (accts (acct_calls cs d))" "au_verified u'"
  shows "(\<exists>u \<in> set (accts d). au_id u = au_id u' \<and> au_verified u) \<or>
    mailbox (au_email u') \<in> (\<Union>(c, fs, t) \<in> set cs. privy_vouched c) \<or>
    (\<exists>tok \<in> (\<Union>(c, fs, t) \<in> set cs. opened c). mailed sha (au_id u') (mailbox (au_email u')) tok (acct_calls cs d))"
proof -
  define tk where "tk tok = (tok \<in> (\<Union>(c, fs, t) \<in> set cs. opened c))" for tok
  define em where "em m = (m \<in> (\<Union>(c, fs, t) \<in> set cs. privy_vouched c))" for m
  have "set cs' \<subseteq> set cs \<Longrightarrow> acct_step sha tk em d (acct_calls cs' d)" for cs' d
  proof (induction cs' d rule: acct_calls.induct)
    case (1 d)
    then show ?case by (simp add: acct.refl)
  next
    case (2 c fs t cs' d)
    let ?w = "\<lparr>db = d, faults = fs, now = t\<rparr>"
    have c: "(c, fs, t) \<in> set cs" using 2(2) by simp
    have "keeps (acct_step sha tk em) (run_acct c)"
      by (rule run_acct_step) (use c assms(2) in \<open>auto simp: tk_def em_def\<close>)
    then have "acct_step sha tk em d (db (snd (run_acct c ?w)))"
      using keepsD [OF _ prod.collapse [symmetric], of "acct_step sha tk em" "run_acct c" ?w] by simp
    then show ?case using 2 acct.trans by auto
  qed
  then have "acct_step sha tk em d (acct_calls cs d)" by simp
  then show ?thesis using assms unfolding acct_step_def vouched_def tk_def em_def by blast
qed

lemma verified_by_mailbox_witness:
  "\<exists>u \<in> set (accts (acct_calls [(Resend acct_env0 ''a@b.co'', [], 0), (Confirm acct_env0 ''tok'', [], 9)] acct_db0)). au_verified u \<and>
     mailed (sha256 env0) ''u1'' ''a@b.co'' ''tok'' (acct_calls [(Resend acct_env0 ''a@b.co'', [], 0), (Confirm acct_env0 ''tok'', [], 9)] acct_db0)"
proof -
  let ?cs = "[(Resend acct_env0 ''a@b.co'', [], 0), (Confirm acct_env0 ''tok'', [], 9)]"
  have p: "proven (sha256 env0) acct_db0" by (simp add: proven_def one_row_each_def acct_db0_def user0_def)
  have r: "map (\<lambda>u. (au_id u, au_email u, au_verified u)) (accts (acct_calls ?cs acct_db0)) = [(''u1'', ''a@b.co'', True)]" by code_simp
  then obtain u where u: "u \<in> set (accts (acct_calls ?cs acct_db0))" "au_id u = ''u1''" "au_email u = ''a@b.co''" "au_verified u"
    by (cases "accts (acct_calls ?cs acct_db0)") auto
  have m: "mailbox ''a@b.co'' = ''a@b.co''" by code_simp
  have t: "trim_space ''tok'' = ''tok''" by code_simp
  show ?thesis using verified_by_mailbox [OF p _ u(1,4), of ] u m t
    by (auto simp: acct_env0_def acct_db0_def user0_def)
qed

end
