(* ===== verification/Mail_Delivery.thy ===== *)
theory Mail_Delivery
  imports Account_Safety "HOL-Library.Sublist"
begin

text \<open>
  The delivery pass of the e-mail outbox (services/email_outbox.go): which messages it hands to SMTP,
  to which address, and which rows it leaves alone. The two relations are guarantees: what the
  pass keeps of the rows, and what one delivery adds to the log of messages.
\<close>

section \<open>What a pass keeps\<close>

definition slot :: "outbox_row \<Rightarrow> string \<times> string option \<times> string \<times> string" where
  "slot o' = (ob_id o', ob_user o', ob_email o', ob_template o')"

definition pass_frame :: "string set \<Rightarrow> acct_db \<Rightarrow> acct_db \<Rightarrow> bool" where
  "pass_frame I d d' = (map slot (outbox d') = map slot (outbox d) \<and> accts d' = accts d \<and> suppressions d' = suppressions d \<and>
     filter (\<lambda>o'. ob_id o' \<notin> I) (outbox d') = filter (\<lambda>o'. ob_id o' \<notin> I) (outbox d))"

definition quiet_pass :: "string set \<Rightarrow> acct_db \<Rightarrow> acct_db \<Rightarrow> bool" where
  "quiet_pass I d d' = (pass_frame I d d' \<and> mails d' = mails d)"

interpretation quiet: guarantee "quiet_pass I" for I
  by unfold_locales (auto simp: quiet_pass_def pass_frame_def)

text \<open>A message may go to the current address of the owner of its row, or to the address of a row without owner.\<close>

definition rightful :: "acct_db \<Rightarrow> string \<times> string \<times> string \<Rightarrow> bool" where
  "rightful d x = (case x of (i, m, tp) \<Rightarrow> \<not> suppressed m d \<and> (\<exists>o' \<in> set (outbox d). ob_id o' = i \<and> ob_template o' = tp \<and>
     (case ob_user o' of None \<Rightarrow> m = ob_email o'
      | Some a \<Rightarrow> \<exists>u \<in> set (accts d). au_id u = a \<and> m = to_lower (btrim (au_email u)) \<and> m = to_lower (trim_space (ob_email o')))))"

lemma rightful_slots: "rightful d (i, m, tp) = (\<not> suppressed m d \<and> (\<exists>(i', a', m', tp') \<in> set (map slot (outbox d)). i' = i \<and> tp' = tp \<and>
     (case a' of None \<Rightarrow> m = m' | Some a \<Rightarrow> \<exists>u \<in> set (accts d). au_id u = a \<and> m = to_lower (btrim (au_email u)) \<and> m = to_lower (trim_space m'))))"
  by (force simp: rightful_def slot_def)

lemma rightful_frame:
  assumes "pass_frame I d d'"
  shows "rightful d' x = rightful d x"
proof (cases x)
  case (fields i m tp)
  have same: "map slot (outbox d') = map slot (outbox d)" "accts d' = accts d" "suppressions d' = suppressions d"
    using assms by (simp_all add: pass_frame_def)
  show ?thesis unfolding fields rightful_slots suppressed_def same by (rule refl)
qed

definition pass :: "outbox_row list \<Rightarrow> acct_db \<Rightarrow> acct_db \<Rightarrow> bool" where
  "pass xs d d' = (pass_frame (ob_id ` set xs) d d' \<and>
     (\<exists>ms. mails d' = mails d @ ms \<and> subseq (map fst ms) (map ob_id xs) \<and> (\<forall>x \<in> set ms. rightful d x)))"

lemma frame_grow: "pass_frame I d d' \<Longrightarrow> I \<subseteq> J \<Longrightarrow> pass_frame J d d'"
proof -
  have "filter (\<lambda>o'. ob_id o' \<notin> J) xs = filter (\<lambda>o'. ob_id o' \<notin> J) (filter (\<lambda>o'. ob_id o' \<notin> I) xs)" if "I \<subseteq> J" for xs
    using that by (induction xs) auto
  then show "pass_frame I d d' \<Longrightarrow> I \<subseteq> J \<Longrightarrow> ?thesis" unfolding pass_frame_def by metis
qed

lemma frame_trans: "pass_frame I a b \<Longrightarrow> pass_frame I b c \<Longrightarrow> pass_frame I a c"
  by (simp add: pass_frame_def)

lemma pass_Cons:
  assumes "pass [x] a b" "pass xs b c"
  shows "pass (x # xs) a c"
proof -
  obtain ms where ms: "mails b = mails a @ ms" "subseq (map fst ms) [ob_id x]" "\<forall>y \<in> set ms. rightful a y"
    using assms(1) by (auto simp: pass_def)
  obtain ns where ns: "mails c = mails b @ ns" "subseq (map fst ns) (map ob_id xs)" "\<forall>y \<in> set ns. rightful b y"
    using assms(2) by (auto simp: pass_def)
  have "subseq (map fst (ms @ ns)) (map ob_id (x # xs))" using list_emb_append_mono [OF ms(2) ns(2)] by simp
  moreover have "\<forall>y \<in> set (ms @ ns). rightful a y" using ms(3) ns(3) rightful_frame assms(1) by (auto simp: pass_def)
  moreover have "pass_frame (ob_id ` set (x # xs)) a c"
    using assms unfolding pass_def by (intro frame_trans [of _ a b c]) (auto elim: frame_grow)
  ultimately show ?thesis using ms(1) ns(1) unfolding pass_def by (intro conjI exI [of _ "ms @ ns"]) auto
qed

section \<open>One delivery\<close>

lemma quiet_set_email:
  assumes "\<And>t o'. slot (f t o') = slot o'"
  shows "keeps (quiet_pass {ob_id item}) (set_email item f)"
proof -
  have "map slot (upd p (f t) xs) = map slot xs" for p t xs using assms by (induction xs) auto
  moreover have "filter (\<lambda>o'. ob_id o' \<noteq> ob_id item) (upd (\<lambda>o'. ob_id o' = ob_id item) (f t) xs) = filter (\<lambda>o'. ob_id o' \<noteq> ob_id item) xs" for t xs
    using assms by (induction xs) (auto simp: slot_def)
  ultimately show ?thesis unfolding set_email_def
    by (intro quiet.keeps_stmt) (auto simp: quiet_pass_def pass_frame_def)
qed

lemma quiet_outcomes:
  "keeps (quiet_pass {ob_id item}) (failEmail item message)" "keeps (quiet_pass {ob_id item}) (retryEmail item message)"
  "keeps (quiet_pass {ob_id item}) (set_email item (\<lambda>t. suppress_row r))"
  "keeps (quiet_pass {ob_id item}) (set_email item (\<lambda>t o'. o'\<lparr>ob_status := s, ob_sent := Some t, ob_locked := None, ob_error := []\<rparr>))"
  unfolding failEmail_def retryEmail_def
  by (intro quiet.keeps_all quiet_set_email; simp add: slot_def suppress_row_def)+

lemma wp_send_mail:
  assumes "Q (Some ''unsupported email template'') d" "Q (ae_smtp e (ob_id item)) (d\<lparr>mails := mails d @ [(ob_id item, ob_email item, ob_template item)]\<rparr>)"
  shows "wp t (send_mail e item) Q E d"
  using assms by (simp add: wp_def send_mail_def)

lemma quiet_pass_one: "quiet_pass {ob_id item} d d' \<Longrightarrow> pass [item] d d'"
  by (auto simp: quiet_pass_def pass_def intro: exI [of _ "[]"])

lemma sent_pass_one:
  assumes "rightful d (ob_id item, m, tp)" "quiet_pass {ob_id item} (d\<lparr>mails := mails d @ [(ob_id item, m, tp)]\<rparr>) d'"
  shows "pass [item] d d'"
  unfolding pass_def
  by (intro conjI exI [of _ "[(ob_id item, m, tp)]"]) (use assms in \<open>auto simp: quiet_pass_def pass_frame_def\<close>)

lemma after_quiet:
  assumes "keeps (quiet_pass {ob_id item}) m"
  shows "wp t m (\<lambda>_. pass [item] d) (\<lambda>_. pass [item] d) d"
  by (rule wp_keeps [OF assms]) (auto intro: quiet_pass_one)

lemma finish_pass:
  assumes "ob_id item' = ob_id item" "rightful d (ob_id item, m, tp)"
  shows "wp t (finish_sent item' sent) (\<lambda>_. pass [item] d) (\<lambda>_. pass [item] d) (d\<lparr>mails := mails d @ [(ob_id item, m, tp)]\<rparr>)"
proof -
  have "keeps (quiet_pass {ob_id item'}) (finish_sent item' sent)"
    unfolding finish_sent_def by (intro quiet.keeps_option quiet_outcomes)
  then show ?thesis
    by (rule wp_keeps) (use assms in \<open>auto intro: sent_pass_one\<close>)
qed

lemma send_pass:
  assumes "ob_id item' = ob_id item" "\<not> suppressed (ob_email item') d \<Longrightarrow> rightful d (ob_id item, ob_email item', ob_template item')"
  shows "wp t (send_checked e item') (\<lambda>_. pass [item] d) (\<lambda>_. pass [item] d) d"
proof -
  have one: "pass [item'] = pass [item]" by (simp add: pass_def assms(1) fun_eq_iff)
  have retry: "wp t (retryEmail item' m) (\<lambda>_. pass [item] d) (\<lambda>_. pass [item] d) d" for m
    using after_quiet [where item = item', OF quiet_outcomes(2)] unfolding one .
  have stop: "wp t (set_email item' (\<lambda>t. suppress_row r)) (\<lambda>_. pass [item] d) (\<lambda>_. pass [item] d) d" for r
    using after_quiet [where item = item', OF quiet_outcomes(3)] unfolding one .
  have "wp t (bind (send_mail e item') (finish_sent item')) (\<lambda>_. pass [item] d) (\<lambda>_. pass [item] d) d" if "\<not> suppressed (ob_email item') d"
    using finish_pass [OF assms(1) assms(2) [OF that]] retry assms(1)
    by (intro wp_bind wp_send_mail) (simp_all add: finish_sent_def)
  then show ?thesis unfolding send_checked_def
    by (intro wp_bind wp_attempt wp_query) (auto simp: retry stop split: bool.splits)
qed

lemma owner_found:
  fixes item :: outbox_row
  assumes "slot item \<in> slot ` set (outbox d)"
  shows "wp t (email_owner item) (\<lambda>owner d'. d' = d \<and> (\<forall>item'. owner = Inr item' \<longrightarrow> ob_id item' = ob_id item \<and>
    (\<not> suppressed (ob_email item') d \<longrightarrow> rightful d (ob_id item, ob_email item', ob_template item')))) (\<lambda>_ _. False) d"
proof -
  obtain o' where o': "o' \<in> set (outbox d)" "ob_id o' = ob_id item" "ob_user o' = ob_user item" "ob_email o' = ob_email item" "ob_template o' = ob_template item"
    using assms by (auto simp: slot_def)
  have none: "ob_user item = None \<Longrightarrow> \<not> suppressed (ob_email item) d \<Longrightarrow> rightful d (ob_id item, ob_email item, ob_template item)"
    using o' by (auto simp: rightful_def intro!: bexI [of _ o'])
  have some: "rightful d (ob_id item, to_lower (trim_space (ob_email item)), ob_template item)"
    if "ob_user item = Some i" "user_by_id i d = Some u" "to_lower (btrim (au_email u)) = to_lower (trim_space (ob_email item))"
      "\<not> suppressed (to_lower (trim_space (ob_email item))) d" for i u
    using o' that user_by_id_D [OF that(2)] by (auto simp: rightful_def intro!: bexI [of _ o'] bexI [of _ u])
  show ?thesis unfolding email_owner_def
    by (rule wp_option; (intro wp_bind wp_attempt wp_query)?) (auto simp: none row_def split: option.splits intro!: wp_ret, erule (3) some)
qed

lemma delivery_pass:
  assumes "slot item \<in> slot ` set (outbox d)"
  shows "wp t (deliverEmail e item) (\<lambda>_. pass [item] d) (\<lambda>_. pass [item] d) d"
  unfolding deliverEmail_def
proof (rule wp_bind, rule wp_mono [OF owner_found [OF assms]])
  fix owner :: "string + outbox_row" and d' assume o': "d' = d \<and> (\<forall>item'. owner = Inr item' \<longrightarrow> ob_id item' = ob_id item \<and>
    (\<not> suppressed (ob_email item') d \<longrightarrow> rightful d (ob_id item, ob_email item', ob_template item')))"
  show "wp t (case owner of Inl message \<Rightarrow> failEmail item message | Inr item \<Rightarrow> send_checked e item) (\<lambda>_. pass [item] d) (\<lambda>_. pass [item] d) d'"
  proof (cases owner)
    case (Inl m)
    then show ?thesis using o' after_quiet [OF quiet_outcomes(1)] by simp
  next
    case (Inr item')
    then show ?thesis using o' by (simp add: send_pass)
  qed
qed simp

lemma deliveries_pass:
  assumes "slot ` set xs \<subseteq> slot ` set (outbox d)"
  shows "wp t (collect (\<lambda>item. attempt (deliverEmail e item)) xs) (\<lambda>_. pass xs d) (\<lambda>_ _. False) d"
  using assms
proof (induction xs arbitrary: d)
  case Nil
  then show ?case by (auto intro!: wp_ret quiet_pass_one simp: pass_def pass_frame_def)
next
  case (Cons x xs)
  have "wp t (collect (\<lambda>item. attempt (deliverEmail e item)) xs) (\<lambda>ys. wp t (ret (y # ys)) (\<lambda>_. pass (x # xs) d) (\<lambda>_ _. False)) (\<lambda>_ _. False) d1" if "pass [x] d d1" for d1 y
  proof (rule wp_mono [OF Cons.IH])
    have "slot ` set (outbox d1) = slot ` set (outbox d)" using that by (metis pass_def pass_frame_def set_map)
    then show "slot ` set xs \<subseteq> slot ` set (outbox d1)" using Cons.prems by simp
  qed (auto intro!: wp_ret pass_Cons [OF that])
  then show ?case unfolding collect.simps
    by (intro wp_bind wp_attempt wp_mono [OF delivery_pass]) (use Cons.prems in auto)
qed

section \<open>The pass\<close>

text \<open>The rows a pass may claim: waiting and due, or left \<open>sending\<close> by a process whose lease ran out.\<close>

definition claimable_row :: "int \<Rightarrow> outbox_row \<Rightarrow> bool" where
  "claimable_row t o' = (waiting o' \<and> ob_next o' \<le> t \<or> ob_status o' = ''sending'' \<and> (case ob_locked o' of None \<Rightarrow> False | Some l \<Rightarrow> l < t - 300))"

definition open_row :: "int \<Rightarrow> outbox_row \<Rightarrow> bool" where
  "open_row t o' = (waiting o' \<or> claimable_row t o')"

definition stage :: "int \<Rightarrow> acct_db \<Rightarrow> acct_db \<Rightarrow> bool" where
  "stage t d d' = (map slot (outbox d') = map slot (outbox d) \<and> accts d' = accts d \<and> suppressions d' = suppressions d \<and> mails d' = mails d \<and>
     (\<forall>o' \<in> set (outbox d). \<not> open_row t o' \<longrightarrow> o' \<in> set (outbox d')) \<and>
     (\<forall>o' \<in> set (outbox d'). waiting o' \<longrightarrow>
        (\<exists>x \<in> set (outbox d). ob_id x = ob_id o' \<and> open_row t x \<and> (ob_next o' \<le> t \<longrightarrow> claimable_row t x))))"

lemma stage_start: "stage t d d"
  by (auto simp: stage_def open_row_def claimable_row_def)

lemma id_of_row: "distinct (map ob_id xs) \<Longrightarrow> x \<in> set xs \<Longrightarrow> y \<in> set xs \<Longrightarrow> ob_id x = ob_id y \<Longrightarrow> x = y"
  by (simp add: distinct_map inj_on_def)

lemma stage_upd:
  assumes st: "stage t d d1" and ids: "distinct (map ob_id (outbox d))" and f: "\<And>o'. slot (f o') = slot o'"
    and p: "\<And>o'. o' \<in> set (outbox d1) \<Longrightarrow> p o' \<Longrightarrow> \<exists>x \<in> set (outbox d). ob_id x = ob_id o' \<and> open_row t x \<and> (waiting (f o') \<and> ob_next (f o') \<le> t \<longrightarrow> claimable_row t x)"
  shows "stage t d (d1\<lparr>outbox := upd p f (outbox d1)\<rparr>)"
proof -
  have slots: "map slot (upd p f xs) = map slot xs" for xs using f by (induction xs) auto
  have id_f: "ob_id (f o') = ob_id o'" for o' using f [of o'] by (simp add: slot_def)
  have kept: "\<not> p o'" if "o' \<in> set (outbox d)" "\<not> open_row t o'" for o'
  proof
    assume "p o'"
    moreover have "o' \<in> set (outbox d1)" using st that by (simp add: stage_def)
    ultimately obtain x where "x \<in> set (outbox d)" "ob_id x = ob_id o'" "open_row t x" using p by blast
    then show False using id_of_row [OF ids that(1), of x] that(2) by simp
  qed
  have "\<exists>x \<in> set (outbox d). ob_id x = ob_id y \<and> open_row t x \<and> (ob_next y \<le> t \<longrightarrow> claimable_row t x)"
    if "y \<in> set (upd p f (outbox d1))" "waiting y" for y
  proof -
    note y = that
    obtain o' where o': "o' \<in> set (outbox d1)" "y = (if p o' then f o' else o')" using y(1) by (auto simp only: set_upd)
    show ?thesis
    proof (cases "p o'")
      case True
      then show ?thesis using p [OF o'(1)] o'(2) id_f that(2) by auto
    next
      case False
      then show ?thesis using st o' that(2) by (simp add: stage_def)
    qed
  qed
  moreover have "o' \<in> set (upd p f (outbox d1))" if "o' \<in> set (outbox d)" "\<not> open_row t o'" for o'
    using st that kept [OF that] unfolding set_upd stage_def by (auto intro!: rev_image_eqI [of o'])
  ultimately show ?thesis using st slots unfolding stage_def by simp
qed

lemma claimed:
  assumes "stage t d d1" "item \<in> set (due_emails t d1)"
  shows "\<exists>x \<in> set (outbox d). ob_id x = ob_id item \<and> claimable_row t x"
proof -
  have "item \<in> set (outbox d1)" "waiting item" "ob_next item \<le> t"
    using assms(2) by (auto simp: due_emails_def dest!: in_set_takeD)
  then show ?thesis using assms(1) by (auto simp: stage_def)
qed

lemma slots_ids:
  assumes "map slot xs = map slot ys"
  shows "map ob_id xs = map ob_id ys"
proof -
  have "map ob_id zs = map fst (map slot zs)" for zs by (simp add: slot_def)
  then show ?thesis using assms by metis
qed

lemma wp_claim:
  assumes st: "stage t d d1" and ids: "distinct (map ob_id (outbox d))"
  shows "wp t claim_emails (\<lambda>xs d'. stage t d d' \<and> length xs \<le> emailBatchLimit \<and> distinct (map ob_id xs) \<and> slot ` set xs \<subseteq> slot ` set (outbox d') \<and>
      (\<forall>item \<in> set xs. \<exists>x \<in> set (outbox d). ob_id x = ob_id item \<and> claimable_row t x)) (\<lambda>_ d'. stage t d d') d1"
proof -
  let ?xs = "map (\<lambda>o'. o'\<lparr>ob_attempts := ob_attempts o' + 1\<rparr>) (due_emails t d1)"
  have src: "\<exists>x \<in> set (outbox d). ob_id x = ob_id item \<and> claimable_row t x" if "item \<in> set ?xs" for item
    using that claimed [OF st] by auto
  have same: "map slot ?xs = map slot (due_emails t d1)" by (simp add: slot_def)
  have "map ob_id (outbox d1) = map ob_id (outbox d)" by (rule slots_ids) (use st in \<open>simp add: stage_def\<close>)
  then have "distinct (map ob_id (outbox d1))" using ids by (simp only:)
  then have "distinct (outbox d1)" "inj_on ob_id (set (outbox d1))" unfolding distinct_map by auto
  have due: "set (due_emails t d1) \<subseteq> set (outbox d1)" by (auto simp: due_emails_def dest!: in_set_takeD)
  have "distinct (due_emails t d1)" using \<open>distinct (outbox d1)\<close> by (simp add: due_emails_def)
  moreover have "inj_on ob_id (set (due_emails t d1))" by (rule inj_on_subset) fact+
  ultimately have "distinct (map ob_id (due_emails t d1))" unfolding distinct_map by blast
  moreover have "map ob_id ?xs = map ob_id (due_emails t d1)" by simp
  ultimately have dist: "distinct (map ob_id ?xs)" by metis
  have sub: "slot ` set ?xs \<subseteq> slot ` set (outbox d1)"
    using \<open>set (due_emails t d1) \<subseteq> set (outbox d1)\<close> by (force simp: slot_def)
  have mark: "wp t (mark_sending item) (\<lambda>_. stage t d) (\<lambda>_ _. stage t d d1) d'" if "item \<in> set ?xs" "stage t d d'" for item d'
    unfolding mark_sending_def
    by (intro wp_stmt) (use st src [OF that(1)] in \<open>auto intro!: stage_upd [OF that(2) ids] simp: slot_def open_row_def waiting_def\<close>)
  have slots: "slot ` set (outbox d') = slot ` set (outbox d1)" if "stage t d d'" for d'
    using that st by (metis stage_def set_map)
  have "wp t (for_each mark_sending ?xs) (\<lambda>_ d'. stage t d d') (\<lambda>_ _. stage t d d1) d1"
    by (rule wp_for_each) (use mark st in auto)
  note marked = this
  have lim: "length ?xs \<le> emailBatchLimit" by (simp add: due_emails_def)
  let ?post = "\<lambda>xs d'. stage t d d' \<and> length xs \<le> emailBatchLimit \<and> distinct (map ob_id xs) \<and> slot ` set xs \<subseteq> slot ` set (outbox d') \<and>
      (\<forall>item \<in> set xs. \<exists>x \<in> set (outbox d). ob_id x = ob_id item \<and> claimable_row t x)"
  have post: "?post ?xs d'" if "stage t d d'" for d'
    using that lim dist src sub unfolding slots [OF that] by blast
  have "wp t (for_each mark_sending ?xs) (\<lambda>_. wp t (ret (Commit ?xs)) (\<lambda>r d'. case r of Abandon xs \<Rightarrow> ?post xs d1
      | Commit xs \<Rightarrow> ?post xs d' \<and> (\<forall>x :: string. stage t d d')) (\<lambda>_ _. stage t d d1)) (\<lambda>_ _. stage t d d1) d1"
    by (rule wp_mono [OF marked]) (rule wp_ret, unfold outcome.case, intro conjI allI post, assumption+)
  then show ?thesis unfolding claim_emails_def Let_def
    by (intro wp_transaction wp_bind wp_query) (use st in simp_all)
qed

definition delivered :: "int \<Rightarrow> acct_db \<Rightarrow> acct_db \<Rightarrow> bool" where
  "delivered t d d' = ((\<exists>ms. mails d' = mails d @ ms \<and> length ms \<le> emailBatchLimit \<and> distinct (map fst ms) \<and>
      (\<forall>x \<in> set ms. rightful d x \<and> (\<exists>o' \<in> set (outbox d). ob_id o' = fst x \<and> claimable_row t o'))) \<and>
    map ob_id (outbox d') = map ob_id (outbox d) \<and> (\<forall>o' \<in> set (outbox d). \<not> open_row t o' \<longrightarrow> o' \<in> set (outbox d')) \<and>
    accts d' = accts d \<and> suppressions d' = suppressions d)"

lemma stage_delivered: "stage t d d' \<Longrightarrow> delivered t d d'"
  using slots_ids [of "outbox d'" "outbox d"] by (auto simp: stage_def delivered_def)

lemma pass_delivered:
  assumes st: "stage t d d1" and ids: "distinct (map ob_id (outbox d))" and xs: "length xs \<le> emailBatchLimit" "distinct (map ob_id xs)"
    and src: "\<forall>item \<in> set xs. \<exists>x \<in> set (outbox d). ob_id x = ob_id item \<and> claimable_row t x" and p: "pass xs d1 d2"
  shows "delivered t d d2"
proof -
  obtain ms where ms: "mails d2 = mails d @ ms" "subseq (map fst ms) (map ob_id xs)" "\<forall>x \<in> set ms. rightful d1 x"
    using p st by (auto simp: pass_def stage_def)
  have fr: "pass_frame UNIV d d1" using st by (simp add: stage_def pass_frame_def)
  have "length ms \<le> emailBatchLimit" using list_emb_length [OF ms(2)] xs(1) by simp
  moreover have "distinct (map fst ms)" using ms(2) xs(2) by (auto simp: subseq_conv_nths)
  moreover have "rightful d x \<and> (\<exists>o' \<in> set (outbox d). ob_id o' = fst x \<and> claimable_row t o')" if "x \<in> set ms" for x
  proof
    show "rightful d x" using ms(3) that rightful_frame [OF fr] by simp
    obtain N where "map fst ms = nths (map ob_id xs) N" using ms(2) by (auto simp only: subseq_conv_nths)
    then have "set (map fst ms) \<subseteq> set (map ob_id xs)" using set_nths_subset by metis
    then have "fst x \<in> set (map ob_id xs)" using \<open>x \<in> set ms\<close> by auto
    then show "\<exists>o' \<in> set (outbox d). ob_id o' = fst x \<and> claimable_row t o'" using src by auto
  qed
  moreover have "map ob_id (outbox d2) = map ob_id (outbox d)"
    by (rule slots_ids) (use p st in \<open>simp add: pass_def pass_frame_def stage_def\<close>)
  moreover have "o' \<in> set (outbox d2)" if "o' \<in> set (outbox d)" "\<not> open_row t o'" for o'
  proof -
    have "ob_id o' \<notin> ob_id ` set xs"
    proof
      assume "ob_id o' \<in> ob_id ` set xs"
      then obtain x where "x \<in> set (outbox d)" "ob_id x = ob_id o'" "claimable_row t x" using src by force
      then show False using id_of_row [OF ids that(1), of x] that(2) by (simp add: open_row_def)
    qed
    moreover have "o' \<in> set (outbox d1)" using st that by (simp add: stage_def)
    ultimately have "o' \<in> set (filter (\<lambda>o'. ob_id o' \<notin> ob_id ` set xs) (outbox d1))" by simp
    then show ?thesis using p unfolding pass_def pass_frame_def by (metis filter_is_subset subsetD)
  qed
  moreover have "accts d2 = accts d" "suppressions d2 = suppressions d" using p st by (simp_all add: pass_def pass_frame_def stage_def)
  ultimately show ?thesis using ms(1) unfolding delivered_def by blast
qed

lemma batch_delivered:
  assumes ids: "distinct (map ob_id (outbox d))"
  shows "wp t (RunEmailDeliveryBatch e) (\<lambda>_. delivered t d) (\<lambda>_. delivered t d) d"
proof -
  have recover: "wp t recover_emails (\<lambda>_. stage t d) (\<lambda>_. stage t d) d"
    unfolding recover_emails_def
    by (intro wp_stmt) (auto intro!: stage_start stage_upd [OF stage_start ids] bexI simp: slot_def open_row_def claimable_row_def split: option.splits)
  have suppress: "wp t suppress_emails (\<lambda>_. stage t d) (\<lambda>_. stage t d) d1" if "stage t d d1" for d1
  proof -
    have "stage t d (d1\<lparr>outbox := upd (\<lambda>o'. waiting o' \<and> suppressed (ob_email o') d1) (suppress_row suppressed_reason) (outbox d1)\<rparr>)"
      by (rule stage_upd [OF that ids]) (use that in \<open>auto simp: slot_def suppress_row_def waiting_def stage_def\<close>)
    then show ?thesis unfolding suppress_emails_def by (intro wp_stmt) (use that in auto)
  qed
  have rest: "wp t (bind (collect (\<lambda>item. attempt (deliverEmail e item)) xs) (\<lambda>results. ret (length (filter (\<lambda>r. \<not> isl r) results), map_option projl (find isl results))))
      (\<lambda>_. delivered t d) (\<lambda>_. delivered t d) d1"
    if "stage t d d1 \<and> length xs \<le> emailBatchLimit \<and> distinct (map ob_id xs) \<and> slot ` set xs \<subseteq> slot ` set (outbox d1) \<and>
      (\<forall>item \<in> set xs. \<exists>x \<in> set (outbox d). ob_id x = ob_id item \<and> claimable_row t x)" for xs d1
    by (rule wp_bind, rule wp_mono [OF deliveries_pass]) (use that ids in \<open>auto intro!: wp_ret elim: pass_delivered\<close>)
  show ?thesis unfolding RunEmailDeliveryBatch_def
    by (rule wp_bind, rule wp_mono [OF recover], rule wp_bind, erule wp_mono [OF suppress], rule wp_bind, erule wp_mono [OF wp_claim [OF _ ids]])
      (auto intro: rest stage_delivered)
qed

text \<open>
  C11. The delivery pass sends only what it may. Whatever the faults and the answers of SMTP, one
  pass hands at most 25 messages to SMTP, at most one per row; each is for a row that was claimable_row,
  goes to the current address of the account that owns the row (or to the address of a
  row without owner), and that address is not suppressed. Rows that were neither waiting nor abandoned
  by an expired lease are left as they were, and accounts and the suppression list do not change.
\<close>

theorem delivery_is_rightful:
  assumes "distinct (map ob_id (outbox (db w)))" "w' = snd (RunEmailDeliveryBatch e w)"
  shows "(\<exists>ms. mails (db w') = mails (db w) @ ms \<and> length ms \<le> emailBatchLimit \<and> distinct (map fst ms) \<and>
      (\<forall>x \<in> set ms. rightful (db w) x \<and> (\<exists>o' \<in> set (outbox (db w)). ob_id o' = fst x \<and> claimable_row (now w) o'))) \<and>
    map ob_id (outbox (db w')) = map ob_id (outbox (db w)) \<and> (\<forall>o' \<in> set (outbox (db w)). \<not> open_row (now w) o' \<longrightarrow> o' \<in> set (outbox (db w'))) \<and>
    accts (db w') = accts (db w) \<and> suppressions (db w') = suppressions (db w)"
  using wp_both [of w "RunEmailDeliveryBatch e" "delivered (now w) (db w)"] batch_delivered [OF assms(1)] assms(2)
  by (simp add: delivered_def)

lemma delivery_is_rightful_witness:
  "let d = acct_db0\<lparr>outbox := [new_mail acct_env0 (Some ''u1'') ''k1'' ''a@b.co'' ''A'' ''welcome'' [] acct_db0 0,
       new_mail acct_env0 None ''k2'' ''x@b.co'' ''X'' ''marketplace_activity'' [] acct_db0 0], suppressions := [(''x@b.co'', ''complaint'')]\<rparr>;
     w = \<lparr>db = d, faults = [], now = 5\<rparr>
   in mails (db (snd (RunEmailDeliveryBatch acct_env0 w))) = [(''k1'', ''a@b.co'', ''welcome'')] \<and> \<not> suppressed ''a@b.co'' d"
proof -
  define d where "d = acct_db0\<lparr>outbox := [new_mail acct_env0 (Some ''u1'') ''k1'' ''a@b.co'' ''A'' ''welcome'' [] acct_db0 0,
       new_mail acct_env0 None ''k2'' ''x@b.co'' ''X'' ''marketplace_activity'' [] acct_db0 0], suppressions := [(''x@b.co'', ''complaint'')]\<rparr>"
  let ?w = "\<lparr>db = d, faults = [], now = 5\<rparr>"
  have m: "mails (db (snd (RunEmailDeliveryBatch acct_env0 ?w))) = [(''k1'', ''a@b.co'', ''welcome'')]"
    unfolding d_def by code_simp
  have i: "distinct (map ob_id (outbox (db ?w)))" "mails d = []"
    by (simp_all add: d_def new_mail_def acct_env0_def acct_db0_def)
  have "rightful d (''k1'', ''a@b.co'', ''welcome'')"
    using delivery_is_rightful [OF i(1) refl, of acct_env0, THEN conjunct1] m i(2) by auto
  then show ?thesis using m unfolding d_def Let_def by (simp add: rightful_def)
qed

text \<open>A finding: an owner whose row cannot be read at the moment counts as gone, and the message is lost.\<close>

lemma owner_fault_loses_mail:
  "let w = \<lparr>db = acct_db0\<lparr>outbox := [new_mail acct_env0 (Some ''u1'') ''k1'' ''a@b.co'' ''A'' ''welcome'' [] acct_db0 0]\<rparr>,
       faults = [FBefore ''connection reset''], now = 5\<rparr>;
     d' = db (snd (deliverEmail acct_env0 (new_mail acct_env0 (Some ''u1'') ''k1'' ''a@b.co'' ''A'' ''welcome'' [] acct_db0 0) w))
   in map (\<lambda>o'. (ob_status o', ob_error o')) (outbox d') = [(''failed'', ''email owner no longer exists'')] \<and> mails d' = []"
  by code_simp

end
