(* ===== verification/Timestamps.thy ===== *)
theory Timestamps
  imports Prelude
begin

text \<open>
  \<open>time.Parse\<close> of the Go standard library for the two layouts the backend reads, RFC3339 and
  "2006-01-02 15:04:05", as Go accepts them: two-digit fields except the hour, which may have one
  digit, a fraction of a second after a period or a comma, and range checks on every field. The
  result is in seconds since the epoch; the fraction is dropped, since the model's
  timestamps are whole seconds.
\<close>

definition days_of_civil :: "int \<Rightarrow> int \<Rightarrow> int \<Rightarrow> int" where
  "days_of_civil y0 m d = (let y = (if m \<le> 2 then y0 - 1 else y0); era = y div 400; yoe = y mod 400;
      mp = (if 2 < m then m - 3 else m + 9); doy = (153 * mp + 2) div 5 + d - 1;
      doe = yoe * 365 + yoe div 4 - yoe div 100 + doy
    in era * 146097 + doe - 719468)"

definition leap_year :: "int \<Rightarrow> bool" where
  "leap_year y = (y mod 4 = 0 \<and> (y mod 100 \<noteq> 0 \<or> y mod 400 = 0))"

definition days_in :: "int \<Rightarrow> int \<Rightarrow> int" where
  "days_in y m = (if m = 2 then (if leap_year y then 29 else 28)
     else if m = 4 \<or> m = 6 \<or> m = 9 \<or> m = 11 then 30 else 31)"

text \<open>Fields: \<open>getnum\<close> with and without its \<open>fixed\<close> flag, four digits, a literal character.\<close>

fun getnum2 :: "string \<Rightarrow> (int \<times> string) option" where
  "getnum2 (a # b # s) = (if is_digit a \<and> is_digit b then Some (digits_val [a, b], s) else None)"
| "getnum2 s = None"

fun getnum1 :: "string \<Rightarrow> (int \<times> string) option" where
  "getnum1 [] = None"
| "getnum1 [a] = (if is_digit a then Some (digits_val [a], []) else None)"
| "getnum1 (a # b # s) = (if \<not> is_digit a then None
     else if is_digit b then Some (digits_val [a, b], s) else Some (digits_val [a], b # s))"

definition getnum4 :: "string \<Rightarrow> (int \<times> string) option" where
  "getnum4 s = (if 4 \<le> length s \<and> list_all is_digit (take 4 s) then Some (digits_val (take 4 s), drop 4 s) else None)"

fun skip_char :: "char \<Rightarrow> string \<Rightarrow> string option" where
  "skip_char c [] = None"
| "skip_char c (a # s) = (if a = c then Some s else None)"

fun skip_space :: "string \<Rightarrow> string option" where
  "skip_space [] = Some []"
| "skip_space (a # s) = (if a = CHR '' '' then Some (dropWhile (\<lambda>c. c = CHR '' '') s) else None)"

fun skip_fraction :: "string \<Rightarrow> string" where
  "skip_fraction (a # b # s) = (if (a = CHR ''.'' \<or> a = CHR '','') \<and> is_digit b then dropWhile is_digit s else a # b # s)"
| "skip_fraction s = s"

abbreviation and_then :: "'a option \<Rightarrow> ('a \<Rightarrow> 'b option) \<Rightarrow> 'b option" where
  "and_then x f \<equiv> (case x of None \<Rightarrow> None | Some a \<Rightarrow> f a)"

definition in_range :: "int \<Rightarrow> int \<Rightarrow> int \<Rightarrow> bool" where
  "in_range lo x hi = (lo \<le> x \<and> x < hi)"

definition parse_date :: "string \<Rightarrow> (int \<times> string) option" where
  "parse_date s =
     and_then (getnum4 s) (\<lambda>(y, s). and_then (skip_char (CHR ''-'') s) (\<lambda>s.
     and_then (getnum2 s) (\<lambda>(m, s). and_then (skip_char (CHR ''-'') s) (\<lambda>s.
     and_then (getnum2 s) (\<lambda>(d, s).
       if in_range 1 m 13 \<and> in_range 1 d (days_in y m + 1) then Some (days_of_civil y m d, s) else None)))))"

definition parse_clock :: "string \<Rightarrow> (int \<times> string) option" where
  "parse_clock s =
     and_then (getnum1 s) (\<lambda>(h, s). and_then (skip_char (CHR '':'') s) (\<lambda>s.
     and_then (getnum2 s) (\<lambda>(m, s). and_then (skip_char (CHR '':'') s) (\<lambda>s.
     and_then (getnum2 s) (\<lambda>(sec, s).
       if in_range 0 h 24 \<and> in_range 0 m 60 \<and> in_range 0 sec 60
       then Some (h * 3600 + m * 60 + sec, skip_fraction s) else None)))))"

text \<open>The zone of RFC3339: \<open>Z\<close>, or a signed offset of at most 24 hours and 60 minutes.\<close>

definition parse_zone :: "string \<Rightarrow> int option" where
  "parse_zone s = (case s of
     [] \<Rightarrow> None
   | c # r \<Rightarrow>
       if c = CHR ''Z'' then (if r = [] then Some 0 else None)
       else if c = CHR ''+'' \<or> c = CHR ''-'' then
         and_then (getnum2 r) (\<lambda>(h, r). and_then (skip_char (CHR '':'') r) (\<lambda>r.
         and_then (getnum2 r) (\<lambda>(m, r).
           if r = [] \<and> h \<le> 24 \<and> m \<le> 60 then Some ((if c = CHR ''-'' then -1 else 1) * (h * 3600 + m * 60)) else None)))
       else None)"

definition parse_rfc3339 :: "string \<Rightarrow> int option" where
  "parse_rfc3339 s =
     and_then (parse_date s) (\<lambda>(day, s). and_then (skip_char (CHR ''T'') s) (\<lambda>s.
     and_then (parse_clock s) (\<lambda>(sec, s). and_then (parse_zone s) (\<lambda>offset. Some (day * 86400 + sec - offset)))))"

definition parse_datetime :: "string \<Rightarrow> int option" where
  "parse_datetime s =
     and_then (parse_date s) (\<lambda>(day, s). and_then (skip_space s) (\<lambda>s.
     and_then (parse_clock s) (\<lambda>(sec, s). if s = [] then Some (day * 86400 + sec) else None)))"

end
