(* ===== verification/Batches.thy ===== *)
theory Batches
  imports XP Timestamps
begin

text \<open>
  Import batches (batch_lifecycle_controller.go), their daily creation (\<open>ensureDailyBatch\<close> of
  payment_controller.go), procurement, delivery and receipt (ops_controller.go), and the two
  workers that close expired batches and confirm expired deliveries. Admin roles are canonical
  names (internal/auth/admin_roles.go).
\<close>

section \<open>Roles\<close>

definition CanonicalAdminRole :: "string \<Rightarrow> string" where
  "CanonicalAdminRole role = (let r = to_lower (trim_space role) in
     if r = ''admin'' \<or> r = ''admin_i'' \<or> r = ''admin_ii'' \<or> r = ''admin_iii'' \<or> r = ''procurement_admin'' \<or>
        r = ''courier_admin'' \<or> r = ''catalog_admin'' then ''catalog_admin''
     else if r = ''super_admin'' then ''super_admin''
     else if r = ''support_admin'' then ''support_admin''
     else if r = ''moderation_admin'' then ''moderation_admin''
     else if r = ''finance_admin'' then ''finance_admin''
     else if r = ''ads_admin'' then ''ads_admin''
     else [])"

definition normalizeAdminRole :: "string \<Rightarrow> string" where
  "normalizeAdminRole role = (if trim_space role = [] then ''catalog_admin'' else CanonicalAdminRole role)"

definition isValidAdminRole :: "string \<Rightarrow> bool" where
  "isValidAdminRole role = (CanonicalAdminRole role \<noteq> [])"

section \<open>Tables\<close>

definition set_batches :: "batch_row list \<Rightarrow> db \<Rightarrow> err + db" where
  "set_batches T d = (if uniq (\<lambda>b. Some (b_id b)) T \<and> uniq (\<lambda>b. Some (b_code b)) T \<and>
       uniq (\<lambda>b. Some (b_country b, b_date b, b_route b, b_transport b, b_sequence b)) T
     then Inr (d\<lparr>batches := T\<rparr>) else Inl (Constraint ''order_batches''))"

lemma set_batches_Inr [simp]:
  "(set_batches T d = Inr d') = (uniq (\<lambda>b. Some (b_id b)) T \<and> uniq (\<lambda>b. Some (b_code b)) T \<and>
     uniq (\<lambda>b. Some (b_country b, b_date b, b_route b, b_transport b, b_sequence b)) T \<and> d' = d\<lparr>batches := T\<rparr>)"
  by (auto simp: set_batches_def)

definition add_batch_event :: "batch_event_row \<Rightarrow> (db, unit) prog" where
  "add_batch_event e = stmt (\<lambda>d t. Inr ((), d\<lparr>batch_events := batch_events d @ [e]\<rparr>))"

definition batch_of :: "string \<Rightarrow> db \<Rightarrow> batch_row option" where
  "batch_of i d = find (\<lambda>b. b_id b = i) (batches d)"

definition in_batch :: "string \<Rightarrow> order_row \<Rightarrow> bool" where
  "in_batch batchID o' = (o_batch o' = Some batchID)"

text \<open>\<open>if errors.Is(err, pgx.ErrNoRows) { return missing }; return err\<close>.\<close>

definition if_missing :: "err \<Rightarrow> ('d, 'a) prog \<Rightarrow> ('d, 'a) prog" where
  "if_missing missing m = map_err (\<lambda>e. if e = NoRows then missing else e) m"

lemma wp_if_missing [wp_rules]:
  "wp t m Q (\<lambda>e. E (if e = NoRows then missing else e)) d \<Longrightarrow> wp t (if_missing missing m) Q E d"
  unfolding if_missing_def by (rule wp_map_err)

section \<open>Actions\<close>

record batchActionSpec =
  ba_from :: "string list"
  ba_to :: string
  ba_roles :: "string list"

definition batchActionSpecs :: "(string \<times> batchActionSpec) list" where
  "batchActionSpecs =
     [(''close_collection'', \<lparr>ba_from = [''collecting_funds''], ba_to = ''closed'', ba_roles = [''super_admin'', ''catalog_admin'']\<rparr>),
      (''approve_procurement'', \<lparr>ba_from = [''closed'', ''settled''], ba_to = ''funds_sent_to_procurement'',
         ba_roles = [''super_admin'', ''catalog_admin'']\<rparr>),
      (''reconcile'', \<lparr>ba_from = [''closed''], ba_to = ''settled'', ba_roles = [''super_admin'', ''catalog_admin'']\<rparr>),
      (''send_procurement_funds'', \<lparr>ba_from = [''settled''], ba_to = ''funds_sent_to_procurement'',
         ba_roles = [''super_admin'', ''catalog_admin'']\<rparr>),
      (''acknowledge_procurement_funds'', \<lparr>ba_from = [''funds_sent_to_procurement''], ba_to = ''procurement_acknowledged'',
         ba_roles = [''procurement_admin'']\<rparr>),
      (''start_procurement'', \<lparr>ba_from = [''funds_sent_to_procurement'', ''procurement_acknowledged''], ba_to = ''purchasing'',
         ba_roles = [''procurement_admin'']\<rparr>),
      (''complete_procurement'', \<lparr>ba_from = [''purchasing''], ba_to = ''procurement_complete'', ba_roles = [''procurement_admin'']\<rparr>),
      (''dispatch'', \<lparr>ba_from = [''purchasing'', ''procurement_complete''], ba_to = ''enroute_nigeria'', ba_roles = [''procurement_admin'']\<rparr>),
      (''confirm_arrival'', \<lparr>ba_from = [''enroute_nigeria''], ba_to = ''arrived_local'', ba_roles = [''courier_admin'']\<rparr>),
      (''confirm_ready_for_pickup'', \<lparr>ba_from = [''enroute_nigeria''], ba_to = ''ready_for_pickup'', ba_roles = [''courier_admin'']\<rparr>),
      (''ready_for_pickup'', \<lparr>ba_from = [''arrived_local''], ba_to = ''ready_for_pickup'', ba_roles = [''courier_admin'']\<rparr>)]"

record batchTransitionRequest =
  br_action :: string
  br_expected :: int
  br_amount :: f64
  br_currency :: string
  br_reference :: string
  br_location :: string
  br_pickup :: string
  br_phone :: string
  br_notes :: string
  br_checked :: bool

definition containsString :: "string list \<Rightarrow> string \<Rightarrow> bool" where
  "containsString values candidate = list_ex (\<lambda>v. v = candidate) values"

definition validateBatchAction :: "string \<Rightarrow> string \<Rightarrow> string \<Rightarrow> err + batchActionSpec" where
  "validateBatchAction role currentStatus action =
     (case map_of batchActionSpecs action of
        None \<Rightarrow> Inl (Http 400 ''unsupported batch action'')
      | Some spec \<Rightarrow>
          if \<not> containsString (ba_roles spec) (normalizeAdminRole role)
          then Inl (Http 403 ''this action belongs to another admin role'')
          else if \<not> containsString (ba_from spec) currentStatus
          then Inl (Http 409 (''cannot '' @ replace_char (CHR ''_'') (CHR '' '') action @ '' while batch is '' @ currentStatus))
          else Inr spec)"

definition nullableAdminID :: "string \<Rightarrow> string option" where
  "nullableAdminID adminID = (if trim_space adminID = [] \<or> adminID = ''bootstrap'' then None else Some adminID)"

definition defaultCurrency :: "string \<Rightarrow> string" where
  "defaultCurrency value = (if value = [] then ''NGN'' else value)"

definition isISO4217Code :: "string \<Rightarrow> bool" where
  "isISO4217Code value = (length value = 3 \<and> list_all (\<lambda>c. let n = (of_char c :: nat) in 65 \<le> n \<and> n \<le> 90) value)"

definition unresolved_items :: "string \<Rightarrow> db \<Rightarrow> nat" where
  "unresolved_items batchID d = cnt (\<lambda>i. (i_status i = ''pending'' \<or>
       i_status i = ''failed'' \<and> (i_resolution i = ''none'' \<or> i_resolution i = ''pending'')) \<and>
     list_ex (\<lambda>o'. o_id o' = i_order i \<and> in_batch batchID o') (orders d)) (items d)"

definition validateBatchActionPayload :: "string \<Rightarrow> batchTransitionRequest \<Rightarrow> (db, unit) prog" where
  "validateBatchActionPayload batchID req =
     (let action = br_action req in
      if action = ''approve_procurement'' then
        bind (query (\<lambda>d t. Inr (cnt (\<lambda>o'. in_batch batchID o' \<and> (o_status o' = ''Paid'' \<or> o_status o' = ''Shipped'')) (orders d)))) (\<lambda>paidOrders.
        require (paidOrders \<noteq> 0) (Http 409 ''this batch has no paid orders to procure''))
      else if action = ''send_procurement_funds'' then
        bind (require (\<not> (f_le (br_amount req) (Fin 0) \<or> br_reference req = []))
          (Http 400 ''positive amount and transfer reference are required'')) (\<lambda>_.
        require (isISO4217Code (defaultCurrency (br_currency req))) (Http 400 ''currency must be a three-letter ISO 4217 code''))
      else if action = ''complete_procurement'' \<or> action = ''dispatch'' then
        bind (query (\<lambda>d t. Inr (unresolved_items batchID d))) (\<lambda>unresolved.
        require (unresolved = 0) (Http 409 ''resolve all pending and failed manifest items before completing procurement''))
      else if action = ''confirm_arrival'' then
        require (br_location req \<noteq> []) (Http 400 ''arrival location is required'')
      else if action = ''ready_for_pickup'' then
        require (br_pickup req \<noteq> [] \<and> br_phone req \<noteq> []) (Http 400 ''pickup location and phone are required'')
      else if action = ''confirm_ready_for_pickup'' then
        bind (require (br_pickup req \<noteq> [] \<and> br_phone req \<noteq> []) (Http 400 ''pickup location and phone are required'')) (\<lambda>_.
        require (br_checked req) (Http 400 ''confirm that received products match the batch checklist''))
      else ret ())"

text \<open>The stage, order status and tracking note a target status brings; none for the others.\<close>

definition order_effect :: "string \<Rightarrow> (string \<times> string \<times> string) option" where
  "order_effect targetStatus =
     (if targetStatus = ''purchasing'' then
        Some (''Arrived at International Hub'', [], ''Procurement started at the China operations hub'')
      else if targetStatus = ''enroute_nigeria'' then
        Some (''In Transit Internationally'', ''Shipped'', ''Batch dispatched from China'')
      else if targetStatus = ''arrived_local'' then
        Some (''Arrived at Local Hub'', [], ''Batch received at the local hub'')
      else if targetStatus = ''ready_for_pickup'' then
        Some (''Arrived at Local Hub'', [], ''Order sorted and ready for pickup or delivery'')
      else None)"

definition text_or :: "string \<Rightarrow> string \<Rightarrow> string" where
  "text_or new old = (if new = [] then old else new)"

definition progress_order :: "string \<Rightarrow> string \<Rightarrow> batchTransitionRequest \<Rightarrow> order_row \<Rightarrow> order_row" where
  "progress_order stage status req o' = (case o_pickup o' of (place, phone, notes) \<Rightarrow>
     o'\<lparr>o_stage := stage, o_status := text_or status (o_status o'),
        o_pickup := (text_or (br_pickup req) place, text_or (br_phone req) phone, text_or (br_notes req) notes)\<rparr>)"

definition applyTransitionOrderEffects :: "string \<Rightarrow> batchTransitionRequest \<Rightarrow> string \<Rightarrow> (db, unit) prog" where
  "applyTransitionOrderEffects batchID req targetStatus = (case order_effect targetStatus of
     None \<Rightarrow> ret ()
   | Some (stage, status, note) \<Rightarrow>
       bind (stmt (\<lambda>d t. update_rows orders set_orders (in_batch batchID) (progress_order stage status req) d)) (\<lambda>_.
       stmt (\<lambda>d t. Inr ((), d\<lparr>tracking_events := tracking_events d @
         map (\<lambda>o'. (o_id o', stage, note)) (filter (in_batch batchID) (orders d))\<rparr>))))"

text \<open>The buyers' notification of an action: type, title and body.\<close>

definition action_notice :: "string \<Rightarrow> string \<Rightarrow> (string \<times> string \<times> string) option" where
  "action_notice action location =
     (if action = ''start_procurement'' then
        Some (''product_purchased'', ''Procurement has started'', ''Your order is being secured from the supplier.'')
      else if action = ''complete_procurement'' then
        Some (''product_purchased'', ''Procurement completed'', ''Your order has been procured and is being prepared for dispatch.'')
      else if action = ''dispatch'' then
        Some (''enroute_international'', ''In transit to Nigeria'', ''Your package has left China and is heading to Nigeria.'')
      else if action = ''confirm_arrival'' then
        Some (''arrived_local'', ''Package arrived in Nigeria'', ''Your package has arrived at '' @ location @ '' and is being sorted.'')
      else if action = ''ready_for_pickup'' then
        Some (''ready_for_pickup'', ''Package ready for pickup'', ''Your package is ready at '' @ location @ ''.'')
      else if action = ''confirm_ready_for_pickup'' then
        Some (''ready_for_pickup'', ''Package ready for pickup'',
          ''Your package has been received, checked, and is ready at '' @ location @ ''.'')
      else None)"

definition batch_notification ::
  "string \<Rightarrow> string \<Rightarrow> string \<times> string \<times> string \<Rightarrow> json \<Rightarrow> order_row \<Rightarrow> notification_row" where
  "batch_notification batchID action notice data o' = (case notice of (ty, title, body) \<Rightarrow>
     \<lparr>n_user = o_user o', n_order = Some (o_id o'), n_batch = Some batchID, n_type = ty, n_title = title, n_body = body,
      n_data = data, n_key = Some (''batch-transition:'' @ batchID @ '':'' @ action @ '':'' @ o_id o')\<rparr>)"

text \<open>\<open>INSERT ... SELECT ... ON CONFLICT DO NOTHING\<close>: each row is inserted unless its key is taken.\<close>

fun insert_each :: "notification_row list \<Rightarrow> db \<Rightarrow> err + (nat \<times> db)" where
  "insert_each [] d = Inr (0, d)"
| "insert_each (r # rs) d = (case insert_ignore notifications set_notifications (clash n_key) r d of
     Inl e \<Rightarrow> Inl e | Inr (n, d') \<Rightarrow> (case insert_each rs d' of Inl e \<Rightarrow> Inl e | Inr (m, d'') \<Rightarrow> Inr (n + m, d'')))"

definition insertTransitionNotifications :: "string \<Rightarrow> string \<Rightarrow> string \<Rightarrow> string \<Rightarrow> (db, unit) prog" where
  "insertTransitionNotifications batchID action status location = (case action_notice action location of
     None \<Rightarrow> ret ()
   | Some notice \<Rightarrow> bind (stmt (\<lambda>d t. insert_each (map (batch_notification batchID action notice
         (JObj [(''batch_status'', JStr status), (''location'', JStr location)])) (filter (in_batch batchID) (orders d))) d)) (\<lambda>_. ret ()))"

definition stamp :: "bool \<Rightarrow> int \<Rightarrow> string option \<Rightarrow> (int \<times> string option) option \<Rightarrow> (int \<times> string option) option" where
  "stamp b t actor old = (if b then Some (t, actor) else old)"

definition advance_batch ::
  "string \<Rightarrow> string \<Rightarrow> batchTransitionRequest \<Rightarrow> string option \<Rightarrow> int option \<Rightarrow> int \<Rightarrow> batch_row \<Rightarrow> batch_row" where
  "advance_batch to location req actorID amount t b = (let action = br_action req in
     b\<lparr>b_status := to,
       b_location := text_or location (b_location b),
       b_notes := text_or (br_notes req) (b_notes b),
       b_locked := (if action = ''close_collection'' then True else b_locked b),
       b_closed_at := (if action = ''close_collection'' then (case b_closed_at b of None \<Rightarrow> Some t | Some x \<Rightarrow> Some x) else b_closed_at b),
       b_reconciled := stamp (action = ''reconcile'' \<or> action = ''approve_procurement'') t actorID (b_reconciled b),
       b_funds := (if action = ''send_procurement_funds'' then (amount, defaultCurrency (br_currency req), br_reference req) else b_funds b),
       b_funds_sent := stamp (action = ''send_procurement_funds'') t actorID (b_funds_sent b),
       b_acknowledged := stamp (action = ''acknowledge_procurement_funds'' \<or> action = ''start_procurement'') t actorID (b_acknowledged b),
       b_procured := stamp (action = ''complete_procurement'' \<or> action = ''dispatch'') t actorID (b_procured b),
       b_version := b_version b + 1\<rparr>)"

definition action_meta :: "string \<Rightarrow> batchTransitionRequest \<Rightarrow> json" where
  "action_meta role req = JObj [(''action'', JStr (br_action req)), (''actor_role'', JStr (normalizeAdminRole role)),
     (''amount'', JNum (br_amount req)), (''currency'', JStr (br_currency req)), (''manifest_checked'', JBool (br_checked req)),
     (''pickup_location'', JStr (br_pickup req)), (''pickup_phone'', JStr (br_phone req)), (''reference'', JStr (br_reference req))]"

definition trim_request :: "batchTransitionRequest \<Rightarrow> batchTransitionRequest" where
  "trim_request req = req\<lparr>br_action := to_lower (trim_space (br_action req)), br_currency := to_upper (trim_space (br_currency req)),
     br_reference := trim_space (br_reference req), br_location := trim_space (br_location req),
     br_pickup := trim_space (br_pickup req), br_phone := trim_space (br_phone req), br_notes := trim_space (br_notes req)\<rparr>"

text \<open>The writes of an accepted action, in the order of the handler.\<close>

definition write_batch_action ::
  "env \<Rightarrow> string \<Rightarrow> string \<Rightarrow> string \<Rightarrow> batchTransitionRequest \<Rightarrow> batchActionSpec \<Rightarrow> batch_row \<Rightarrow> (db, int) prog" where
  "write_batch_action env batchID adminID role req spec b =
     (let location = (if br_pickup req \<noteq> [] then br_pickup req else br_location req); actorID = nullableAdminID adminID in
      bind (found_or (Http 409 ''batch changed; reload before trying again'') (Http 500 ''batch update failed; reload and try again'')
        (stmt (\<lambda>d t. case to_num env (br_amount req) of
            Inl e \<Rightarrow> Inl e
          | Inr amount \<Rightarrow> (case update_rows batches set_batches (\<lambda>x. b_id x = batchID \<and> b_version x = b_version b)
                (advance_batch (ba_to spec) location req actorID (Some amount) t) d of
              Inl e \<Rightarrow> Inl e
            | Inr (n, d') \<Rightarrow> if n = 0 then Inl NoRows else Inr (b_version b + 1, d'))))) (\<lambda>newVersion.
      bind (or_else (applyTransitionOrderEffects batchID req (ba_to spec))
        (Http 500 ''order tracking update failed; no changes were saved'')) (\<lambda>_.
      bind (or_else (add_batch_event \<lparr>be_batch = batchID, be_actor = actorID, be_type = br_action req, be_previous = b_status b,
          be_status = ba_to spec, be_location = location, be_notes = br_notes req, be_meta = action_meta role req\<rparr>)
        (Http 500 ''batch audit update failed; no changes were saved'')) (\<lambda>_.
      bind (or_else (insertTransitionNotifications batchID (br_action req) (ba_to spec) location)
        (Http 500 ''buyer notification update failed; no changes were saved'')) (\<lambda>_.
      ret newVersion)))))"

definition TransitionBatch ::
  "env \<Rightarrow> string \<Rightarrow> string \<Rightarrow> string \<Rightarrow> batchTransitionRequest option \<Rightarrow> (db, response) prog" where
  "TransitionBatch env adminID role batchID body = (case body of
     None \<Rightarrow> fail (Http 400 ''invalid payload'')
   | Some req0 \<Rightarrow>
     (let req = trim_request req0 in
      transaction (
        bind (if_missing (Http 404 ''batch not found'') (query (\<lambda>d t. row (batch_of batchID d)))) (\<lambda>b.
        bind (require (\<not> (0 < br_expected req \<and> br_expected req \<noteq> b_version b))
          (Http 409 ''batch changed; reload before trying again'')) (\<lambda>_.
        case validateBatchAction role (b_status b) (br_action req) of
          Inl e \<Rightarrow> fail e
        | Inr spec \<Rightarrow>
          bind (validateBatchActionPayload batchID req) (\<lambda>_.
          bind (require (\<not> f_is_nan (br_amount req) \<and> \<not> f_is_inf (br_amount req)) (Msg ''json: unsupported value'')) (\<lambda>_.
          bind (write_batch_action env batchID adminID role req spec b) (\<lambda>newVersion.
          ret (Commit (Resp 200 (JObj [(''batch_id'', JStr batchID), (''status'', JStr (ba_to spec)),
            (''version'', JInt newVersion), (''updated'', JBool True)])))))))))))"

section \<open>Workers and order completion\<close>

definition effective_timezone :: "country_row \<Rightarrow> string" where
  "effective_timezone c = (if c_code c = ''NG'' \<and> c_timezone c = ''UTC'' then ''Africa/Lagos'' else c_timezone c)"

definition expired :: "env \<Rightarrow> int \<Rightarrow> db \<Rightarrow> batch_row \<Rightarrow> bool" where
  "expired env t d b = (b_status b = ''collecting_funds'' \<and> \<not> b_locked b \<and>
     (case find (\<lambda>c. c_id c = b_country b) (countries d) of
        None \<Rightarrow> False | Some c \<Rightarrow> b_date b < local_date env (effective_timezone c) t))"

definition close_batch :: "int \<Rightarrow> batch_row \<Rightarrow> batch_row" where
  "close_batch t b = b\<lparr>b_status := ''closed'', b_locked := True,
     b_closed_at := (case b_closed_at b of None \<Rightarrow> Some t | Some x \<Rightarrow> Some x), b_version := b_version b + 1\<rparr>"

definition closing_event :: "string \<Rightarrow> batch_event_row" where
  "closing_event batchID = \<lparr>be_batch = batchID, be_actor = None, be_type = ''automatic_daily_close'', be_previous = ''collecting_funds'',
     be_status = ''closed'', be_location = [], be_notes = ''Operational day ended'',
     be_meta = JObj [(''source'', JStr ''lagos_batch_closure_worker'')]\<rparr>"

definition CloseExpiredBatches :: "env \<Rightarrow> (db, nat) prog" where
  "CloseExpiredBatches env = transaction (
     bind (stmt (\<lambda>d t. case update_rows batches set_batches (expired env t d) (close_batch t) d of
         Inl e \<Rightarrow> Inl e | Inr (n, d') \<Rightarrow> Inr (map b_id (filter (expired env t d) (batches d)), d'))) (\<lambda>ids.
     bind (for_each (\<lambda>i. add_batch_event (closing_event i)) ids) (\<lambda>_.
     ret (Commit (length ids)))))"

definition completing_event :: "string \<Rightarrow> string \<Rightarrow> batch_event_row" where
  "completing_event batchID previous = \<lparr>be_batch = batchID, be_actor = None, be_type = ''all_orders_resolved'', be_previous = previous,
     be_status = ''completed'', be_location = [], be_notes = ''All batch orders resolved'',
     be_meta = JObj [(''source'', JStr ''order_completion'')]\<rparr>"

definition complete_batch :: "int \<Rightarrow> batch_row \<Rightarrow> batch_row" where
  "complete_batch t b = b\<lparr>b_status := ''completed'', b_locked := True,
     b_completed_at := (case b_completed_at b of None \<Rightarrow> Some t | Some x \<Rightarrow> Some x), b_version := b_version b + 1\<rparr>"

definition completeBatchIfResolved :: "string \<Rightarrow> (db, unit) prog" where
  "completeBatchIfResolved batchID =
     bind (query (\<lambda>d t. Inr (cnt (\<lambda>o'. in_batch batchID o' \<and> o_status o' \<noteq> ''Completed'' \<and> o_status o' \<noteq> ''Cancelled'') (orders d)))) (\<lambda>unresolved.
     if 0 < unresolved then ret ()
     else bind (query (\<lambda>d t. row (map_option b_status (batch_of batchID d)))) (\<lambda>previousStatus.
     if previousStatus = ''completed'' then ret ()
     else bind (stmt (\<lambda>d t. update_rows batches set_batches (\<lambda>b. b_id b = batchID \<and> b_status b \<noteq> ''completed'') (complete_batch t) d)) (\<lambda>affected.
     if affected = 0 then ret ()
     else add_batch_event (completing_event batchID previousStatus))))"

definition confirm_order :: "int \<Rightarrow> order_row \<Rightarrow> order_row" where
  "confirm_order t o' = o'\<lparr>o_status := ''Completed'', o_confirmed := True,
     o_confirmed_at := (case o_confirmed_at o' of None \<Rightarrow> Some t | Some x \<Rightarrow> Some x)\<rparr>"

definition awaiting_receipt :: "string \<Rightarrow> string \<Rightarrow> order_row \<Rightarrow> bool" where
  "awaiting_receipt orderID userID o' = (o_id o' = orderID \<and> o_user o' = userID \<and> o_status o' = ''Delivered'' \<and>
     o_stage o' = ''Delivered'' \<and> \<not> o_confirmed o')"

definition release_ledger :: "string \<Rightarrow> int \<Rightarrow> ledger_row \<Rightarrow> ledger_row" where
  "release_ledger orderID t l = l\<lparr>l_status := ''available'', l_available_at := Some t\<rparr>"

definition ConfirmReceipt :: "string \<Rightarrow> string \<Rightarrow> (db, response) prog" where
  "ConfirmReceipt userID orderID =
     (let failed = Http 500 ''receipt confirmation failed; no changes were saved'' in
      transaction_or (Http 503 ''receipt confirmation is temporarily unavailable'') failed (
        bind (or_else (stmt (\<lambda>d t. update_rows orders set_orders (awaiting_receipt orderID userID) (confirm_order t) d)) failed) (\<lambda>affected.
        bind (require (affected \<noteq> 0) (Http 409 ''order is not awaiting receipt confirmation'')) (\<lambda>_.
        bind (or_else (query (\<lambda>d t. row (map_option o_batch (order_of orderID d)))) failed) (\<lambda>batchID.
        bind (or_else (createReviewRewardTx userID orderID) failed) (\<lambda>_.
        bind (or_else (stmt (\<lambda>d t. update_rows ledger set_ledger (\<lambda>l. l_order l = orderID \<and> l_status l = ''pending'')
          (release_ledger orderID t) d)) failed) (\<lambda>_.
        bind (case batchID of None \<Rightarrow> ret () | Some b \<Rightarrow> or_else (completeBatchIfResolved b) failed) (\<lambda>_.
        ret (Commit (Resp 200 (JObj [(''confirmed'', JBool True), (''order_id'', JStr orderID),
          (''review_reward_available'', JBool True)])))))))))))"

definition overdue :: "int \<Rightarrow> order_row \<Rightarrow> bool" where
  "overdue t o' = (o_stage o' = ''Delivered'' \<and> \<not> o_confirmed o' \<and>
     (case o_delivered_at o' of None \<Rightarrow> False | Some x \<Rightarrow> x < t - 3 * 86400))"

text \<open>The Go loop over the map of batches has no fixed order; the model takes the order in which
  the batches were met.\<close>

definition batches_of :: "order_row list \<Rightarrow> string list" where
  "batches_of os = remdups (List.map_filter o_batch os)"

definition AutoConfirmExpiredDeliveries :: "(db, nat) prog" where
  "AutoConfirmExpiredDeliveries = transaction (
     bind (stmt (\<lambda>d t. case update_rows orders set_orders (overdue t) (confirm_order t) d of
         Inl e \<Rightarrow> Inl e | Inr (n, d') \<Rightarrow> Inr (filter (overdue t) (orders d), d'))) (\<lambda>completed.
     bind (for_each (\<lambda>o'. createReviewRewardTx (o_user o') (o_id o')) completed) (\<lambda>_.
     bind (for_each completeBatchIfResolved (batches_of completed)) (\<lambda>_.
     ret (Commit (length completed))))))"

definition AutoConfirmDeliveries :: "(db, response) prog" where
  "AutoConfirmDeliveries = bind (or_else AutoConfirmExpiredDeliveries (Http 500 ''auto-confirm failed'')) (\<lambda>n.
     ret (Resp 200 (JObj [(''auto_confirmed'', JInt (int n))])))"

section \<open>Procurement and delivery\<close>

record BatchPurchaseItem =
  pi_item :: string
  pi_status :: string
  pi_notes :: string
  pi_resolution :: string

definition purchase_failed :: err where
  "purchase_failed = Http 500 ''procurement item update failed; no changes were saved''"

definition mark_item :: "string \<Rightarrow> string \<Rightarrow> string \<Rightarrow> string option \<Rightarrow> int \<Rightarrow> item_row \<Rightarrow> item_row" where
  "mark_item status notes resolution actorID t i = (let resolved = containsString [''refunded'', ''substituted'', ''cancelled''] resolution in
     i\<lparr>i_status := status, i_notes := notes, i_resolution := resolution,
       i_resolved_at := (if resolved then Some t else None), i_resolved_by := (if resolved then actorID else None)\<rparr>)"

definition item_in_batch :: "string \<Rightarrow> string \<Rightarrow> db \<Rightarrow> item_row \<Rightarrow> bool" where
  "item_in_batch itemID batchID d i = (i_id i = itemID \<and> list_ex (\<lambda>o'. o_id o' = i_order i \<and> in_batch batchID o') (orders d))"

definition item_owner :: "string \<Rightarrow> string \<Rightarrow> db \<Rightarrow> (string \<times> string) option" where
  "item_owner itemID batchID d = (case find (item_in_batch itemID batchID d) (items d) of
     None \<Rightarrow> None | Some i \<Rightarrow> map_option (\<lambda>o'. (o_user o', o_id o')) (order_of (i_order i) d))"

text \<open>One item: the number of purchased and failed items it adds to the answer.\<close>

definition purchase_item :: "string \<Rightarrow> string option \<Rightarrow> BatchPurchaseItem \<Rightarrow> (db, int \<times> int) prog" where
  "purchase_item batchID actorID item =
     (let normalized = trim_space (to_lower (pi_status item)); notes = trim_space (pi_notes item);
          given = trim_space (to_lower (pi_resolution item)); purchased = (normalized = ''purchased'');
          resolution = (if purchased then ''none'' else given) in
      bind (require (purchased \<or> normalized = ''failed'') (Http 400 ''purchase status must be purchased or failed'')) (\<lambda>_.
      bind (require (purchased \<or> notes \<noteq> []) (Http 400 ''failed items require a reason'')) (\<lambda>_.
      bind (require (purchased \<or> containsString [''pending'', ''refunded'', ''substituted'', ''cancelled''] given)
        (Http 400 ''failed items require an exception resolution'')) (\<lambda>_.
      bind (or_else (stmt (\<lambda>d t. let T = upd (item_in_batch (pi_item item) batchID d) (mark_item normalized notes resolution actorID t) (items d)
            in Inr (cnt (item_in_batch (pi_item item) batchID d) (items d), d\<lparr>items := T\<rparr>))) purchase_failed) (\<lambda>affected.
      if affected = 0 then ret (0, 0)
      else bind (or_else (query (\<lambda>d t. row (item_owner (pi_item item) batchID d))) purchase_failed) (\<lambda>(userID, orderID).
        if purchased
        then bind (or_else (insertNotification userID orderID (Some batchID) ''product_purchased'' ''Your item has been secured''
               ''Your item has been purchased from the supplier.''
               (JObj [(''order_item_id'', JStr (pi_item item)), (''purchase_status'', JStr ''purchased'')])
               (''purchase-item:'' @ pi_item item)) purchase_failed) (\<lambda>_. ret (1, 0))
        else bind (or_else (insertNotification userID orderID (Some batchID) ''procurement_exception'' ''Item procurement update'' notes
               (JObj [(''order_item_id'', JStr (pi_item item)), (''purchase_status'', JStr ''failed''), (''resolution'', JStr resolution)])
               (''purchase-exception:'' @ pi_item item @ '':'' @ resolution)) purchase_failed) (\<lambda>_. ret (0, 1))))))))"

definition ConfirmPurchase :: "string \<Rightarrow> string \<Rightarrow> BatchPurchaseItem list option \<Rightarrow> (db, response) prog" where
  "ConfirmPurchase adminID batchID body = (case body of
     None \<Rightarrow> fail (Http 400 ''invalid payload'')
   | Some xs \<Rightarrow>
     if xs = [] then fail (Http 400 ''invalid payload'')
     else transaction_or (Http 503 ''procurement update is temporarily unavailable'') purchase_failed (
       bind (found_or (Http 404 ''batch not found'') purchase_failed (query (\<lambda>d t. row (map_option b_status (batch_of batchID d))))) (\<lambda>status.
       bind (require (status = ''purchasing'') (Http 409 ''manifest items can only be changed while procurement is active'')) (\<lambda>_.
       bind (collect (purchase_item batchID (nullableAdminID adminID)) xs) (\<lambda>counts.
       ret (Commit (Resp 200 (JObj [(''updated'', JBool True), (''purchased_count'', JInt (sum_list (map fst counts))),
         (''failed_count'', JInt (sum_list (map snd counts)))]))))))))"

definition deliverable :: "string \<Rightarrow> string \<Rightarrow> db \<Rightarrow> order_row \<Rightarrow> bool" where
  "deliverable orderID batchID d o' = (o_id o' = orderID \<and> in_batch batchID o' \<and> o_status o' \<noteq> ''Completed'' \<and> o_status o' \<noteq> ''Delivered'' \<and>
     list_ex (\<lambda>b. b_id b = batchID \<and> b_status b = ''ready_for_pickup'') (batches d))"

definition deliver_order :: "int \<Rightarrow> order_row \<Rightarrow> order_row" where
  "deliver_order t o' = o'\<lparr>o_stage := ''Delivered'', o_status := ''Delivered'', o_delivered_at := Some t\<rparr>"

definition deliver_one :: "string \<Rightarrow> string \<Rightarrow> (db, unit) prog" where
  "deliver_one batchID orderID =
     bind (if_missing (Http 409 ''order is not deliverable from the selected batch'')
       (stmt (\<lambda>d t. case update_rows orders set_orders (deliverable orderID batchID d) (deliver_order t) d of
           Inl e \<Rightarrow> Inl e
         | Inr (n, d') \<Rightarrow> (case find (deliverable orderID batchID d) (orders d) of
             None \<Rightarrow> Inl NoRows | Some o' \<Rightarrow> Inr (o_user o', d'))))) (\<lambda>userID.
     bind (stmt (\<lambda>d t. Inr ((), d\<lparr>tracking_events := tracking_events d @ [(orderID, ''Delivered'', ''Package delivered by courier'')]\<rparr>))) (\<lambda>_.
     bind (insertNotification userID orderID (Some batchID) ''confirm_receipt'' ''Package delivered!''
       (''Confirm that you received your package. After confirmation, leave a review to earn '' @ int_str reviewRewardXP @ '' XP.'' @ xpUsage)
       (JObj [(''order_id'', JStr orderID), (''confirmation_required'', JBool True)]) (''confirm-receipt:'' @ orderID)) (\<lambda>_.
     ret ())))"

definition ConfirmDelivered :: "(string \<times> string list) option \<Rightarrow> (db, response) prog" where
  "ConfirmDelivered body = (case body of
     None \<Rightarrow> fail (Http 400 ''invalid payload'')
   | Some (batchID, orderIDs) \<Rightarrow>
     if trim_space batchID = [] \<or> orderIDs = [] then fail (Http 400 ''invalid payload'')
     else transaction (
       bind (for_each (deliver_one batchID) orderIDs) (\<lambda>_.
       ret (Commit (Resp 200 (JObj [(''delivered'', JBool True), (''count'', JInt (int (length orderIDs)))]))))))"

section \<open>The daily batch\<close>

definition pad2 :: "int \<Rightarrow> string" where
  "pad2 i = pad_int 2 i"

definition slot :: "string \<Rightarrow> int \<Rightarrow> string \<Rightarrow> string \<Rightarrow> batch_row \<Rightarrow> bool" where
  "slot countryID day routeKey transport b =
     (b_country b = countryID \<and> b_date b = day \<and> b_route b = routeKey \<and> b_transport b = transport)"

definition next_sequence :: "string \<Rightarrow> int \<Rightarrow> string \<Rightarrow> string \<Rightarrow> db \<Rightarrow> int" where
  "next_sequence countryID day routeKey transport d =
     fold max (map b_sequence (filter (slot countryID day routeKey transport) (batches d))) 0 + 1"

text \<open>The open batch of the slot with the highest sequence.\<close>

definition open_batch :: "string \<Rightarrow> int \<Rightarrow> string \<Rightarrow> string \<Rightarrow> db \<Rightarrow> batch_row option" where
  "open_batch countryID day routeKey transport d =
     (case rev (sort_key b_sequence (filter (\<lambda>b. slot countryID day routeKey transport b \<and> b_status b = ''collecting_funds'' \<and>
         \<not> b_locked b) (batches d))) of [] \<Rightarrow> None | b # _ \<Rightarrow> Some b)"

definition new_batch :: "string \<Rightarrow> string \<Rightarrow> string \<Rightarrow> int \<Rightarrow> string \<Rightarrow> string \<Rightarrow> int \<Rightarrow> int \<Rightarrow> batch_row" where
  "new_batch newID code countryID day routeKey transport sequence amount =
     \<lparr>b_id = newID, b_code = code, b_country = countryID, b_date = day, b_route = routeKey, b_transport = transport,
      b_sequence = sequence, b_status = ''collecting_funds'', b_locked = False, b_collected = amount, b_version = 1,
      b_location = ''Payment settlement'', b_notes = [], b_closed_at = None, b_reconciled = None, b_funds = (None, ''NGN'', []),
      b_funds_sent = None, b_acknowledged = None, b_procured = None, b_completed_at = None\<rparr>"

definition batch_code :: "string \<Rightarrow> string \<Rightarrow> string \<Rightarrow> int \<Rightarrow> int \<Rightarrow> string" where
  "batch_code countryCode routeKey transport day sequence =
     join_with ''-'' [to_upper countryCode, routeKey, to_upper transport, date_compact day, pad2 sequence]"

definition ensureDailyBatch :: "env \<Rightarrow> string \<Rightarrow> string \<Rightarrow> string \<Rightarrow> f64 \<Rightarrow> (db, string \<times> string) prog" where
  "ensureDailyBatch env newID countryID promised orderAmount =
     bind (query (\<lambda>d t. row (map_option (\<lambda>c. (c_code c, effective_timezone c, local_date env (effective_timezone c) t))
       (find (\<lambda>c. c_id c = countryID \<and> c_active c) (countries d))))) (\<lambda>(countryCode, zone, day).
     (let upper = to_upper (trim_space countryCode); routeKey = (if upper = ''NG'' then ''LOS'' else upper); transport = ''air'' in
      bind lock (\<lambda>_.
      bind (query (\<lambda>d t. Inr (open_batch countryID day routeKey transport d))) (\<lambda>found.
      bind (case found of
          None \<Rightarrow>
            bind (query (\<lambda>d t. Inr (next_sequence countryID day routeKey transport d))) (\<lambda>sequence.
            (let code = batch_code countryCode routeKey transport day sequence in
             bind (stmt (\<lambda>d t. case to_num env orderAmount of Inl e \<Rightarrow> Inl e | Inr amount \<Rightarrow>
               insert_row batches set_batches (new_batch newID code countryID day routeKey transport sequence amount) d)) (\<lambda>_.
             ret (newID, code))))
        | Some b \<Rightarrow>
            bind (stmt (\<lambda>d t. case to_num env orderAmount of Inl e \<Rightarrow> Inl e | Inr amount \<Rightarrow>
              update_rows batches set_batches (\<lambda>x. b_id x = b_id b \<and> b_status x = ''collecting_funds'' \<and> \<not> b_locked x)
                (\<lambda>x. x\<lparr>b_collected := b_collected x + amount, b_version := b_version x + 1\<rparr>) d)) (\<lambda>_.
            ret (b_id b, b_code b))) (\<lambda>(batchID, code).
      bind (add_batch_event \<lparr>be_batch = batchID, be_actor = None, be_type = ''payment_confirmed'', be_previous = [],
          be_status = ''collecting_funds'', be_location = ''Payment settlement'', be_notes = promised,
          be_meta = JObj [(''operational_timezone'', JStr zone), (''business_date'', JStr (date_str day)),
            (''amount'', JNum orderAmount)]\<rparr>) (\<lambda>_.
      ret (batchID, code)))))))"

end
