(* ===== verification/Admins.thy ===== *)
theory Admins
  imports Sessions Batches
begin

text \<open>
  Staff accounts (admin_access_controller.go, admin_controller.go) and the check that every admin
  route passes (middleware/auth.go): sign-in, roles, creation, change and withdrawal of access,
  password resets, and the audit record of each of them.

  Bcrypt, \<open>uuid.Validate\<close>, PostgreSQL's cast to \<open>uuid\<close> (whose text form is canonical) and new ids
  are parameters.
\<close>

section \<open>Tables\<close>

record admin_row =
  am_id :: string
  am_email :: string
  am_name :: string
  am_hash :: string
  am_role :: string
  am_active :: bool

record access_event =
  ax_actor :: string
  ax_target :: string
  ax_action :: string
  ax_before :: json
  ax_after :: json

record admin_db =
  admins_of :: "admin_row list"
  access_events :: "access_event list"

record admin_env =
  ad_env :: env
  ad_secret :: string
  ad_bootstrap :: string
  ad_decode :: "string \<Rightarrow> Claims option"
  ad_bcrypt :: "string \<Rightarrow> string"
  ad_match :: "string \<Rightarrow> string \<Rightarrow> bool"
  ad_valid :: "string \<Rightarrow> bool"
  ad_uuid :: "string \<Rightarrow> string option"
  ad_new :: string

definition admin_by_id :: "string \<Rightarrow> admin_db \<Rightarrow> admin_row option" where
  "admin_by_id i d = find (\<lambda>a. am_id a = i) (admins_of d)"

text \<open>\<open>$1::uuid\<close> of a text that is no uuid is an error of the statement.\<close>

definition cast_uuid :: "admin_env \<Rightarrow> string \<Rightarrow> err + string" where
  "cast_uuid e s = (case ad_uuid e s of None \<Rightarrow> Inl (Msg ''invalid input syntax for type uuid'') | Some i \<Rightarrow> Inr i)"

definition by_uuid :: "admin_env \<Rightarrow> string \<Rightarrow> admin_db \<Rightarrow> err + admin_row" where
  "by_uuid e s d = (case cast_uuid e s of Inl x \<Rightarrow> Inl x | Inr i \<Rightarrow> row (admin_by_id i d))"

section \<open>Sign-in and the check of admin routes\<close>

record admin_session =
  as_token :: string
  as_expires :: int
  as_admin :: string
  as_name :: string
  as_role :: string

definition AdminLogin :: "admin_env \<Rightarrow> string \<Rightarrow> string \<Rightarrow> (admin_db, admin_session) prog" where
  "AdminLogin e email password =
     bind (attempt (query (\<lambda>d t. row (find (\<lambda>a. equal_fold (am_email a) (to_lower (trim_space email)) \<and> am_active a) (admins_of d))))) (\<lambda>r. case r of
       Inl _ \<Rightarrow> fail (Http 401 ''invalid admin credentials'')
     | Inr a \<Rightarrow>
       bind (require (ad_match e (am_hash a) password) (Http 401 ''invalid admin credentials'')) (\<lambda>_.
       bind clock (\<lambda>t.
       let (token, expiresAt) = Sign (ad_env e) (am_id a) (ad_secret e) 43200 t in
       ret \<lparr>as_token = token, as_expires = expiresAt, as_admin = am_id a, as_name = am_name a, as_role = normalizeAdminRole (am_role a)\<rparr>)))"

text \<open>The id and the current role of the admin who asks.\<close>

definition authenticateAdmin :: "admin_env \<Rightarrow> string \<Rightarrow> string \<Rightarrow> (admin_db, string \<times> string) prog" where
  "authenticateAdmin e header adminToken =
     (if has_prefix header ''Bearer '' then
        bind clock (\<lambda>t.
        case VerifyToken (ad_env e) (ad_decode e) (trim_prefix header ''Bearer '') (ad_secret e) t of
          Inl _ \<Rightarrow> fail (Http 401 ''invalid or expired token'')
        | Inr c \<Rightarrow>
          bind (or_else (query (\<lambda>d t. case by_uuid e (cl_user c) d of Inl x \<Rightarrow> Inl x | Inr a \<Rightarrow> if am_active a then Inr (am_role a) else Inl NoRows))
            (Http 401 ''admin account unavailable'')) (\<lambda>role. ret (cl_user c, role)))
      else let token = trim_space adminToken in
        if token \<noteq> [] \<and> ad_bootstrap e \<noteq> [] \<and> token = ad_bootstrap e then ret (''bootstrap'', ''super_admin'')
        else fail (Http 401 ''missing admin token''))"

definition adminRoleAllowed :: "string \<Rightarrow> string list \<Rightarrow> bool" where
  "adminRoleAllowed role allowed = (let role = CanonicalAdminRole role in
     role = ''super_admin'' \<or> list_ex (\<lambda>a. role = CanonicalAdminRole a) allowed)"

definition RequireAdminRoles :: "admin_env \<Rightarrow> string \<Rightarrow> string \<Rightarrow> string list \<Rightarrow> (admin_db, string \<times> string) prog" where
  "RequireAdminRoles e header adminToken allowed =
     bind (authenticateAdmin e header adminToken) (\<lambda>(adminID, role).
     bind (require (allowed = [] \<or> adminRoleAllowed role allowed) (Http 403 ''insufficient admin role'')) (\<lambda>_. ret (adminID, role)))"

definition AdminSession :: "admin_env \<Rightarrow> string \<Rightarrow> (admin_db, string \<times> string) prog" where
  "AdminSession e adminID =
     bind (require (adminID \<noteq> []) (Http 401 ''admin session unavailable'')) (\<lambda>_.
     bind (or_else (query (\<lambda>d t. case by_uuid e adminID d of Inl x \<Rightarrow> Inl x | Inr a \<Rightarrow> if am_active a then Inr (am_name a, am_role a) else Inl NoRows))
       (Http 401 ''admin account unavailable'')) (\<lambda>(fullName, role). ret (fullName, normalizeAdminRole role)))"

section \<open>Changes of access\<close>

definition unavailable :: err where
  "unavailable = Http 503 ''Service Unavailable''"

definition forbidden :: err where
  "forbidden = Http 403 ''Forbidden''"

definition internal_error :: err where
  "internal_error = Http 500 ''Internal Server Error''"

text \<open>\<open>beginAdminAccess\<close> and the commit: the time limits, the advisory lock, and the actor read again.\<close>

definition beginAdminAccess :: "admin_env \<Rightarrow> string \<Rightarrow> (admin_db, 'a outcome) prog \<Rightarrow> (admin_db, 'a) prog" where
  "beginAdminAccess e actor body = transaction_or unavailable internal_error (
     bind (or_else lock unavailable) (\<lambda>_.
     bind (or_else lock (Http 409 ''Another admin access change is running. Refresh and retry.'')) (\<lambda>_.
     bind (attempt (query (\<lambda>d t. case by_uuid e actor d of Inl x \<Rightarrow> Inl x | Inr a \<Rightarrow> if am_active a then Inr (am_role a) else Inl NoRows))) (\<lambda>r. case r of
       Inl _ \<Rightarrow> fail forbidden
     | Inr role \<Rightarrow> bind (require (CanonicalAdminRole role = ''super_admin'') forbidden) (\<lambda>_. body)))))"

definition access_doc :: "string \<Rightarrow> bool \<Rightarrow> json" where
  "access_doc role active = JObj [(''role'', JStr role), (''is_active'', JBool active)]"

definition auditAdminAccess :: "admin_env \<Rightarrow> string \<Rightarrow> string \<Rightarrow> string \<Rightarrow> json \<Rightarrow> json \<Rightarrow> (admin_db, unit) prog" where
  "auditAdminAccess e actor target action before after = stmt (\<lambda>d t. case cast_uuid e actor of
     Inl x \<Rightarrow> Inl x
   | Inr actor \<Rightarrow> (case cast_uuid e target of
       Inl x \<Rightarrow> Inl x
     | Inr target \<Rightarrow>
         if admin_by_id actor d = None \<or> admin_by_id target d = None then Inl (Constraint ''admin_access_events_fkey'')
         else Inr ((), d\<lparr>access_events := access_events d @ [\<lparr>ax_actor = actor, ax_target = target, ax_action = action,
           ax_before = before, ax_after = after\<rparr>]\<rparr>)))"

definition admin_roles :: "string list" where
  "admin_roles = [''super_admin'', ''catalog_admin'', ''support_admin'', ''moderation_admin'', ''finance_admin'', ''ads_admin'']"

definition insert_admin :: "admin_row \<Rightarrow> (admin_db, string) prog" where
  "insert_admin a = stmt (\<lambda>d t.
     if am_role a \<notin> set admin_roles then Inl (Constraint ''admins_role_check'')
     else if list_ex (\<lambda>x. am_id x = am_id a) (admins_of d) then Inl (Constraint ''admins_pkey'')
     else if list_ex (\<lambda>x. equal_fold (am_email x) (am_email a)) (admins_of d) then Inl (Constraint ''admins_email_key'')
     else Inr (am_id a, d\<lparr>admins_of := admins_of d @ [a]\<rparr>))"

record admin_request =
  ar_email :: string
  ar_name :: string
  ar_password :: string
  ar_role :: string

definition CreateAdmin :: "admin_env \<Rightarrow> string \<Rightarrow> admin_request \<Rightarrow> (admin_db, string) prog" where
  "CreateAdmin e actor req = (let email = to_lower (trim_space (ar_email req)); fullName = trim_space (ar_name req); role = normalizeAdminRole (ar_role req) in
     bind (require (email \<noteq> [] \<and> fullName \<noteq> [] \<and> length email \<le> 254 \<and> length fullName \<le> 160 \<and>
         10 \<le> length (ar_password req) \<and> length (ar_password req) \<le> 72 \<and> isValidAdminRole role)
       (Http 400 ''Email, name, a 10-72 byte password and a valid role are required'')) (\<lambda>_.
     beginAdminAccess e actor (
       bind (or_else (insert_admin \<lparr>am_id = ad_new e, am_email = email, am_name = fullName, am_hash = ad_bcrypt e (ar_password req), am_role = role, am_active = True\<rparr>)
         (Http 409 ''An account with that email may already exist'')) (\<lambda>i.
       bind (or_else (auditAdminAccess e actor i ''created'' (JObj []) (access_doc role True)) internal_error) (\<lambda>_.
       ret (Commit i))))))"

definition count_super :: "admin_db \<Rightarrow> nat" where
  "count_super d = cnt (\<lambda>a. am_role a = ''super_admin'' \<and> am_active a) (admins_of d)"

definition set_access :: "admin_env \<Rightarrow> string \<Rightarrow> string \<Rightarrow> bool \<Rightarrow> (admin_db, unit) prog" where
  "set_access e target role enabled = stmt (\<lambda>d t. case cast_uuid e target of Inl x \<Rightarrow> Inl x | Inr i \<Rightarrow>
     if role \<notin> set admin_roles \<and> admin_by_id i d \<noteq> None then Inl (Constraint ''admins_role_check'')
     else Inr ((), d\<lparr>admins_of := upd (\<lambda>a. am_id a = i) (\<lambda>a. a\<lparr>am_role := role, am_active := enabled\<rparr>) (admins_of d)\<rparr>))"

definition keep_super :: "admin_row \<Rightarrow> string \<Rightarrow> bool \<Rightarrow> (admin_db, unit) prog" where
  "keep_super a role enabled =
     (if am_role a = ''super_admin'' \<and> am_active a \<and> (role \<noteq> ''super_admin'' \<or> \<not> enabled)
      then bind (or_else (query (\<lambda>d t. Inr (count_super d))) internal_error) (\<lambda>count.
        require (\<not> count \<le> 1) (Http 409 ''At least one active Super Admin must remain''))
      else ret ())"

definition record_access :: "admin_env \<Rightarrow> string \<Rightarrow> string \<Rightarrow> admin_row \<Rightarrow> string \<Rightarrow> bool \<Rightarrow> (admin_db, (string \<times> bool) outcome) prog" where
  "record_access e actor target a role enabled =
     bind (or_else (set_access e target role enabled) internal_error) (\<lambda>_.
     bind (or_else (auditAdminAccess e actor target ''access_updated'' (access_doc (am_role a) (am_active a)) (access_doc role enabled)) internal_error) (\<lambda>_.
     ret (Commit (role, enabled))))"

text \<open>An empty role leaves the role, \<open>None\<close> leaves the activity.\<close>

definition updateAdminAccess :: "admin_env \<Rightarrow> string \<Rightarrow> string \<Rightarrow> string \<Rightarrow> bool option \<Rightarrow> (admin_db, string \<times> bool) prog" where
  "updateAdminAccess e actor target role active =
     bind (require (ad_valid e target) (Http 400 ''Bad Request'')) (\<lambda>_.
     bind (require (target \<noteq> actor) (Http 409 ''You cannot change your own role or disable your own account'')) (\<lambda>_.
     beginAdminAccess e actor (
       bind (map_err (\<lambda>x. if x = NoRows then Http 404 ''Not Found'' else internal_error) (query (\<lambda>d t. by_uuid e target d))) (\<lambda>a.
       let role = (if role = [] then am_role a else role); enabled = (case active of None \<Rightarrow> am_active a | Some b \<Rightarrow> b) in
       bind (keep_super a role enabled) (\<lambda>_. record_access e actor target a role enabled)))))"

definition UpdateAdminAccess :: "admin_env \<Rightarrow> string \<Rightarrow> string \<Rightarrow> string option \<Rightarrow> bool option \<Rightarrow> (admin_db, string \<times> bool) prog" where
  "UpdateAdminAccess e actor target role active =
     bind (require (role \<noteq> None \<or> active \<noteq> None) (Http 400 ''Bad Request'')) (\<lambda>_.
     let r = (case role of None \<Rightarrow> [] | Some s \<Rightarrow> CanonicalAdminRole s) in
     bind (require (role = None \<or> r \<noteq> []) (Http 400 ''Choose a valid admin role'')) (\<lambda>_. updateAdminAccess e actor target r active))"

definition DeleteAdmin :: "admin_env \<Rightarrow> string \<Rightarrow> string \<Rightarrow> (admin_db, string \<times> bool) prog" where
  "DeleteAdmin e actor target = updateAdminAccess e actor target [] (Some False)"

definition set_admin_password :: "admin_env \<Rightarrow> string \<Rightarrow> string \<Rightarrow> (admin_db, nat) prog" where
  "set_admin_password e target password = stmt (\<lambda>d t. case cast_uuid e target of Inl x \<Rightarrow> Inl x | Inr i \<Rightarrow>
     Inr (cnt (\<lambda>a. am_id a = i) (admins_of d), d\<lparr>admins_of := upd (\<lambda>a. am_id a = i) (\<lambda>a. a\<lparr>am_hash := ad_bcrypt e password\<rparr>) (admins_of d)\<rparr>))"

definition ResetAdminPassword :: "admin_env \<Rightarrow> string \<Rightarrow> string \<Rightarrow> string \<Rightarrow> (admin_db, unit) prog" where
  "ResetAdminPassword e actor target password =
     bind (require (10 \<le> length password \<and> length password \<le> 72) (Http 400 ''Password must contain 10-72 bytes'')) (\<lambda>_.
     bind (require (ad_valid e target) (Http 400 ''Bad Request'')) (\<lambda>_.
     beginAdminAccess e actor (
       bind (or_else (set_admin_password e target password) internal_error) (\<lambda>affected.
       bind (require (affected \<noteq> 0) (Http 404 ''Not Found'')) (\<lambda>_.
       bind (or_else (auditAdminAccess e actor target ''password_reset'' (JObj []) (JObj [(''password_reset'', JBool True)])) internal_error) (\<lambda>_.
       ret (Commit ())))))))"

text \<open>The routes of these handlers: the check of the role, then the handler with the admin it found.\<close>

definition superOnly :: "admin_env \<Rightarrow> string \<Rightarrow> string \<Rightarrow> (string \<Rightarrow> (admin_db, 'a) prog) \<Rightarrow> (admin_db, 'a) prog" where
  "superOnly e header adminToken handler = bind (RequireAdminRoles e header adminToken [''super_admin'']) (\<lambda>(actor, role). handler actor)"

end
