(* ===== verification/Admin_Safety.thy ===== *)
theory Admin_Safety
  imports Admins
begin

text \<open>
  What changes of staff access promise: the audit log is a complete and lawful history of the access
  that is in force, and the last active Super Admin cannot be lost.
\<close>

section \<open>Access and its history\<close>

text \<open>The access in force, as a map from ids to role and activity, and what an audit record makes of it.\<close>

definition access :: "admin_db \<Rightarrow> string \<Rightarrow> (string \<times> bool) option" where
  "access d i = map_option (\<lambda>a. (am_role a, am_active a)) (admin_by_id i d)"

fun doc_access :: "json \<Rightarrow> (string \<times> bool) option" where
  "doc_access (JObj [(k1, JStr role), (k2, JBool active)]) = Some (role, active)"
| "doc_access j = None"

definition apply_event :: "(string \<Rightarrow> (string \<times> bool) option) \<Rightarrow> access_event \<Rightarrow> string \<Rightarrow> (string \<times> bool) option" where
  "apply_event m ev = (if ax_action ev = ''password_reset'' then m else m(ax_target ev := doc_access (ax_after ev)))"

definition super_in :: "(string \<times> bool) option \<Rightarrow> bool" where
  "super_in x = (case x of None \<Rightarrow> False | Some (role, active) \<Rightarrow> active \<and> CanonicalAdminRole role = ''super_admin'')"

definition lawful_event :: "(string \<Rightarrow> (string \<times> bool) option) \<Rightarrow> access_event \<Rightarrow> bool" where
  "lawful_event m ev = (super_in (m (ax_actor ev)) \<and>
     (if ax_action ev = ''created'' then m (ax_target ev) = None \<and> ax_before ev = JObj []
      else if ax_action ev = ''access_updated'' then m (ax_target ev) \<noteq> None \<and> doc_access (ax_before ev) = m (ax_target ev) \<and> doc_access (ax_after ev) \<noteq> None
      else ax_action ev = ''password_reset'' \<and> m (ax_target ev) \<noteq> None))"

fun lawful_log :: "(string \<Rightarrow> (string \<times> bool) option) \<Rightarrow> access_event list \<Rightarrow> bool" where
  "lawful_log m [] = True"
| "lawful_log m (ev # evs) = (lawful_event m ev \<and> lawful_log (apply_event m ev) evs)"

lemma lawful_append: "lawful_log m (xs @ ys) = (lawful_log m xs \<and> lawful_log (foldl apply_event m xs) ys)"
  by (induction xs arbitrary: m) auto

definition one_row_per_admin :: "admin_db \<Rightarrow> bool" where
  "one_row_per_admin d = distinct (map am_id (admins_of d))"

definition some_super :: "admin_db \<Rightarrow> bool" where
  "some_super d = (\<exists>a \<in> set (admins_of d). am_role a = ''super_admin'' \<and> am_active a)"

definition audited :: "admin_db \<Rightarrow> admin_db \<Rightarrow> bool" where
  "audited d d' = (one_row_per_admin d \<longrightarrow> one_row_per_admin d' \<and> (some_super d \<longrightarrow> some_super d') \<and>
     (\<exists>evs. access_events d' = access_events d @ evs \<and> lawful_log (access d) evs \<and> access d' = foldl apply_event (access d) evs))"

lemma audited_trans:
  assumes "audited a b" "audited b c"
  shows "audited a c"
proof (cases "one_row_per_admin a")
  case True
  then obtain xs where xs: "access_events b = access_events a @ xs" "lawful_log (access a) xs" "access b = foldl apply_event (access a) xs"
    and b: "one_row_per_admin b" "some_super a \<longrightarrow> some_super b" using assms(1) by (auto simp: audited_def)
  then obtain ys where ys: "access_events c = access_events b @ ys" "lawful_log (access b) ys" "access c = foldl apply_event (access b) ys"
    and c: "one_row_per_admin c" "some_super b \<longrightarrow> some_super c" using assms(2) by (auto simp: audited_def)
  have "lawful_log (access a) (xs @ ys)" using lawful_append xs ys by metis
  then show ?thesis unfolding audited_def using xs ys b c by (intro impI conjI exI [of _ "xs @ ys"]) simp_all
qed (simp add: audited_def)

interpretation audit: guarantee audited
  by unfold_locales (fastforce simp: audited_def, rule audited_trans)

section \<open>Rows and the access map\<close>

lemma admin_by_id_D: "admin_by_id i d = Some a \<Longrightarrow> a \<in> set (admins_of d) \<and> am_id a = i"
  by (auto simp: admin_by_id_def dest: find_Some_D)

lemma same_admin: "one_row_per_admin d \<Longrightarrow> a \<in> set (admins_of d) \<Longrightarrow> b \<in> set (admins_of d) \<Longrightarrow> am_id a = am_id b \<Longrightarrow> a = b"
  by (simp add: one_row_per_admin_def distinct_map inj_on_def)

lemma access_events_irrelevant [simp]:
  "access (d\<lparr>access_events := es\<rparr>) = access d" "admin_by_id i (d\<lparr>access_events := es\<rparr>) = admin_by_id i d"
  "one_row_per_admin (d\<lparr>access_events := es\<rparr>) = one_row_per_admin d" "some_super (d\<lparr>access_events := es\<rparr>) = some_super d"
  by (simp_all add: access_def admin_by_id_def one_row_per_admin_def some_super_def fun_eq_iff)

lemma access_insert:
  assumes "\<forall>x \<in> set (admins_of d). am_id x \<noteq> am_id a"
  shows "access (d\<lparr>admins_of := admins_of d @ [a]\<rparr>) = (access d)(am_id a := Some (am_role a, am_active a))"
proof
  fix i show "access (d\<lparr>admins_of := admins_of d @ [a]\<rparr>) i = ((access d)(am_id a := Some (am_role a, am_active a))) i"
    using assms by (auto simp: access_def admin_by_id_def find_append split: option.splits dest: find_Some_D)
qed

lemma access_upd:
  assumes "\<And>a. am_id (f a) = am_id a"
  shows "access (d\<lparr>admins_of := upd (\<lambda>a. am_id a = i) f (admins_of d)\<rparr>) =
    (access d)(i := map_option (\<lambda>a. (am_role (f a), am_active (f a))) (admin_by_id i d))"
proof
  fix j
  have "find (\<lambda>a. am_id a = j) (upd (\<lambda>a. am_id a = i) f (admins_of d)) =
     map_option (\<lambda>a. if am_id a = i then f a else a) (find (\<lambda>a. am_id a = j) (admins_of d))"
    by (rule find_upd_same) (simp add: assms)
  then show "access (d\<lparr>admins_of := upd (\<lambda>a. am_id a = i) f (admins_of d)\<rparr>) j =
    ((access d)(i := map_option (\<lambda>a. (am_role (f a), am_active (f a))) (admin_by_id i d))) j"
  proof (cases "find (\<lambda>a. am_id a = j) (admins_of d)")
    case (Some b)
    then show ?thesis using \<open>find _ (upd _ _ _) = _\<close> find_Some_D [OF Some] assms Some
      by (cases "j = i") (simp_all add: access_def admin_by_id_def)
  next
    case None
    then show ?thesis using \<open>find _ (upd _ _ _) = _\<close> by (cases "j = i") (simp_all add: access_def admin_by_id_def)
  qed
qed

section \<open>Changes of access\<close>

text \<open>What a change does to the rows, before its audit record is written.\<close>

definition changed :: "access_event \<Rightarrow> admin_db \<Rightarrow> admin_db \<Rightarrow> bool" where
  "changed ev d d' = (access_events d' = access_events d \<and>
     (one_row_per_admin d \<longrightarrow> one_row_per_admin d' \<and> (some_super d \<longrightarrow> some_super d') \<and>
        lawful_event (access d) ev \<and> access d' = apply_event (access d) ev))"

lemma changed_audited:
  assumes "changed ev d d1"
  shows "audited d (d1\<lparr>access_events := access_events d1 @ [ev]\<rparr>)"
  using assms by (auto simp: audited_def changed_def intro!: exI [of _ "[ev]"])

lemma audit_step:
  assumes "\<And>i j. ad_uuid e actor = Some i \<Longrightarrow> ad_uuid e target = Some j \<Longrightarrow>
    changed \<lparr>ax_actor = i, ax_target = j, ax_action = action, ax_before = before, ax_after = after\<rparr> d d1"
    and "\<And>d'. audited d d' \<Longrightarrow> Q () d'"
  shows "wp t (auditAdminAccess e actor target action before after) Q (\<lambda>_ _. True) d1"
  unfolding auditAdminAccess_def
  by (intro wp_stmt TrueI) (auto simp: cast_uuid_def split: option.splits if_splits intro!: assms(2) changed_audited assms(1))

lemma begin_audited:
  assumes "\<And>t d i. ad_uuid e actor = Some i \<Longrightarrow> super_in (access d i) \<Longrightarrow>
    wp t body (\<lambda>_. audited d) (\<lambda>_ _. True) d"
  shows "keeps audited (beginAdminAccess e actor body)"
proof (rule keeps_wp)
  fix t d
  have "wp t body (\<lambda>r d'. case r of Abandon a \<Rightarrow> audited d d | Commit a \<Rightarrow> audited d d' \<and> audited d d') (\<lambda>_ _. audited d d) d"
    if "by_uuid e actor d = Inr a" "am_active a" "CanonicalAdminRole (am_role a) = ''super_admin''" for a
  proof -
    note found = that
    obtain i where i: "ad_uuid e actor = Some i" "admin_by_id i d = Some a"
      using found(1) by (auto simp: by_uuid_def cast_uuid_def row_def split: option.splits)
    then have "super_in (access d i)" using found(2,3) by (simp add: super_in_def access_def)
    from assms [OF i(1) this] show ?thesis by (rule wp_mono) (auto simp: audit.refl split: outcome.splits)
  qed
  note inner = this
  show "wp t (beginAdminAccess e actor body) (\<lambda>_. audited d) (\<lambda>_. audited d) d"
    unfolding beginAdminAccess_def
    by (intro wp_transaction_or wp_bind wp_or_else wp_lock wp_attempt wp_query audit.refl)
      (auto intro!: wp_fail wp_require inner audit.refl wp_bind split: sum.splits if_splits)
qed

lemma created_changed:
  assumes "super_in (access d i)" "am_active a" "\<forall>x \<in> set (admins_of d). am_id x \<noteq> am_id a"
  shows "changed \<lparr>ax_actor = i, ax_target = am_id a, ax_action = ''created'', ax_before = JObj [], ax_after = access_doc (am_role a) True\<rparr> d
    (d\<lparr>admins_of := admins_of d @ [a]\<rparr>)"
proof -
  have "access d (am_id a) = None" using assms(3) by (simp add: access_def admin_by_id_def find_None_iff)
  then show ?thesis using assms(1,2) unfolding changed_def access_insert [OF assms(3)]
    using assms(3) by (auto simp: lawful_event_def apply_event_def access_doc_def one_row_per_admin_def some_super_def)
qed

lemma CreateAdmin_audited:
  assumes "ad_uuid e (ad_new e) = Some (ad_new e)"
  shows "keeps audited (CreateAdmin e actor req)"
proof -
  have body: "wp t (bind (or_else (insert_admin a) x) (\<lambda>i.
       bind (or_else (auditAdminAccess e actor i ''created'' (JObj []) (access_doc role True)) y) (\<lambda>_. ret (Commit i))))
      (\<lambda>_. audited d) (\<lambda>_ _. True) d"
    if a: "ad_uuid e actor = Some i" "super_in (access d i)" "am_id a = ad_new e" "am_active a" "role = am_role a" for t d i a x y role
    unfolding insert_admin_def
    by (intro wp_bind wp_or_else wp_stmt TrueI)
      (use a assms in \<open>auto intro!: wp_ret audit_step created_changed split: if_splits simp: list_ex_iff\<close>)
  show ?thesis unfolding CreateAdmin_def Let_def
    by (intro audit.keeps_bind audit.keeps_require begin_audited body) simp_all
qed

lemma other_super:
  assumes "one_row_per_admin d" "1 < count_super d"
  shows "\<exists>b \<in> set (admins_of d). am_role b = ''super_admin'' \<and> am_active b \<and> am_id b \<noteq> i"
proof -
  let ?S = "filter (\<lambda>a. am_role a = ''super_admin'' \<and> am_active a) (admins_of d)"
  have dist: "distinct (map am_id ?S)" using assms(1) by (simp add: one_row_per_admin_def distinct_map_filter)
  have "1 < length ?S" using assms(2) by (simp add: count_super_def cnt_def)
  then obtain x y zs where S: "?S = x # y # zs" by (cases ?S; cases "tl ?S") auto
  then have "am_id x \<noteq> am_id y" using dist by simp
  moreover have "x \<in> set ?S" "y \<in> set ?S" using S by simp_all
  ultimately show ?thesis by (cases "am_id x = i") auto
qed

lemma updated_changed:
  assumes a: "admin_by_id j d = Some a" and i: "super_in (access d i)"
    and last: "am_role a = ''super_admin'' \<and> am_active a \<and> (role \<noteq> ''super_admin'' \<or> \<not> enabled) \<Longrightarrow> 1 < count_super d"
  shows "changed \<lparr>ax_actor = i, ax_target = j, ax_action = ''access_updated'', ax_before = access_doc (am_role a) (am_active a), ax_after = access_doc role enabled\<rparr> d
    (d\<lparr>admins_of := upd (\<lambda>a. am_id a = j) (\<lambda>a. a\<lparr>am_role := role, am_active := enabled\<rparr>) (admins_of d)\<rparr>)"
proof -
  let ?d' = "d\<lparr>admins_of := upd (\<lambda>a. am_id a = j) (\<lambda>a. a\<lparr>am_role := role, am_active := enabled\<rparr>) (admins_of d)\<rparr>"
  have "map am_id (upd (\<lambda>a. am_id a = j) (\<lambda>a. a\<lparr>am_role := role, am_active := enabled\<rparr>) (admins_of d)) = map am_id (admins_of d)"
    by (simp add: upd_def)
  then have ids: "one_row_per_admin ?d' = one_row_per_admin d" by (simp add: one_row_per_admin_def)
  have "access ?d' = (access d)(j := Some (role, enabled))" using access_upd [where f = "\<lambda>a. a\<lparr>am_role := role, am_active := enabled\<rparr>"] a by simp
  moreover have "some_super ?d'" if o: "one_row_per_admin d" and sd: "some_super d"
  proof -
    have other: "some_super ?d'" if "b \<in> set (admins_of d)" "am_role b = ''super_admin''" "am_active b" "am_id b \<noteq> j" for b
      unfolding some_super_def using that by (auto simp: set_upd intro!: bexI [of _ b])
    show ?thesis
    proof (cases "am_role a = ''super_admin'' \<and> am_active a \<and> (role \<noteq> ''super_admin'' \<or> \<not> enabled)")
      case True
      then show ?thesis using other other_super [OF o last, of j] by blast
    next
      case False
      obtain b where b: "b \<in> set (admins_of d)" "am_role b = ''super_admin''" "am_active b" using sd by (auto simp: some_super_def)
      show ?thesis
      proof (cases "am_id b = j")
        case True
        then have "b = a" using same_admin [OF o b(1), of a] admin_by_id_D [OF a] by simp
        then have "role = ''super_admin''" "enabled" using False b by auto
        then show ?thesis unfolding some_super_def using b(1) True by (auto simp: set_upd intro!: bexI [of _ "b\<lparr>am_role := role, am_active := enabled\<rparr>"])
      qed (use other b in blast)
    qed
  qed
  ultimately show ?thesis using a i ids
    by (simp add: changed_def lawful_event_def apply_event_def access_doc_def access_def)
qed

lemma record_audited:
  assumes "ad_uuid e actor = Some i" "super_in (access d i)" "by_uuid e target d = Inr a"
    and "am_role a = ''super_admin'' \<and> am_active a \<and> (role \<noteq> ''super_admin'' \<or> \<not> enabled) \<Longrightarrow> 1 < count_super d"
  shows "wp t (record_access e actor target a role enabled) (\<lambda>_. audited d) (\<lambda>_ _. True) d"
proof -
  obtain j where j: "ad_uuid e target = Some j" "admin_by_id j d = Some a"
    using assms(3) by (auto simp: by_uuid_def cast_uuid_def row_def split: option.splits)
  show ?thesis unfolding record_access_def set_access_def
    by (intro wp_bind wp_or_else wp_stmt TrueI)
      (use assms j in \<open>auto intro!: wp_ret audit_step updated_changed split: if_splits simp: cast_uuid_def\<close>)
qed

lemma super_kept:
  "wp t (keep_super a role enabled) (\<lambda>_ d'. d' = d \<and> (am_role a = ''super_admin'' \<and> am_active a \<and> (role \<noteq> ''super_admin'' \<or> \<not> enabled) \<longrightarrow> 1 < count_super d)) (\<lambda>_ _. True) d"
  unfolding keep_super_def by (intro wp_if wp_bind wp_or_else wp_query wp_require wp_ret) (auto simp: not_le)

lemma updateAdminAccess_audited: "keeps audited (updateAdminAccess e actor target role active)"
proof -
  have rest: "wp t (bind (keep_super a r b) (\<lambda>_. record_access e actor target a r b)) (\<lambda>_. audited d) (\<lambda>_ _. True) d"
    if "ad_uuid e actor = Some i" "super_in (access d i)" "by_uuid e target d = Inr a" for t d i a r b
    by (rule wp_bind, rule wp_mono [OF super_kept]) (use record_audited [OF that] in auto)
  show ?thesis unfolding updateAdminAccess_def Let_def
  proof (intro audit.keeps_bind audit.keeps_require begin_audited)
    fix t d i assume i: "ad_uuid e actor = Some i" "super_in (access d i)"
    show "wp t (bind (map_err (\<lambda>x. if x = NoRows then Http 404 ''Not Found'' else internal_error) (query (\<lambda>d t. by_uuid e target d)))
        (\<lambda>a. bind (keep_super a (if role = [] then am_role a else role) (case active of None \<Rightarrow> am_active a | Some b \<Rightarrow> b))
          (\<lambda>_. record_access e actor target a (if role = [] then am_role a else role) (case active of None \<Rightarrow> am_active a | Some b \<Rightarrow> b))))
      (\<lambda>_. audited d) (\<lambda>_ _. True) d"
      by (rule wp_bind, rule wp_map_err, rule wp_query) (simp_all add: rest [OF i])
  qed
qed

lemma reset_changed:
  assumes i: "super_in (access d i)" and j: "0 < cnt (\<lambda>a. am_id a = j) (admins_of d)"
  shows "changed \<lparr>ax_actor = i, ax_target = j, ax_action = ''password_reset'', ax_before = b, ax_after = c\<rparr> d
    (d\<lparr>admins_of := upd (\<lambda>a. am_id a = j) (\<lambda>a. a\<lparr>am_hash := h\<rparr>) (admins_of d)\<rparr>)"
proof -
  let ?d' = "d\<lparr>admins_of := upd (\<lambda>a. am_id a = j) (\<lambda>a. a\<lparr>am_hash := h\<rparr>) (admins_of d)\<rparr>"
  have "map am_id (upd (\<lambda>a. am_id a = j) (\<lambda>a. a\<lparr>am_hash := h\<rparr>) (admins_of d)) = map am_id (admins_of d)" by (simp add: upd_def)
  then have ids: "one_row_per_admin ?d' = one_row_per_admin d" by (simp add: one_row_per_admin_def)
  obtain a where a: "admin_by_id j d = Some a" using j
    by (cases "admin_by_id j d") (auto simp: admin_by_id_def find_None_iff cnt_def filter_empty_conv)
  have "access ?d' = access d" using access_upd [where f = "\<lambda>a. a\<lparr>am_hash := h\<rparr>"] a by (simp add: access_def fun_eq_iff)
  moreover have "some_super ?d'" if "some_super d"
  proof -
    from that obtain b where b: "b \<in> set (admins_of d)" "am_role b = ''super_admin''" "am_active b" by (auto simp: some_super_def)
    then have "(if am_id b = j then b\<lparr>am_hash := h\<rparr> else b) \<in> set (admins_of ?d')" by (auto simp: set_upd)
    then show ?thesis unfolding some_super_def by (rule bexI [rotated]) (use b in simp)
  qed
  ultimately show ?thesis using i a ids by (simp add: changed_def lawful_event_def apply_event_def access_def)
qed

lemma ResetAdminPassword_audited: "keeps audited (ResetAdminPassword e actor target password)"
proof -
  have "wp t (bind (or_else (set_admin_password e target password) internal_error) (\<lambda>affected.
       bind (require (affected \<noteq> 0) (Http 404 ''Not Found'')) (\<lambda>_.
       bind (or_else (auditAdminAccess e actor target ''password_reset'' (JObj []) (JObj [(''password_reset'', JBool True)])) internal_error) (\<lambda>_.
       ret (Commit ()))))) (\<lambda>_. audited d) (\<lambda>_ _. True) d"
    if "ad_uuid e actor = Some i" "super_in (access d i)" for t d i
    unfolding set_admin_password_def
    by (intro wp_bind wp_or_else wp_stmt TrueI)
      (use that in \<open>auto simp: cast_uuid_def split: option.splits intro!: wp_bind wp_or_else wp_require wp_ret audit_step reset_changed\<close>)
  then show ?thesis unfolding ResetAdminPassword_def
    by (intro audit.keeps_bind audit.keeps_require begin_audited)
qed

section \<open>Histories\<close>

datatype admin_call =
    AdminSignIn admin_env string string
  | NewAdmin admin_env string string admin_request
  | ChangeAccess admin_env string string string "string option" "bool option"
  | Disable admin_env string string string
  | NewPassword admin_env string string string string

fun run_admin :: "admin_call \<Rightarrow> (admin_db, unit) prog" where
  "run_admin (AdminSignIn e email password) = ignore (AdminLogin e email password)"
| "run_admin (NewAdmin e header token req) = ignore (superOnly e header token (\<lambda>actor. CreateAdmin e actor req))"
| "run_admin (ChangeAccess e header token target role active) = ignore (superOnly e header token (\<lambda>actor. UpdateAdminAccess e actor target role active))"
| "run_admin (Disable e header token target) = ignore (superOnly e header token (\<lambda>actor. DeleteAdmin e actor target))"
| "run_admin (NewPassword e header token target password) = ignore (superOnly e header token (\<lambda>actor. ResetAdminPassword e actor target password))"

fun admin_calls :: "(admin_call \<times> fault list \<times> int) list \<Rightarrow> admin_db \<Rightarrow> admin_db" where
  "admin_calls [] d = d"
| "admin_calls ((c, fs, t) # cs) d = admin_calls cs (db (snd (run_admin c \<lparr>db = d, faults = fs, now = t\<rparr>)))"

fun canonical_ids :: "admin_call \<Rightarrow> bool" where
  "canonical_ids (NewAdmin e header token req) = (ad_uuid e (ad_new e) = Some (ad_new e))"
| "canonical_ids c = True"

lemma superOnly_audited: "(\<And>actor. keeps audited (h actor)) \<Longrightarrow> keeps audited (superOnly e header token h)"
  unfolding superOnly_def RequireAdminRoles_def authenticateAdmin_def Let_def by (intro audit.keeps_all)

lemma run_admin_audited:
  assumes "canonical_ids c"
  shows "keeps audited (run_admin c)"
proof (cases c)
  case (AdminSignIn e email password)
  then show ?thesis by (auto simp: AdminLogin_def Let_def intro!: audit.keeps_all)
qed (use assms in \<open>auto simp: DeleteAdmin_def UpdateAdminAccess_def Let_def
      intro!: audit.keeps_ignore superOnly_audited CreateAdmin_audited updateAdminAccess_audited ResetAdminPassword_audited audit.keeps_bind audit.keeps_require\<close>)

lemma admin_calls_audited: "\<forall>(c, fs, t) \<in> set cs. canonical_ids c \<Longrightarrow> audited d (admin_calls cs d)"
proof (induction cs d rule: admin_calls.induct)
  case (1 d)
  then show ?case by (simp add: audit.refl)
next
  case (2 c fs t cs d)
  let ?w = "\<lparr>db = d, faults = fs, now = t\<rparr>"
  have "keeps audited (run_admin c)" using 2(2) by (intro run_admin_audited) simp
  then have "audited d (db (snd (run_admin c ?w)))"
    using keepsD [OF _ prod.collapse [symmetric], of audited "run_admin c" ?w] by simp
  then show ?case using 2 audited_trans by auto
qed

section \<open>Properties\<close>

text \<open>A small world for the examples: one Super Admin who signs in, and a second one.\<close>

definition admin_env0 :: admin_env where
  "admin_env0 = \<lparr>ad_env = env0, ad_secret = ''k'', ad_bootstrap = [],
     ad_decode = (\<lambda>s. Some \<lparr>cl_user = ''s1'', cl_expires = 60, cl_version = 0\<rparr>),
     ad_bcrypt = (\<lambda>s. s), ad_match = (=), ad_valid = (\<lambda>s. True), ad_uuid = (\<lambda>s. Some (to_lower s)), ad_new = ''s9''\<rparr>"

definition admin_token0 :: string where
  "admin_token0 = ''Bearer '' @ fst (Sign env0 ''s1'' ''k'' 60 0)"

definition super0 :: "string \<Rightarrow> admin_row" where
  "super0 i = \<lparr>am_id = i, am_email = i, am_name = i, am_hash = ''p'', am_role = ''super_admin'', am_active = True\<rparr>"

definition admin_db0 :: admin_db where
  "admin_db0 = \<lparr>admins_of = [super0 ''s1'', super0 ''s2''], access_events = []\<rparr>"

text \<open>Disabling the other Super Admin is recorded; disabling oneself under another spelling of the id is then refused
  only because nobody else is left.\<close>

definition admin_story0 :: "(admin_call \<times> fault list \<times> int) list" where
  "admin_story0 = [(Disable admin_env0 admin_token0 [] ''s2'', [], 5), (Disable admin_env0 admin_token0 [] ''S1'', [], 6)]"

lemma admin_story0_ok: "one_row_per_admin admin_db0" "some_super admin_db0" "\<forall>(c, fs, t) \<in> set admin_story0. canonical_ids c"
  by (simp_all add: one_row_per_admin_def some_super_def admin_db0_def super0_def admin_story0_def)

lemma admin_story0_end:
  "(let d = admin_calls admin_story0 admin_db0 in (map am_active (admins_of d), map (\<lambda>ev. (ax_actor ev, ax_target ev, ax_action ev)) (access_events d))) =
     ([True, False], [(''s1'', ''s2'', ''access_updated'')])"
  by code_simp

text \<open>
  C9. The audit log is the access that is in force. Over any history of sign-ins, staff requests and
  database failures the new audit records, replayed on the access of the start, give the access of the
  end; each was written for an actor who at that moment was an active Super Admin, names the access
  its target had before, and creates, changes or resets only what exists.
\<close>

theorem access_is_audited:
  assumes "one_row_per_admin d" "\<forall>(c, fs, t) \<in> set cs. canonical_ids c"
  shows "\<exists>evs. access_events (admin_calls cs d) = access_events d @ evs \<and> lawful_log (access d) evs \<and>
    access (admin_calls cs d) = foldl apply_event (access d) evs"
  using admin_calls_audited [OF assms(2)] assms(1) by (auto simp: audited_def)

lemma access_is_audited_witness:
  "let d = admin_calls admin_story0 admin_db0 in
   map (\<lambda>ev. (ax_actor ev, ax_target ev, ax_action ev)) (access_events d) = [(''s1'', ''s2'', ''access_updated'')] \<and>
   lawful_log (access admin_db0) (access_events d) \<and> access d = foldl apply_event (access admin_db0) (access_events d)"
proof -
  have "map (\<lambda>ev. (ax_actor ev, ax_target ev, ax_action ev)) (access_events (admin_calls admin_story0 admin_db0)) = [(''s1'', ''s2'', ''access_updated'')]"
    using admin_story0_end by (simp add: Let_def)
  then show ?thesis using access_is_audited [OF admin_story0_ok(1,3)] by (auto simp: Let_def admin_db0_def)
qed

text \<open>
  C10. The last Super Admin stays. As long as one active Super Admin exists, no history of staff requests
  and failures leaves the platform without one.
\<close>

theorem super_admin_remains:
  assumes "one_row_per_admin d" "some_super d" "\<forall>(c, fs, t) \<in> set cs. canonical_ids c"
  shows "some_super (admin_calls cs d)"
  using admin_calls_audited [OF assms(3)] assms(1,2) by (auto simp: audited_def)

lemma super_admin_remains_witness:
  "some_super (admin_calls admin_story0 admin_db0) \<and> count_super (admin_calls admin_story0 admin_db0) \<le> 1"
proof -
  have "map am_active (admins_of (admin_calls admin_story0 admin_db0)) = [True, False]" using admin_story0_end by (simp add: Let_def)
  then obtain a b where "admins_of (admin_calls admin_story0 admin_db0) = [a, b]" "\<not> am_active b" by (auto simp: map_eq_Cons_conv)
  then show ?thesis using super_admin_remains [OF admin_story0_ok] by (simp add: count_super_def)
qed

text \<open>
  A finding: the guard against changing one's own access compares texts, while PostgreSQL reads every
  spelling of a uuid. With a second Super Admin present, an admin who writes the own id in capitals passes it.
\<close>

lemma self_change_by_spelling:
  "(let w = \<lparr>db = admin_db0, faults = [], now = 6\<rparr>
    in (fst (DeleteAdmin admin_env0 ''s1'' ''s1'' w), fst (DeleteAdmin admin_env0 ''s1'' ''S1'' w), map am_active (admins_of (db (snd (DeleteAdmin admin_env0 ''s1'' ''S1'' w)))))) =
    (Inl (Http 409 ''You cannot change your own role or disable your own account''), Inr (''super_admin'', False), [False, True])"
  by code_simp

end
