(* ===== verification/Settlement.thy ===== *)
theory Settlement
  imports Payments Timestamps "HOL-Library.List_Lexorder" "HOL-Library.Char_ord"
begin

text \<open>
  Reconciliation of seller payouts with the gateway (settlement_reconciliation.go). A worker claims
  one due cursor at a time under a lease, walks the gateway's listing and detail pages in at most
  ten requests, and applies each settlement entry to the payment and the seller ledger in one
  transaction.

  The gateway's answers and \<open>json.Marshal\<close> of a page are parameters. The clock is constant during
  a run, so a lease that expires while the worker waits for the gateway shows only as the
  cursor update that finds no row.
\<close>

section \<open>Gateway answers\<close>

record flutterwaveSettlementList =
  sl_status :: string
  sl_pages :: int
  sl_ids :: "anyv list"

record flutterwaveSettlementTransaction =
  st_sub :: "int option"
  st_id :: anyv
  st_ref :: string
  st_currency :: string
  st_charged :: anyv
  st_fee :: anyv
  st_legacy_fee :: anyv
  st_merchant :: anyv
  st_legacy_merchant :: anyv
  st_amount :: anyv

record flutterwaveSettlementDetail =
  sd_status :: string
  sd_pages :: int
  sd_id :: anyv
  sd_state :: string
  sd_currency :: string
  sd_reference :: string
  sd_disburse :: string
  sd_processor :: string
  sd_destination :: string
  sd_account :: anyv
  sd_processed :: string
  sd_count :: int
  sd_flag :: string
  sd_transactions :: "flutterwaveSettlementTransaction list"

text \<open>An answer: the error of the transport, or a status with the error of the decoder or the document.\<close>

type_synonym 'a answer = "err + nat \<times> (err + 'a)"

record settlement_gateway =
  sg_list :: "string \<Rightarrow> flutterwaveSettlementList answer"
  sg_detail :: "string \<Rightarrow> flutterwaveSettlementDetail answer"
  sg_marshal_list :: "anyv list \<Rightarrow> string"
  sg_marshal_detail :: "flutterwaveSettlementTransaction list \<Rightarrow> string"

definition fetchSettlementJSON :: "(string \<Rightarrow> 'a answer) \<Rightarrow> string \<Rightarrow> err + 'a" where
  "fetchSettlementJSON http endpoint = (case http endpoint of
     Inl e \<Rightarrow> Inl e
   | Inr (code, body) \<Rightarrow>
       if code < 200 \<or> 300 \<le> code then Inl (Msg (''Flutterwave settlement HTTP '' @ nat_str code))
       else case body of Inl e \<Rightarrow> Inl (Msg (''invalid settlement response: '' @ error_text e)) | Inr x \<Rightarrow> Inr x)"

section \<open>Values\<close>

definition settlementNumericID :: "anyv \<Rightarrow> string" where
  "settlementNumericID value =
     (if value = ANil then []
      else if (case value of AFloat v \<Rightarrow> f_is_nan v \<or> f_is_inf v \<or> \<not> f_eq v (f_trunc v) \<or> f_le v (Fin 0) | _ \<Rightarrow> False) then []
      else case parse_uint64 (gatewayID value) of
        None \<Rightarrow> [] | Some n \<Rightarrow> if n = 0 then [] else gatewayID value)"

definition normalizeSettlementStatus :: "string \<Rightarrow> string" where
  "normalizeSettlementStatus value0 = (let value = to_lower (trim_space value0) in
     if contains_str value ''hold'' \<or> contains_str value ''flag'' then ''on_hold''
     else if value = ''successful'' \<or> value = ''success'' \<or> value = ''completed'' then ''settled''
     else if value = ''failed'' then ''failed''
     else if value = ''reversed'' then ''reversed''
     else ''pending'')"

definition parseFlutterwaveTime :: "string \<Rightarrow> int option" where
  "parseFlutterwaveTime value0 = (let value = trim_space value0 in
     case parse_rfc3339 value of Some t \<Rightarrow> Some t
     | None \<Rightarrow> (case parse_datetime value of Some t \<Rightarrow> Some t | None \<Rightarrow> parse_int64 value))"

fun optionalSettlementAmount :: "anyv list \<Rightarrow> err + f64 option" where
  "optionalSettlementAmount [] = Inr None"
| "optionalSettlementAmount (v # vs) =
     (if v = ANil then optionalSettlementAmount vs
      else case amountValue v of
        None \<Rightarrow> Inl (Msg ''invalid settlement amount'')
      | Some value \<Rightarrow>
          if f_is_nan value \<or> f_is_inf value \<or> f_lt value (Fin 0) \<or> f_le (Fin 1000000000000) value
          then Inl (Msg ''invalid settlement amount'') else Inr (Some (round_money value)))"

definition settlementPageHash :: "env \<Rightarrow> string \<Rightarrow> string" where
  "settlementPageHash env marshalled = hex_encode (sha256 env marshalled)"

definition path_char :: "char \<Rightarrow> string" where
  "path_char c = (if c \<in> {CHR ''$'', CHR ''&'', CHR ''+'', CHR '':'', CHR ''='', CHR ''@''} then [c]
     else if c = CHR '' '' then ''%20'' else query_char c)"

definition path_escape :: "string \<Rightarrow> string" where
  "path_escape s = concat (map path_char s)"

definition listFlutterwaveSettlementPage ::
  "settlement_gateway \<Rightarrow> string \<Rightarrow> int \<Rightarrow> int \<Rightarrow> int \<Rightarrow> err + flutterwaveSettlementList" where
  "listFlutterwaveSettlementPage gw subaccount from to page =
     (case fetchSettlementJSON (sg_list gw) (''https://api.flutterwave.com/v3/settlements?from='' @ date_str from @
          ''&page='' @ int_str page @ ''&subaccount_id='' @ query_escape subaccount @ ''&to='' @ date_str to) of
        Inl e \<Rightarrow> Inl e
      | Inr result \<Rightarrow>
          if sl_status result \<noteq> ''success'' then Inl (Msg ''Flutterwave did not return successful settlement listing'')
          else if list_ex (\<lambda>i. settlementNumericID i = []) (sl_ids result)
          then Inl (Msg ''settlement listing contains missing ID'')
          else Inr result)"

definition getFlutterwaveSettlementPage :: "settlement_gateway \<Rightarrow> string \<Rightarrow> int \<Rightarrow> err + flutterwaveSettlementDetail" where
  "getFlutterwaveSettlementPage gw i page =
     (case fetchSettlementJSON (sg_detail gw) (''https://api.flutterwave.com/v3/settlements/'' @ path_escape i @
          ''?page='' @ int_str page) of
        Inl e \<Rightarrow> Inl e
      | Inr result \<Rightarrow>
          if sd_status result \<noteq> ''success'' \<or> settlementNumericID (sd_id result) \<noteq> i
          then Inl (Msg ''invalid settlement identity or response status'')
          else Inr result)"

section \<open>Applying one settlement entry\<close>

text \<open>What the detail page says of every entry, and the checked values of one entry.\<close>

record settlement_head =
  sh_id :: string
  sh_state :: string
  sh_currency :: string
  sh_destination :: string
  sh_reference :: string
  sh_processed :: "int option"
  sh_note :: string

record settlement_item =
  si_ref :: string
  si_tx :: string
  si_actual :: "f64 option"
  si_charged :: "f64 option"
  si_fee :: "f64 option"
  si_merchant :: "f64 option"

definition settlement_head_of :: "flutterwaveSettlementDetail \<Rightarrow> settlement_head" where
  "settlement_head_of detail = (let destination = to_lower (trim_space (sd_destination detail)) in
     \<lparr>sh_id = settlementNumericID (sd_id detail), sh_state = normalizeSettlementStatus (sd_state detail),
      sh_currency = to_upper (trim_space (sd_currency detail)),
      sh_destination = (if destination = [] \<and> sd_account detail \<noteq> ANil then ''bank account'' else destination),
      sh_reference = first_non_empty [sd_disburse detail, sd_reference detail, sd_processor detail],
      sh_processed = parseFlutterwaveTime (sd_processed detail), sh_note = trim_space (sd_flag detail)\<rparr>)"

text \<open>The checks of one entry: skipped, refused or ready to apply.\<close>

definition check_item :: "settlement_head \<Rightarrow> flutterwaveSettlementTransaction \<Rightarrow> err + settlement_item option" where
  "check_item h x =
     (if st_sub x \<noteq> None \<and> st_sub x \<noteq> Some 1 then Inr None
      else let ref = trim_space (st_ref x); tx = settlementNumericID (st_id x) in
        if tx = [] then Inl (Msg ''settlement transaction ID missing or invalid'')
        else if ref = [] then Inl (Msg ''settlement transaction reference missing'')
        else if st_currency x \<noteq> [] \<and> \<not> equal_fold (st_currency x) (sh_currency h)
        then Inl (Msg ''settlement transaction currency mismatch'')
        else case optionalSettlementAmount [st_amount x] of
          Inl e \<Rightarrow> Inl e
        | Inr actual \<Rightarrow>
          if sh_state h = ''settled'' \<and> (case actual of None \<Rightarrow> True | Some a \<Rightarrow> f_le a (Fin 0))
          then Inl (Msg ''completed settlement transaction amount missing'')
          else case optionalSettlementAmount [st_charged x] of
            Inl e \<Rightarrow> Inl e
          | Inr charged \<Rightarrow> (case optionalSettlementAmount [st_fee x, st_legacy_fee x] of
              Inl e \<Rightarrow> Inl e
            | Inr fee \<Rightarrow> (case optionalSettlementAmount [st_merchant x, st_legacy_merchant x] of
                Inl e \<Rightarrow> Inl e
              | Inr merchant \<Rightarrow> Inr (Some \<lparr>si_ref = ref, si_tx = tx, si_actual = actual, si_charged = charged,
                  si_fee = fee, si_merchant = merchant\<rparr>))))"

definition to_num_opt :: "env \<Rightarrow> f64 option \<Rightarrow> err + int option" where
  "to_num_opt env x = (case x of None \<Rightarrow> Inr None | Some v \<Rightarrow> (case to_num env v of Inl e \<Rightarrow> Inl e | Inr k \<Rightarrow> Inr (Some k)))"

text \<open>Which settlement may replace the one recorded on a payment.\<close>

definition replaceable :: "settlement_head \<Rightarrow> payment_row \<Rightarrow> bool" where
  "replaceable h p =
     ((p_settlement p \<noteq> ''settled'' \<and> p_settlement p \<noteq> ''reversed'') \<or>
      (p_settlement_id p = sh_id h \<and> (sh_state h = ''reversed'' \<or> p_settlement p = ''settled'' \<and> sh_state h = ''settled'')) \<or>
      (sh_state h = ''settled'' \<and> (case (sh_processed h, p_settled_at p) of (Some x, Some y) \<Rightarrow> y < x | _ \<Rightarrow> False)))"

definition settles_order :: "string \<Rightarrow> settlement_head \<Rightarrow> settlement_item \<Rightarrow> db \<Rightarrow> payment_row \<Rightarrow> order_row \<Rightarrow> bool" where
  "settles_order subaccount h x d p o' =
     (p_order p = Some (o_id o') \<and> p_provider p = ''flutterwave'' \<and> p_purpose p = ''order'' \<and> p_status p = ''succeeded'' \<and>
      p_reference p = si_ref x \<and> o_tx_ref o' = Some (si_ref x) \<and> p_subaccount p = subaccount \<and>
      p_currency p = sh_currency h \<and> o_currency o' = sh_currency h \<and>
      (si_tx x = [] \<or> p_tx_id p = Some (si_tx x)) \<and> replaceable h p)"

definition settle_payment ::
  "settlement_head \<Rightarrow> int option \<Rightarrow> int option \<Rightarrow> int option \<Rightarrow> int option \<Rightarrow> int \<Rightarrow> payment_row \<Rightarrow> payment_row" where
  "settle_payment h charged fee merchant actual t p =
     p\<lparr>p_charged := coalesce charged (p_charged p),
       p_gateway_fee := (case fee of None \<Rightarrow> p_gateway_fee p | Some k \<Rightarrow> k),
       p_merchant_fee := (case merchant of None \<Rightarrow> p_merchant_fee p | Some k \<Rightarrow> k),
       p_settled_amount := coalesce actual (p_settled_amount p),
       p_settlement_id := sh_id h, p_settlement_ref := sh_reference h, p_settlement := sh_state h,
       p_destination := sh_destination h, p_note := sh_note h,
       p_settled_at := (if sh_state h = ''settled'' then coalesce (sh_processed h) (coalesce (p_settled_at p) (Some t))
                        else p_settled_at p)\<rparr>"

definition settle_entry :: "settlement_head \<Rightarrow> int option \<Rightarrow> int \<Rightarrow> ledger_row \<Rightarrow> ledger_row" where
  "settle_entry h actual t l =
     l\<lparr>l_deductions := (case actual of None \<Rightarrow> l_deductions l | Some k \<Rightarrow> max (l_expected l - k) 0),
       l_amount := coalesce actual (l_amount l),
       l_net := (if sh_state h = ''settled'' then (case actual of None \<Rightarrow> l_net l | Some k \<Rightarrow> k) else l_net l),
       l_sid := sh_id h, l_settlement := sh_state h, l_reference := sh_reference h, l_destination := sh_destination h,
       l_checked_at := Some t, l_note := sh_note h,
       l_status := (if sh_state h = ''reversed'' then ''reversed'' else if sh_state h = ''settled'' then ''paid'' else l_status l),
       l_paid_at := (if sh_state h = ''settled'' then coalesce (sh_processed h) (coalesce (l_paid_at l) (Some t)) else l_paid_at l)\<rparr>"

text \<open>The payment \<open>UPDATE ... RETURNING\<close>: the order of a matching payment.\<close>

definition mark_settled :: "env \<Rightarrow> string \<Rightarrow> settlement_head \<Rightarrow> settlement_item \<Rightarrow> db \<Rightarrow> int \<Rightarrow> err + (string \<times> db)" where
  "mark_settled env subaccount h x d t =
     (case to_num_opt env (si_charged x) of Inl e \<Rightarrow> Inl e | Inr charged \<Rightarrow>
     (case to_num_opt env (si_fee x) of Inl e \<Rightarrow> Inl e | Inr fee \<Rightarrow>
     (case to_num_opt env (si_merchant x) of Inl e \<Rightarrow> Inl e | Inr merchant \<Rightarrow>
     (case to_num_opt env (si_actual x) of Inl e \<Rightarrow> Inl e | Inr actual \<Rightarrow>
       (let hit = (\<lambda>p. list_ex (settles_order subaccount h x d p) (orders d)) in
        case update_rows payments set_payments hit (settle_payment h charged fee merchant actual t) d of
          Inl e \<Rightarrow> Inl e
        | Inr (n, d') \<Rightarrow> (case find hit (payments d) of
            None \<Rightarrow> Inl NoRows
          | Some p \<Rightarrow> (case p_order p of None \<Rightarrow> Inl NoRows | Some i \<Rightarrow> Inr (i, d'))))))))"

definition settle_item :: "env \<Rightarrow> string \<Rightarrow> settlement_head \<Rightarrow> settlement_item \<Rightarrow> (db, int) prog" where
  "settle_item env subaccount h x = transaction (
     bind (attempt (stmt (mark_settled env subaccount h x))) (\<lambda>r.
     case r of
       Inl e \<Rightarrow> if e = NoRows then ret (Abandon 0) else fail e
     | Inr orderID \<Rightarrow>
       bind (stmt (\<lambda>d t. case to_num_opt env (si_actual x) of Inl e \<Rightarrow> Inl e | Inr actual \<Rightarrow>
         update_rows ledger set_ledger (\<lambda>l. l_order l = orderID \<and> l_key l = ''order-paid:'' @ orderID \<and> l_currency l = sh_currency h)
           (settle_entry h actual t) d)) (\<lambda>affected.
       bind (require (affected = 1) (Msg ''seller settlement ledger missing'')) (\<lambda>_.
       ret (Commit 1)))))"

text \<open>The loop over the entries: the number applied so far is returned beside an error.\<close>

fun apply_items ::
  "env \<Rightarrow> string \<Rightarrow> settlement_head \<Rightarrow> flutterwaveSettlementTransaction list \<Rightarrow> int \<Rightarrow> (db, int \<times> err option) prog" where
  "apply_items env subaccount h [] count = ret (count, None)"
| "apply_items env subaccount h (x # xs) count = (case check_item h x of
     Inl e \<Rightarrow> ret (count, Some e)
   | Inr None \<Rightarrow> apply_items env subaccount h xs count
   | Inr (Some item) \<Rightarrow> bind (attempt (settle_item env subaccount h item)) (\<lambda>r. case r of
       Inl e \<Rightarrow> ret (count, Some e) | Inr n \<Rightarrow> apply_items env subaccount h xs (count + n)))"

definition applyFlutterwaveSettlement ::
  "env \<Rightarrow> string \<Rightarrow> flutterwaveSettlementDetail \<Rightarrow> (db, int \<times> err option) prog" where
  "applyFlutterwaveSettlement env subaccount detail =
     (let h = settlement_head_of detail in
      if sd_status detail \<noteq> ''success'' \<or> sh_id h = [] \<or> trim_space subaccount = []
      then ret (0, Some (Msg ''invalid settlement response''))
      else if length (sh_currency h) \<noteq> 3 then ret (0, Some (Msg ''settlement currency missing''))
      else apply_items env subaccount h (sd_transactions detail) 0)"

section \<open>Cursors\<close>

record settlementJob =
  jb_subaccount :: string
  jb_from :: int
  jb_to :: int
  jb_list_page :: int
  jb_detail_page :: int
  jb_seen :: int
  jb_detail_hash :: string
  jb_list_hash :: string
  jb_ids :: "string list"
  jb_finished :: bool
  jb_lease :: string

definition due_job :: "int \<Rightarrow> job_row \<Rightarrow> bool" where
  "due_job t j = (j_next_check j \<le> t \<and> (case j_locked_until j of None \<Rightarrow> True | Some u \<Rightarrow> u < t))"

definition next_job :: "int \<Rightarrow> db \<Rightarrow> job_row option" where
  "next_job t d = (case sort_key j_next_check (sort_key j_subaccount (filter (due_job t) (jobs d))) of
     [] \<Rightarrow> None | j # _ \<Rightarrow> Some j)"

definition job_view :: "string \<Rightarrow> job_row \<Rightarrow> settlementJob" where
  "job_view lease j = \<lparr>jb_subaccount = j_subaccount j, jb_from = j_from j, jb_to = j_to j, jb_list_page = j_list_page j,
     jb_detail_page = j_detail_page j, jb_seen = j_detail_seen j, jb_detail_hash = j_detail_hash j, jb_list_hash = j_list_hash j,
     jb_ids = j_ids j, jb_finished = j_list_finished j, jb_lease = lease\<rparr>"

definition claimSettlementJob :: "string \<Rightarrow> (db, settlementJob option) prog" where
  "claimSettlementJob lease = stmt (\<lambda>d t. case next_job t d of
     None \<Rightarrow> Inr (None, d)
   | Some j \<Rightarrow> (case update_rows jobs set_jobs (\<lambda>x. j_subaccount x = j_subaccount j)
         (\<lambda>x. x\<lparr>j_lease := Some lease, j_locked_until := Some (t + 300)\<rparr>) d of
       Inl e \<Rightarrow> Inl e | Inr (n, d') \<Rightarrow> Inr (Some (job_view lease j), d')))"

text \<open>The row a worker still holds.\<close>

definition held :: "string \<Rightarrow> string \<Rightarrow> int \<Rightarrow> job_row \<Rightarrow> bool" where
  "held subaccount lease t j = (j_subaccount j = subaccount \<and> j_lease j = Some lease \<and>
     (case j_locked_until j of None \<Rightarrow> False | Some u \<Rightarrow> t < u))"

definition lease_expired :: err where
  "lease_expired = Msg ''settlement cursor lease expired''"

definition save_job :: "settlementJob \<Rightarrow> bool \<Rightarrow> int \<Rightarrow> job_row \<Rightarrow> job_row" where
  "save_job job release t j =
     j\<lparr>j_list_page := jb_list_page job, j_detail_page := jb_detail_page job, j_ids := jb_ids job, j_list_finished := jb_finished job,
       j_failures := 0, j_error := [], j_locked_until := (if release then None else j_locked_until j),
       j_lease := (if release then None else j_lease j), j_next_check := (if release then t + 60 else j_next_check j),
       j_detail_seen := jb_seen job, j_detail_hash := jb_detail_hash job, j_list_hash := jb_list_hash job\<rparr>"

definition saveSettlementCursor :: "settlementJob \<Rightarrow> bool \<Rightarrow> (db, unit) prog" where
  "saveSettlementCursor job release =
     bind (stmt (\<lambda>d t. update_rows jobs set_jobs (held (jb_subaccount job) (jb_lease job) t) (save_job job release t) d)) (\<lambda>affected.
     require (affected = 1) lease_expired)"

text \<open>The oldest day with a succeeded payment whose ledger entry is not settled.\<close>

definition unsettled_days :: "string \<Rightarrow> db \<Rightarrow> int list" where
  "unsettled_days subaccount d = map (\<lambda>p. utc_date (p_created_at p))
     (filter (\<lambda>p. p_subaccount p = subaccount \<and> p_status p = ''succeeded'' \<and>
        list_ex (\<lambda>l. p_order p = Some (l_order l) \<and> l_key l = ''order-paid:'' @ l_order l \<and> l_settlement l \<noteq> ''settled'') (ledger d))
      (payments d))"

definition restart_job :: "db \<Rightarrow> int \<Rightarrow> job_row \<Rightarrow> job_row" where
  "restart_job d t j =
     j\<lparr>j_from := fold min (unsettled_days (j_subaccount j) d) (utc_date t - 7), j_to := utc_date t, j_list_page := 1, j_detail_page := 1,
       j_list_finished := False, j_ids := [], j_detail_seen := 0, j_detail_hash := [], j_list_hash := [],
       j_locked_until := None, j_lease := None, j_checked_at := Some t, j_failures := 0, j_error := [], j_next_check := t + 1800\<rparr>"

definition finish_job :: "settlementJob \<Rightarrow> (db, unit) prog" where
  "finish_job job =
     bind (stmt (\<lambda>d t. update_rows jobs set_jobs (held (jb_subaccount job) (jb_lease job) t) (restart_job d t) d)) (\<lambda>affected.
     require (affected = 1) lease_expired)"

definition release_job :: "settlementJob \<Rightarrow> string \<Rightarrow> (db, nat) prog" where
  "release_job job message = stmt (\<lambda>d t. update_rows jobs set_jobs
     (\<lambda>j. j_subaccount j = jb_subaccount job \<and> j_lease j = Some (jb_lease job))
     (\<lambda>j. j\<lparr>j_locked_until := None, j_lease := None, j_next_check := t + 1800, j_failures := j_failures j + 1, j_error := message\<rparr>) d)"

section \<open>The worker\<close>

text \<open>A listing page: the next cursor, or an error.\<close>

definition list_step :: "env \<Rightarrow> settlement_gateway \<Rightarrow> settlementJob \<Rightarrow> err + settlementJob" where
  "list_step env gw job = (case listFlutterwaveSettlementPage gw (jb_subaccount job) (jb_from job) (jb_to job) (jb_list_page job) of
     Inl e \<Rightarrow> Inl e
   | Inr page \<Rightarrow>
     (let hash = settlementPageHash env (sg_marshal_list gw (sl_ids page)) in
      if sl_ids page \<noteq> [] \<and> hash = jb_list_hash job then Inl (Msg ''Flutterwave repeated a settlement list page'')
      else Inr (job\<lparr>jb_list_hash := hash, jb_ids := jb_ids job @ map settlementNumericID (sl_ids page),
        jb_finished := (sl_ids page = [] \<or> 0 < sl_pages page \<and> sl_pages page \<le> jb_list_page job),
        jb_list_page := jb_list_page job + 1\<rparr>)))"

definition detail_finished :: "settlementJob \<Rightarrow> flutterwaveSettlementDetail \<Rightarrow> bool" where
  "detail_finished job detail =
     (sd_transactions detail = [] \<or> (0 < sd_pages detail \<and> sd_pages detail \<le> jb_detail_page job) \<or>
      (sd_pages detail = 0 \<and> 0 < sd_count detail \<and> sd_count detail \<le> jb_seen job + int (length (sd_transactions detail))))"

definition next_detail :: "settlementJob \<Rightarrow> string \<Rightarrow> flutterwaveSettlementDetail \<Rightarrow> err + settlementJob" where
  "next_detail job hash detail =
     (let seen = jb_seen job + int (length (sd_transactions detail)); finished = detail_finished job detail in
      if finished \<and> seen < sd_count detail
      then Inl (Msg ''settlement pagination ended before all reported transactions were fetched'')
      else if finished then Inr (job\<lparr>jb_ids := tl (jb_ids job), jb_detail_page := 1, jb_seen := 0, jb_detail_hash := []\<rparr>)
      else Inr (job\<lparr>jb_detail_page := jb_detail_page job + 1, jb_seen := seen, jb_detail_hash := hash\<rparr>))"

definition detail_step :: "env \<Rightarrow> settlement_gateway \<Rightarrow> settlementJob \<Rightarrow> string \<Rightarrow> (db, int \<times> (err + settlementJob)) prog" where
  "detail_step env gw job i = (case getFlutterwaveSettlementPage gw i (jb_detail_page job) of
     Inl e \<Rightarrow> ret (0, Inl e)
   | Inr detail \<Rightarrow>
     (let hash = settlementPageHash env (sg_marshal_detail gw (sd_transactions detail)) in
      if sd_transactions detail \<noteq> [] \<and> hash = jb_detail_hash job
      then ret (0, Inl (Msg ''Flutterwave repeated a settlement transaction page''))
      else bind (applyFlutterwaveSettlement env (jb_subaccount job) detail) (\<lambda>(n, e). case e of
        Some e \<Rightarrow> ret (0, Inl e) | None \<Rightarrow> ret (n, next_detail job hash detail))))"

text \<open>At most \<open>fuel\<close> more requests: the number of entries applied, and the error if one ended the run.\<close>

fun processSettlementJob ::
  "env \<Rightarrow> settlement_gateway \<Rightarrow> nat \<Rightarrow> settlementJob \<Rightarrow> int \<Rightarrow> (db, int \<times> err option) prog" where
  "processSettlementJob env gw 0 job count =
     bind (attempt (saveSettlementCursor job True)) (\<lambda>r. ret (count, case r of Inl e \<Rightarrow> Some e | Inr _ \<Rightarrow> None))"
| "processSettlementJob env gw (Suc fuel) job count = (case jb_ids job of
     [] \<Rightarrow>
       if jb_finished job then
         bind (attempt (finish_job job)) (\<lambda>r. ret (count, case r of Inl e \<Rightarrow> Some e | Inr _ \<Rightarrow> None))
       else (case list_step env gw job of
         Inl e \<Rightarrow> ret (count, Some e)
       | Inr job' \<Rightarrow> bind (attempt (saveSettlementCursor job' False)) (\<lambda>r. case r of
           Inl e \<Rightarrow> ret (count, Some e) | Inr _ \<Rightarrow> processSettlementJob env gw fuel job' count))
   | i # _ \<Rightarrow> bind (detail_step env gw job i) (\<lambda>(n, next). case next of
       Inl e \<Rightarrow> ret (count + n, Some e)
     | Inr job' \<Rightarrow> bind (attempt (saveSettlementCursor job' False)) (\<lambda>r. case r of
         Inl e \<Rightarrow> ret (count + n, Some e) | Inr _ \<Rightarrow> processSettlementJob env gw fuel job' (count + n))))"

text \<open>One pass: a fresh lease per claimed cursor, the number applied and the errors met.\<close>

fun reconcile_loop :: "env \<Rightarrow> settlement_gateway \<Rightarrow> string list \<Rightarrow> int \<Rightarrow> string list \<Rightarrow> (db, int \<times> string list) prog" where
  "reconcile_loop env gw [] count failures = ret (count, failures)"
| "reconcile_loop env gw (lease # leases) count failures =
     bind (attempt (claimSettlementJob lease)) (\<lambda>r. case r of
       Inl e \<Rightarrow> ret (count, failures @ [error_text e])
     | Inr None \<Rightarrow> ret (count, failures)
     | Inr (Some job) \<Rightarrow>
       bind (processSettlementJob env gw 10 job 0) (\<lambda>(updated, err). case err of
         None \<Rightarrow> reconcile_loop env gw leases (count + updated) failures
       | Some e \<Rightarrow> bind (attempt (release_job job (error_text e))) (\<lambda>released.
           reconcile_loop env gw leases (count + updated)
             (failures @ [''seller settlement reconciliation: '' @ error_text e] @
              (case released of Inl e' \<Rightarrow> [error_text e'] | Inr _ \<Rightarrow> [])))))"

definition ReconcileFlutterwaveSettlements ::
  "env \<Rightarrow> config \<Rightarrow> settlement_gateway \<Rightarrow> string list \<Rightarrow> (db, int \<times> string list) prog" where
  "ReconcileFlutterwaveSettlements env cfg gw leases =
     (if trim_space (FlutterwaveSecretKey cfg) = [] then ret (0, []) else reconcile_loop env gw (take 10 leases) 0 [])"

end
