(* ===== verification/PlayBilling.thy ===== *)
theory PlayBilling
  imports Settlement
begin

text \<open>
  Google Play subscriptions (internal/playbilling): validation of Google's receipts and orders, the
  verification, acknowledgement and revocation calls, the token vault, and the store that turns a
  verified purchase into an entitlement, a receipt and a payment, or into a refund job; the
  reconciliation worker.

  Google is a parameter: every operation gets its own answers, indexed by the number of the call where
  an operation asks twice. The AEAD cipher, random ids and the advisory lock's availability are
  parameters. Posts to Google are logged in the field \<open>posts\<close>; they happen outside transactions.
  The SQL function \<open>reconcile_referral_reward\<close> is recorded as a call. Timestamps are in seconds.
\<close>

section \<open>Receipts\<close>

record play_plan =
  an_enabled :: bool
  an_currency :: string
  an_units :: string
  an_nanos :: int

record play_item =
  pi_product :: string
  pi_expiry :: string
  pi_order :: string
  pi_auto :: "play_plan option"
  pi_prepaid :: bool
  pi_base :: string
  pi_offer :: string
  pi_trial :: bool
  pi_intro :: bool

record purchase =
  pu_kind :: string
  pu_state :: string
  pu_ack :: string
  pu_test :: bool
  pu_account :: string
  pu_items :: "play_item list"

record Expected =
  ex_product :: string
  ex_base :: string
  ex_account :: string
  ex_test :: bool
  ex_amount :: int
  ex_prepaid :: bool
  ex_order :: bool

record Verified =
  vf_product :: string
  vf_base :: string
  vf_order :: string
  vf_state :: string
  vf_expires :: int
  vf_active :: bool
  vf_pending :: bool
  vf_auto :: bool
  vf_test :: bool
  vf_needs :: bool
  vf_amount :: int

record googleMoney =
  gm_currency :: string
  gm_units :: string
  gm_nanos :: int

record order_line =
  ol_product :: string
  ol_price :: googleMoney
  ol_subscription :: "(string \<times> string \<times> string \<times> bool) option"

record play_order =
  od_id :: string
  od_token :: string
  od_state :: string
  od_total :: googleMoney
  od_items :: "order_line list"

text \<open>The regular expressions of product ids and of account ids.\<close>

definition sku_char :: "bool \<Rightarrow> char \<Rightarrow> bool" where
  "sku_char first c = (let n = (of_char c :: nat) in
     97 \<le> n \<and> n \<le> 122 \<or> 48 \<le> n \<and> n \<le> 57 \<or> \<not> first \<and> (n = 46 \<or> n = 95 \<or> n = 45))"

definition skuPattern :: "string \<Rightarrow> bool" where
  "skuPattern s = (case s of [] \<Rightarrow> False | c # cs \<Rightarrow> sku_char True c \<and> list_all (sku_char False) cs \<and> length cs \<le> 199)"

definition accountPattern :: "string \<Rightarrow> bool" where
  "accountPattern s = (length s = 64 \<and> list_all (\<lambda>c. let n = (of_char c :: nat) in 97 \<le> n \<and> n \<le> 102 \<or> 48 \<le> n \<and> n \<le> 57) s)"

definition validToken :: "string \<Rightarrow> bool" where
  "validToken token = (16 \<le> length token \<and> length token \<le> 4096 \<and> trim_space token = token \<and>
     \<not> list_ex (\<lambda>c. c = CHR 0x0D \<or> c = CHR 0x0A \<or> c = CHR 0x00) token)"

definition whole_kobo :: "string \<Rightarrow> string \<Rightarrow> int \<Rightarrow> int option" where
  "whole_kobo currency units nanos = (case parse_int64 units of None \<Rightarrow> None
   | Some u \<Rightarrow> if u < 0 \<or> u > 999999999999 \<or> nanos < 0 \<or> nanos \<ge> 1000000000 \<or> nanos mod 10000000 \<noteq> 0 \<or> currency \<noteq> ''NGN''
       then None else Some (u * 100 + nanos div 10000000))"

definition minor :: "googleMoney \<Rightarrow> err + int" where
  "minor m = (case whole_kobo (gm_currency m) (gm_units m) (gm_nanos m) of
     None \<Rightarrow> Inl (Msg ''Play order price is invalid'') | Some k \<Rightarrow> Inr k)"

definition no_expiry :: int where
  "no_expiry = - 62135596800"

definition validate_base :: "purchase \<Rightarrow> play_item \<Rightarrow> Verified" where
  "validate_base receipt x = \<lparr>vf_product = pi_product x, vf_base = pi_base x, vf_order = pi_order x, vf_state = pu_state receipt,
     vf_expires = no_expiry, vf_active = False, vf_pending = False,
     vf_auto = (case pi_auto x of None \<Rightarrow> False | Some a \<Rightarrow> an_enabled a), vf_test = pu_test receipt, vf_needs = False, vf_amount = 0\<rparr>"

text \<open>The part of \<open>validate\<close> after the state is known to be paid or lapsed.\<close>

definition validate_period :: "purchase \<Rightarrow> play_item \<Rightarrow> Expected \<Rightarrow> int \<Rightarrow> bool \<Rightarrow> err + Verified" where
  "validate_period receipt x want t paid = (case parse_rfc3339 (pi_expiry x) of
     None \<Rightarrow> Inl (Msg ''Play expiry is invalid'')
   | Some e \<Rightarrow>
     let active = (paid \<and> e > t);
       out = (validate_base receipt x)\<lparr>vf_expires := e, vf_active := active\<rparr>;
       out = (if pu_state receipt \<in> {''SUBSCRIPTION_STATE_EXPIRED'', ''SUBSCRIPTION_STATE_CANCELED'', ''SUBSCRIPTION_STATE_PENDING_PURCHASE_CANCELED''}
              then out\<lparr>vf_auto := False\<rparr> else out);
       ack = (pu_ack receipt = ''ACKNOWLEDGEMENT_STATE_PENDING'')
     in if ex_amount want > 0 \<and> active then
          (if (ex_prepaid want \<and> (\<not> pi_prepaid x \<or> \<not> ex_order want)) \<or> (\<not> ex_prepaid want \<and> pi_auto x = None) \<or> pi_trial x \<or> pi_intro x
           then Inl (Msg ''Play discounted or prepaid plan is not configured'')
           else if ex_prepaid want then Inr (out\<lparr>vf_amount := ex_amount want, vf_needs := ack\<rparr>)
           else case pi_auto x of
               None \<Rightarrow> Inl (Msg ''Play discounted or prepaid plan is not configured'')
             | Some a \<Rightarrow> if whole_kobo (an_currency a) (an_units a) (an_nanos a) \<noteq> Some (ex_amount want)
                 then Inl (Msg ''Play price does not match the configured plan'')
                 else Inr (out\<lparr>vf_amount := ex_amount want, vf_needs := active \<and> ack\<rparr>))
        else Inr (out\<lparr>vf_needs := active \<and> ack\<rparr>))"

definition validate :: "purchase \<Rightarrow> Expected \<Rightarrow> int \<Rightarrow> err + Verified" where
  "validate receipt want t = (case pu_items receipt of
     [x] \<Rightarrow>
       let state = pu_state receipt;
         unpaid = (state = ''SUBSCRIPTION_STATE_PENDING'' \<or> state = ''SUBSCRIPTION_STATE_PENDING_PURCHASE_CANCELED'')
       in if pu_kind receipt \<noteq> ''androidpublisher#subscriptionPurchaseV2'' \<or> pu_account receipt \<noteq> ex_account want
       then Inl (Msg ''Play subscription ownership or structure is invalid'')
       else if pi_product x \<noteq> ex_product want \<or> pi_base x \<noteq> ex_base want \<or> pi_offer x \<noteq> [] \<or>
         \<not> unpaid \<and> (pi_auto x = None) = (\<not> pi_prepaid x)
       then Inl (Msg ''Play product or plan does not match'')
       else if pu_test receipt \<and> \<not> ex_test want then Inl (Msg ''Play test purchase is not eligible'')
       else if pu_ack receipt \<noteq> ''ACKNOWLEDGEMENT_STATE_PENDING'' \<and> pu_ack receipt \<noteq> ''ACKNOWLEDGEMENT_STATE_ACKNOWLEDGED''
       then Inl (Msg ''Play acknowledgement state is invalid'')
       else if state = ''SUBSCRIPTION_STATE_PENDING'' then Inr ((validate_base receipt x)\<lparr>vf_pending := True\<rparr>)
       else if state = ''SUBSCRIPTION_STATE_PENDING_PURCHASE_CANCELED'' then Inr ((validate_base receipt x)\<lparr>vf_auto := False\<rparr>)
       else if state \<in> {''SUBSCRIPTION_STATE_ACTIVE'', ''SUBSCRIPTION_STATE_IN_GRACE_PERIOD'', ''SUBSCRIPTION_STATE_CANCELED''} then
         (if \<not> has_prefix (pi_order x) ''GPA.'' \<or> length (pi_order x) > 200 then Inl (Msg ''Play successful order is missing'')
          else validate_period receipt x want t True)
       else if state \<in> {''SUBSCRIPTION_STATE_ON_HOLD'', ''SUBSCRIPTION_STATE_PAUSED'', ''SUBSCRIPTION_STATE_EXPIRED''}
       then validate_period receipt x want t False
       else Inl (Msg ''Play subscription state is unsupported'')
   | _ \<Rightarrow> Inl (Msg ''Play subscription ownership or structure is invalid''))"

text \<open>The checks of \<open>verifyOrder\<close> on a decoded order.\<close>

definition check_order :: "play_order \<Rightarrow> string \<Rightarrow> Verified \<Rightarrow> Expected \<Rightarrow> err + int" where
  "check_order o' token receipt want = (case od_items o' of
     [x] \<Rightarrow>
       if od_id o' \<noteq> vf_order receipt \<or> od_token o' \<noteq> token \<or> od_state o' \<noteq> ''PROCESSED''
       then Inl (Msg ''Play order ownership or payment state is invalid'')
       else if ol_product x \<noteq> ex_product want \<or> (case ol_subscription x of None \<Rightarrow> True
           | Some (base, offer, phase, details) \<Rightarrow> base \<noteq> ex_base want \<or> offer \<noteq> [] \<or> (phase \<noteq> ''BASE'' \<and> \<not> details))
       then Inl (Msg ''Play order product or phase is invalid'')
       else if minor (ol_price x) \<noteq> Inr (ex_amount want) then Inl (Msg ''Play order listed price does not match'')
       else (case minor (od_total o') of
           Inl e \<Rightarrow> Inl (Msg ''Play order payment amount is invalid'')
         | Inr paid \<Rightarrow>
             if paid < 0 then Inl (Msg ''Play order payment amount is invalid'')
             else if paid = 0 then
               (if vf_test receipt \<and> ex_test want then Inr (ex_amount want) else Inl (Msg ''Play order payment amount is invalid''))
             else Inr paid)
   | _ \<Rightarrow> Inl (Msg ''Play order ownership or payment state is invalid''))"

section \<open>Google\<close>

text \<open>One operation's view of Google: the access tokens (for the order of a receipt a second one), and per endpoint and number of the call the answer
  (\<open>None\<close> without a response; the document \<open>None\<close> when the body cannot be read or decoded).\<close>

record google =
  g_access :: "nat \<Rightarrow> err + string"
  g_order_access :: "nat \<Rightarrow> err + string"
  g_receipt :: "nat \<Rightarrow> string \<Rightarrow> (nat \<times> purchase option) option"
  g_order :: "nat \<Rightarrow> string \<Rightarrow> (nat \<times> play_order option) option"
  g_post :: "string \<Rightarrow> nat option"

record play_env =
  pe_env :: env
  pe_test :: bool
  pe_push :: bool
  pe_seal :: "string \<Rightarrow> string \<Rightarrow> string"
  pe_open :: "string \<Rightarrow> string \<Rightarrow> string option"

definition google_api :: string where
  "google_api = ''https://androidpublisher.googleapis.com/androidpublisher/v3/applications/com.atlanticexpress.mobile''"

definition access_ok :: "err + string \<Rightarrow> bool" where
  "access_ok a = (case a of Inl e \<Rightarrow> False | Inr s \<Rightarrow> s \<noteq> [] \<and> \<not> list_ex (\<lambda>c. c = CHR 0x0D \<or> c = CHR 0x0A) s)"

definition receipt_endpoint :: "string \<Rightarrow> string" where
  "receipt_endpoint token = google_api @ ''/purchases/subscriptionsv2/tokens/'' @ path_escape token"

definition TokenHash :: "play_env \<Rightarrow> string \<Rightarrow> string" where
  "TokenHash pe token = hex_encode (sha256 (pe_env pe) token)"

definition AccountID :: "play_env \<Rightarrow> string \<Rightarrow> string" where
  "AccountID pe provider = hex_encode (sha256 (pe_env pe) (''atl-provider-v1:'' @ provider))"

definition verifyOrder :: "google \<Rightarrow> nat \<Rightarrow> string \<Rightarrow> Verified \<Rightarrow> Expected \<Rightarrow> err + int" where
  "verifyOrder g n token receipt want =
     (if \<not> access_ok (g_order_access g n) then Inl (Msg ''Play order authentication is unavailable'')
      else case g_order g n (google_api @ ''/orders/'' @ path_escape (vf_order receipt)) of
        None \<Rightarrow> Inl (Msg ''Play order verification is unavailable'')
      | Some (code, body) \<Rightarrow>
          if code \<noteq> 200 then Inl (Msg ''Play order is not confirmed'')
          else case body of None \<Rightarrow> Inl (Msg ''Play order response is invalid'')
          | Some o' \<Rightarrow> check_order o' token receipt want)"

definition Verify :: "google \<Rightarrow> nat \<Rightarrow> string \<Rightarrow> Expected \<Rightarrow> int \<Rightarrow> err + Verified" where
  "Verify g n token want t =
     (if \<not> validToken token \<or> \<not> skuPattern (ex_product want) \<or> \<not> skuPattern (ex_base want) \<or> \<not> accountPattern (ex_account want)
      then Inl (Msg ''Invalid Play verification input'')
      else if \<not> access_ok (g_access g n) then Inl (Msg ''Play authentication is unavailable'')
      else case g_receipt g n (receipt_endpoint token) of
        None \<Rightarrow> Inl (Msg ''Play verification transport is unavailable'')
      | Some (code, body) \<Rightarrow>
          if code \<noteq> 200 then Inl (Msg ''Play has not confirmed this subscription'')
          else case body of None \<Rightarrow> Inl (Msg ''Play response is invalid'')
          | Some receipt \<Rightarrow> (case validate receipt want t of
                Inl e \<Rightarrow> Inl e
              | Inr v \<Rightarrow> if vf_active v \<and> ex_order want then
                    (case verifyOrder g n token v want of Inl e \<Rightarrow> Inl e | Inr a \<Rightarrow> Inr (v\<lparr>vf_amount := a\<rparr>))
                  else Inr v))"

definition identifyNotification :: "google \<Rightarrow> string \<Rightarrow> err + (string \<times> string \<times> string)" where
  "identifyNotification g token = (let invalid = Inl (Msg ''Play notification purchase could not be identified'') in
     if \<not> validToken token \<or> \<not> access_ok (g_access g 0) then invalid
     else case g_receipt g 0 (receipt_endpoint token) of
       Some (code, Some receipt) \<Rightarrow> if code \<noteq> 200 then invalid
         else (case pu_items receipt of
           [x] \<Rightarrow> if pu_kind receipt \<noteq> ''androidpublisher#subscriptionPurchaseV2'' \<or> \<not> accountPattern (pu_account receipt) \<or>
               \<not> skuPattern (pi_product x) \<or> \<not> skuPattern (pi_base x) then invalid
             else Inr (pu_account receipt, pi_product x, pi_base x)
         | _ \<Rightarrow> invalid)
     | _ \<Rightarrow> invalid)"

definition Seal :: "play_env \<Rightarrow> string \<Rightarrow> string \<Rightarrow> err + string" where
  "Seal pe provider token = (if \<not> validToken token \<or> provider = [] then Inl (Msg ''Play token storage input is invalid'')
     else Inr (pe_seal pe (''atl-play-v1:'' @ provider) token))"

definition Open :: "play_env \<Rightarrow> string \<Rightarrow> string \<Rightarrow> err + string" where
  "Open pe provider encrypted =
     (if length encrypted < 28 \<or> length encrypted > 8192 then Inl (Msg ''Play stored token is invalid'')
      else case pe_open pe (''atl-play-v1:'' @ provider) encrypted of
        None \<Rightarrow> Inl (Msg ''Play stored token is invalid'')
      | Some token \<Rightarrow> if validToken token then Inr token else Inl (Msg ''Play stored token is invalid''))"

section \<open>Tables\<close>

datatype moment = LongAgo | Time int | Never

fun reached :: "moment \<Rightarrow> int \<Rightarrow> bool" where
  "reached LongAgo t = True"
| "reached (Time x) t = (x \<le> t)"
| "reached Never t = False"

fun moment_rank :: "moment \<Rightarrow> nat" where
  "moment_rank LongAgo = 0"
| "moment_rank (Time x) = 1"
| "moment_rank Never = 2"

fun moment_time :: "moment \<Rightarrow> int" where
  "moment_time (Time x) = x"
| "moment_time m = 0"

record play_product =
  pm_product :: string
  pm_base :: string
  pm_plan :: string
  pm_months :: int
  pm_amount :: int
  pm_prepaid :: bool
  pm_enabled :: bool

record play_org =
  po_id :: string
  po_owner :: string
  po_country :: string
  po_active :: bool
  po_status :: string

record play_user =
  us_id :: string
  us_email :: string
  us_active :: bool
  us_verified :: bool

record play_purchase =
  pc_hash :: string
  pc_provider :: string
  pc_subscription :: string
  pc_product :: string
  pc_base :: string
  pc_token :: string
  pc_state :: string
  pc_auto :: bool
  pc_test :: bool
  pc_needs :: bool
  pc_checked :: int
  pc_next :: moment

record play_event =
  ev_id :: string
  ev_hash :: string
  ev_token :: string
  ev_received :: int
  ev_next :: int
  ev_processed :: "int option"

record refund_job =
  rj_hash :: string
  rj_provider :: string
  rj_product :: string
  rj_base :: string
  rj_token :: string
  rj_status :: string
  rj_next :: int

record play_sub =
  ps_id :: string
  ps_provider :: string
  ps_plan :: string
  ps_status :: string
  ps_tx_ref :: string
  ps_email :: string
  ps_expected :: int
  ps_mode :: string
  ps_months :: int
  ps_billing :: string
  ps_starts :: "int option"
  ps_end :: "int option"
  ps_last :: "int option"
  ps_version :: int

record play_receipt =
  rc_subscription :: string
  rc_tx_ref :: string
  rc_amount :: int
  rc_order :: string
  rc_test :: bool
  rc_referral :: bool

record play_payment =
  py_subscription :: string
  py_user :: string
  py_country :: string
  py_amount :: int
  py_reference :: string
  py_tx :: string
  py_idem :: string
  py_state :: string
  py_paid :: int

record play_db =
  mappings :: "play_product list"
  plans :: "(string \<times> bool) list"
  owners :: "play_org list"
  accounts :: "(string \<times> string) list"
  users :: "play_user list"
  purchases :: "play_purchase list"
  events :: "play_event list"
  refunds :: "refund_job list"
  intents :: "(string \<times> string \<times> string \<times> int) list"
  subs :: "play_sub list"
  receipts :: "play_receipt list"
  finance :: "play_payment list"
  preferences :: "(string \<times> string) list"
  referrals :: "string list"
  posts :: "string list"

record Result =
  rs_state :: string
  rs_active :: bool
  rs_pending :: bool
  rs_auto :: bool
  rs_needs :: bool
  rs_expires :: int
  rs_refund :: string

definition ErrBusy :: err where
  "ErrBusy = Msg ''A billing operation is already in progress''"

definition ErrIneligible :: err where
  "ErrIneligible = Msg ''This provider or product is not eligible for checkout''"

definition storage_down :: err where
  "storage_down = Msg ''Billing storage is unavailable''"

section \<open>Calls that change something at Google\<close>

definition post_google :: "google \<Rightarrow> string \<Rightarrow> (play_db, nat option) prog" where
  "post_google g endpoint w = (Inr (g_post g endpoint), w\<lparr>db := (db w)\<lparr>posts := posts (db w) @ [endpoint]\<rparr>\<rparr>)"

definition confirmed :: "nat option \<Rightarrow> bool" where
  "confirmed r = (case r of None \<Rightarrow> False | Some code \<Rightarrow> code = 200 \<or> code = 204)"

definition acknowledge_endpoint :: "Expected \<Rightarrow> string \<Rightarrow> string" where
  "acknowledge_endpoint want token = google_api @ ''/purchases/subscriptions/'' @ path_escape (ex_product want) @ ''/tokens/'' @
     path_escape token @ '':acknowledge''"

definition revoke_endpoint :: "string \<Rightarrow> string" where
  "revoke_endpoint token = receipt_endpoint token @ '':revoke''"

definition Acknowledge :: "google \<Rightarrow> nat \<Rightarrow> string \<Rightarrow> Expected \<Rightarrow> (play_db, unit) prog" where
  "Acknowledge g n token want = bind clock (\<lambda>t. case Verify g n token want t of
       Inl e \<Rightarrow> fail e
     | Inr v \<Rightarrow>
         if \<not> vf_active v then fail (Msg ''Play purchase is not ready for acknowledgement'')
         else if \<not> vf_needs v then ret ()
         else if \<not> access_ok (g_access g (n + 1)) then fail (Msg ''Play authentication is unavailable'')
         else bind (post_google g (acknowledge_endpoint want token)) (\<lambda>r.
           require (confirmed r) (Msg ''Play acknowledgement is not confirmed'')))"

definition RefundUnfulfilled :: "google \<Rightarrow> nat \<Rightarrow> string \<Rightarrow> Expected \<Rightarrow> (play_db, unit) prog" where
  "RefundUnfulfilled g n token want = bind clock (\<lambda>t. case Verify g n token want t of
       Inl e \<Rightarrow> fail (Msg ''Play refund verification is unavailable'')
     | Inr v \<Rightarrow>
         if \<not> access_ok (g_access g (n + 1)) then fail (Msg ''Play refund authentication is unavailable'')
         else bind (post_google g (revoke_endpoint token)) (\<lambda>r.
           require (confirmed r) (Msg ''Play refund is not confirmed'')))"

section \<open>The refund queue\<close>

definition due_refunds :: "int \<Rightarrow> play_db \<Rightarrow> refund_job list" where
  "due_refunds t d = take 10 (sort_key rj_next (filter (\<lambda>j. rj_status j = ''requested'' \<and> rj_next j \<le> t) (refunds d)))"

definition claim_refunds :: "(play_db, refund_job list) prog" where
  "claim_refunds = stmt (\<lambda>d t. let due = due_refunds t d in
     Inr (due, d\<lparr>refunds := upd (\<lambda>j. rj_hash j \<in> rj_hash ` set due) (\<lambda>j. j\<lparr>rj_next := t + 300\<rparr>) (refunds d)\<rparr>))"

definition granted :: "string \<Rightarrow> play_db \<Rightarrow> bool" where
  "granted h d = list_ex (\<lambda>p. pc_hash p = h) (purchases d)"

definition refund_expected :: "play_env \<Rightarrow> refund_job \<Rightarrow> Expected" where
  "refund_expected pe j = \<lparr>ex_product = rj_product j, ex_base = rj_base j, ex_account = AccountID pe (rj_provider j),
     ex_test = pe_test pe, ex_amount = 0, ex_prepaid = False, ex_order = False\<rparr>"

definition refund_one :: "play_env \<Rightarrow> google \<Rightarrow> nat \<Rightarrow> refund_job \<Rightarrow> (play_db, unit) prog" where
  "refund_one pe g n j = bind (attempt (query (\<lambda>d t. Inr (granted (rj_hash j) d)))) (\<lambda>r. case r of
       Inl e \<Rightarrow> ret ()
     | Inr given \<Rightarrow> if given then ret ()
         else case Open pe (rj_provider j) (rj_token j) of
             Inl e \<Rightarrow> ret ()
           | Inr token \<Rightarrow> bind (attempt (RefundUnfulfilled g n token (refund_expected pe j))) (\<lambda>r. case r of
                 Inl e \<Rightarrow> ret ()
               | Inr _ \<Rightarrow> ignore (stmt (\<lambda>d t. Inr ((), d\<lparr>refunds := upd (\<lambda>k. rj_hash k = rj_hash j \<and> rj_provider k = rj_provider j)
                   (\<lambda>k. k\<lparr>rj_status := ''confirmed''\<rparr>) (refunds d)\<rparr>)))))"

definition reconcileRefunds :: "play_env \<Rightarrow> google \<Rightarrow> nat \<Rightarrow> (play_db, unit) prog" where
  "reconcileRefunds pe g n = bind (or_else claim_refunds (Msg ''Play refund queue is unavailable'')) (\<lambda>jobs.
     for_each (refund_one pe g n) jobs)"

section \<open>Processing a purchase\<close>

definition find_mapping :: "string \<Rightarrow> string \<Rightarrow> play_db \<Rightarrow> play_product option" where
  "find_mapping product base d = find (\<lambda>m. pm_product m = product \<and> pm_base m = base) (mappings d)"

text \<open>The plan of a product, the owner's e-mail and whether a new purchase is allowed.\<close>

definition play_plan_of :: "string \<Rightarrow> string \<Rightarrow> string \<Rightarrow> play_db \<Rightarrow> (play_product \<times> string \<times> bool) option" where
  "play_plan_of provider product base d =
     and_then (find_mapping product base d) (\<lambda>m.
     and_then (map_of (plans d) (pm_plan m)) (\<lambda>plan_active.
     and_then (find (\<lambda>o'. po_id o' = provider) (owners d)) (\<lambda>o'.
     and_then (find (\<lambda>u. us_id u = po_owner o') (users d)) (\<lambda>u.
       Some (m, us_email u, plan_active \<and> po_active o' \<and> po_status o' = ''approved'' \<and> us_active u \<and> us_verified u)))))"

definition bind_account :: "play_env \<Rightarrow> string \<Rightarrow> (play_db, unit) prog" where
  "bind_account pe provider = stmt (\<lambda>d t.
     if provider \<in> fst ` set (accounts d) then Inr ((), d)
     else if AccountID pe provider \<in> snd ` set (accounts d) then Inl (Constraint ''play_provider_accounts_account_id_key'')
     else Inr ((), d\<lparr>accounts := accounts d @ [(provider, AccountID pe provider)]\<rparr>))"

definition running :: "int \<Rightarrow> play_sub \<Rightarrow> bool" where
  "running t s = (ps_status s = ''active'' \<and> (case ps_end s of None \<Rightarrow> False | Some e \<Rightarrow> e > t))"

definition renewing :: "string \<Rightarrow> play_db \<Rightarrow> bool" where
  "renewing provider d = (provider \<notin> fst ` set (filter (\<lambda>(p, s). s = ''stopped'') (preferences d)))"

definition conflicting :: "string \<Rightarrow> int \<Rightarrow> play_db \<Rightarrow> bool" where
  "conflicting provider t d =
     (list_ex (\<lambda>s. ps_provider s = provider \<and> (running t s \<or>
        ps_billing s = ''flutterwave'' \<and> ps_mode s = ''recurring'' \<and>
        ps_status s \<in> {''pending'', ''active'', ''past_due'', ''grace''} \<and> renewing provider d)) (subs d) \<or>
      list_ex (\<lambda>p. pc_provider p = provider \<and> pc_auto p) (purchases d) \<or>
      (provider, ''uncertain'') \<in> set (preferences d))"

definition result_of :: "Verified \<Rightarrow> Result" where
  "result_of v = \<lparr>rs_state = vf_state v, rs_active = vf_active v, rs_pending = vf_pending v, rs_auto = vf_auto v,
     rs_needs = vf_needs v, rs_expires = vf_expires v, rs_refund = []\<rparr>"

definition refund_result :: "string \<Rightarrow> Result" where
  "refund_result state = \<lparr>rs_state = ''REFUND'', rs_active = False, rs_pending = False, rs_auto = False, rs_needs = False,
     rs_expires = no_expiry, rs_refund = state\<rparr>"

definition queue_refund :: "string \<Rightarrow> string \<Rightarrow> string \<Rightarrow> string \<Rightarrow> string \<Rightarrow> (play_db, unit) prog" where
  "queue_refund h provider product base encrypted = stmt (\<lambda>d t.
     Inr ((), if list_ex (\<lambda>j. rj_hash j = h) (refunds d) then d
       else d\<lparr>refunds := refunds d @ [\<lparr>rj_hash = h, rj_provider = provider, rj_product = product, rj_base = base,
         rj_token = encrypted, rj_status = ''requested'', rj_next = t\<rparr>]\<rparr>))"

definition new_play_sub :: "string \<Rightarrow> string \<Rightarrow> play_product \<Rightarrow> string \<Rightarrow> play_sub" where
  "new_play_sub i provider m email = \<lparr>ps_id = i, ps_provider = provider, ps_plan = pm_plan m, ps_status = ''pending'',
     ps_tx_ref = ''PLAY-'' @ i, ps_email = email, ps_expected = pm_amount m, ps_mode = ''one_time'', ps_months = pm_months m,
     ps_billing = ''google_play'', ps_starts = None, ps_end = None, ps_last = None, ps_version = 1\<rparr>"

definition open_subscription :: "string \<Rightarrow> string \<Rightarrow> play_product \<Rightarrow> string \<Rightarrow> (play_db, unit) prog" where
  "open_subscription i provider m email = stmt (\<lambda>d t.
     if list_ex (\<lambda>s. ps_id s = i) (subs d) then Inl (Constraint ''provider_subscriptions_pkey'')
     else Inr ((), d\<lparr>subs := subs d @ [new_play_sub i provider m email]\<rparr>))"

definition next_check :: "play_env \<Rightarrow> Verified \<Rightarrow> int \<Rightarrow> moment" where
  "next_check pe v t = (let fallback = (if pe_push pe then 3600 else 300);
       fallback = (if vf_pending v then 300 else fallback);
       fallback = (if vf_needs v then 60 else fallback);
       check = t + fallback;
       check = (if vf_active v \<and> vf_expires v - 300 < check then vf_expires v - 300 else check)
     in if vf_state v = ''SUBSCRIPTION_STATE_EXPIRED'' \<or> vf_state v = ''SUBSCRIPTION_STATE_PENDING_PURCHASE_CANCELED''
        then Never else Time check)"

text \<open>The upsert of the purchase row; the result is the number of rows it affects.\<close>

definition save_purchase :: "play_purchase \<Rightarrow> (play_db, nat) prog" where
  "save_purchase p = stmt (\<lambda>d t.
     if list_ex (\<lambda>q. pc_hash q = pc_hash p) (purchases d) then
       (let same = (\<lambda>q. pc_hash q = pc_hash p \<and> pc_provider q = pc_provider p \<and> pc_subscription q = pc_subscription p)
        in Inr (cnt same (purchases d), d\<lparr>purchases := upd same (\<lambda>q. q\<lparr>pc_token := pc_token p, pc_state := pc_state p,
            pc_auto := pc_auto p, pc_needs := pc_needs p, pc_checked := t, pc_next := pc_next p\<rparr>) (purchases d)\<rparr>))
     else if list_ex (\<lambda>q. pc_subscription q = pc_subscription p) (purchases d)
     then Inl (Constraint ''play_provider_purchases_subscription_id_key'')
     else Inr (1, d\<lparr>purchases := purchases d @ [p\<lparr>pc_checked := t\<rparr>]\<rparr>))"

definition purchase_row :: "play_env \<Rightarrow> string \<Rightarrow> string \<Rightarrow> string \<Rightarrow> string \<Rightarrow> string \<Rightarrow> string \<Rightarrow> Verified \<Rightarrow> int \<Rightarrow> play_purchase" where
  "purchase_row pe h provider subscription product base encrypted v t =
     \<lparr>pc_hash = h, pc_provider = provider, pc_subscription = subscription, pc_product = product, pc_base = base,
      pc_token = encrypted, pc_state = vf_state v, pc_auto = vf_auto v, pc_test = vf_test v, pc_needs = vf_needs v,
      pc_checked = t, pc_next = next_check pe v t\<rparr>"

text \<open>The receipt of an order and, for real purchases, its payment; both return the owner.\<close>

definition save_receipt :: "string \<Rightarrow> Verified \<Rightarrow> (play_db, string) prog" where
  "save_receipt subscription v = stmt (\<lambda>d t. case find (\<lambda>r. rc_order r = vf_order v) (receipts d) of
     Some r \<Rightarrow> Inr (rc_subscription r, d)
   | None \<Rightarrow> Inr (subscription, d\<lparr>receipts := receipts d @ [\<lparr>rc_subscription = subscription, rc_tx_ref = ''PLAY-'' @ subscription,
       rc_amount = vf_amount v, rc_order = vf_order v, rc_test = vf_test v, rc_referral = (\<not> vf_needs v)\<rparr>]\<rparr>))"

definition play_payment_rows :: "string \<Rightarrow> Verified \<Rightarrow> int \<Rightarrow> play_db \<Rightarrow> play_payment list" where
  "play_payment_rows subscription v t d = (case find (\<lambda>s. ps_id s = subscription) (subs d) of None \<Rightarrow> []
   | Some s \<Rightarrow> (case find (\<lambda>o'. po_id o' = ps_provider s) (owners d) of None \<Rightarrow> []
     | Some o' \<Rightarrow> [\<lparr>py_subscription = subscription, py_user = po_owner o', py_country = po_country o', py_amount = vf_amount v,
         py_reference = ps_tx_ref s, py_tx = vf_order v, py_idem = ''play:'' @ vf_order v, py_state = vf_state v, py_paid = t\<rparr>]))"

definition save_payment :: "string \<Rightarrow> Verified \<Rightarrow> (play_db, unit) prog" where
  "save_payment subscription v = stmt (\<lambda>d t. case play_payment_rows subscription v t d of
     [] \<Rightarrow> Inr ((), d)
   | p # _ \<Rightarrow> if py_amount p \<le> 0 then Inl (Constraint ''payments_amount_check'')
       else if list_ex (\<lambda>q. py_tx q = py_tx p \<or> py_idem q = py_idem p) (finance d) then Inr ((), d)
       else Inr ((), d\<lparr>finance := finance d @ [p]\<rparr>))"

definition payment_owner :: "string \<Rightarrow> play_db \<Rightarrow> string option" where
  "payment_owner order d = map_option py_subscription (find (\<lambda>p. py_tx p = order) (finance d))"

definition book_order :: "string \<Rightarrow> Verified \<Rightarrow> (play_db, unit) prog" where
  "book_order subscription v =
     bind (attempt (save_receipt subscription v)) (\<lambda>r.
     bind (require (r = Inr subscription) (Msg ''Billing order ownership could not be committed'')) (\<lambda>_.
     if vf_test v then ret ()
     else bind (or_else (save_payment subscription v) (Msg ''Billing financial receipt could not be committed'')) (\<lambda>_.
       bind (attempt (query (\<lambda>d t. row (payment_owner (vf_order v) d)))) (\<lambda>owner.
       require (owner = Inr subscription) (Msg ''Billing financial receipt ownership conflict'')))))"

definition entitlement_status :: "Verified \<Rightarrow> string" where
  "entitlement_status v = (if vf_pending v then ''pending'' else if vf_active v then ''active'' else ''expired'')"

definition entitle :: "Verified \<Rightarrow> int \<Rightarrow> play_sub \<Rightarrow> play_sub" where
  "entitle v t s = s\<lparr>ps_status := entitlement_status v, ps_starts := coalesce (ps_starts s) (Some t), ps_end := Some (vf_expires v),
     ps_last := (if vf_active v then Some t else ps_last s), ps_version := ps_version s + 1\<rparr>"

definition apply_receipt ::
  "play_env \<Rightarrow> string \<Rightarrow> string \<Rightarrow> string \<Rightarrow> string \<Rightarrow> string \<Rightarrow> Verified \<Rightarrow> (play_db, unit) prog" where
  "apply_receipt pe provider token product base subscription v =
     bind clock (\<lambda>t. case Seal pe provider token of Inl e \<Rightarrow> fail e | Inr encrypted \<Rightarrow>
     bind (attempt (save_purchase (purchase_row pe (TokenHash pe token) provider subscription product base encrypted v t))) (\<lambda>rows.
     bind (require (rows = Inr 1) (Msg ''Billing token ownership could not be committed'')) (\<lambda>_.
     bind (if vf_active v then book_order subscription v else ret ()) (\<lambda>_.
     or_else (stmt (\<lambda>d t. Inr ((), d\<lparr>subs := upd (\<lambda>s. ps_id s = subscription \<and> ps_billing s = ''google_play'') (entitle v t) (subs d)\<rparr>)))
       (Msg ''Billing entitlement could not be committed'')))))"

text \<open>How the transaction of \<open>Process\<close> ends: with an answer for the caller, with a refund job, or with an
  applied receipt. A failed commit is reported as uncertain in the latter two (with one message, where
  the code has a text of its own for a refund job).\<close>

datatype processed = Answer Result | Refunding | Applied Expected Verified string

definition expected_of :: "play_env \<Rightarrow> string \<Rightarrow> string \<Rightarrow> string \<Rightarrow> play_product \<Rightarrow> Expected" where
  "expected_of pe provider product base m = \<lparr>ex_product = product, ex_base = base, ex_account = AccountID pe provider,
     ex_test = pe_test pe, ex_amount = pm_amount m, ex_prepaid = pm_prepaid m, ex_order = True\<rparr>"

text \<open>A purchase the store has not seen: it is tracked, or refunded when the provider is subscribed already.\<close>

definition first_purchase ::
  "play_env \<Rightarrow> string \<Rightarrow> string \<Rightarrow> string \<Rightarrow> string \<Rightarrow> string \<Rightarrow> play_product \<Rightarrow> string \<Rightarrow> Verified \<Rightarrow> (play_db, processed outcome option) prog" where
  "first_purchase pe provider token product base newID m email v =
     (if \<not> vf_active v \<and> \<not> vf_pending v then ret (Some (Abandon (Answer (result_of v))))
      else bind (or_else (query (\<lambda>d t. Inr (conflicting provider t d))) storage_down) (\<lambda>conflict.
      if conflict then
        (if vf_pending v then ret (Some (Abandon (Answer (result_of v))))
         else case Seal pe provider token of Inl e \<Rightarrow> fail e | Inr encrypted \<Rightarrow>
           bind (or_else (queue_refund (TokenHash pe token) provider product base encrypted)
             (Msg ''Duplicate purchase recovery could not be recorded'')) (\<lambda>_.
           ret (Some (Commit Refunding))))
      else bind (or_else (open_subscription newID provider m email) storage_down) (\<lambda>_. ret None)))"

text \<open>The rest of the transaction, when the plan \<open>m\<close> and the purchase row \<open>old\<close> of the token are known.\<close>

definition verify_and_apply ::
  "play_env \<Rightarrow> google \<Rightarrow> string \<Rightarrow> string \<Rightarrow> string \<Rightarrow> string \<Rightarrow> string \<Rightarrow> play_product \<Rightarrow> string \<Rightarrow> play_purchase option \<Rightarrow> (play_db, processed outcome) prog" where
  "verify_and_apply pe g newID provider token product base m email old =
     bind (or_else (bind_account pe provider) (Msg ''Play account binding is unavailable'')) (\<lambda>_.
     bind clock (\<lambda>t.
     case Verify g 0 token (expected_of pe provider product base m) t of
       Inl e \<Rightarrow> fail e
     | Inr v \<Rightarrow>
     bind (if old = None then first_purchase pe provider token product base newID m email v else ret None) (\<lambda>done1.
     case done1 of
       Some r \<Rightarrow> ret r
     | None \<Rightarrow>
       let subscription = (case old of Some p \<Rightarrow> pc_subscription p | None \<Rightarrow> newID) in
       bind (apply_receipt pe provider token product base subscription v) (\<lambda>_.
       ret (Commit (Applied (expected_of pe provider product base m) v subscription))))))"

text \<open>\<open>free\<close> says whether the provider's advisory lock can be taken.\<close>

definition process_transaction ::
  "play_env \<Rightarrow> google \<Rightarrow> bool \<Rightarrow> string \<Rightarrow> string \<Rightarrow> string \<Rightarrow> string \<Rightarrow> string \<Rightarrow> (play_db, processed) prog" where
  "process_transaction pe g free newID provider token product base =
     transaction_or storage_down (Msg ''Billing confirmation is uncertain; restore purchases before paying again'') (
     bind (or_else lock storage_down) (\<lambda>_.
     bind (require free ErrBusy) (\<lambda>_.
     bind (attempt (query (\<lambda>d t. row (map_option rj_status
       (find (\<lambda>j. rj_hash j = TokenHash pe token \<and> rj_provider j = provider) (refunds d)))))) (\<lambda>refund.
     case refund of
       Inr state \<Rightarrow> ret (Abandon (Answer (refund_result state)))
     | Inl e \<Rightarrow>
     bind (require (e = NoRows) storage_down) (\<lambda>_.
     bind (or_else (query (\<lambda>d t. row (play_plan_of provider product base d))) ErrIneligible) (\<lambda>(m, email, eligible).
     bind (or_else (query (\<lambda>d t. row (map_option pm_enabled (find_mapping product base d)))) ErrIneligible) (\<lambda>enabled.
     bind (attempt (query (\<lambda>d t. row (find (\<lambda>p. pc_hash p = TokenHash pe token) (purchases d))))) (\<lambda>owned.
     bind (require (owned = Inl NoRows \<or> \<not> isl owned) storage_down) (\<lambda>_.
     let old = (case owned of Inr p \<Rightarrow> Some p | Inl _ \<Rightarrow> None) in
     bind (require (case old of Some p \<Rightarrow> pc_provider p = provider \<and> pc_product p = product \<and> pc_base p = base
         | None \<Rightarrow> enabled \<and> eligible) ErrIneligible) (\<lambda>_.
     verify_and_apply pe g newID provider token product base m email old))))))))))"

definition confirm_acknowledged :: "play_env \<Rightarrow> string \<Rightarrow> string \<Rightarrow> string \<Rightarrow> Verified \<Rightarrow> (play_db, unit) prog" where
  "confirm_acknowledged pe provider token subscription v = transaction (
     bind (stmt (\<lambda>d t. Inr ((), d\<lparr>purchases := upd (\<lambda>p. pc_hash p = TokenHash pe token \<and> pc_provider p = provider)
       (\<lambda>p. p\<lparr>pc_needs := False\<rparr>) (purchases d)\<rparr>))) (\<lambda>_.
     bind (stmt (\<lambda>d t. Inr ((), d\<lparr>receipts := upd (\<lambda>r. rc_order r = vf_order v \<and> rc_subscription r = subscription \<and> \<not> rc_test r)
       (\<lambda>r. r\<lparr>rc_referral := True\<rparr>) (receipts d)\<rparr>))) (\<lambda>_.
     bind (stmt (\<lambda>d t. Inr ((), d\<lparr>referrals := referrals d @ map po_owner (filter (\<lambda>o'. po_id o' = provider) (owners d))\<rparr>))) (\<lambda>_.
     ret (Commit ())))))"

definition Process ::
  "play_env \<Rightarrow> google \<Rightarrow> bool \<Rightarrow> string \<Rightarrow> string \<Rightarrow> string \<Rightarrow> string \<Rightarrow> string \<Rightarrow> (play_db, Result) prog" where
  "Process pe g free newID provider token product base =
     bind (require (uuid_ok (pe_env pe) provider \<and> validToken token \<and> skuPattern product \<and> skuPattern base) ErrIneligible) (\<lambda>_.
     bind (process_transaction pe g free newID provider token product base) (\<lambda>outcome. case outcome of
       Answer r \<Rightarrow> ret r
     | Refunding \<Rightarrow> bind (ignore (reconcileRefunds pe g 3)) (\<lambda>_. ret (refund_result ''requested''))
     | Applied want v subscription \<Rightarrow>
         bind (ignore (stmt (\<lambda>d t. Inr ((), d\<lparr>intents := filter (\<lambda>(p, _). p \<noteq> provider) (intents d)\<rparr>)))) (\<lambda>_.
         bind (if vf_needs v then attempt (Acknowledge g 1 token want) else ret (Inl NoRows)) (\<lambda>ack.
         let needs = (vf_needs v \<and> isl ack) in
         if vf_active v \<and> \<not> needs then
           bind (attempt (confirm_acknowledged pe provider token subscription v)) (\<lambda>r.
           ret ((result_of v)\<lparr>rs_needs := isl r\<rparr>))
         else ret ((result_of v)\<lparr>rs_needs := needs\<rparr>)))))"

section \<open>Preparing a checkout\<close>

definition checkout_open :: "string \<Rightarrow> string \<Rightarrow> string \<Rightarrow> int \<Rightarrow> play_db \<Rightarrow> bool" where
  "checkout_open provider product base t d =
     ((case (find (\<lambda>o'. po_id o' = provider) (owners d), find_mapping product base d) of
        (Some o', Some m) \<Rightarrow> po_active o' \<and> po_status o' = ''approved'' \<and> pm_enabled m \<and> map_of (plans d) (pm_plan m) = Some True \<and>
          (case find (\<lambda>u. us_id u = po_owner o') (users d) of None \<Rightarrow> False | Some u \<Rightarrow> us_active u \<and> us_verified u)
      | _ \<Rightarrow> False) \<and>
      \<not> list_ex (\<lambda>s. ps_provider s = provider \<and> (ps_status s = ''pending'' \<or> running t s \<or>
         ps_billing s = ''flutterwave'' \<and> ps_mode s = ''recurring'' \<and>
         ps_status s \<in> {''active'', ''past_due'', ''grace''} \<and> renewing provider d)) (subs d) \<and>
      \<not> list_ex (\<lambda>p. pc_provider p = provider \<and> pc_auto p) (purchases d) \<and>
      (provider, ''uncertain'') \<notin> set (preferences d) \<and>
      \<not> list_ex (\<lambda>(p, _, _, e). p = provider \<and> e > t) (intents d))"

definition reserve_checkout :: "string \<Rightarrow> string \<Rightarrow> string \<Rightarrow> (play_db, unit) prog" where
  "reserve_checkout provider product base = stmt (\<lambda>d t.
     Inr ((), if provider \<in> fst ` set (intents d)
       then d\<lparr>intents := map (\<lambda>i. if fst i = provider then (provider, product, base, t + 900) else i) (intents d)\<rparr>
       else d\<lparr>intents := intents d @ [(provider, product, base, t + 900)]\<rparr>))"

definition Prepare :: "play_env \<Rightarrow> bool \<Rightarrow> string \<Rightarrow> string \<Rightarrow> string \<Rightarrow> (play_db, unit) prog" where
  "Prepare pe free provider product base = transaction_with (\<lambda>_. storage_down) (\<lambda>e. e) (
     bind (or_else lock storage_down) (\<lambda>_.
     bind (require free ErrBusy) (\<lambda>_.
     bind (or_else (query (\<lambda>d t. Inr (checkout_open provider product base t d))) storage_down) (\<lambda>eligible.
     bind (require eligible ErrIneligible) (\<lambda>_.
     bind (or_else (bind_account pe provider) (Msg ''Play account binding is unavailable'')) (\<lambda>_.
     bind (or_else (reserve_checkout provider product base) storage_down) (\<lambda>_.
     ret (Commit ()))))))))"

section \<open>Notifications and the reconciliation worker\<close>

text \<open>What a reconciliation pass gets from outside: Google's answers to the recovery of notifications, to
  the refunds and to the due checks, new ids, and the free locks.\<close>

record play_pass =
  pw_recover :: google
  pw_refund :: google
  pw_check :: google
  pw_ids :: "string \<Rightarrow> string"
  pw_free :: "string \<Rightarrow> bool"

definition due_notices :: "int \<Rightarrow> play_db \<Rightarrow> play_event list" where
  "due_notices t d = take 10 (sort_key ev_received (filter (\<lambda>e. ev_processed e = None \<and> ev_next e \<le> t \<and> \<not> granted (ev_hash e) d) (events d)))"

definition claim_notices :: "(play_db, play_event list) prog" where
  "claim_notices = stmt (\<lambda>d t. let due = due_notices t d in
     Inr (due, d\<lparr>events := upd (\<lambda>e. ev_id e \<in> ev_id ` set due) (\<lambda>e. e\<lparr>ev_next := t + 300\<rparr>) (events d)\<rparr>))"

definition recover_one :: "play_env \<Rightarrow> play_pass \<Rightarrow> play_event \<Rightarrow> (play_db, unit) prog" where
  "recover_one pe pw e = (case Open pe (''rtdn:'' @ ev_id e) (ev_token e) of
     Inl _ \<Rightarrow> ret ()
   | Inr token \<Rightarrow> (case identifyNotification (pw_recover pw) token of
       Inl _ \<Rightarrow> ret ()
     | Inr (account, product, base) \<Rightarrow>
         bind (attempt (query (\<lambda>d t. row (map_option fst (find (\<lambda>(p, a). a = account) (accounts d)))))) (\<lambda>r. case r of
           Inl _ \<Rightarrow> ret ()
         | Inr provider \<Rightarrow>
             bind (attempt (Process pe (pw_recover pw) (pw_free pw provider) (pw_ids pw token) provider token product base)) (\<lambda>r.
             if isl r then ret ()
             else ignore (stmt (\<lambda>d t. Inr ((), d\<lparr>events := upd (\<lambda>x. ev_id x = ev_id e) (\<lambda>x. x\<lparr>ev_processed := Some t\<rparr>) (events d)\<rparr>)))))))"

definition recoverNotificationPurchases :: "play_env \<Rightarrow> play_pass \<Rightarrow> (play_db, unit) prog" where
  "recoverNotificationPurchases pe pw =
     bind (or_else claim_notices (Msg ''Play initial-purchase recovery is unavailable'')) (\<lambda>due. for_each (recover_one pe pw) due)"

definition route_notices :: "(play_db, unit) prog" where
  "route_notices = stmt (\<lambda>d t. let ready = take 100 (sort_key ev_received (filter (\<lambda>e. ev_processed e = None \<and> granted (ev_hash e) d) (events d)))
     in Inr ((), d\<lparr>events := upd (\<lambda>e. ev_id e \<in> ev_id ` set ready) (\<lambda>e. e\<lparr>ev_processed := Some t\<rparr>) (events d),
          purchases := upd (\<lambda>p. pc_hash p \<in> ev_hash ` set ready) (\<lambda>p. p\<lparr>pc_next := LongAgo\<rparr>) (purchases d)\<rparr>))"

definition drop_old_notices :: "(play_db, unit) prog" where
  "drop_old_notices = stmt (\<lambda>d t. let old = take 1000 (filter (\<lambda>e. ev_received e < t - 1209600) (events d))
     in Inr ((), d\<lparr>events := filter (\<lambda>e. ev_id e \<notin> ev_id ` set old) (events d)\<rparr>))"

definition due_checks :: "int \<Rightarrow> play_db \<Rightarrow> play_purchase list" where
  "due_checks t d = take 50 (sort_key (\<lambda>p. moment_rank (pc_next p)) (sort_key (\<lambda>p. moment_time (pc_next p))
     (filter (\<lambda>p. reached (pc_next p) t) (purchases d))))"

definition claim_checks :: "(play_db, play_purchase list) prog" where
  "claim_checks = stmt (\<lambda>d t. let due = due_checks t d in
     Inr (due, d\<lparr>purchases := upd (\<lambda>p. pc_hash p \<in> pc_hash ` set due) (\<lambda>p. p\<lparr>pc_next := Time (t + 300)\<rparr>) (purchases d)\<rparr>))"

definition check_one :: "play_env \<Rightarrow> play_pass \<Rightarrow> play_purchase \<Rightarrow> (play_db, bool) prog" where
  "check_one pe pw p = (case Open pe (pc_provider p) (pc_token p) of
     Inl _ \<Rightarrow> ret False
   | Inr token \<Rightarrow> bind (attempt (Process pe (pw_check pw) (pw_free pw (pc_provider p)) (pw_ids pw token)
       (pc_provider p) token (pc_product p) (pc_base p))) (\<lambda>r. ret (\<not> isl r)))"

definition Reconcile :: "play_env \<Rightarrow> play_pass \<Rightarrow> (play_db, unit) prog" where
  "Reconcile pe pw =
     bind (recoverNotificationPurchases pe pw) (\<lambda>_.
     bind (or_else route_notices (Msg ''Play notification reconciliation is unavailable'')) (\<lambda>_.
     bind (ignore drop_old_notices) (\<lambda>_.
     bind (reconcileRefunds pe (pw_refund pw) 0) (\<lambda>_.
     bind (or_else claim_checks (Msg ''Play reconciliation storage is unavailable'')) (\<lambda>due.
     bind (collect (check_one pe pw) due) (\<lambda>oks.
     let failures = length (filter Not oks) in
     require (\<not> failures > 0) (Msg (''Play reconciliation: '' @ nat_str failures @ '' checks deferred''))))))))"

text \<open>The notification endpoint's entry in the queue (after its signature is verified).\<close>

definition record_notice :: "play_env \<Rightarrow> string \<Rightarrow> string \<Rightarrow> (play_db, unit) prog" where
  "record_notice pe messageID token = (case Seal pe (''rtdn:'' @ messageID) token of
     Inl e \<Rightarrow> fail (Http 400 ''Bad Request'')
   | Inr encrypted \<Rightarrow> or_else (stmt (\<lambda>d t. Inr ((), if list_ex (\<lambda>e. ev_id e = messageID) (events d) then d
       else d\<lparr>events := events d @ [\<lparr>ev_id = messageID, ev_hash = TokenHash pe token, ev_token = encrypted, ev_received = t,
         ev_next = t, ev_processed = None\<rparr>]\<rparr>))) (Http 503 ''Play notification could not be recorded''))"

end
