(* ===== verification/Play_Safety.thy ===== *)
theory Play_Safety
  imports PlayBilling
begin

text \<open>
  What Google Play billing promises over any sequence of purchases, checkouts, notifications and
  reconciliation passes, any answers of Google and any database failures: a purchase is granted or
  refunded, never both; an entitlement becomes active only on a receipt and a processed order
  that Google itself confirmed; every order and token keeps its owner and is booked once.
\<close>

section \<open>Histories\<close>

datatype play_call =
    Buy google bool string string string string string
  | Reserve bool string string string
  | Pass play_pass
  | Notice string string

fun run_call :: "play_env \<Rightarrow> play_call \<Rightarrow> (play_db, unit) prog" where
  "run_call pe (Buy g free newID provider token product base) = ignore (Process pe g free newID provider token product base)"
| "run_call pe (Reserve free provider product base) = ignore (Prepare pe free provider product base)"
| "run_call pe (Pass pw) = ignore (Reconcile pe pw)"
| "run_call pe (Notice i token) = ignore (record_notice pe i token)"

fun play_calls :: "play_env \<Rightarrow> (play_call \<times> fault list \<times> int) list \<Rightarrow> play_db \<Rightarrow> play_db" where
  "play_calls pe [] d = d"
| "play_calls pe ((c, fs, t) # cs) d = play_calls pe cs (db (snd (run_call pe c \<lparr>db = d, faults = fs, now = t\<rparr>)))"

section \<open>Amounts\<close>

text \<open>Google's units and nanos of an amount in kobo.\<close>

definition money_of :: "int \<Rightarrow> googleMoney" where
  "money_of k = \<lparr>gm_currency = ''NGN'', gm_units = dec_str (k div 100), gm_nanos = (k mod 100) * 10000000\<rparr>"

lemma digits_val_snoc: "digits_val (s @ [c]) = 10 * digits_val s + int (digit_val c)"
  by (simp add: digits_val_def)

lemma digit_char_val: "n < 10 \<Longrightarrow> digit_val (digit_char n) = n \<and> is_digit (digit_char n)"
  by (simp add: digit_val_def digit_char_def is_digit_def Let_def)

lemma dec_str_digits: "0 \<le> i \<Longrightarrow> digits_val (dec_str i) = i \<and> list_all is_digit (dec_str i) \<and> dec_str i \<noteq> []"
proof (induction i rule: dec_str.induct)
  case (1 i)
  show ?case
  proof (cases "i < 10")
    case True
    then show ?thesis using 1(2) digit_char_val [of "nat i"] by (subst (1 2 3) dec_str.simps) (simp add: digits_val_def)
  next
    case False
    then have "digits_val (dec_str (i div 10)) = i div 10 \<and> list_all is_digit (dec_str (i div 10))" using 1 by simp
    moreover have "digit_val (digit_char (nat (i mod 10))) = nat (i mod 10) \<and> is_digit (digit_char (nat (i mod 10)))"
      by (rule digit_char_val) linarith
    ultimately show ?thesis using False by (subst (1 2 3) dec_str.simps) (simp add: digits_val_snoc)
  qed
qed

lemma parse_int64_dec_str:
  assumes "0 \<le> i" "i < 2 ^ 63"
  shows "parse_int64 (dec_str i) = Some i"
proof -
  obtain c cs where s: "dec_str i = c # cs" using dec_str_digits [OF assms(1)] by (cases "dec_str i") auto
  then have "is_digit c" using dec_str_digits [OF assms(1)] by simp
  then have "c \<noteq> CHR ''-''" "c \<noteq> CHR ''+''" by (auto simp: is_digit_def)
  then show ?thesis using dec_str_digits [OF assms(1)] assms(2) s by (simp add: parse_int64_def)
qed

text \<open>
  Amounts in kobo survive Google's rendering in units and nanos: reading back the rendering of any
  amount the ledger can hold gives that amount, without overflow, and only an exact number of
  kobo in naira is ever read.
\<close>

theorem minor_roundtrip:
  assumes "0 \<le> k" "k \<le> 99999999999999"
  shows "minor (money_of k) = Inr k \<and>
    (\<forall>m. minor m = Inr k \<longrightarrow> gm_currency m = ''NGN'' \<and> parse_int64 (gm_units m) = Some (k div 100) \<and> gm_nanos m = (k mod 100) * 10000000)"
proof
  have "parse_int64 (dec_str (k div 100)) = Some (k div 100)" using assms by (intro parse_int64_dec_str) auto
  moreover have "k div 100 \<le> 999999999999" "0 \<le> k div 100" using assms by auto
  moreover have "\<not> k mod 100 < 0" "\<not> 100 \<le> k mod 100" by (simp_all add: not_less not_le)
  ultimately show "minor (money_of k) = Inr k"
    by (simp add: minor_def whole_kobo_def money_of_def)
next
  show "\<forall>m. minor m = Inr k \<longrightarrow> gm_currency m = ''NGN'' \<and> parse_int64 (gm_units m) = Some (k div 100) \<and> gm_nanos m = (k mod 100) * 10000000"
  proof (intro allI impI)
    fix m assume "minor m = Inr k"
    then obtain u where u: "parse_int64 (gm_units m) = Some u" "gm_currency m = ''NGN''" "0 \<le> gm_nanos m" "gm_nanos m < 1000000000"
      "gm_nanos m mod 10000000 = 0" "k = u * 100 + gm_nanos m div 10000000"
      by (auto simp: minor_def whole_kobo_def split: option.splits if_splits)
    then have "gm_nanos m = 10000000 * (gm_nanos m div 10000000)" "0 \<le> gm_nanos m div 10000000" "gm_nanos m div 10000000 < 100"
      by (auto simp: mult_div_mod_eq)
    then have "k div 100 = u" "k mod 100 = gm_nanos m div 10000000" using u(6) by auto
    then show "gm_currency m = ''NGN'' \<and> parse_int64 (gm_units m) = Some (k div 100) \<and> gm_nanos m = (k mod 100) * 10000000"
      using u \<open>gm_nanos m = 10000000 * (gm_nanos m div 10000000)\<close> by simp
  qed
qed

lemma minor_roundtrip_witness: "minor (money_of 250075) = Inr 250075 \<and> gm_units (money_of 250075) = ''2500'' \<and> gm_nanos (money_of 250075) = 750000000"
proof -
  have "minor (money_of 250075) = Inr 250075" by (rule minor_roundtrip [THEN conjunct1]) simp_all
  moreover have "gm_units (money_of 250075) = ''2500'' \<and> gm_nanos (money_of 250075) = 750000000" by code_simp
  ultimately show ?thesis by blast
qed

text \<open>The answers of Google a call uses satisfy \<open>ok\<close>.\<close>

fun allowed :: "(google \<Rightarrow> bool) \<Rightarrow> play_call \<Rightarrow> bool" where
  "allowed ok (Buy g free newID provider token product base) = ok g"
| "allowed ok (Pass pw) = (ok (pw_recover pw) \<and> ok (pw_refund pw) \<and> ok (pw_check pw))"
| "allowed ok _ = True"

section \<open>Relations the handlers keep\<close>

definition pc_owner :: "play_purchase \<Rightarrow> string \<times> string \<times> string \<times> string \<times> string" where
  "pc_owner p = (pc_hash p, pc_provider p, pc_subscription p, pc_product p, pc_base p)"

definition rj_owner :: "refund_job \<Rightarrow> string \<times> string" where
  "rj_owner j = (rj_hash j, rj_provider j)"

definition rc_owner :: "play_receipt \<Rightarrow> string \<times> string \<times> int \<times> bool" where
  "rc_owner r = (rc_order r, rc_subscription r, rc_amount r, rc_test r)"

text \<open>\<open>tidy d d'\<close>: the step touches neither subscriptions nor payments, and keeps the owners of
  purchases, receipts and refund jobs row by row. Every statement outside the transaction of
  \<open>Process\<close> is tidy.\<close>

definition tidy :: "play_db \<Rightarrow> play_db \<Rightarrow> bool" where
  "tidy d d' = (map pc_owner (purchases d') = map pc_owner (purchases d) \<and> map rj_owner (refunds d') = map rj_owner (refunds d) \<and>
     map rc_owner (receipts d') = map rc_owner (receipts d) \<and> subs d' = subs d \<and> finance d' = finance d \<and> mappings d' = mappings d)"

locale play_tables = guarantee R for R :: "play_db \<Rightarrow> play_db \<Rightarrow> bool" +
  assumes tidy: "tidy d d' \<Longrightarrow> R d d'"
begin

lemma map_upd: "(\<And>r. k (f r) = k r) \<Longrightarrow> map k (upd p f T) = map k T"
  by (induction T) auto

lemma keeps_google_post: "keeps R (post_google g e)"
  by (simp add: keeps_def post_google_def) (simp add: tidy tidy_def)

lemma keeps_tidy:
  assumes "\<And>d t a d'. f d t = Inr (a, d') \<Longrightarrow> tidy d d'"
  shows "keeps R (stmt f)"
  by (rule keeps_stmt, rule tidy, rule assms)

lemma keeps_Acknowledge: "keeps R (Acknowledge g n token want)"
  unfolding Acknowledge_def by (intro keeps_all keeps_google_post)

lemma keeps_Refund: "keeps R (RefundUnfulfilled g n token want)"
  unfolding RefundUnfulfilled_def by (intro keeps_all keeps_google_post)

lemma keeps_claim_refunds: "keeps R claim_refunds"
  unfolding claim_refunds_def Let_def by (rule keeps_tidy) (auto simp: tidy_def map_upd rj_owner_def)

lemma keeps_refund_one: "keeps R (refund_one pe g n j)"
  unfolding refund_one_def
  by (intro keeps_all keeps_Refund keeps_tidy) (auto simp: tidy_def map_upd rj_owner_def)

lemma keeps_reconcileRefunds: "keeps R (reconcileRefunds pe g n)"
  unfolding reconcileRefunds_def by (intro keeps_all keeps_for_each keeps_claim_refunds keeps_refund_one)

lemma keeps_confirm: "keeps R (confirm_acknowledged pe provider token subscription v)"
  unfolding confirm_acknowledged_def
  by (intro keeps_all keeps_tidy) (auto simp: tidy_def map_upd pc_owner_def rc_owner_def)

lemma keeps_bind_account: "keeps R (bind_account pe provider)"
  unfolding bind_account_def by (rule keeps_tidy) (auto simp: tidy_def split: if_splits)

lemma keeps_Prepare: "keeps R (Prepare pe free provider product base)"
  unfolding Prepare_def reserve_checkout_def
  by (intro keeps_all keeps_transaction_with keeps_bind_account keeps_tidy) (auto simp: tidy_def split: if_splits)

lemma keeps_notice: "keeps R (record_notice pe i token)"
  unfolding record_notice_def by (intro keeps_all keeps_tidy) (auto simp: tidy_def split: if_splits)

lemma keeps_queues: "keeps R claim_notices" "keeps R route_notices" "keeps R drop_old_notices" "keeps R claim_checks"
  unfolding claim_notices_def route_notices_def drop_old_notices_def claim_checks_def Let_def
  by (rule keeps_tidy; auto simp: tidy_def map_upd pc_owner_def)+

end

locale play_guarantee = play_tables R for R :: "play_db \<Rightarrow> play_db \<Rightarrow> bool" +
  fixes pe :: play_env and ok :: "google \<Rightarrow> bool"
  assumes transaction: "ok g \<Longrightarrow> uuid_ok (pe_env pe) provider \<Longrightarrow>
    keeps R (process_transaction pe g free newID provider token product base)"
begin

lemma keeps_Process:
  assumes "ok g"
  shows "keeps R (Process pe g free newID provider token product base)"
proof (cases "uuid_ok (pe_env pe) provider")
  case True
  have tail: "keeps R (bind (process_transaction pe g free newID provider token product base) f)" if "\<And>o'. keeps R (f o')" for f :: "processed \<Rightarrow> (play_db, Result) prog"
    by (rule keeps_bind [OF transaction [OF assms True] that])
  have "keeps R (case o' of
       Answer r \<Rightarrow> ret r
     | Refunding \<Rightarrow> bind (ignore (reconcileRefunds pe g 3)) (\<lambda>_. ret (refund_result ''requested''))
     | Applied want v subscription \<Rightarrow>
         bind (ignore (stmt (\<lambda>d t. Inr ((), d\<lparr>intents := filter (\<lambda>(p, _). p \<noteq> provider) (intents d)\<rparr>)))) (\<lambda>_.
         bind (if vf_needs v then attempt (Acknowledge g 1 token want) else ret (Inl NoRows)) (\<lambda>ack.
         let needs = (vf_needs v \<and> isl ack) in
         if vf_active v \<and> \<not> needs then
           bind (attempt (confirm_acknowledged pe provider token subscription v)) (\<lambda>r.
           ret ((result_of v)\<lparr>rs_needs := isl r\<rparr>))
         else ret ((result_of v)\<lparr>rs_needs := needs\<rparr>))))" for o'
    by (cases o') (auto intro!: keeps_all keeps_reconcileRefunds keeps_Acknowledge keeps_confirm keeps_tidy simp: tidy_def)
  then show ?thesis unfolding Process_def by (intro keeps_bind [OF keeps_require] tail)
next
  case False
  then show ?thesis by (auto simp: Process_def require_def keeps_def bind_def fail_def refl)
qed

lemma keeps_call: "allowed ok c \<Longrightarrow> keeps R (run_call pe c)"
proof (cases c)
  case (Pass pw)
  assume "allowed ok c"
  then have ok: "ok (pw_recover pw)" "ok (pw_check pw)" using Pass by auto
  have "keeps R (recover_one pe pw e)" for e
    unfolding recover_one_def
    by (intro keeps_all keeps_Process ok keeps_tidy) (auto simp: tidy_def)
  moreover have "keeps R (check_one pe pw p)" for p
    unfolding check_one_def by (intro keeps_all keeps_Process ok)
  ultimately show ?thesis unfolding Pass run_call.simps Reconcile_def recoverNotificationPurchases_def Let_def
    by (intro keeps_all keeps_for_each keeps_collect keeps_queues keeps_reconcileRefunds)
qed (auto intro!: keeps_ignore keeps_Process keeps_Prepare keeps_notice)

lemma keeps_calls: "list_all (\<lambda>(c, _). allowed ok c) cs \<Longrightarrow> R d (play_calls pe cs d)"
proof (induction cs arbitrary: d)
  case (Cons c cs)
  obtain x fs t where c: "c = (x, fs, t)" by (cases c)
  have "keeps R (run_call pe x)" using Cons.prems c by (intro keeps_call) simp
  then have "R d (db (snd (run_call pe x \<lparr>db = d, faults = fs, now = t\<rparr>)))" by (auto simp: keeps_def dest: spec [of _ "\<lparr>db = d, faults = fs, now = t\<rparr>"])
  with Cons c show ?case by (auto intro: trans)
qed (simp add: refl)

end

section \<open>Ownership\<close>

definition play_books :: "play_db \<Rightarrow> bool" where
  "play_books d = (distinct (map pc_hash (purchases d)) \<and> distinct (map rc_order (receipts d)) \<and> distinct (map py_tx (finance d)) \<and>
     (\<forall>p \<in> set (finance d). \<exists>r \<in> set (receipts d). rc_order r = py_tx p \<and> rc_subscription r = py_subscription p))"

definition play_owned :: "play_db \<Rightarrow> play_db \<Rightarrow> bool" where
  "play_owned d d' = (pc_owner ` set (purchases d) \<subseteq> pc_owner ` set (purchases d') \<and>
     rc_owner ` set (receipts d) \<subseteq> rc_owner ` set (receipts d') \<and> set (finance d) \<subseteq> set (finance d') \<and>
     (play_books d \<longrightarrow> play_books d'))"

lemma tidy_books:
  assumes "tidy d d'"
  shows "play_books d' = play_books d"
proof -
  have k: "map pc_hash T = map fst (map pc_owner T)" "map rc_order U = map fst (map rc_owner U)" for T U
    by (simp_all add: pc_owner_def rc_owner_def)
  have r: "(\<exists>r \<in> set U. rc_order r = a \<and> rc_subscription r = b) = ((a, b) \<in> set (map (\<lambda>(x, y, _). (x, y)) (map rc_owner U)))" for U a b
    by (force simp: rc_owner_def)
  show ?thesis using assms unfolding play_books_def k r by (simp add: tidy_def)
qed

interpretation owned: play_tables play_owned
proof unfold_locales
  show "play_owned d d" for d by (simp add: play_owned_def)
  show "play_owned a b \<Longrightarrow> play_owned b c \<Longrightarrow> play_owned a c" for a b c
    by (simp add: play_owned_def) (meson subset_trans)
  show "play_owned d d'" if t: "tidy d d'" for d d'
  proof -
    have "pc_owner ` set (purchases d') = pc_owner ` set (purchases d)" "rc_owner ` set (receipts d') = rc_owner ` set (receipts d)"
      using t unfolding tidy_def by (metis list.set_map)+
    then show ?thesis using t tidy_books [OF t] by (simp add: play_owned_def tidy_def)
  qed
qed

lemma owned_frame:
  assumes "purchases d' = purchases d" "receipts d' = receipts d" "finance d' = finance d"
  shows "play_owned d d'"
  using assms by (simp add: play_owned_def play_books_def)

lemma owned_new_purchase:
  assumes "\<forall>q \<in> set (purchases d). pc_hash q \<noteq> pc_hash p"
  shows "play_owned d (d\<lparr>purchases := purchases d @ [p]\<rparr>)"
  using assms by (auto simp: play_owned_def play_books_def)

lemma owned_touch_purchases:
  assumes "\<And>q. pc_owner (f q) = pc_owner q"
  shows "play_owned d (d\<lparr>purchases := upd c f (purchases d)\<rparr>)"
  using owned.map_upd [of pc_owner f c "purchases d", OF assms] by (intro owned.tidy) (simp add: tidy_def)

lemma owned_new_receipt:
  assumes "\<forall>q \<in> set (receipts d). rc_order q \<noteq> rc_order r"
  shows "play_owned d (d\<lparr>receipts := receipts d @ [r]\<rparr>)"
  using assms by (auto simp: play_owned_def play_books_def)

lemma owned_new_payment:
  assumes "\<forall>q \<in> set (finance d). py_tx q \<noteq> py_tx p"
    and "\<exists>x \<in> set (receipts d). rc_order x = py_tx p \<and> rc_subscription x = py_subscription p"
  shows "play_owned d (d\<lparr>finance := finance d @ [p]\<rparr>)"
  using assms by (auto simp: play_owned_def play_books_def)

lemma owned_save_purchase: "keeps play_owned (save_purchase p)"
  unfolding save_purchase_def
proof (rule owned.keeps_stmt)
  fix d d' :: play_db and t a
  assume f: "(if list_ex (\<lambda>q. pc_hash q = pc_hash p) (purchases d) then
       (let same = (\<lambda>q. pc_hash q = pc_hash p \<and> pc_provider q = pc_provider p \<and> pc_subscription q = pc_subscription p)
        in Inr (cnt same (purchases d), d\<lparr>purchases := upd same (\<lambda>q. q\<lparr>pc_token := pc_token p, pc_state := pc_state p,
            pc_auto := pc_auto p, pc_needs := pc_needs p, pc_checked := t, pc_next := pc_next p\<rparr>) (purchases d)\<rparr>))
     else if list_ex (\<lambda>q. pc_subscription q = pc_subscription p) (purchases d)
     then Inl (Constraint ''play_provider_purchases_subscription_id_key'')
     else Inr (1, d\<lparr>purchases := purchases d @ [p\<lparr>pc_checked := t\<rparr>]\<rparr>)) = Inr (a, d')"
  show "play_owned d d'"
  proof (cases "list_ex (\<lambda>q. pc_hash q = pc_hash p) (purchases d)")
    case True
    then show ?thesis using f by (auto simp: Let_def pc_owner_def intro!: owned_touch_purchases)
  next
    case False
    then have "d' = d\<lparr>purchases := purchases d @ [p\<lparr>pc_checked := t\<rparr>]\<rparr>" using f by (auto split: if_splits)
    moreover have "\<forall>q \<in> set (purchases d). pc_hash q \<noteq> pc_hash (p\<lparr>pc_checked := t\<rparr>)" using False by (simp add: list_ex_iff)
    ultimately show ?thesis by (simp only: owned_new_purchase)
  qed
qed

lemma owned_open_subscription: "keeps play_owned (open_subscription i provider m email)"
  unfolding open_subscription_def by (rule owned.keeps_stmt) (auto intro!: owned_frame split: if_splits)

lemma owned_queue_refund: "keeps play_owned (queue_refund h provider product base e)"
  unfolding queue_refund_def by (rule owned.keeps_stmt) (auto intro!: owned_frame)

lemma save_receipt_owned:
  "wp t (attempt (save_receipt subscription v)) (\<lambda>r d'. play_owned d d' \<and> (r = Inr subscription \<longrightarrow>
      (\<exists>x \<in> set (receipts d'). rc_order x = vf_order v \<and> rc_subscription x = subscription))) (\<lambda>_ _. False) d"
proof (cases "find (\<lambda>r. rc_order r = vf_order v) (receipts d)")
  case (Some r)
  then have "r \<in> set (receipts d)" "rc_order r = vf_order v" by (auto dest: find_Some_D)
  then show ?thesis using Some unfolding save_receipt_def by (intro wp_attempt wp_stmt) (auto simp: owned.refl)
next
  case None
  then have "\<forall>q \<in> set (receipts d). rc_order q \<noteq> vf_order v" by (auto simp: find_None_iff)
  then show ?thesis using None unfolding save_receipt_def
    by (intro wp_attempt wp_stmt) (auto simp: owned.refl intro!: owned_new_receipt)
qed

lemma save_payment_owned:
  fixes d :: play_db
  assumes "\<exists>x \<in> set (receipts d). rc_order x = vf_order v \<and> rc_subscription x = subscription"
  shows "wp t (save_payment subscription v) (\<lambda>_. play_owned d) (\<lambda>_. play_owned d) d"
proof (cases "play_payment_rows subscription v t d")
  case Nil
  then show ?thesis unfolding save_payment_def by (intro wp_stmt) (auto simp: owned.refl)
next
  case (Cons p ps)
  then have "py_tx p = vf_order v" "py_subscription p = subscription"
    by (auto simp: play_payment_rows_def split: option.splits)
  then have "play_owned d (d\<lparr>finance := finance d @ [p]\<rparr>)"
    if "\<not> list_ex (\<lambda>q. py_tx q = py_tx p \<or> py_idem q = py_idem p) (finance d)"
    using assms that by (intro owned_new_payment) (auto simp: list_ex_iff)
  then show ?thesis using Cons unfolding save_payment_def
    by (intro wp_stmt) (auto simp: owned.refl simp del: list_ex_iff split: if_splits)
qed

lemma wp_book_order: "wp t (book_order subscription v) (\<lambda>_. play_owned d) (\<lambda>_. play_owned d) d"
proof -
  show ?thesis unfolding book_order_def
  proof (rule wp_bind, rule wp_mono [OF save_receipt_owned])
    fix r d1 assume r: "play_owned d d1 \<and> (r = Inr subscription \<longrightarrow>
      (\<exists>x \<in> set (receipts d1). rc_order x = vf_order v \<and> rc_subscription x = subscription))"
    show "wp t (bind (require (r = Inr subscription) (Msg ''Billing order ownership could not be committed'')) (\<lambda>_.
       if vf_test v then ret ()
       else bind (or_else (save_payment subscription v) (Msg ''Billing financial receipt could not be committed'')) (\<lambda>_.
         bind (attempt (query (\<lambda>d t. row (payment_owner (vf_order v) d)))) (\<lambda>owner.
         require (owner = Inr subscription) (Msg ''Billing financial receipt ownership conflict''))))) (\<lambda>_. play_owned d) (\<lambda>_. play_owned d) d1"
    proof (rule wp_bind, rule wp_require)
      assume "r = Inr subscription"
      with r have "wp t (save_payment subscription v) (\<lambda>_. play_owned d1) (\<lambda>_. play_owned d1) d1" by (intro save_payment_owned) auto
      then show "wp t (if vf_test v then ret ()
       else bind (or_else (save_payment subscription v) (Msg ''Billing financial receipt could not be committed'')) (\<lambda>_.
         bind (attempt (query (\<lambda>d t. row (payment_owner (vf_order v) d)))) (\<lambda>owner.
         require (owner = Inr subscription) (Msg ''Billing financial receipt ownership conflict'')))) (\<lambda>_. play_owned d) (\<lambda>_. play_owned d) d1"
        using r owned.trans [of d d1]
        by (intro wp_if wp_ret wp_bind wp_or_else) (auto elim!: wp_mono intro!: wp_bind wp_attempt wp_query wp_require)
    qed (use r in auto)
  qed auto
qed

lemma owned_apply: "keeps play_owned (apply_receipt pe provider token product base subscription v)"
proof -
  have "keeps play_owned (book_order subscription v)" by (rule keeps_wp) (rule wp_book_order)
  then show ?thesis unfolding apply_receipt_def
    by (intro owned.keeps_all owned_save_purchase owned.keeps_stmt) (auto simp: play_owned_def play_books_def)
qed

lemma owned_transaction: "keeps play_owned (process_transaction pe g free newID provider token product base)"
  unfolding process_transaction_def verify_and_apply_def first_purchase_def Let_def
  by (intro owned.keeps_all owned.keeps_bind_account owned_apply owned_queue_refund owned_open_subscription)

interpretation owned_calls: play_guarantee play_owned pe "\<lambda>_. True" for pe
  by unfold_locales (rule owned_transaction)

text \<open>
  C40. Every order is booked once and everything keeps its owner: over any history of purchases,
  checkouts, notifications and reconciliation passes, whatever Google answers and however the
  database fails, a purchase token stays with its provider, subscription and product, an order
  number has one receipt and at most one payment, both for the same subscription, and no receipt
  or payment is ever lost or changed in amount.
\<close>

theorem play_orders_owned:
  assumes "play_books d" "d' = play_calls pe cs d"
  shows "play_books d' \<and> set (finance d) \<subseteq> set (finance d') \<and>
    (\<forall>p \<in> set (purchases d). \<exists>p' \<in> set (purchases d'). pc_owner p' = pc_owner p) \<and>
    (\<forall>r \<in> set (receipts d). \<exists>r' \<in> set (receipts d'). rc_owner r' = rc_owner r)"
proof -
  have "allowed (\<lambda>_. True) c" for c by (cases c) auto
  then have "list_all (\<lambda>(c, _). allowed (\<lambda>_. True) c) cs" by (auto simp: list_all_iff)
  from owned_calls.keeps_calls [OF this, of d] have "play_owned d d'" using assms(2) by simp
  then have "pc_owner ` set (purchases d) \<subseteq> pc_owner ` set (purchases d')" "rc_owner ` set (receipts d) \<subseteq> rc_owner ` set (receipts d')"
    "set (finance d) \<subseteq> set (finance d')" "play_books d'" using assms(1) by (auto simp: play_owned_def)
  moreover from this(1) have "\<exists>p' \<in> set (purchases d'). pc_owner p' = pc_owner p" if "p \<in> set (purchases d)" for p
    using that by fastforce
  moreover from calculation(2) have "\<exists>r' \<in> set (receipts d'). rc_owner r' = rc_owner r" if "r \<in> set (receipts d)" for r
    using that by fastforce
  ultimately show ?thesis by blast
qed

section \<open>Granted or refunded\<close>

text \<open>Google names one account per purchase token, and no other provider has that account id: \<open>own\<close> is
  the provider whose account the receipts of a token (known by its hash) can name.\<close>

definition one_owner :: "play_env \<Rightarrow> (string \<Rightarrow> string) \<Rightarrow> google \<Rightarrow> bool" where
  "one_owner pe own g = (\<forall>n token code receipt q. g_receipt g n (receipt_endpoint token) = Some (code, Some receipt) \<and>
     uuid_ok (pe_env pe) q \<and> pu_account receipt = AccountID pe q \<longrightarrow> q = own (TokenHash pe token))"

definition exclusive :: "(string \<Rightarrow> string) \<Rightarrow> play_db \<Rightarrow> bool" where
  "exclusive own d = (\<forall>j \<in> set (refunds d). rj_provider j = own (rj_hash j) \<and> (\<forall>p \<in> set (purchases d). pc_hash p \<noteq> rj_hash j))"

definition kept_exclusive :: "(string \<Rightarrow> string) \<Rightarrow> play_db \<Rightarrow> play_db \<Rightarrow> bool" where
  "kept_exclusive own d d' = (exclusive own d \<longrightarrow> exclusive own d')"

lemma exclusive_owners:
  "exclusive own d = (\<forall>x \<in> rj_owner ` set (refunds d). snd x = own (fst x) \<and> (\<forall>y \<in> pc_owner ` set (purchases d). fst y \<noteq> fst x))"
  by (simp add: exclusive_def rj_owner_def pc_owner_def)

interpretation exclusive: play_tables "kept_exclusive own" for own
proof unfold_locales
  show "kept_exclusive own d d'" if t: "tidy d d'" for d d'
  proof -
    have "pc_owner ` set (purchases d') = pc_owner ` set (purchases d)" "rj_owner ` set (refunds d') = rj_owner ` set (refunds d)"
      using t unfolding tidy_def by (metis list.set_map)+
    then show ?thesis by (simp add: kept_exclusive_def exclusive_owners)
  qed
qed (auto simp: kept_exclusive_def)

lemma Verify_receipt:
  assumes "Verify g n token want t = Inr v"
  shows "\<exists>receipt. g_receipt g n (receipt_endpoint token) = Some (200, Some receipt) \<and> pu_account receipt = ex_account want \<and>
    (\<exists>v0. validate receipt want t = Inr v0 \<and> v = v0\<lparr>vf_amount := vf_amount v\<rparr> \<and>
      (vf_active v0 \<and> ex_order want \<longrightarrow> verifyOrder g n token v0 want = Inr (vf_amount v)))"
proof -
  obtain receipt v0 where r: "g_receipt g n (receipt_endpoint token) = Some (200, Some receipt)" "validate receipt want t = Inr v0"
    "v = v0 \<and> \<not> (vf_active v0 \<and> ex_order want) \<or> (\<exists>a. verifyOrder g n token v0 want = Inr a \<and> v = v0\<lparr>vf_amount := a\<rparr>)"
    using assms by (auto simp: Verify_def split: if_splits option.splits sum.splits prod.splits)
  moreover from r(2) have "pu_account receipt = ex_account want"
    by (auto simp: validate_def Let_def split: list.splits if_splits)
  ultimately show ?thesis by auto
qed

definition unclaimed :: "(string \<Rightarrow> string) \<Rightarrow> string \<Rightarrow> play_db \<Rightarrow> bool" where
  "unclaimed own h d = (exclusive own d \<and> (\<forall>j \<in> set (refunds d). rj_hash j \<noteq> h))"

definition same_claims :: "play_db \<Rightarrow> play_db \<Rightarrow> bool" where
  "same_claims d d' = (refunds d' = refunds d \<and> map pc_hash (purchases d') = map pc_hash (purchases d))"

interpretation claims: guarantee same_claims
  by unfold_locales (auto simp: same_claims_def)

lemma same_claims_hashes: "same_claims d d' \<Longrightarrow> pc_hash ` set (purchases d') = pc_hash ` set (purchases d)"
  unfolding same_claims_def by (metis list.set_map)

lemma same_claims_unclaimed: "same_claims d d' \<Longrightarrow> unclaimed own h d \<Longrightarrow> unclaimed own h d'"
proof -
  assume s: "same_claims d d'" and u: "unclaimed own h d"
  have "pc_hash ` set (purchases d') = pc_hash ` set (purchases d)" by (rule same_claims_hashes [OF s])
  then show ?thesis using s u unfolding unclaimed_def exclusive_def same_claims_def by (metis image_iff)
qed

lemma same_claims_exclusive: "same_claims d d' \<Longrightarrow> exclusive own d \<Longrightarrow> exclusive own d'"
proof -
  assume s: "same_claims d d'" and u: "exclusive own d"
  have "pc_hash ` set (purchases d') = pc_hash ` set (purchases d)" by (rule same_claims_hashes [OF s])
  then show ?thesis using s u unfolding exclusive_def same_claims_def by (metis image_iff)
qed

lemma claims_book: "keeps same_claims (book_order subscription v)"
  unfolding book_order_def save_receipt_def save_payment_def
  by (intro claims.keeps_all claims.keeps_stmt) (auto simp: same_claims_def split: option.splits list.splits if_splits)

lemma save_purchase_exclusive:
  assumes "unclaimed own (pc_hash p) d"
  shows "wp t (save_purchase p) (\<lambda>_. exclusive own) (\<lambda>_ _. True) d"
proof -
  have "kept_exclusive own d (d\<lparr>purchases := upd c (\<lambda>q. q\<lparr>pc_token := pc_token p, pc_state := pc_state p,
            pc_auto := pc_auto p, pc_needs := pc_needs p, pc_checked := t, pc_next := pc_next p\<rparr>) (purchases d)\<rparr>)" for c
    by (rule exclusive.tidy) (simp add: tidy_def exclusive.map_upd pc_owner_def)
  moreover have "exclusive own (d\<lparr>purchases := purchases d @ [p\<lparr>pc_checked := t\<rparr>]\<rparr>)"
    using assms by (auto simp: unclaimed_def exclusive_def)
  ultimately show ?thesis using assms unfolding save_purchase_def kept_exclusive_def unclaimed_def
    by (intro wp_stmt) (auto simp: Let_def split: if_splits)
qed

lemma wp_checked:
  assumes "wp t m (\<lambda>_. I) (\<lambda>_ _. True) d" and f: "\<And>d'. I d' \<Longrightarrow> wp t (f ()) (\<lambda>_. J) (\<lambda>_ _. True) d'"
  shows "wp t (bind (attempt m) (\<lambda>r. bind (require (r = Inr x) e) f)) (\<lambda>_. J) (\<lambda>_ _. True) d"
proof -
  have "wp t (bind (require (r = Inr x) e) f) (\<lambda>_. J) (\<lambda>_ _. True) d'" if "\<not> isl r \<longrightarrow> I d'" for r and d'
    using that f by (intro wp_bind wp_require) auto
  note k = this
  show ?thesis by (rule wp_bind, rule wp_attempt, rule wp_mono [OF assms(1)]) (rule k, simp)+
qed

lemma apply_exclusive:
  assumes "unclaimed own (TokenHash pe token) d"
  shows "wp t (apply_receipt pe provider token product base subscription v) (\<lambda>_. exclusive own) (\<lambda>_ _. True) d"
proof -
  have rest: "wp t (bind (if vf_active v then book_order subscription v else ret ()) (\<lambda>_.
     or_else (stmt (\<lambda>d t. Inr ((), d\<lparr>subs := upd (\<lambda>s. ps_id s = subscription \<and> ps_billing s = ''google_play'') (entitle v t) (subs d)\<rparr>)))
       (Msg ''Billing entitlement could not be committed''))) (\<lambda>_. exclusive own) (\<lambda>_ _. True) d1" if "exclusive own d1" for d1
  proof (rule wp_keeps [where R = same_claims])
    show "keeps same_claims (bind (if vf_active v then book_order subscription v else ret ()) (\<lambda>_.
     or_else (stmt (\<lambda>d t. Inr ((), d\<lparr>subs := upd (\<lambda>s. ps_id s = subscription \<and> ps_billing s = ''google_play'') (entitle v t) (subs d)\<rparr>)))
       (Msg ''Billing entitlement could not be committed'')))"
      by (intro claims.keeps_all claims_book claims.keeps_stmt) (auto simp: same_claims_def)
  qed (use that same_claims_exclusive in auto)
  show ?thesis unfolding apply_receipt_def
  proof (rule wp_bind, rule wp_clock, cases "Seal pe provider token")
    case (Inr encrypted)
    let ?p = "purchase_row pe (TokenHash pe token) provider subscription product base encrypted v t"
    have "wp t (save_purchase ?p) (\<lambda>_. exclusive own) (\<lambda>_ _. True) d"
      by (rule save_purchase_exclusive) (use assms in \<open>simp add: purchase_row_def\<close>)
    then show "wp t (case Seal pe provider token of Inl e \<Rightarrow> fail e | Inr encrypted \<Rightarrow>
     bind (attempt (save_purchase (purchase_row pe (TokenHash pe token) provider subscription product base encrypted v t))) (\<lambda>rows.
     bind (require (rows = Inr 1) (Msg ''Billing token ownership could not be committed'')) (\<lambda>_.
     bind (if vf_active v then book_order subscription v else ret ()) (\<lambda>_.
     or_else (stmt (\<lambda>d t. Inr ((), d\<lparr>subs := upd (\<lambda>s. ps_id s = subscription \<and> ps_billing s = ''google_play'') (entitle v t) (subs d)\<rparr>)))
       (Msg ''Billing entitlement could not be committed''))))) (\<lambda>_. exclusive own) (\<lambda>_ _. True) d"
      unfolding Inr sum.case
      by (rule wp_checked) (rule rest)
  qed (simp add: wp_fail)
qed

lemma first_purchase_exclusive:
  assumes "unclaimed own (TokenHash pe token) d" "own (TokenHash pe token) = provider"
    and "\<forall>p \<in> set (purchases d). pc_hash p \<noteq> TokenHash pe token"
  shows "wp t (first_purchase pe provider token product base newID m email v)
    (\<lambda>r d'. case r of None \<Rightarrow> unclaimed own (TokenHash pe token) d' | Some (Commit _) \<Rightarrow> exclusive own d' | Some (Abandon _) \<Rightarrow> True) (\<lambda>_ _. True) d"
proof -
  have refund: "wp t (queue_refund (TokenHash pe token) provider product base encrypted) (\<lambda>_. exclusive own) (\<lambda>_ _. True) d" for encrypted
    unfolding queue_refund_def by (intro wp_stmt) (use assms in \<open>auto simp: unclaimed_def exclusive_def\<close>)
  have sub: "wp t (open_subscription newID provider m email) (\<lambda>_. unclaimed own (TokenHash pe token)) (\<lambda>_ _. True) d"
    unfolding open_subscription_def by (intro wp_stmt) (use assms in \<open>auto simp: unclaimed_def exclusive_def split: if_splits\<close>)
  show ?thesis unfolding first_purchase_def
    by (intro wp_if wp_ret wp_bind wp_or_else wp_query wp_sum wp_fail)
      (auto intro!: wp_ret wp_mono [OF refund] wp_mono [OF sub])
qed

lemma process_tail_exclusive:
  assumes "unclaimed own (TokenHash pe token) d"
    and "old = None \<Longrightarrow> own (TokenHash pe token) = provider \<and> (\<forall>p \<in> set (purchases d). pc_hash p \<noteq> TokenHash pe token)"
  shows "wp t (bind (if old = None then first_purchase pe provider token product base newID m email v else ret None) (\<lambda>done1.
     case done1 of
       Some r \<Rightarrow> ret r
     | None \<Rightarrow> bind (apply_receipt pe provider token product base subscription v) (\<lambda>_.
       ret (Commit (Applied want v subscription))))) (\<lambda>r d'. case r of Commit _ \<Rightarrow> exclusive own d' | Abandon _ \<Rightarrow> True) (\<lambda>_ _. True) d"
proof -
  have "wp t (if old = None then first_purchase pe provider token product base newID m email v else ret None)
    (\<lambda>r d'. case r of None \<Rightarrow> unclaimed own (TokenHash pe token) d' | Some (Commit _) \<Rightarrow> exclusive own d' | Some (Abandon _) \<Rightarrow> True) (\<lambda>_ _. True) d"
    using assms by (intro wp_if first_purchase_exclusive wp_ret) auto
  then show ?thesis
    by (rule wp_bind [OF wp_mono])
      (auto intro!: wp_ret wp_bind wp_mono [OF apply_exclusive] split: option.splits outcome.splits)
qed

lemma claims_bind_account: "keeps same_claims (bind_account pe provider)"
  unfolding bind_account_def by (rule claims.keeps_stmt) (auto simp: same_claims_def split: if_splits)

text \<open>What the transaction has found out when it binds the account: no refund job of this
  token and provider, and the purchase row of the token.\<close>

lemma bound_exclusive:
  assumes g: "one_owner pe own g" "uuid_ok (pe_env pe) provider"
    and d: "exclusive own d" "find (\<lambda>j. rj_hash j = TokenHash pe token \<and> rj_provider j = provider) (refunds d) = None"
    and old: "old = find (\<lambda>p. pc_hash p = TokenHash pe token) (purchases d)"
  shows "wp t (verify_and_apply pe g newID provider token product base m email old)
    (\<lambda>r d'. case r of Commit _ \<Rightarrow> exclusive own d' | Abandon _ \<Rightarrow> True) (\<lambda>_ _. True) d"
  unfolding verify_and_apply_def Let_def
proof (rule wp_bind, rule wp_or_else, rule wp_keeps [OF claims_bind_account], rule wp_bind, rule wp_clock, rule wp_sum,
    rule wp_fail, rule TrueI)
  fix d' v assume same: "same_claims d d'" and v: "Verify g 0 token (expected_of pe provider product base m) t = Inr v"
  have own: "own (TokenHash pe token) = provider"
    using Verify_receipt [OF v] g by (auto simp: one_owner_def expected_of_def)
  have fresh: "\<forall>p \<in> set (purchases d'). pc_hash p \<noteq> TokenHash pe token" if "old = None"
  proof -
    have "TokenHash pe token \<notin> pc_hash ` set (purchases d)" using that old by (auto simp: find_None_iff)
    then have "TokenHash pe token \<notin> pc_hash ` set (purchases d')" by (simp only: same_claims_hashes [OF same] not_False_eq_True)
    then show ?thesis by (metis imageI)
  qed
  have "\<forall>j \<in> set (refunds d). rj_hash j \<noteq> TokenHash pe token"
    using d own by (auto simp: exclusive_def find_None_iff)
  then have "unclaimed own (TokenHash pe token) d'"
    using same_claims_unclaimed [OF same] d(1) by (simp add: unclaimed_def)
  from process_tail_exclusive [OF this] own fresh
  show "wp t (bind (if old = None then first_purchase pe provider token product base newID m email v else ret None) (\<lambda>done1.
     case done1 of
       Some r \<Rightarrow> ret r
     | None \<Rightarrow> bind (apply_receipt pe provider token product base (case old of Some p \<Rightarrow> pc_subscription p | None \<Rightarrow> newID) v) (\<lambda>_.
       ret (Commit (Applied (expected_of pe provider product base m) v (case old of Some p \<Rightarrow> pc_subscription p | None \<Rightarrow> newID))))))
    (\<lambda>r d'. case r of Commit _ \<Rightarrow> exclusive own d' | Abandon _ \<Rightarrow> True) (\<lambda>_ _. True) d'" by blast
qed simp

text \<open>The transaction keeps whatever its last part keeps.\<close>

lemma wp_process_transaction:
  fixes d :: play_db
  assumes d: "I d" and rest: "\<And>m email. find (\<lambda>j. rj_hash j = TokenHash pe token \<and> rj_provider j = provider) (refunds d) = None \<Longrightarrow>
    find_mapping product base d = Some m \<Longrightarrow> (\<And>p. find (\<lambda>p. pc_hash p = TokenHash pe token) (purchases d) = Some p \<Longrightarrow> pc_provider p = provider) \<Longrightarrow>
    wp t (verify_and_apply pe g newID provider token product base m email (find (\<lambda>p. pc_hash p = TokenHash pe token) (purchases d)))
      (\<lambda>r d'. case r of Commit _ \<Rightarrow> I d' | Abandon _ \<Rightarrow> True) (\<lambda>_ _. True) d"
  shows "wp t (process_transaction pe g free newID provider token product base) (\<lambda>_. I) (\<lambda>_. I) d"
proof -
  let ?Q = "\<lambda>r d'. case r of Commit _ \<Rightarrow> I d' | Abandon _ \<Rightarrow> True"
  have found: "wp t (attempt (query (\<lambda>d t. row (f d)))) Q E d" if "\<And>a. f d = Some a \<Longrightarrow> Q (Inr a) d" "f d = None \<Longrightarrow> Q (Inl NoRows) d"
      "\<And>x. Q (Inl (Fault x)) d" for f :: "play_db \<Rightarrow> 'x option" and Q E
    using that by (intro wp_attempt wp_query) (auto simp: row_def split: option.splits)
  have tail: "wp t (let old = (case owned of Inr p \<Rightarrow> Some p | Inl _ \<Rightarrow> None) in
     bind (require (case old of Some p \<Rightarrow> pc_provider p = provider \<and> pc_product p = product \<and> pc_base p = base
         | None \<Rightarrow> enabled \<and> eligible) ErrIneligible) (\<lambda>_.
     verify_and_apply pe g newID provider token product base m email old)) ?Q (\<lambda>_ _. True) d"
    if "find (\<lambda>j. rj_hash j = TokenHash pe token \<and> rj_provider j = provider) (refunds d) = None" "find_mapping product base d = Some m"
      "(case owned of Inr p \<Rightarrow> Some p | Inl _ \<Rightarrow> None) = find (\<lambda>p. pc_hash p = TokenHash pe token) (purchases d)"
    for owned :: "err + play_purchase" and m email enabled eligible
    unfolding Let_def that(3) by (rule wp_bind, rule wp_require, rule rest [OF that(1,2)]) simp_all
  have plan: "find_mapping product base d = Some m" if "row (play_plan_of provider product base d) = Inr (m, x)" for m x
    using that by (auto simp: row_def play_plan_of_def split: option.splits)
  show ?thesis unfolding process_transaction_def
    apply (rule wp_transaction_or, rule d, rule d, rule wp_mono [where Q = ?Q and E = "\<lambda>_ _. True"])
      apply (intro wp_bind wp_or_else wp_lock wp_require TrueI found wp_sum wp_ret wp_fail wp_query wp_prod; (rule tail; simp add: plan)?)
      apply (simp_all add: row_def)
    using d by (auto split: outcome.splits)
qed

interpretation exclusive_calls: play_guarantee "kept_exclusive own" pe "one_owner pe own" for own pe
proof unfold_locales
  fix g provider free newID token product base
  assume g: "one_owner pe own g" "uuid_ok (pe_env pe) provider"
  show "keeps (kept_exclusive own) (process_transaction pe g free newID provider token product base)"
  proof (rule keeps_wp)
    fix t d
    show "wp t (process_transaction pe g free newID provider token product base) (\<lambda>_. kept_exclusive own d) (\<lambda>_. kept_exclusive own d) d"
    proof (cases "exclusive own d")
      case True
      then have "kept_exclusive own d = exclusive own" by (simp add: kept_exclusive_def fun_eq_iff)
      then show ?thesis using True by (auto intro!: wp_process_transaction bound_exclusive [OF g])
    next
      case False
      then show ?thesis by (intro wp_keeps [OF owned_transaction]) (simp_all add: kept_exclusive_def)
    qed
  qed
qed

text \<open>
  C39. A purchase is granted or refunded, never both. As long as Google names one account per
  purchase token and no two providers share an account id, no history of purchases,
  notifications and passes, with any answers and failures, queues a refund for a token that has
  a purchase row, or grants a purchase whose refund is queued; and every refund job
  belongs to the provider whose account Google names.
\<close>

theorem play_granted_or_refunded:
  assumes "exclusive own d" "list_all (\<lambda>(c, _). allowed (one_owner pe own) c) cs"
  shows "exclusive own (play_calls pe cs d)"
  using exclusive_calls.keeps_calls [OF assms(2), of d] assms(1) by (simp add: kept_exclusive_def)

section \<open>Confirmed by Google\<close>

text \<open>What Google itself answered when a subscription was last made active: the receipt of the token
  names the account of the provider, its one item is a configured product and plan, and the state
  and the expiry are those of a paid period that lasts beyond the check; the order is processed,
  belongs to the token and lists the configured price.\<close>

definition google_confirmed :: "play_env \<Rightarrow> play_product list \<Rightarrow> google \<Rightarrow> play_sub \<Rightarrow> bool" where
  "google_confirmed pe ms g s = (\<exists>token receipt x m o' l t e.
     g_receipt g 0 (receipt_endpoint token) = Some (200, Some receipt) \<and> pu_account receipt = AccountID pe (ps_provider s) \<and>
     pu_items receipt = [x] \<and> m \<in> set ms \<and> pm_product m = pi_product x \<and> pm_base m = pi_base x \<and>
     pu_state receipt \<in> {''SUBSCRIPTION_STATE_ACTIVE'', ''SUBSCRIPTION_STATE_IN_GRACE_PERIOD'', ''SUBSCRIPTION_STATE_CANCELED''} \<and>
     parse_rfc3339 (pi_expiry x) = Some e \<and> ps_end s = Some e \<and> ps_last s = Some t \<and> t < e \<and>
     g_order g 0 (google_api @ ''/orders/'' @ path_escape (pi_order x)) = Some (200, Some o') \<and>
     od_token o' = token \<and> od_id o' = pi_order x \<and> od_state o' = ''PROCESSED'' \<and> od_items o' = [l] \<and> minor (ol_price l) = Inr (pm_amount m))"

lemma validate_active:
  assumes "validate receipt want t = Inr v" "vf_active v"
  shows "\<exists>x. pu_items receipt = [x] \<and> pi_product x = ex_product want \<and> pi_base x = ex_base want \<and> pi_order x = vf_order v \<and>
    pu_state receipt \<in> {''SUBSCRIPTION_STATE_ACTIVE'', ''SUBSCRIPTION_STATE_IN_GRACE_PERIOD'', ''SUBSCRIPTION_STATE_CANCELED''} \<and>
    parse_rfc3339 (pi_expiry x) = Some (vf_expires v) \<and> t < vf_expires v \<and> \<not> vf_pending v"
proof -
  have period: "parse_rfc3339 (pi_expiry x) = Some (vf_expires v) \<and> paid \<and> t < vf_expires v \<and> \<not> vf_pending v \<and> vf_order v = pi_order x"
    if "validate_period receipt x want t paid = Inr v" for x paid
    using that assms(2) by (auto simp: validate_period_def validate_base_def Let_def split: option.splits if_splits)
  obtain x where x: "pu_items receipt = [x]" using assms(1) by (auto simp: validate_def split: list.splits)
  have pending: "((validate_base receipt x)\<lparr>vf_pending := True\<rparr> = v) = False" "((validate_base receipt x)\<lparr>vf_auto := False\<rparr> = v) = False"
    using assms(2) by (auto simp: validate_base_def)
  define live where "live = (pu_state receipt \<in> {''SUBSCRIPTION_STATE_ACTIVE'', ''SUBSCRIPTION_STATE_IN_GRACE_PERIOD'', ''SUBSCRIPTION_STATE_CANCELED''})"
  define lapsed where "lapsed = (pu_state receipt \<in> {''SUBSCRIPTION_STATE_ON_HOLD'', ''SUBSCRIPTION_STATE_PAUSED'', ''SUBSCRIPTION_STATE_EXPIRED''})"
  have err: "((if c then a else b) = Inr v) = (c \<and> a = Inr v \<or> \<not> c \<and> b = Inr v)" "(Inl e = Inr v) = False" for c e a b
    by auto
  have "live \<and> validate_period receipt x want t True = Inr v \<or> \<not> live \<and> validate_period receipt x want t False = Inr v"
    and "pi_product x = ex_product want \<and> pi_base x = ex_base want"
    using assms(1)
    unfolding validate_def x list.case Let_def err sum.inject pending live_def [symmetric] lapsed_def [symmetric] simp_thms
     apply -
     apply (elim conjE disjE)
      apply (rule disjI1, rule conjI, assumption+)
     apply (rule disjI2, rule conjI, assumption+)
    apply (simp only: de_Morgan_disj not_not)
    done
  then have "live \<and> parse_rfc3339 (pi_expiry x) = Some (vf_expires v) \<and> t < vf_expires v \<and> \<not> vf_pending v \<and> vf_order v = pi_order x"
    "pi_product x = ex_product want \<and> pi_base x = ex_base want"
    using period [of x True] period [of x False] by auto
  then show ?thesis unfolding live_def by (intro exI [of _ x] conjI; simp only: x simp_thms)
qed

lemma Verify_confirms:
  assumes "Verify g 0 token (expected_of pe provider product base m) t = Inr v" "vf_active v"
    and "m \<in> set ms" "pm_product m = product" "pm_base m = base" "ps_provider s = provider"
  shows "google_confirmed pe ms g (entitle v t s) \<and> \<not> vf_pending v"
proof -
  let ?want = "expected_of pe provider product base m"
  obtain receipt v0 where r: "g_receipt g 0 (receipt_endpoint token) = Some (200, Some receipt)" "pu_account receipt = ex_account ?want"
    "validate receipt ?want t = Inr v0" "v = v0\<lparr>vf_amount := vf_amount v\<rparr>"
    "vf_active v0 \<and> ex_order ?want \<longrightarrow> verifyOrder g 0 token v0 ?want = Inr (vf_amount v)"
    using Verify_receipt [OF assms(1)] by blast
  have act: "vf_active v0" "vf_expires v = vf_expires v0" "vf_pending v = vf_pending v0" using r(4) assms(2) by (cases v0, cases v, simp)+
  then have "verifyOrder g 0 token v0 ?want = Inr (vf_amount v)" using r(5) by (simp add: expected_of_def)
  then obtain o' where o': "g_order g 0 (google_api @ ''/orders/'' @ path_escape (vf_order v0)) = Some (200, Some o')"
    "check_order o' token v0 ?want = Inr (vf_amount v)"
    by (auto simp: verifyOrder_def split: if_splits option.splits prod.splits)
  then obtain l where l: "od_items o' = [l]" "od_token o' = token" "od_id o' = vf_order v0" "od_state o' = ''PROCESSED''" "minor (ol_price l) = Inr (ex_amount ?want)"
    by (auto simp: check_order_def split: list.splits if_splits)
  from validate_active [OF r(3) act(1)] obtain x where x: "pu_items receipt = [x]" "pi_product x = ex_product ?want" "pi_base x = ex_base ?want"
      "pi_order x = vf_order v0" "parse_rfc3339 (pi_expiry x) = Some (vf_expires v0)" "t < vf_expires v0" "\<not> vf_pending v0"
      "pu_state receipt \<in> {''SUBSCRIPTION_STATE_ACTIVE'', ''SUBSCRIPTION_STATE_IN_GRACE_PERIOD'', ''SUBSCRIPTION_STATE_CANCELED''}"
    by blast
  have "google_confirmed pe ms g (entitle v t s)"
    unfolding google_confirmed_def
    by (rule exI [of _ token], rule exI [of _ receipt], rule exI [of _ x], rule exI [of _ m], rule exI [of _ o'], rule exI [of _ l],
        rule exI [of _ t], rule exI [of _ "vf_expires v0"])
      (use r(1,2) x l o'(1) act assms in \<open>simp add: expected_of_def entitle_def\<close>)
  then show ?thesis using act x(7) by simp
qed

text \<open>Every purchase row belongs to the provider of its subscription.\<close>

definition linked :: "play_db \<Rightarrow> bool" where
  "linked d = (distinct (map ps_id (subs d)) \<and>
     (\<forall>p \<in> set (purchases d). \<exists>s \<in> set (subs d). ps_id s = pc_subscription p \<and> ps_provider s = pc_provider p))"

definition backed :: "play_env \<Rightarrow> (google \<Rightarrow> bool) \<Rightarrow> play_db \<Rightarrow> play_db \<Rightarrow> bool" where
  "backed pe ok d d' = (mappings d' = mappings d \<and> (linked d \<longrightarrow> linked d' \<and>
     (\<forall>s \<in> set (subs d'). ps_status s = ''active'' \<and> s \<notin> set (subs d) \<longrightarrow> (\<exists>g. ok g \<and> google_confirmed pe (mappings d) g s))))"

text \<open>\<open>relinked d d'\<close>: only purchase rows change, and they stay linked.\<close>

definition relinked :: "play_db \<Rightarrow> play_db \<Rightarrow> bool" where
  "relinked d d' = (subs d' = subs d \<and> mappings d' = mappings d \<and> (linked d \<longrightarrow> linked d'))"

interpretation relinked: guarantee relinked
  by unfold_locales (auto simp: relinked_def)

lemma relinked_backed: "relinked d d' \<Longrightarrow> backed pe ok d d'"
  by (auto simp: relinked_def backed_def)

lemma relinked_same: "subs d' = subs d \<Longrightarrow> mappings d' = mappings d \<Longrightarrow> set (purchases d') = set (purchases d) \<Longrightarrow> relinked d d'"
  by (simp add: relinked_def linked_def)

lemma tidy_linked: "tidy d d' \<Longrightarrow> linked d \<Longrightarrow> linked d'"
proof -
  assume t: "tidy d d'" and l: "linked d"
  have o: "linked d = (distinct (map ps_id (subs d)) \<and>
     (\<forall>p \<in> pc_owner ` set (purchases d). \<exists>s \<in> set (subs d). ps_id s = fst (snd (snd p)) \<and> ps_provider s = fst (snd p)))" for d
    by (simp add: linked_def pc_owner_def)
  have "pc_owner ` set (purchases d') = pc_owner ` set (purchases d)" using t unfolding tidy_def by (metis list.set_map)
  then show "linked d'" using l t unfolding o by (simp add: tidy_def)
qed

interpretation backed: play_tables "backed pe ok" for pe ok
proof unfold_locales
  show "backed pe ok d d" for d by (simp add: backed_def)
  show "backed pe ok a b \<Longrightarrow> backed pe ok b c \<Longrightarrow> backed pe ok a c" for a b c
    unfolding backed_def by (metis (no_types, lifting))
  show "backed pe ok d d'" if t: "tidy d d'" for d d'
    using t tidy_linked [OF t] by (simp add: backed_def tidy_def)
qed

lemma relinked_book: "keeps relinked (book_order subscription v)"
  unfolding book_order_def save_receipt_def save_payment_def
  by (intro relinked.keeps_all relinked.keeps_stmt) (auto intro!: relinked_same split: option.splits list.splits if_splits)

lemma relinked_save_purchase:
  assumes "\<exists>s \<in> set (subs d). ps_id s = pc_subscription p \<and> ps_provider s = pc_provider p"
  shows "wp t (save_purchase p) (\<lambda>_. relinked d) (\<lambda>_ _. True) d"
proof -
  have "relinked d (d\<lparr>purchases := upd c (\<lambda>q. q\<lparr>pc_token := pc_token p, pc_state := pc_state p,
            pc_auto := pc_auto p, pc_needs := pc_needs p, pc_checked := t, pc_next := pc_next p\<rparr>) (purchases d)\<rparr>)" for c
    by (auto simp: relinked_def intro!: tidy_linked [of d] simp: tidy_def backed.map_upd pc_owner_def)
  moreover have "relinked d (d\<lparr>purchases := purchases d @ [p\<lparr>pc_checked := t\<rparr>]\<rparr>)"
    using assms by (auto simp: relinked_def linked_def)
  ultimately show ?thesis unfolding save_purchase_def
    by (intro wp_stmt) (auto simp: Let_def split: if_splits)
qed

text \<open>The entitlement update, where the answer confirms what it makes active.\<close>

lemma entitle_backed:
  fixes d :: play_db
  assumes "linked d \<Longrightarrow> s0 \<in> set (subs d) \<and> ps_id s0 = subscription \<and> ps_provider s0 = provider" "ok g"
    and conf: "\<And>s. vf_active v \<Longrightarrow> ps_provider s = provider \<Longrightarrow> google_confirmed pe (mappings d) g (entitle v t s)"
  shows "backed pe ok d (d\<lparr>subs := upd (\<lambda>s. ps_id s = subscription \<and> ps_billing s = ''google_play'') (entitle v t) (subs d)\<rparr>)"
proof -
  let ?S = "upd (\<lambda>s. ps_id s = subscription \<and> ps_billing s = ''google_play'') (entitle v t) (subs d)"
  have ids: "map (\<lambda>s. (ps_id s, ps_provider s)) ?S = map (\<lambda>s. (ps_id s, ps_provider s)) (subs d)"
    by (rule backed.map_upd) (simp add: entitle_def)
  have l: "linked x = (distinct (map fst (map (\<lambda>s. (ps_id s, ps_provider s)) (subs x))) \<and>
     (\<forall>p \<in> set (purchases x). (pc_subscription p, pc_provider p) \<in> set (map (\<lambda>s. (ps_id s, ps_provider s)) (subs x))))" for x
    by (force simp: linked_def comp_def)
  have "linked d \<Longrightarrow> linked (d\<lparr>subs := ?S\<rparr>)" unfolding l by (simp add: ids del: set_map map_map)
  moreover have "google_confirmed pe (mappings d) g s'" if "linked d" "s' \<in> set ?S" "ps_status s' = ''active''" "s' \<notin> set (subs d)" for s'
  proof -
    note new = that
    obtain s where s: "s \<in> set (subs d)" "s' = entitle v t s" "ps_id s = subscription"
      using new(2,4) by (auto simp: set_upd split: if_splits)
    have "s = s0" using s new(1) assms(1) by (auto simp: linked_def distinct_map inj_on_def)
    moreover have "vf_active v" using s(2) new(3) by (simp add: entitle_def entitlement_status_def split: if_splits)
    ultimately show ?thesis using conf assms(1) new(1) s(2) by simp
  qed
  ultimately show ?thesis using assms(2) by (auto simp: backed_def)
qed

lemma apply_backed:
  assumes s0: "linked d" "s0 \<in> set (subs d)" "ps_id s0 = subscription" "ps_provider s0 = provider" and "ok g"
    and conf: "\<And>s. vf_active v \<Longrightarrow> ps_provider s = provider \<Longrightarrow> google_confirmed pe (mappings d) g (entitle v t s)"
  shows "wp t (apply_receipt pe provider token product base subscription v) (\<lambda>_. backed pe ok d) (\<lambda>_ _. True) d"
proof -
  have rest: "wp t (bind (if vf_active v then book_order subscription v else ret ()) (\<lambda>_.
     or_else (stmt (\<lambda>d t. Inr ((), d\<lparr>subs := upd (\<lambda>s. ps_id s = subscription \<and> ps_billing s = ''google_play'') (entitle v t) (subs d)\<rparr>)))
       (Msg ''Billing entitlement could not be committed''))) (\<lambda>_. backed pe ok d) (\<lambda>_ _. True) d1" if r: "relinked d d1" for d1
  proof (rule wp_bind, rule wp_keeps [where R = relinked])
    show "keeps relinked (if vf_active v then book_order subscription v else ret ())"
      by (intro relinked.keeps_all relinked_book)
    fix d2 assume "relinked d1 d2"
    with r have r2: "relinked d d2" by (rule relinked.trans)
    have "backed pe ok d2 (d2\<lparr>subs := upd (\<lambda>s. ps_id s = subscription \<and> ps_billing s = ''google_play'') (entitle v t) (subs d2)\<rparr>)"
      by (rule entitle_backed) (use r2 s0 assms(5) conf in \<open>auto simp: relinked_def\<close>)
    from backed.trans [OF relinked_backed [OF r2] this]
    show "wp t (or_else (stmt (\<lambda>d t. Inr ((), d\<lparr>subs := upd (\<lambda>s. ps_id s = subscription \<and> ps_billing s = ''google_play'') (entitle v t) (subs d)\<rparr>)))
       (Msg ''Billing entitlement could not be committed'')) (\<lambda>_. backed pe ok d) (\<lambda>_ _. True) d2"
      by (intro wp_or_else wp_stmt) auto
  qed simp
  show ?thesis unfolding apply_receipt_def
  proof (rule wp_bind, rule wp_clock, cases "Seal pe provider token")
    case (Inr encrypted)
    have "wp t (save_purchase (purchase_row pe (TokenHash pe token) provider subscription product base encrypted v t)) (\<lambda>_. relinked d) (\<lambda>_ _. True) d"
      by (rule relinked_save_purchase) (use s0 in \<open>auto simp: purchase_row_def\<close>)
    then have "wp t (bind (attempt (save_purchase (purchase_row pe (TokenHash pe token) provider subscription product base encrypted v t))) (\<lambda>rows.
     bind (require (rows = Inr 1) (Msg ''Billing token ownership could not be committed'')) (\<lambda>_.
     bind (if vf_active v then book_order subscription v else ret ()) (\<lambda>_.
     or_else (stmt (\<lambda>d t. Inr ((), d\<lparr>subs := upd (\<lambda>s. ps_id s = subscription \<and> ps_billing s = ''google_play'') (entitle v t) (subs d)\<rparr>)))
       (Msg ''Billing entitlement could not be committed''))))) (\<lambda>_. backed pe ok d) (\<lambda>_ _. True) d"
      by (rule wp_checked) (rule rest)
    then show "wp t (case Seal pe provider token of Inl e \<Rightarrow> fail e | Inr encrypted \<Rightarrow>
     bind (attempt (save_purchase (purchase_row pe (TokenHash pe token) provider subscription product base encrypted v t))) (\<lambda>rows.
     bind (require (rows = Inr 1) (Msg ''Billing token ownership could not be committed'')) (\<lambda>_.
     bind (if vf_active v then book_order subscription v else ret ()) (\<lambda>_.
     or_else (stmt (\<lambda>d t. Inr ((), d\<lparr>subs := upd (\<lambda>s. ps_id s = subscription \<and> ps_billing s = ''google_play'') (entitle v t) (subs d)\<rparr>)))
       (Msg ''Billing entitlement could not be committed''))))) (\<lambda>_. backed pe ok d) (\<lambda>_ _. True) d"
      unfolding Inr sum.case .
  qed (simp add: wp_fail)
qed

lemma Verify_entitles:
  assumes "Verify g 0 token (expected_of pe provider product base m) t = Inr v" "find_mapping product base d = Some m"
    and "vf_active v" "ps_provider s = provider"
  shows "google_confirmed pe (mappings d) g (entitle v t s)"
proof -
  have "m \<in> set (mappings d) \<and> pm_product m = product \<and> pm_base m = base"
    using assms(2) by (auto simp: find_mapping_def dest: find_Some_D)
  then show ?thesis using Verify_confirms assms by blast
qed

definition same_mappings :: "play_db \<Rightarrow> play_db \<Rightarrow> bool" where
  "same_mappings d d' = (mappings d' = mappings d)"

interpretation mapped: play_tables same_mappings
  by unfold_locales (auto simp: same_mappings_def tidy_def)

lemma mapped_transaction: "keeps same_mappings (process_transaction pe g free newID provider token product base)"
proof -
  have "keeps same_mappings (save_purchase p)" "keeps same_mappings (book_order subscription v)"
    "keeps same_mappings (open_subscription newID provider m email)" "keeps same_mappings (queue_refund h provider product base e)" for p subscription v m email h e
    unfolding save_purchase_def book_order_def save_receipt_def save_payment_def open_subscription_def queue_refund_def Let_def
    by (intro mapped.keeps_all mapped.keeps_stmt; force simp: same_mappings_def split: option.splits list.splits if_splits)+
  note k = this
  show ?thesis unfolding process_transaction_def verify_and_apply_def first_purchase_def apply_receipt_def Let_def
    by (intro mapped.keeps_all mapped.keeps_bind_account k mapped.keeps_stmt) (auto simp: same_mappings_def)
qed

lemma first_purchase_backed:
  assumes "linked d"
  shows "wp t (first_purchase pe provider token product base newID m email v)
    (\<lambda>r d'. backed pe ok d d' \<and> (r = None \<longrightarrow> (\<exists>s \<in> set (subs d'). ps_id s = newID \<and> ps_provider s = provider))) (\<lambda>_ _. True) d"
proof -
  have refund: "wp t (queue_refund (TokenHash pe token) provider product base encrypted) (\<lambda>_. backed pe ok d) (\<lambda>_ _. True) d" for encrypted
    unfolding queue_refund_def by (intro wp_stmt) (auto intro!: relinked_backed relinked_same split: if_splits)
  have sub: "wp t (open_subscription newID provider m email)
      (\<lambda>_ d'. backed pe ok d d' \<and> (\<exists>s \<in> set (subs d'). ps_id s = newID \<and> ps_provider s = provider)) (\<lambda>_ _. True) d"
    unfolding open_subscription_def
    by (intro wp_stmt) (auto simp: backed_def linked_def new_play_sub_def list_ex_iff split: if_splits)
  show ?thesis unfolding first_purchase_def
    by (intro wp_if wp_ret wp_bind wp_or_else wp_query wp_sum wp_fail)
      (auto intro!: wp_ret wp_mono [OF refund] wp_mono [OF sub] simp: backed.refl)
qed

lemma process_tail_backed:
  assumes l: "linked d" and "ok g" and v: "Verify g 0 token (expected_of pe provider product base m) t = Inr v" "find_mapping product base d = Some m"
    and old: "\<And>p. old = Some p \<Longrightarrow> \<exists>s \<in> set (subs d). ps_id s = pc_subscription p \<and> ps_provider s = provider"
  shows "wp t (bind (if old = None then first_purchase pe provider token product base newID m email v else ret None) (\<lambda>done1.
     case done1 of
       Some r \<Rightarrow> ret r
     | None \<Rightarrow> bind (apply_receipt pe provider token product base (case old of Some p \<Rightarrow> pc_subscription p | None \<Rightarrow> newID) v) (\<lambda>_.
       ret (Commit (Applied want v (case old of Some p \<Rightarrow> pc_subscription p | None \<Rightarrow> newID))))))
    (\<lambda>r d'. case r of Commit _ \<Rightarrow> backed pe ok d d' | Abandon _ \<Rightarrow> True) (\<lambda>_ _. True) d"
proof -
  let ?i = "case old of Some p \<Rightarrow> pc_subscription p | None \<Rightarrow> newID"
  have first: "wp t (if old = None then first_purchase pe provider token product base newID m email v else ret None)
    (\<lambda>r d'. backed pe ok d d' \<and> (r = None \<longrightarrow> (\<exists>s \<in> set (subs d'). ps_id s = ?i \<and> ps_provider s = provider))) (\<lambda>_ _. True) d"
  proof (cases old)
    case None
    then show ?thesis using first_purchase_backed [OF l] by simp
  next
    case (Some p)
    then show ?thesis using old by (auto intro!: wp_ret simp: backed.refl)
  qed
  have applied: "wp t (apply_receipt pe provider token product base ?i v) (\<lambda>_. backed pe ok d) (\<lambda>_ _. True) d1"
    if b: "backed pe ok d d1" and s: "s0 \<in> set (subs d1)" "ps_id s0 = ?i" "ps_provider s0 = provider" for d1 s0
  proof -
    have "linked d1" "mappings d1 = mappings d" using b l by (auto simp: backed_def)
    then have "wp t (apply_receipt pe provider token product base ?i v) (\<lambda>_. backed pe ok d1) (\<lambda>_ _. True) d1"
      using s assms(2) Verify_entitles [OF v] by (intro apply_backed) auto
    then show ?thesis using backed.trans [OF b] by (auto elim: wp_mono)
  qed
  show ?thesis
  proof (rule wp_bind, rule wp_mono [OF first], goal_cases)
    case (1 r d1)
    then show ?case
    proof (cases r)
      case None
      with 1 obtain s0 where s0: "backed pe ok d d1" "s0 \<in> set (subs d1)" "ps_id s0 = ?i" "ps_provider s0 = provider" by auto
      show ?thesis unfolding None option.case
        by (rule wp_bind, rule wp_mono [OF applied [OF s0]]) (auto intro: wp_ret)
    qed (auto intro!: wp_ret split: outcome.splits)
  qed simp
qed

lemma bound_backed:
  assumes l: "linked d" and "ok g" and m: "find_mapping product base d = Some m"
    and old: "\<And>p. old = Some p \<Longrightarrow> p \<in> set (purchases d) \<and> pc_provider p = provider"
  shows "wp t (verify_and_apply pe g newID provider token product base m email old)
    (\<lambda>r d'. case r of Commit _ \<Rightarrow> backed pe ok d d' | Abandon _ \<Rightarrow> True) (\<lambda>_ _. True) d"
  unfolding verify_and_apply_def Let_def
proof (rule wp_bind, rule wp_or_else, rule wp_keeps [where R = relinked], goal_cases)
  case 1
  show ?case unfolding bind_account_def by (rule relinked.keeps_stmt) (auto intro!: relinked_same split: if_splits)
next
  case (2 u d')
  then have d': "linked d'" "subs d' = subs d" "find_mapping product base d' = Some m" "backed pe ok d d'"
    using l m relinked_backed by (auto simp: relinked_def find_mapping_def)
  have "\<exists>s \<in> set (subs d'). ps_id s = pc_subscription p \<and> ps_provider s = provider" if "old = Some p" for p
    using old [OF that] l d'(2) by (auto simp: linked_def)
  note sub = this
  show ?case
    by (rule wp_bind, rule wp_clock, rule wp_sum, rule wp_fail, rule TrueI,
        rule wp_mono [OF process_tail_backed [where ok = ok and g = g, OF d'(1) assms(2) _ d'(3) sub]])
      (auto intro: backed.trans [OF d'(4)] split: outcome.splits)
qed simp

interpretation backed_calls: play_guarantee "backed pe ok" pe ok for pe ok
proof unfold_locales
  fix g provider free newID token product base
  assume g: "ok g" and "uuid_ok (pe_env pe) provider"
  show "keeps (backed pe ok) (process_transaction pe g free newID provider token product base)"
  proof (rule keeps_wp)
    fix t d
    show "wp t (process_transaction pe g free newID provider token product base) (\<lambda>_. backed pe ok d) (\<lambda>_. backed pe ok d) d"
    proof (cases "linked d")
      case True
      then show ?thesis
        by (intro wp_process_transaction bound_backed) (auto simp: g backed.refl dest: find_Some_D)
    next
      case False
      then show ?thesis by (intro wp_keeps [OF mapped_transaction]) (simp_all add: backed_def same_mappings_def)
    qed
  qed
qed

text \<open>The answers of Google a call uses.\<close>

fun googles :: "play_call \<Rightarrow> google list" where
  "googles (Buy g free newID provider token product base) = [g]"
| "googles (Pass pw) = [pw_recover pw, pw_refund pw, pw_check pw]"
| "googles _ = []"

lemma allowed_googles: "set (googles c) \<subseteq> S \<Longrightarrow> allowed (\<lambda>g. g \<in> S) c"
  by (cases c) auto

text \<open>
  C38. Nobody is subscribed without Google's word. Over any history of purchases, checkouts,
  notifications and passes, with any answers and database failures: a subscription row that is
  active at the end and was not there before was made active on an answer of Google in this very
  history whose receipt names the account of the subscription's own provider, for a configured
  product and plan, in a paid state, with the expiry stored in the row and later than the check,
  and whose order is processed, belongs to the token and lists the configured price.
\<close>

theorem play_active_confirmed:
  assumes "linked d" "s \<in> set (subs (play_calls pe cs d))" "ps_status s = ''active''" "s \<notin> set (subs d)"
  shows "\<exists>g \<in> set (concat (map (googles \<circ> fst) cs)). google_confirmed pe (mappings d) g s"
proof -
  let ?ok = "\<lambda>g. g \<in> set (concat (map (googles \<circ> fst) cs))"
  have "list_all (\<lambda>(c, _). allowed ?ok c) cs" unfolding list_all_iff split_def
  proof
    fix x assume "x \<in> set cs"
    then have "set (googles (fst x)) \<subseteq> (\<Union>x \<in> set cs. set (googles (fst x)))" by (rule UN_upper)
    also have "\<dots> = set (concat (map (googles \<circ> fst) cs))" by (simp only: set_concat set_map image_image comp_apply)
    finally show "allowed ?ok (fst x)" by (rule allowed_googles)
  qed
  from backed_calls.keeps_calls [OF this, of pe d] have "backed pe ?ok d (play_calls pe cs d)" .
  then show ?thesis using assms unfolding backed_def by blast
qed

section \<open>A worked history\<close>

definition play_env0 :: play_env where
  "play_env0 = \<lparr>pe_env = env0\<lparr>sha256 := (\<lambda>s. replicate 32 (last s)), uuid_ok := (\<lambda>s. s = ''p1'' \<or> s = ''p2'')\<rparr>,
     pe_test = False, pe_push = True, pe_seal = (\<lambda>k s. replicate 28 CHR ''='' @ s), pe_open = (\<lambda>k s. Some (drop 28 s))\<rparr>"

definition play_token :: "char \<Rightarrow> string" where
  "play_token c = ''play-token-0000'' @ [c]"

definition receipt0 :: "string \<Rightarrow> purchase" where
  "receipt0 order = \<lparr>pu_kind = ''androidpublisher#subscriptionPurchaseV2'', pu_state = ''SUBSCRIPTION_STATE_ACTIVE'',
     pu_ack = ''ACKNOWLEDGEMENT_STATE_ACKNOWLEDGED'', pu_test = False, pu_account = AccountID play_env0 ''p1'',
     pu_items = [\<lparr>pi_product = ''pro'', pi_expiry = ''2030-01-01T00:00:00Z'', pi_order = order,
       pi_auto = Some \<lparr>an_enabled = True, an_currency = ''NGN'', an_units = ''2500'', an_nanos = 0\<rparr>,
       pi_prepaid = False, pi_base = ''monthly'', pi_offer = [], pi_trial = False, pi_intro = False\<rparr>]\<rparr>"

definition order0 :: "char \<Rightarrow> string \<Rightarrow> play_order" where
  "order0 c order = \<lparr>od_id = order, od_token = play_token c, od_state = ''PROCESSED'', od_total = money_of 250000,
     od_items = [\<lparr>ol_product = ''pro'', ol_price = money_of 250000, ol_subscription = Some (''monthly'', [], ''BASE'', False)\<rparr>]\<rparr>"

definition google0 :: "char \<Rightarrow> string \<Rightarrow> google" where
  "google0 c order = \<lparr>g_access = (\<lambda>_. Inr ''bearer''), g_order_access = (\<lambda>_. Inr ''bearer''), g_receipt = (\<lambda>_ _. Some (200, Some (receipt0 order))),
     g_order = (\<lambda>_ _. Some (200, Some (order0 c order))), g_post = (\<lambda>_. Some 200)\<rparr>"

definition play_db0 :: play_db where
  "play_db0 = \<lparr>mappings = [\<lparr>pm_product = ''pro'', pm_base = ''monthly'', pm_plan = ''basic'', pm_months = 1, pm_amount = 250000, pm_prepaid = False, pm_enabled = True\<rparr>],
     plans = [(''basic'', True)], owners = [\<lparr>po_id = ''p1'', po_owner = ''u1'', po_country = ''NG'', po_active = True, po_status = ''approved''\<rparr>],
     accounts = [], users = [\<lparr>us_id = ''u1'', us_email = ''a@b'', us_active = True, us_verified = True\<rparr>], purchases = [], events = [], refunds = [],
     intents = [], subs = [], receipts = [], finance = [], preferences = [], referrals = [], posts = []\<rparr>"

definition buy0 :: "char \<Rightarrow> string \<Rightarrow> string \<Rightarrow> play_call \<times> fault list \<times> int" where
  "buy0 c order i = (Buy (google0 c order) True i ''p1'' (play_token c) ''pro'' ''monthly'', [], 1760000000)"





definition play_run0 :: play_db where
  "play_run0 = play_calls play_env0 [buy0 CHR ''A'' ''GPA.1'' ''s1''] play_db0"


lemma play_run0_rows: "(let d = play_run0 in (map ps_status (subs d), length (purchases d), map py_amount (finance d), map rc_amount (receipts d))) =
    ([''active''], 1, [250000], [250000])"
  by code_simp

lemma play_orders_owned_witness: "play_books play_run0 \<and> length (finance play_run0) = 1 \<and> length (receipts play_run0) = 1"
proof -
  have "play_books play_db0" by (simp add: play_books_def play_db0_def)
  from play_orders_owned [OF this play_run0_def] have "play_books play_run0" by blast
  moreover have "length (map py_amount (finance play_run0)) = 1" "length (map rc_amount (receipts play_run0)) = 1"
    using play_run0_rows by (simp_all add: Let_def)
  ultimately show ?thesis by simp
qed

lemma play_active_confirmed_witness:
  "\<exists>s \<in> set (subs play_run0). ps_status s = ''active'' \<and> google_confirmed play_env0 (mappings play_db0) (google0 CHR ''A'' ''GPA.1'') s"
proof -
  have "''active'' \<in> set (map ps_status (subs play_run0))" using play_run0_rows by (simp add: Let_def)
  then obtain s where s: "s \<in> set (subs play_run0)" "ps_status s = ''active''" by auto
  have "linked play_db0" "s \<notin> set (subs play_db0)" by (simp_all add: linked_def play_db0_def)
  from play_active_confirmed [OF this(1) s(1) [unfolded play_run0_def] s(2) this(2)] s show ?thesis
    by (auto simp: buy0_def)
qed

text \<open>A provider that is subscribed already pays at Google: the purchase is refunded.\<close>

definition subscribed0 :: play_db where
  "subscribed0 = play_db0\<lparr>subs := [(new_play_sub ''s0'' ''p1'' (hd (mappings play_db0)) ''a@b'')\<lparr>ps_status := ''active'', ps_end := Some 1800000000\<rparr>]\<rparr>"

definition play_run1 :: play_db where
  "play_run1 = play_calls play_env0 [buy0 CHR ''B'' ''GPA.2'' ''s2''] subscribed0"

lemma play_run1_rows: "(let d = play_run1 in (map rj_status (refunds d), length (purchases d), length (posts d))) = ([''confirmed''], 0, 1)"
  by code_simp

lemma play_granted_or_refunded_witness:
  "exclusive (\<lambda>_. ''p1'') play_run1 \<and> map rj_status (refunds play_run1) = [''confirmed''] \<and> purchases play_run1 = []"
proof -
  have "AccountID play_env0 ''p2'' \<noteq> AccountID play_env0 ''p1''" by code_simp
  then have "one_owner play_env0 (\<lambda>_. ''p1'') (google0 CHR ''B'' ''GPA.2'')"
    by (auto simp: one_owner_def google0_def receipt0_def play_env0_def)
  then have "list_all (\<lambda>(c, _). allowed (one_owner play_env0 (\<lambda>_. ''p1'')) c) [buy0 CHR ''B'' ''GPA.2'' ''s2'']"
    by (simp add: buy0_def)
  moreover have "exclusive (\<lambda>_. ''p1'') subscribed0" by (simp add: exclusive_def subscribed0_def play_db0_def)
  ultimately have "exclusive (\<lambda>_. ''p1'') play_run1" unfolding play_run1_def by (intro play_granted_or_refunded)
  moreover have "map rj_status (refunds play_run1) = [''confirmed''] \<and> length (purchases play_run1) = 0"
    using play_run1_rows by (simp add: Let_def)
  ultimately show ?thesis by simp
qed

end
