(* ===== verification/Push.thy ===== *)
theory Push
  imports Effects "HOL-Library.List_Lexorder" "HOL-Library.Char_ord" "HOL-Library.Product_Lexorder" "HOL-Library.Option_ord"
begin

text \<open>
  Push notifications (internal/services/push_notifications.go, notification_avatar.go): the pass that
  claims due deliveries and submits them to Expo, grouped by project, the splitting of rejected
  batches, retries, and the pass that reads the receipts.

  Expo and \<open>url.Parse\<close> are parameters; Expo's answer may depend on all requests made before, which
  the field \<open>requests\<close> records. A JSON body is given by its decoded views. The rows that
  another worker has locked (\<open>SKIP LOCKED\<close>) and the iteration order of the Go map of groups are
  arguments. The count that accompanies an error is only logged and left out.
\<close>

section \<open>Tables\<close>

record push_notification =
  pn_id :: string
  pn_user :: string
  pn_order :: "string option"
  pn_title :: string
  pn_body :: string
  pn_data :: json
  pn_type :: string
  pn_created :: int
  pn_read :: bool

record push_token =
  pt_id :: string
  pt_user :: string
  pt_token :: string
  pt_disabled :: "int option"
  pt_sound :: bool
  pt_channel :: string
  pt_project :: "string option"
  pt_updated :: int

record delivery_row =
  pd_notification :: string
  pd_device :: string
  pd_status :: string
  pd_attempts :: nat
  pd_next :: int
  pd_ticket :: "string option"
  pd_error :: string
  pd_sent :: "int option"
  pd_checked :: "int option"
  pd_updated :: int

record push_db =
  pushes :: "push_notification list"
  devices :: "push_token list"
  deliveries :: "delivery_row list"
  requests :: "json list list"

record pushDelivery =
  NotificationID :: string
  NotificationType :: string
  OrderID :: string
  PushTokenID :: string
  PushToken :: string
  PushTitle :: string
  PushBody :: string
  PushData :: json
  ExpoProjectID :: string
  NotificationChannel :: string
  SoundEnabled :: bool
  PushAttempts :: nat

section \<open>The Expo interface\<close>

record expoTicket =
  tk_status :: string
  tk_id :: string
  tk_message :: string
  tk_error :: string

text \<open>The views of a body: \<open>None\<close> when \<open>json.Unmarshal\<close> fails.\<close>

record expo_body =
  eb_errors :: "string list option"
  eb_data :: "expoTicket list option"

datatype 'b expo_answer = NoResponse string | NoBody string | Response nat 'b

record url_parts =
  u_user :: bool
  u_query :: string
  u_fragment :: string
  u_port :: string
  u_host :: string
  u_path :: string

record expo =
  send :: "json list list \<Rightarrow> json list \<Rightarrow> expo_body expo_answer"
  receipts :: "string list \<Rightarrow> ((string \<times> expoTicket) list) option expo_answer"
  parse_url :: "string \<Rightarrow> url_parts option"

section \<open>Messages\<close>

definition has_suffix :: "string \<Rightarrow> string \<Rightarrow> bool" where
  "has_suffix s p = has_prefix (rev s) (rev p)"

definition avatar_host :: "string \<Rightarrow> bool" where
  "avatar_host host = (host = ''api.atlxpres.com'' \<or> host = ''atlxpres.com'' \<or> has_suffix host ''.atlxpres.com'' \<or>
     (contains_str host ''.s3.'' \<and> has_suffix host ''.amazonaws.com''))"

definition avatar_key :: "string \<Rightarrow> string" where
  "avatar_key key =
     (if \<not> has_prefix key ''user-uploads/'' \<or> contains_str key ''..'' \<or> contains_str key ''private'' \<or>
         contains_str key ''/verification/'' \<or> contains_str key ''?'' \<or> contains_str key ''#'' then []
      else ''https://api.atlxpres.com/api/v1/public/images/view/'' @ key @ ''?avatar=1'')"

definition notificationAvatar :: "expo \<Rightarrow> string \<Rightarrow> string" where
  "notificationAvatar x raw = (let key = trim_space raw in
     if has_prefix key ''https://'' then
       (case parse_url x key of
          None \<Rightarrow> []
        | Some u \<Rightarrow>
            if u_user u \<or> u_query u \<noteq> [] \<or> u_fragment u \<noteq> [] \<or> u_port u \<noteq> [] \<or> \<not> avatar_host (to_lower (u_host u)) then []
            else avatar_key (trim_left (\<lambda>c. c = CHR ''/'') (trim_prefix (u_path u) ''/api/v1/public/images/view/'')))
     else avatar_key key)"

text \<open>Maps of JSON objects: assignment, lookup of a string and deletion.\<close>

definition put :: "string \<Rightarrow> json \<Rightarrow> (string \<times> json) list \<Rightarrow> (string \<times> json) list" where
  "put k v m = (if k \<in> fst ` set m then map (\<lambda>(a, b). (a, if a = k then v else b)) m else m @ [(k, v)])"

definition text_at :: "string \<Rightarrow> (string \<times> json) list \<Rightarrow> string" where
  "text_at k m = (case map_of m k of Some (JStr s) \<Rightarrow> s | _ \<Rightarrow> [])"

definition without :: "string \<Rightarrow> (string \<times> json) list \<Rightarrow> (string \<times> json) list" where
  "without k m = filter (\<lambda>(a, b). a \<noteq> k) m"

text \<open>\<open>json.Unmarshal\<close> into a map: JSON null leaves a nil map, whose assignment panics.\<close>

definition message_data :: "pushDelivery \<Rightarrow> err + (string \<times> json) list" where
  "message_data x = (case PushData x of
     JNull \<Rightarrow> Inl (Msg ''panic: assignment to entry in nil map'')
   | d \<Rightarrow> let data = (case d of JObj m \<Rightarrow> m | _ \<Rightarrow> []);
       data = put ''notification_id'' (JStr (NotificationID x)) data;
       data = (if NotificationType x \<noteq> [] then put ''notification_type'' (JStr (NotificationType x)) data else data);
       data = put ''sound_enabled'' (JBool (SoundEnabled x)) data
     in Inr (if OrderID x \<noteq> [] then put ''order_id'' (JStr (OrderID x)) data else data))"

definition push_message :: "expo \<Rightarrow> pushDelivery \<Rightarrow> err + json" where
  "push_message api x = (case message_data x of Inl e \<Rightarrow> Inl e
   | Inr data \<Rightarrow>
       let safe = notificationAvatar api (text_at ''sender_avatar_url'' data);
         data' = (if safe \<noteq> [] then put ''sender_avatar_url'' (JStr safe) data else without ''sender_avatar_url'' data);
         sender = text_at ''sender_name'' data';
         titled = (sender \<noteq> [] \<and> NotificationType x \<in> {''marketplace_message'', ''social_message'', ''provider_activity''})
       in Inr (JObj ([(''to'', JStr (PushToken x)), (''title'', JStr (if titled then sender else PushTitle x)),
           (''body'', JStr (PushBody x)),
           (''channelId'', JStr (if SoundEnabled x then NotificationChannel x else ''orders-silent'')),
           (''priority'', JStr ''high''), (''data'', JObj data')]
         @ (if safe \<noteq> [] then [(''richContent'', JObj [(''image'', JStr safe)])] else [])
         @ (if SoundEnabled x then [(''sound'', JStr ''default'')] else []))))"

definition push_messages :: "expo \<Rightarrow> pushDelivery list \<Rightarrow> err + json list" where
  "push_messages api xs = (case List.find (\<lambda>m. isl m) (map (push_message api) xs) of
     Some (Inl e) \<Rightarrow> Inl e | _ \<Rightarrow> Inr (map (\<lambda>x. projr (push_message api x)) xs))"

definition code_char :: "char \<Rightarrow> bool" where
  "code_char c = (let n = (of_char c :: nat) in 65 \<le> n \<and> n \<le> 90 \<or> 48 \<le> n \<and> n \<le> 57 \<or> n = 95)"

definition expoRequestErrorCode :: "expo_body \<Rightarrow> string" where
  "expoRequestErrorCode body = (case eb_errors body of
     Some (code # _) \<Rightarrow>
       if length code = 0 \<or> length code > 80 \<or> trim_by code_char code \<noteq> [] then ''UNKNOWN_REQUEST_ERROR'' else code
   | _ \<Rightarrow> ''UNKNOWN_REQUEST_ERROR'')"

section \<open>Writing outcomes\<close>

definition of_item :: "pushDelivery \<Rightarrow> delivery_row \<Rightarrow> bool" where
  "of_item x r = (pd_notification r = NotificationID x \<and> pd_device r = PushTokenID x)"

definition set_delivery :: "pushDelivery \<Rightarrow> (int \<Rightarrow> delivery_row \<Rightarrow> delivery_row) \<Rightarrow> (push_db, unit) prog" where
  "set_delivery x f = stmt (\<lambda>d t. Inr ((), d\<lparr>deliveries := upd (of_item x) (f t) (deliveries d)\<rparr>))"

definition maxPushAttempts :: nat where
  "maxPushAttempts = 6"

definition retry_delay :: "nat \<Rightarrow> int" where
  "retry_delay nextAttempt = min (30 * 2 ^ min (nextAttempt - 1) 7) 3600"

definition retryPushDelivery :: "pushDelivery \<Rightarrow> string \<Rightarrow> (push_db, unit) prog" where
  "retryPushDelivery x message = (let nextAttempt = PushAttempts x + 1;
       status = (if nextAttempt \<ge> maxPushAttempts then ''failed'' else ''retry'')
     in set_delivery x (\<lambda>t r. r\<lparr>pd_status := status, pd_next := t + retry_delay nextAttempt,
          pd_error := take 500 message, pd_updated := t\<rparr>))"

definition retryPushDeliveries :: "pushDelivery list \<Rightarrow> string \<Rightarrow> (push_db, unit) prog" where
  "retryPushDeliveries xs message = for_each (\<lambda>x. retryPushDelivery x message) xs"

definition failPushDeliveries :: "pushDelivery list \<Rightarrow> string \<Rightarrow> (push_db, unit) prog" where
  "failPushDeliveries xs message = for_each (\<lambda>x. set_delivery x (\<lambda>t r.
     r\<lparr>pd_status := ''failed'', pd_error := take 500 message, pd_updated := t\<rparr>)) xs"

definition disablePushToken :: "pushDelivery \<Rightarrow> string \<Rightarrow> (push_db, unit) prog" where
  "disablePushToken x message = transaction (
     bind (stmt (\<lambda>d t. Inr ((), d\<lparr>devices := upd (\<lambda>k. pt_id k = PushTokenID x)
       (\<lambda>k. k\<lparr>pt_disabled := Some t, pt_updated := t\<rparr>) (devices d)\<rparr>))) (\<lambda>_.
     bind (set_delivery x (\<lambda>t r. r\<lparr>pd_status := ''disabled'', pd_error := take 500 message, pd_updated := t\<rparr>)) (\<lambda>_.
     ret (Commit ()))))"

section \<open>Submitting\<close>

definition post_messages :: "expo \<Rightarrow> json list \<Rightarrow> (push_db, expo_body expo_answer) prog" where
  "post_messages api ms w = (Inr (send api (requests (db w)) ms), w\<lparr>db := (db w)\<lparr>requests := requests (db w) @ [ms]\<rparr>\<rparr>)"

definition take_ticket :: "pushDelivery \<times> expoTicket \<Rightarrow> (push_db, nat) prog" where
  "take_ticket = (\<lambda>(x, ticket).
     if tk_status ticket = ''ok'' \<and> tk_id ticket \<noteq> [] then
       bind (set_delivery x (\<lambda>t r. r\<lparr>pd_status := ''sent'', pd_ticket := Some (tk_id ticket), pd_sent := Some t,
         pd_error := [], pd_updated := t\<rparr>)) (\<lambda>_. ret 1)
     else if tk_error ticket = ''DeviceNotRegistered'' then
       bind (disablePushToken x (tk_message ticket)) (\<lambda>_. ret 0)
     else bind (retryPushDelivery x (tk_error ticket @ '': '' @ tk_message ticket)) (\<lambda>_. ret 0))"

definition retry_all :: "pushDelivery list \<Rightarrow> string \<Rightarrow> (push_db, nat) prog" where
  "retry_all xs message = bind (retryPushDeliveries xs message) (\<lambda>_. ret 0)"

definition request_error :: "nat \<Rightarrow> expo_body \<Rightarrow> string" where
  "request_error code body = ''expo push HTTP '' @ nat_str code @ '': '' @ expoRequestErrorCode body"

function sendPushDeliveries :: "expo \<Rightarrow> pushDelivery list \<Rightarrow> (push_db, nat) prog" where
  "sendPushDeliveries api xs = (case push_messages api xs of Inl e \<Rightarrow> fail e | Inr ms \<Rightarrow>
     bind (post_messages api ms) (\<lambda>answer. case answer of
       NoResponse e \<Rightarrow> retry_all xs e
     | NoBody e \<Rightarrow> retry_all xs e
     | Response code body \<Rightarrow>
         if code = 429 \<or> 500 \<le> code then retry_all xs (''expo push HTTP '' @ nat_str code)
         else if code < 200 \<or> 300 \<le> code then
           (if code = 400 \<and> 1 < length xs then
              bind (sendPushDeliveries api (take (length xs div 2) xs)) (\<lambda>first.
              bind (sendPushDeliveries api (drop (length xs div 2) xs)) (\<lambda>second.
              ret (first + second)))
            else bind (failPushDeliveries xs (request_error code body)) (\<lambda>_. ret 0))
         else (case eb_data body of
            Some tickets \<Rightarrow>
              if length tickets \<noteq> length xs then retry_all xs ''invalid Expo push response''
              else bind (collect take_ticket (zip xs tickets)) (\<lambda>ns. ret (sum_list ns))
          | None \<Rightarrow> retry_all xs ''invalid Expo push response'')))"
  by pat_completeness auto
termination by (relation "measure (\<lambda>(api, xs). length xs)") auto

declare sendPushDeliveries.simps [simp del]

section \<open>The receipts pass\<close>

definition pushBatchLimit :: nat where
  "pushBatchLimit = 100"

definition awaiting_receipt_check :: "int \<Rightarrow> delivery_row \<Rightarrow> bool" where
  "awaiting_receipt_check t r = (pd_status r = ''sent'' \<and> pd_checked r = None \<and> pd_ticket r \<noteq> None \<and>
     (case pd_sent r of None \<Rightarrow> False | Some s \<Rightarrow> s \<le> t - 900))"

definition receipt_item :: "delivery_row \<Rightarrow> pushDelivery \<times> string" where
  "receipt_item r = (\<lparr>NotificationID = pd_notification r, NotificationType = [], OrderID = [], PushTokenID = pd_device r,
     PushToken = [], PushTitle = [], PushBody = [], PushData = JNull, ExpoProjectID = [], NotificationChannel = [],
     SoundEnabled = False, PushAttempts = 0\<rparr>, case pd_ticket r of None \<Rightarrow> [] | Some k \<Rightarrow> k)"

definition row_order :: "delivery_row \<Rightarrow> string \<times> string" where
  "row_order r = (pd_notification r, pd_device r)"

definition check_receipt :: "pushDelivery \<Rightarrow> expoTicket \<Rightarrow> (push_db, unit) prog" where
  "check_receipt x receipt =
     (if tk_status receipt = ''ok'' then
        set_delivery x (\<lambda>t r. r\<lparr>pd_status := ''delivered'', pd_checked := Some t, pd_updated := t\<rparr>)
      else if tk_error receipt = ''DeviceNotRegistered'' then disablePushToken x (tk_message receipt)
      else set_delivery x (\<lambda>t r. r\<lparr>pd_status := ''failed'', pd_checked := Some t,
        pd_error := take 500 (tk_error receipt @ '': '' @ tk_message receipt), pd_updated := t\<rparr>))"

fun check_receipts :: "(string \<times> expoTicket) list \<Rightarrow> (pushDelivery \<times> string) list \<Rightarrow> (push_db, nat) prog" where
  "check_receipts answers [] = ret 0"
| "check_receipts answers ((x, ticket) # xs) = (case map_of answers ticket of
     None \<Rightarrow> check_receipts answers xs
   | Some receipt \<Rightarrow> bind (check_receipt x receipt) (\<lambda>_. bind (check_receipts answers xs) (\<lambda>n. ret (n + 1))))"

definition RunPushReceiptBatch :: "expo \<Rightarrow> (push_db, nat) prog" where
  "RunPushReceiptBatch api =
     bind (query (\<lambda>d t. Inr (take pushBatchLimit (sort_key (\<lambda>r. (pd_sent r, row_order r))
       (filter (awaiting_receipt_check t) (deliveries d)))))) (\<lambda>rows.
     let items = map receipt_item rows in
     if items = [] then ret 0
     else case receipts api (map snd items) of
       NoResponse e \<Rightarrow> fail (Msg e)
     | NoBody e \<Rightarrow> fail (Msg e)
     | Response code body \<Rightarrow>
         if code < 200 \<or> 300 \<le> code then fail (Msg (''Expo receipt HTTP '' @ nat_str code))
         else case body of None \<Rightarrow> fail (Msg ''invalid receipts'') | Some answers \<Rightarrow> check_receipts answers items)"

section \<open>The delivery pass\<close>

definition recover_leases :: "(push_db, unit) prog" where
  "recover_leases = stmt (\<lambda>d t. Inr ((), d\<lparr>deliveries := upd (\<lambda>r. pd_status r = ''sending'' \<and> pd_updated r < t - 300)
     (\<lambda>r. r\<lparr>pd_status := ''retry'', pd_next := t, pd_updated := t, pd_error := ''delivery lease expired''\<rparr>) (deliveries d)\<rparr>))"

definition recent_unread :: "int \<Rightarrow> push_db \<Rightarrow> push_notification list" where
  "recent_unread t d = take 500 (rev (sort_key (\<lambda>n. (pn_created n, pn_id n))
     (filter (\<lambda>n. pn_created n \<ge> t - 172800 \<and> \<not> pn_read n) (pushes d))))"

definition new_delivery :: "int \<Rightarrow> string \<Rightarrow> string \<Rightarrow> delivery_row" where
  "new_delivery t n k = \<lparr>pd_notification = n, pd_device = k, pd_status = ''pending'', pd_attempts = 0, pd_next = t,
     pd_ticket = None, pd_error = [], pd_sent = None, pd_checked = None, pd_updated = t\<rparr>"

definition due_devices :: "int \<Rightarrow> push_db \<Rightarrow> (string \<times> string) list" where
  "due_devices t d = concat (map (\<lambda>n. map (\<lambda>k. (pn_id n, pt_id k))
     (filter (\<lambda>k. pt_user k = pn_user n \<and> pt_disabled k = None) (devices d))) (recent_unread t d))"

definition add_delivery :: "int \<Rightarrow> string \<times> string \<Rightarrow> delivery_row list \<Rightarrow> delivery_row list" where
  "add_delivery t = (\<lambda>(n, k) rows. if list_ex (\<lambda>r. pd_notification r = n \<and> pd_device r = k) rows then rows
     else rows @ [new_delivery t n k])"

definition materialize :: "(push_db, unit) prog" where
  "materialize = stmt (\<lambda>d t. Inr ((), d\<lparr>deliveries := fold (add_delivery t) (due_devices t d) (deliveries d)\<rparr>))"

definition enabled :: "push_db \<Rightarrow> string \<Rightarrow> bool" where
  "enabled d i = list_ex (\<lambda>k. pt_id k = i \<and> pt_disabled k = None) (devices d)"

definition requeue_rejected :: "(push_db, unit) prog" where
  "requeue_rejected = stmt (\<lambda>d t. Inr ((), d\<lparr>deliveries := upd (\<lambda>r. pd_status r = ''failed'' \<and>
       pd_error r = ''expo push HTTP 400'' \<and> enabled d (pd_device r) \<and>
       pd_notification r \<in> pn_id ` set (recent_unread t d))
     (\<lambda>r. r\<lparr>pd_status := ''retry'', pd_attempts := 0, pd_next := t, pd_updated := t,
       pd_error := ''requeued after push request isolation fix''\<rparr>) (deliveries d)\<rparr>))"

definition claimable :: "(delivery_row \<Rightarrow> bool) \<Rightarrow> int \<Rightarrow> delivery_row \<Rightarrow> bool" where
  "claimable locked t r = ((pd_status r = ''pending'' \<or> pd_status r = ''retry'') \<and> pd_next r \<le> t \<and> \<not> locked r)"

definition opt_text :: "string option \<Rightarrow> string" where
  "opt_text x = (case x of None \<Rightarrow> [] | Some s \<Rightarrow> s)"

text \<open>The join of a delivery with its notification and its enabled device.\<close>

definition push_item :: "push_db \<Rightarrow> delivery_row \<Rightarrow> pushDelivery option" where
  "push_item d r = (case (find (\<lambda>n. pn_id n = pd_notification r) (pushes d),
       find (\<lambda>k. pt_id k = pd_device r \<and> pt_disabled k = None) (devices d)) of
     (Some n, Some k) \<Rightarrow> Some \<lparr>NotificationID = pd_notification r, NotificationType = pn_type n, OrderID = opt_text (pn_order n),
       PushTokenID = pd_device r, PushToken = pt_token k, PushTitle = pn_title n, PushBody = pn_body n, PushData = pn_data n,
       ExpoProjectID = opt_text (pt_project k), NotificationChannel = pt_channel k, SoundEnabled = pt_sound k,
       PushAttempts = pd_attempts r\<rparr>
   | _ \<Rightarrow> None)"

definition due_items :: "(delivery_row \<Rightarrow> bool) \<Rightarrow> int \<Rightarrow> push_db \<Rightarrow> pushDelivery list" where
  "due_items locked t d = take pushBatchLimit (List.map_filter (push_item d)
     (sort_key (\<lambda>r. (pd_next r, row_order r)) (filter (claimable locked t) (deliveries d))))"

definition claim_deliveries :: "(delivery_row \<Rightarrow> bool) \<Rightarrow> (push_db, pushDelivery list) prog" where
  "claim_deliveries locked = transaction (
     bind (query (\<lambda>d t. Inr (due_items locked t d))) (\<lambda>items.
     bind (for_each (\<lambda>x. set_delivery x (\<lambda>t r. r\<lparr>pd_status := ''sending'', pd_attempts := pd_attempts r + 1,
       pd_updated := t\<rparr>)) items) (\<lambda>_.
     ret (Commit items))))"

definition RunPushDeliveryBatch ::
  "expo \<Rightarrow> (delivery_row \<Rightarrow> bool) \<Rightarrow> (string list \<Rightarrow> string list) \<Rightarrow> (push_db, nat) prog" where
  "RunPushDeliveryBatch api locked order =
     bind recover_leases (\<lambda>_.
     bind materialize (\<lambda>_.
     bind requeue_rejected (\<lambda>_.
     bind (claim_deliveries locked) (\<lambda>items.
     if items = [] then ret 0
     else bind (collect (\<lambda>project. sendPushDeliveries api (filter (\<lambda>x. ExpoProjectID x = project) items))
         (order (remdups (map ExpoProjectID items)))) (\<lambda>ns.
       ret (sum_list ns))))))"

end
