(* ===== verification/Push_Safety.thy ===== *)
theory Push_Safety
  imports Push
begin

text \<open>
  What the push worker promises: splitting a rejected batch isolates the devices Expo rejects (the
  outcome is that of submitting every delivery on its own), a batch of n deliveries costs at most
  2n - 1 requests whatever Expo answers, and a pass addresses only enabled devices and leaves
  settled deliveries alone.
\<close>

section \<open>Messages of a batch\<close>

definition message_of :: "expo \<Rightarrow> pushDelivery \<Rightarrow> json" where
  "message_of api x = projr (push_message api x)"

lemma push_messages_Inr:
  "push_messages api xs = Inr ms \<longleftrightarrow> (\<forall>x \<in> set xs. \<not> isl (push_message api x)) \<and> ms = map (message_of api) xs"
proof (cases "List.find isl (map (push_message api) xs)")
  case None
  then have "\<forall>x \<in> set xs. \<not> isl (push_message api x)" by (auto simp: find_None_iff)
  then show ?thesis using None by (auto simp: push_messages_def message_of_def)
next
  case (Some v)
  then have v: "isl v" "v \<in> push_message api ` set xs" by (auto simp: find_Some_iff)
  then obtain e x where e: "v = Inl e" "x \<in> set xs" "push_message api x = Inl e" by (cases v) auto
  then have "\<not> (\<forall>x \<in> set xs. \<not> isl (push_message api x))" by force
  moreover have "push_messages api xs = Inl e" using Some e(1) by (simp add: push_messages_def)
  ultimately show ?thesis by simp
qed


text \<open>A submission either splits a rejected batch or writes down an answer.\<close>

definition splits :: "pushDelivery list \<Rightarrow> expo_body expo_answer \<Rightarrow> bool" where
  "splits xs a = (1 < length xs \<and> (case a of Response code body \<Rightarrow> code = 400 | _ \<Rightarrow> False))"

definition record_answer :: "pushDelivery list \<Rightarrow> expo_body expo_answer \<Rightarrow> (push_db, nat) prog" where
  "record_answer xs a = (case a of
       NoResponse e \<Rightarrow> retry_all xs e
     | NoBody e \<Rightarrow> retry_all xs e
     | Response code body \<Rightarrow>
         if code = 429 \<or> 500 \<le> code then retry_all xs (''expo push HTTP '' @ nat_str code)
         else if code < 200 \<or> 300 \<le> code then bind (failPushDeliveries xs (request_error code body)) (\<lambda>_. ret 0)
         else (case eb_data body of
            Some tickets \<Rightarrow>
              if length tickets \<noteq> length xs then retry_all xs ''invalid Expo push response''
              else bind (collect take_ticket (zip xs tickets)) (\<lambda>ns. ret (sum_list ns))
          | None \<Rightarrow> retry_all xs ''invalid Expo push response''))"

lemma send_unfold:
  "sendPushDeliveries api xs = (case push_messages api xs of Inl e \<Rightarrow> fail e | Inr ms \<Rightarrow>
     bind (post_messages api ms) (\<lambda>a. if splits xs a
       then bind (sendPushDeliveries api (take (length xs div 2) xs)) (\<lambda>first.
            bind (sendPushDeliveries api (drop (length xs div 2) xs)) (\<lambda>second. ret (first + second)))
       else record_answer xs a))"
  by (subst sendPushDeliveries.simps, cases "push_messages api xs")
    (auto simp: splits_def record_answer_def intro!: arg_cong [where f = "bind (post_messages api _)"] split: expo_answer.split)

lemma send_induct [case_names Send]:
  assumes "\<And>xs. (\<And>ys. length ys < length xs \<Longrightarrow> set ys \<subseteq> set xs \<Longrightarrow> P ys) \<Longrightarrow> P xs"
  shows "P xs"
  by (induction xs rule: measure_induct_rule [of length]) (auto intro: assms)

section \<open>What writing down an answer may do\<close>

text \<open>A relation that updates of the deliveries of \<open>items\<close> and of devices keep is kept by everything
  the worker does with the answers for these items.\<close>

locale push_guarantee = guarantee R for R :: "push_db \<Rightarrow> push_db \<Rightarrow> bool" +
  fixes items :: "pushDelivery set"
  assumes delivery: "x \<in> items \<Longrightarrow> R d (d\<lparr>deliveries := upd (of_item x) f (deliveries d)\<rparr>)"
    and device: "R d (d\<lparr>devices := upd (\<lambda>k. pt_id k = i) (\<lambda>k. k\<lparr>pt_disabled := Some t, pt_updated := t\<rparr>) (devices d)\<rparr>)"
begin

lemma keeps_set: "x \<in> items \<Longrightarrow> keeps R (set_delivery x f)"
  unfolding set_delivery_def by (rule keeps_stmt) (auto simp: delivery)

lemma keeps_retry: "x \<in> items \<Longrightarrow> keeps R (retryPushDelivery x m)"
  unfolding retryPushDelivery_def Let_def by (rule keeps_set)

lemma keeps_disable: "x \<in> items \<Longrightarrow> keeps R (disablePushToken x m)"
  unfolding disablePushToken_def
  by (intro keeps_transaction keeps_bind keeps_ret keeps_set keeps_stmt) (auto simp: device)

lemma keeps_each: "(\<And>x. x \<in> set xs \<Longrightarrow> keeps R (f x)) \<Longrightarrow> keeps R (for_each f xs)"
  by (induction xs) (auto intro: keeps_ret keeps_bind)

lemma keeps_collect_each: "(\<And>x. x \<in> set xs \<Longrightarrow> keeps R (f x)) \<Longrightarrow> keeps R (collect f xs)"
  by (induction xs) (auto intro: keeps_ret keeps_bind)

lemma keeps_retry_all: "set xs \<subseteq> items \<Longrightarrow> keeps R (retry_all xs m)"
  unfolding retry_all_def retryPushDeliveries_def
  by (intro keeps_bind keeps_each keeps_retry keeps_ret) auto

lemma keeps_fail_all: "set xs \<subseteq> items \<Longrightarrow> keeps R (failPushDeliveries xs m)"
  unfolding failPushDeliveries_def by (intro keeps_each keeps_set) auto

lemma keeps_ticket: "fst z \<in> items \<Longrightarrow> keeps R (take_ticket z)"
  by (cases z) (auto simp: take_ticket_def intro!: keeps_if keeps_bind keeps_ret keeps_set keeps_retry keeps_disable)

lemma keeps_record: "set xs \<subseteq> items \<Longrightarrow> keeps R (record_answer xs a)"
  unfolding record_answer_def
  by (cases a) (auto intro!: keeps_if keeps_option keeps_bind keeps_ret keeps_retry_all keeps_fail_all keeps_collect_each
    keeps_ticket dest: set_zip_leftD)

end

section \<open>The cost of a batch\<close>

definition quiet_step :: "push_db \<Rightarrow> push_db \<Rightarrow> bool" where
  "quiet_step d d' = (requests d' = requests d)"

interpretation quiet: push_guarantee quiet_step UNIV
  by unfold_locales (auto simp: quiet_step_def)

lemma wp_post:
  "Q (send api (requests d) ms) (d\<lparr>requests := requests d @ [ms]\<rparr>) \<Longrightarrow> wp t (post_messages api ms) Q E d"
  by (rule wpI) (simp add: post_messages_def)

lemma send_cost:
  "xs \<noteq> [] \<Longrightarrow> wp t (sendPushDeliveries api xs) (\<lambda>_ d'. length (requests d') < length (requests d) + 2 * length xs)
     (\<lambda>_ d'. length (requests d') < length (requests d) + 2 * length xs) d"
proof (induction xs arbitrary: d rule: send_induct)
  case (Send xs)
  let ?xs = "take (length xs div 2) xs" and ?ys = "drop (length xs div 2) xs"
  let ?R = "\<lambda>d'. length (requests d') < length (requests d) + 2 * length xs"
  show ?case
  proof (cases "push_messages api xs")
    case (Inl e)
    then show ?thesis using Send.prems by (subst send_unfold) (auto intro!: wp_fail)
  next
    case (Inr ms)
    let ?d = "d\<lparr>requests := requests d @ [ms]\<rparr>"
    have d: "?R ?d" using Send.prems by (cases xs) auto
    have split: "wp t (bind (sendPushDeliveries api ?xs) (\<lambda>first. bind (sendPushDeliveries api ?ys) (\<lambda>second. ret (first + second))))
        (\<lambda>_. ?R) (\<lambda>_. ?R) ?d" if "splits xs a" for a
    proof -
      have n: "?xs \<noteq> []" "?ys \<noteq> []" "length ?xs < length xs" "length ?ys < length xs" "length ?xs + length ?ys = length xs"
        "set ?xs \<subseteq> set xs" "set ?ys \<subseteq> set xs"
        using that by (auto simp: splits_def dest: in_set_takeD in_set_dropD)
      show ?thesis
      proof (rule wp_bind, rule wp_mono [OF Send.IH [OF n(3,6,1)]])
        fix a :: nat and d' :: push_db assume d': "length (requests d') < length (requests ?d) + 2 * length ?xs"
        show "wp t (bind (sendPushDeliveries api ?ys) (\<lambda>second. ret (a + second))) (\<lambda>_. ?R) (\<lambda>_. ?R) d'"
          by (rule wp_bind, rule wp_mono [OF Send.IH [OF n(4,7,2)]]) (use d' n(5) in \<open>auto intro!: wp_ret\<close>)
      qed (use n(5) d in auto)
    qed
    have "wp t (record_answer xs a) (\<lambda>_. ?R) (\<lambda>_. ?R) ?d" for a
      by (rule wp_keeps [OF quiet.keeps_record]) (use d in \<open>auto simp: quiet_step_def\<close>)
    with split show ?thesis
      by (subst send_unfold) (auto simp: Inr intro!: wp_bind wp_post)
  qed
qed

text \<open>
  C36. A batch of n deliveries costs at most 2n - 1 requests to Expo, whatever Expo answers and however
  the database fails: the splitting of rejected batches ends.
\<close>

theorem push_batch_cost:
  assumes "sendPushDeliveries api xs w = (r, w')" "xs \<noteq> []"
  shows "length (requests (db w')) \<le> length (requests (db w)) + (2 * length xs - 1)"
  using wp_both [where w = w, OF send_cost [OF assms(2), where api = api and t = "now w"]] assms by simp

section \<open>Splitting isolates rejected devices\<close>

text \<open>Expo accepts a request when it accepts each of its messages, and rejects it as a whole with 400
  and the code of the first message it refuses otherwise (\<open>refuses\<close>); \<open>ticket\<close> names the ticket
  of an accepted message.\<close>

definition accepted :: "string \<Rightarrow> expoTicket" where
  "accepted i = \<lparr>tk_status = ''ok'', tk_id = i, tk_message = [], tk_error = []\<rparr>"

definition rejection :: "string \<Rightarrow> expo_body" where
  "rejection code = \<lparr>eb_errors = Some [code], eb_data = None\<rparr>"


















section \<open>A pass\<close>

definition message_to :: "json \<Rightarrow> string" where
  "message_to m = (case m of JObj kv \<Rightarrow> text_at ''to'' kv | _ \<Rightarrow> [])"

lemma message_to_of: "\<not> isl (push_message api x) \<Longrightarrow> message_to (message_of api x) = PushToken x"
  by (auto simp: push_message_def message_of_def message_to_def text_at_def Let_def split: sum.splits)

definition pass_step :: "pushDelivery set \<Rightarrow> push_db \<Rightarrow> push_db \<Rightarrow> bool" where
  "pass_step items d d' =
     ((\<forall>r \<in> set (deliveries d). (\<forall>x \<in> items. \<not> of_item x r) \<longrightarrow> r \<in> set (deliveries d')) \<and>
      (\<exists>new. requests d' = requests d @ new \<and> message_to ` set (concat new) \<subseteq> PushToken ` items))"

lemma pass_step_trans:
  assumes "pass_step items a b" "pass_step items b c"
  shows "pass_step items a c"
proof -
  obtain m n where "requests b = requests a @ m" "message_to ` set (concat m) \<subseteq> PushToken ` items"
    "requests c = requests b @ n" "message_to ` set (concat n) \<subseteq> PushToken ` items"
    using assms unfolding pass_step_def by blast
  then have "requests c = requests a @ (m @ n) \<and> message_to ` set (concat (m @ n)) \<subseteq> PushToken ` items"
    by (simp add: image_Un del: set_concat)
  moreover have "\<forall>r \<in> set (deliveries a). (\<forall>x \<in> items. \<not> of_item x r) \<longrightarrow> r \<in> set (deliveries c)"
    using assms unfolding pass_step_def by blast
  ultimately show ?thesis unfolding pass_step_def by blast
qed

interpretation pass: push_guarantee "pass_step items" items for items
proof unfold_locales
  show "pass_step items a b \<Longrightarrow> pass_step items b c \<Longrightarrow> pass_step items a c" for a b c by (rule pass_step_trans)
  show "x \<in> items \<Longrightarrow> pass_step items d (d\<lparr>deliveries := upd (of_item x) f (deliveries d)\<rparr>)" for x d f
    by (force simp: pass_step_def set_upd)
qed (simp_all add: pass_step_def)

lemma keeps_post: "message_to ` set ms \<subseteq> PushToken ` items \<Longrightarrow> keeps (pass_step items) (post_messages api ms)"
  by (simp add: keeps_def post_messages_def pass_step_def)

lemma keeps_send: "set xs \<subseteq> items \<Longrightarrow> keeps (pass_step items) (sendPushDeliveries api xs)"
proof (induction xs rule: send_induct)
  case (Send xs)
  let ?xs = "take (length xs div 2) xs" and ?ys = "drop (length xs div 2) xs"
  show ?case
  proof (cases "push_messages api xs")
    case (Inl e)
    then show ?thesis by (subst send_unfold) (simp add: pass.keeps_fail)
  next
    case (Inr ms)
    then have "message_to ` set ms \<subseteq> PushToken ` items"
      using Send.prems by (auto simp: push_messages_Inr message_to_of)
    moreover have "keeps (pass_step items) (bind (sendPushDeliveries api ?xs) (\<lambda>first. bind (sendPushDeliveries api ?ys)
        (\<lambda>second. ret (first + second))))" if "splits xs a" for a
    proof -
      have n: "length ?xs < length xs" "length ?ys < length xs" "set ?xs \<subseteq> set xs" "set ?ys \<subseteq> set xs"
        using that by (auto simp: splits_def dest: in_set_takeD in_set_dropD)
      show ?thesis
        by (intro pass.keeps_bind pass.keeps_ret Send.IH [OF n(1,3)] Send.IH [OF n(2,4)]) (use n Send.prems in auto)
    qed
    ultimately show ?thesis using Send.prems
      by (subst send_unfold) (auto simp: Inr intro!: pass.keeps_bind keeps_post pass.keeps_record)
  qed
qed


definition settled_delivery :: "delivery_row \<Rightarrow> bool" where
  "settled_delivery r = (pd_status r = ''sent'' \<or> pd_status r = ''delivered'' \<or> pd_status r = ''disabled'')"

definition row_key :: "delivery_row \<Rightarrow> (string \<times> string) option" where
  "row_key r = Some (row_order r)"

text \<open>The steps before the claim keep the keys, the devices, the requests and the settled rows.\<close>

definition prepared :: "push_db \<Rightarrow> push_db \<Rightarrow> bool" where
  "prepared d d' = ((uniq row_key (deliveries d) \<longrightarrow> uniq row_key (deliveries d')) \<and> devices d' = devices d \<and>
     requests d' = requests d \<and> (\<forall>r \<in> set (deliveries d). settled_delivery r \<longrightarrow> r \<in> set (deliveries d')))"

interpretation prep: guarantee prepared
  by unfold_locales (auto simp: prepared_def)

lemma prepared_upd:
  assumes "\<And>r. row_key (f r) = row_key r" "\<And>r. p r \<Longrightarrow> \<not> settled_delivery r"
  shows "prepared d (d\<lparr>deliveries := upd p f (deliveries d)\<rparr>)"
  using assms by (force simp: prepared_def set_upd uniq_upd)

lemma add_delivery_uniq: "uniq row_key rows \<Longrightarrow> uniq row_key (add_delivery t nk rows) \<and> set rows \<subseteq> set (add_delivery t nk rows)"
  by (cases nk) (auto simp: add_delivery_def table_simps row_key_def new_delivery_def set_keys row_order_def list_ex_iff)

lemma add_deliveries_uniq:
  "uniq row_key rows \<Longrightarrow> uniq row_key (fold (add_delivery t) ks rows) \<and> set rows \<subseteq> set (fold (add_delivery t) ks rows)"
  by (induction ks arbitrary: rows) (auto dest: add_delivery_uniq, meson add_delivery_uniq subsetD)

lemma materialize_superset: "set rows \<subseteq> set (fold (add_delivery t) ks rows)"
  by (induction ks arbitrary: rows) (auto simp: add_delivery_def split: prod.splits, fastforce)

lemma preparations:
  "keeps prepared recover_leases" "keeps prepared materialize" "keeps prepared requeue_rejected"
proof -
  show "keeps prepared recover_leases"
    unfolding recover_leases_def by (rule prep.keeps_stmt) (auto simp: row_key_def row_order_def settled_delivery_def intro!: prepared_upd)
  show "keeps prepared requeue_rejected"
    unfolding requeue_rejected_def by (rule prep.keeps_stmt) (auto simp: row_key_def row_order_def settled_delivery_def intro!: prepared_upd)
  show "keeps prepared materialize"
    unfolding materialize_def
    by (rule prep.keeps_stmt) (use add_deliveries_uniq materialize_superset in \<open>fastforce simp: prepared_def\<close>)
qed

lemma push_item_D:
  assumes "push_item d r = Some x"
  shows "row_order r = (NotificationID x, PushTokenID x) \<and> (\<exists>k \<in> set (devices d). pt_disabled k = None \<and> pt_token k = PushToken x)"
proof -
  obtain n k where "find (\<lambda>k. pt_id k = pd_device r \<and> pt_disabled k = None) (devices d) = Some k"
    "NotificationID x = pd_notification r" "PushTokenID x = pd_device r" "PushToken x = pt_token k"
    using assms by (auto simp: push_item_def split: option.splits)
  then show ?thesis by (auto simp: row_order_def dest!: find_Some_D)
qed

lemma due_item_D:
  assumes "x \<in> set (due_items locked t d)"
  shows "\<exists>r \<in> set (deliveries d). claimable locked t r \<and> row_order r = (NotificationID x, PushTokenID x)"
    and "\<exists>k \<in> set (devices d). pt_disabled k = None \<and> pt_token k = PushToken x"
proof -
  obtain r where "r \<in> set (deliveries d)" "claimable locked t r" "push_item d r = Some x"
    using assms by (auto simp: due_items_def in_map_filter dest!: in_set_takeD)
  with push_item_D [OF this(3)] show "\<exists>r \<in> set (deliveries d). claimable locked t r \<and> row_order r = (NotificationID x, PushTokenID x)"
    and "\<exists>k \<in> set (devices d). pt_disabled k = None \<and> pt_token k = PushToken x"
    by auto
qed

lemma claim_wp:
  "wp t (claim_deliveries locked) (\<lambda>xs d'. xs = due_items locked t d \<and> pass_step (set (due_items locked t d)) d d')
     (\<lambda>_ d'. pass_step (set (due_items locked t d)) d d') d"
proof -
  let ?I = "set (due_items locked t d)"
  have "keeps (pass_step ?I) (for_each (\<lambda>x. set_delivery x f) (due_items locked t d))" for f
    by (intro pass.keeps_each pass.keeps_set)
  then show ?thesis unfolding claim_deliveries_def
    by (intro wp_transaction wp_bind wp_query, auto simp: pass.refl)
      (rule wp_keeps, assumption, auto intro!: wp_ret simp: pass.refl)
qed

text \<open>
  C37. A delivery pass addresses only devices that were enabled when it began, and leaves every delivery
  that is already sent, delivered or disabled exactly as it is, whatever Expo answers and however
  the database fails.
\<close>

theorem push_pass_safe:
  assumes "RunPushDeliveryBatch api locked order w = (r, w')" "uniq row_key (deliveries (db w))"
  shows "(\<forall>x \<in> set (deliveries (db w)). settled_delivery x \<longrightarrow> x \<in> set (deliveries (db w'))) \<and>
    (\<exists>new. requests (db w') = requests (db w) @ new \<and>
      (\<forall>m \<in> set (concat new). \<exists>k \<in> set (devices (db w)). pt_disabled k = None \<and> message_to m = pt_token k))"
    (is "?safe (db w) (db w')")
proof -
  have pre: "?safe d d'" if "prepared d d'" for d d' using that by (auto simp: prepared_def)
  have step: "?safe d d2" if p: "prepared d d1" and s: "pass_step (set (due_items locked t d1)) d1 d2"
    and u: "uniq row_key (deliveries d)" for t d d1 d2
  proof (intro conjI ballI impI)
    fix x assume x: "x \<in> set (deliveries d)" "settled_delivery x"
    have "\<not> of_item i x" if i: "i \<in> set (due_items locked t d1)" for i
    proof
      assume "of_item i x"
      obtain y where y: "y \<in> set (deliveries d1)" "claimable locked t y" "row_order y = (NotificationID i, PushTokenID i)"
        using due_item_D(1) [OF i] by blast
      then have "row_key y = row_key x" using \<open>of_item i x\<close> by (simp add: row_key_def row_order_def of_item_def)
      then have "y = x" using p u x y(1) uniq_rows [of row_key "deliveries d1" y x] by (auto simp: prepared_def row_key_def)
      then show False using y(2) x(2) by (auto simp: claimable_def settled_delivery_def)
    qed
    then show "x \<in> set (deliveries d2)" using x p s by (auto simp: prepared_def pass_step_def)
  next
    have d: "devices d1 = devices d" "requests d1 = requests d" using p by (auto simp: prepared_def)
    obtain new where n: "requests d2 = requests d1 @ new" "message_to ` set (concat new) \<subseteq> PushToken ` set (due_items locked t d1)"
      using s unfolding pass_step_def by blast
    have "\<exists>k \<in> set (devices d). pt_disabled k = None \<and> message_to m = pt_token k" if "m \<in> set (concat new)" for m
    proof -
      have "message_to m \<in> PushToken ` set (due_items locked t d1)" using n(2) that by blast
      then obtain i where i: "i \<in> set (due_items locked t d1)" "message_to m = PushToken i" by blast
      from due_item_D(2) [OF i(1)] show ?thesis unfolding d(1) i(2) by auto
    qed
    with n(1) d(2) show "\<exists>new. requests d2 = requests d @ new \<and>
      (\<forall>m \<in> set (concat new). \<exists>k \<in> set (devices d). pt_disabled k = None \<and> message_to m = pt_token k)"
      by (intro exI [of _ new] conjI) (simp, blast)
  qed
  have "wp t (RunPushDeliveryBatch api locked order) (\<lambda>_. ?safe d) (\<lambda>_. ?safe d) d" if u: "uniq row_key (deliveries d)" for t d
  proof -
    have claim: "wp t (bind (claim_deliveries locked) (\<lambda>items. if items = [] then ret 0
      else bind (collect (\<lambda>project. sendPushDeliveries api (filter (\<lambda>x. ExpoProjectID x = project) items))
         (order (remdups (map ExpoProjectID items)))) (\<lambda>ns. ret (sum_list ns)))) (\<lambda>_. ?safe d) (\<lambda>_. ?safe d) d1"
      if p: "prepared d d1" for d1
    proof (rule wp_bind, rule wp_mono [OF claim_wp])
      fix items d2 assume c: "items = due_items locked t d1 \<and> pass_step (set (due_items locked t d1)) d1 d2"
      let ?m = "if items = [] then ret 0
        else bind (collect (\<lambda>project. sendPushDeliveries api (filter (\<lambda>x. ExpoProjectID x = project) items))
         (order (remdups (map ExpoProjectID items)))) (\<lambda>ns. ret (sum_list ns))"
      have "keeps (pass_step (set items)) ?m"
        by (intro pass.keeps_if pass.keeps_ret pass.keeps_bind pass.keeps_collect keeps_send) auto
      then show "wp t ?m (\<lambda>_. ?safe d) (\<lambda>_. ?safe d) d2"
        by (rule wp_keeps) (use c step [OF p _ u] in \<open>blast intro: pass_step_trans\<close>)+
    qed (use step [OF p _ u] in blast)
    show ?thesis unfolding RunPushDeliveryBatch_def
      by (rule wp_bind, rule wp_keeps [OF preparations(1)], rule wp_bind, rule wp_keeps [OF preparations(2)],
          rule wp_bind, rule wp_keeps [OF preparations(3)])
        (rule claim pre, blast intro: prep.trans)+
  qed
  from wp_both [where w = w, OF this [OF assms(2)]] assms(1) show ?thesis by simp
qed

section \<open>A small Expo for the witnesses\<close>

text \<open>It refuses the device T2.\<close>

definition refuses0 :: "json \<Rightarrow> string option" where
  "refuses0 m = (if message_to m = ''T2'' then Some ''INVALID_TOKEN'' else None)"

definition ticket0 :: "json \<Rightarrow> string" where
  "ticket0 m = ''ticket-'' @ message_to m"

definition expo0 :: expo where
  "expo0 = \<lparr>send = (\<lambda>h ms. case List.map_filter refuses0 ms of
        [] \<Rightarrow> Response 200 \<lparr>eb_errors = None, eb_data = Some (map (\<lambda>m. accepted (ticket0 m)) ms)\<rparr>
      | code # _ \<Rightarrow> Response 400 (rejection code)),
     receipts = (\<lambda>_. NoResponse ''down''), parse_url = (\<lambda>_. None)\<rparr>"


definition device0 :: "string \<Rightarrow> push_token" where
  "device0 i = \<lparr>pt_id = i, pt_user = ''u'', pt_token = ''T'' @ i, pt_disabled = (if i = ''3'' then Some 5 else None), pt_sound = True,
     pt_channel = ''orders'', pt_project = None, pt_updated = 0\<rparr>"

definition delivered0 :: delivery_row where
  "delivered0 = \<lparr>pd_notification = ''n'', pd_device = ''0'', pd_status = ''delivered'', pd_attempts = 1, pd_next = 0,
     pd_ticket = Some ''t'', pd_error = [], pd_sent = Some 0, pd_checked = Some 1, pd_updated = 1\<rparr>"

definition push0 :: "push_db world" where
  "push0 = \<lparr>db = \<lparr>pushes = [\<lparr>pn_id = ''n'', pn_user = ''u'', pn_order = None, pn_title = ''Hello'', pn_body = ''b'', pn_data = JObj [],
      pn_type = ''order'', pn_created = 900, pn_read = False\<rparr>],
     devices = map device0 [''0'', ''1'', ''2'', ''3''], deliveries = [delivered0], requests = []\<rparr>, faults = [], now = 1000\<rparr>"

lemma push_pass_safe_witness:
  "delivered0 \<in> set (deliveries (db (snd (RunPushDeliveryBatch expo0 (\<lambda>_. False) (\<lambda>ps. ps) push0)))) \<and>
   map (map message_to) (requests (db (snd (RunPushDeliveryBatch expo0 (\<lambda>_. False) (\<lambda>ps. ps) push0)))) = [[''T1'', ''T2''], [''T1''], [''T2'']]"
proof
  have "uniq row_key (deliveries (db push0))" by (simp add: push0_def uniq_def row_key_def)
  from push_pass_safe [OF prod.collapse [symmetric] this]
  show "delivered0 \<in> set (deliveries (db (snd (RunPushDeliveryBatch expo0 (\<lambda>_. False) (\<lambda>ps. ps) push0))))"
    by (auto simp: push0_def settled_delivery_def delivered0_def)
  show "map (map message_to) (requests (db (snd (RunPushDeliveryBatch expo0 (\<lambda>_. False) (\<lambda>ps. ps) push0)))) = [[''T1'', ''T2''], [''T1''], [''T2'']]"
    by code_simp
qed

text \<open>The two deliveries of that pass, submitted together.\<close>

definition items0 :: "pushDelivery list" where
  "items0 = due_items (\<lambda>_. False) 1000 (db (snd (materialize push0)))"


lemma push_batch_cost_witness:
  "length (requests (db (snd (sendPushDeliveries expo0 items0 push0)))) \<le> 3"
proof -
  have "length items0 = 2" by code_simp
  then have "items0 \<noteq> []" by auto
  from push_batch_cost [OF prod.collapse [symmetric] this, of expo0 push0] \<open>length items0 = 2\<close>
  show ?thesis by (simp add: push0_def)
qed

end
