(* ===== verification/Migrations.thy ===== *)
theory Migrations
  imports Effects "HOL-Library.List_Lexorder" "HOL-Library.Char_ord"
begin

text \<open>
  The schema migrations runner (internal/migrations/runner.go), whole: the scanner that splits a
  script into statements, the listing of the scripts, the application of one script in one
  transaction together with its ledger entry, and a pass of \<open>Run\<close> under the advisory lock.

  The effect of a statement on the schema (\<open>exec\<close>), the test for the core table (\<open>core\<close>), the
  directory listing and the file contents are parameters. Scripts hold no transaction control
  and do not write the ledger. The advisory lock makes passes sequential.
\<close>

section \<open>Splitting a script\<close>

text \<open>\<open>dollarTag\<close>, \<open>inSingleQuote\<close>, \<open>inDoubleQuote\<close>, \<open>inLineComment\<close> and \<open>blockCommentDepth\<close>: the code
  tests them in turn and sets one only when all are clear, so they form one mode.\<close>

datatype scan_mode = Code | LineComment | BlockComment nat | Dollar string | SingleQuote | DoubleQuote

definition tag_char :: "char \<Rightarrow> bool" where
  "tag_char ch = (let n = (of_char ch :: nat) in
     97 \<le> n \<and> n \<le> 122 \<or> 65 \<le> n \<and> n \<le> 90 \<or> 48 \<le> n \<and> n \<le> 57 \<or> n = 95)"

fun tag_tail :: "string \<Rightarrow> string option" where
  "tag_tail [] = None"
| "tag_tail (ch # cs) = (if ch = CHR ''$'' then Some [ch]
     else if \<not> tag_char ch then None else map_option (Cons ch) (tag_tail cs))"

definition scanDollarTag :: "string \<Rightarrow> string option" where
  "scanDollarTag s = (case s of
     c # cs \<Rightarrow> if c = CHR ''$'' then map_option (Cons c) (tag_tail cs) else None
   | [] \<Rightarrow> None)"

definition flush :: "string \<Rightarrow> string list \<Rightarrow> string list" where
  "flush builder statements = (let s = trim_space builder in if s \<noteq> [] then statements @ [s] else statements)"

definition next_is :: "char \<Rightarrow> string \<Rightarrow> bool" where
  "next_is c s = (case s of x # _ \<Rightarrow> x = c | [] \<Rightarrow> False)"

function (sequential) scan :: "scan_mode \<Rightarrow> string \<Rightarrow> string list \<Rightarrow> string \<Rightarrow> string list" where
  "scan m b out [] = flush b out"
| "scan LineComment b out (ch # s) = scan (if ch = CHR 0x0A then Code else LineComment) (b @ [ch]) out s"
| "scan (BlockComment n) b out (ch # s) =
     (if ch = CHR ''/'' \<and> next_is CHR ''*'' s then scan (BlockComment (n + 1)) (b @ [ch, CHR ''*'']) out (tl s)
      else if ch = CHR ''*'' \<and> next_is CHR ''/'' s
      then scan (if n - 1 = 0 then Code else BlockComment (n - 1)) (b @ [ch, CHR ''/'']) out (tl s)
      else scan (BlockComment n) (b @ [ch]) out s)"
| "scan (Dollar tag) b out (ch # s) =
     (if has_prefix (ch # s) tag then scan Code (b @ tag) out (drop (length tag - 1) s)
      else scan (Dollar tag) (b @ [ch]) out s)"
| "scan SingleQuote b out (ch # s) =
     (if ch = CHR 0x5C \<and> s \<noteq> [] then scan SingleQuote (b @ [ch, hd s]) out (tl s)
      else if ch = CHR 0x27 then
        (if next_is (CHR 0x27) s then scan SingleQuote (b @ [ch, CHR 0x27]) out (tl s)
         else scan Code (b @ [ch]) out s)
      else scan SingleQuote (b @ [ch]) out s)"
| "scan DoubleQuote b out (ch # s) =
     (if ch = CHR 0x22 then
        (if next_is (CHR 0x22) s then scan DoubleQuote (b @ [ch, CHR 0x22]) out (tl s)
         else scan Code (b @ [ch]) out s)
      else scan DoubleQuote (b @ [ch]) out s)"
| "scan Code b out (ch # s) =
     (if ch = CHR 0x27 then scan SingleQuote (b @ [ch]) out s
      else if ch = CHR 0x22 then scan DoubleQuote (b @ [ch]) out s
      else if ch = CHR ''-'' \<and> next_is CHR ''-'' s then scan LineComment (b @ [ch, CHR ''-'']) out (tl s)
      else if ch = CHR ''/'' \<and> next_is CHR ''*'' s then scan (BlockComment 1) (b @ [ch, CHR ''*'']) out (tl s)
      else if ch = CHR ''$'' then
        (case scanDollarTag (ch # s) of
           Some tag \<Rightarrow> scan (Dollar tag) (b @ tag) out (drop (length tag - 1) s)
         | None \<Rightarrow> scan Code (b @ [ch]) out s)
      else if ch = CHR '';'' then scan Code [] (flush b out) s
      else scan Code (b @ [ch]) out s)"
  by pat_completeness auto
termination by (relation "measure (\<lambda>(m, b, out, s). length s)") auto

definition splitSQLStatements :: "string \<Rightarrow> string list" where
  "splitSQLStatements input = scan Code [] [] input"

section \<open>Listing the scripts\<close>

definition file_ext :: "string \<Rightarrow> string" where
  "file_ext s = (if CHR ''.'' \<in> set s then CHR ''.'' # rev (takeWhile (\<lambda>c. c \<noteq> CHR ''.'') (rev s)) else [])"

record dir_entry =
  de_name :: string
  de_dir :: bool

definition schema_first :: "string list \<Rightarrow> string list" where
  "schema_first names = (if ''schema.sql'' \<in> set names then ''schema.sql'' # remove1 ''schema.sql'' names else names)"

definition loadMigrationNames :: "(err + dir_entry list) \<Rightarrow> err + string list" where
  "loadMigrationNames dir = (case dir of Inl e \<Rightarrow> Inl e
   | Inr entries \<Rightarrow> Inr (schema_first (sort (map de_name
       (filter (\<lambda>x. \<not> (de_dir x \<or> file_ext (de_name x) \<noteq> ''.sql'')) entries)))))"

section \<open>The ledger and a pass\<close>

record 's mig_db =
  schema :: 's
  ledger :: "(string \<times> int) list option"

definition lift_sum :: "(err + 'a) \<Rightarrow> ('d, 'a) prog" where
  "lift_sum r = (case r of Inl e \<Rightarrow> fail e | Inr a \<Rightarrow> ret a)"

text \<open>\<open>defer\<close> of a statement whose error is dropped.\<close>

definition then_always :: "('d, 'a) prog \<Rightarrow> ('d, unit) prog \<Rightarrow> ('d, 'a) prog" where
  "then_always m k = bind (attempt m) (\<lambda>r. bind (ignore k) (\<lambda>_. lift_sum r))"

definition no_table :: err where
  "no_table = Constraint ''relation schema_migrations does not exist''"

definition ensureTrackingTable :: "('s mig_db, unit) prog" where
  "ensureTrackingTable = stmt (\<lambda>d t. Inr ((), d\<lparr>ledger := Some (case ledger d of None \<Rightarrow> [] | Some l \<Rightarrow> l)\<rparr>))"

definition appliedMigrations :: "('s mig_db, string set) prog" where
  "appliedMigrations = query (\<lambda>d t. case ledger d of None \<Rightarrow> Inl no_table | Some l \<Rightarrow> Inr (fst ` set l))"

definition markApplied :: "string \<Rightarrow> ('s mig_db, unit) prog" where
  "markApplied n = stmt (\<lambda>d t. case ledger d of None \<Rightarrow> Inl no_table
     | Some l \<Rightarrow> Inr ((), if n \<in> fst ` set l then d else d\<lparr>ledger := Some (l @ [(n, t)])\<rparr>))"

definition exec_stmt :: "(string \<Rightarrow> 's \<Rightarrow> err + 's) \<Rightarrow> string \<Rightarrow> ('s mig_db, unit) prog" where
  "exec_stmt exec s = stmt (\<lambda>d t. case exec s (schema d) of Inl e \<Rightarrow> Inl e | Inr x \<Rightarrow> Inr ((), d\<lparr>schema := x\<rparr>))"

definition applyMigration ::
  "(string \<Rightarrow> 's \<Rightarrow> err + 's) \<Rightarrow> (string \<Rightarrow> err + string) \<Rightarrow> string \<Rightarrow> ('s mig_db, unit) prog" where
  "applyMigration exec file n =
     bind (lift_sum (file n)) (\<lambda>content. let statements = splitSQLStatements content in
     transaction (
       bind (for_each (\<lambda>s. if trim_space s = [] then ret () else exec_stmt exec s) statements) (\<lambda>_.
       bind (markApplied n) (\<lambda>_.
       ret (Commit ())))))"

definition coreSchemaExists :: "('s \<Rightarrow> bool) \<Rightarrow> ('s mig_db, bool) prog" where
  "coreSchemaExists core = query (\<lambda>d t. Inr (core (schema d)))"

definition migrate_one ::
  "(string \<Rightarrow> 's \<Rightarrow> err + 's) \<Rightarrow> (string \<Rightarrow> err + string) \<Rightarrow> string set \<Rightarrow> bool \<Rightarrow> string \<Rightarrow> ('s mig_db, unit) prog" where
  "migrate_one exec file applied hasBaseline n =
     (if n \<in> applied then ret ()
      else if n = ''schema.sql'' \<and> hasBaseline then markApplied n
      else map_err (\<lambda>e. Msg (''apply migration '' @ n @ '': '' @ error_text e)) (applyMigration exec file n))"

definition Run ::
  "(string \<Rightarrow> 's \<Rightarrow> err + 's) \<Rightarrow> ('s \<Rightarrow> bool) \<Rightarrow> (err + dir_entry list) \<Rightarrow> (string \<Rightarrow> err + string) \<Rightarrow> ('s mig_db, unit) prog" where
  "Run exec core dir file = bind lock (\<lambda>_. then_always (
     bind ensureTrackingTable (\<lambda>_.
     bind (lift_sum (loadMigrationNames dir)) (\<lambda>files.
     bind appliedMigrations (\<lambda>applied.
     bind (coreSchemaExists core) (\<lambda>hasBaseline.
     for_each (migrate_one exec file applied hasBaseline) files))))) lock)"

end
