(* ===== verification/Migration_Safety.thy ===== *)
theory Migration_Safety
  imports Migrations
begin

text \<open>
  What the migrations runner promises. The scanner is the inverse of printing: a script printed
  from statements built of literals, quoted names, comments and dollar bodies splits into exactly
  these statements. A pass refines an abstract replay: the schema is at any time the result of
  running the scripts of the ledger, each once, whole and in the order of the ledger, and a pass
  that meets no failure leaves no script pending.
\<close>

section \<open>Scripts as printed statements\<close>

datatype mark = Opn | Cls | Inside char

datatype piece = Plain char | Text string | Ident string | Remark string | Block "mark list" | Body string string

definition quoted :: "char \<Rightarrow> (char \<Rightarrow> bool) \<Rightarrow> string \<Rightarrow> string" where
  "quoted q dbl s = q # concat (map (\<lambda>c. if dbl c then [c, c] else [c]) s) @ [q]"

fun print_marks :: "mark list \<Rightarrow> string" where
  "print_marks [] = []"
| "print_marks (Opn # ms) = ''/*'' @ print_marks ms"
| "print_marks (Cls # ms) = ''*/'' @ print_marks ms"
| "print_marks (Inside c # ms) = c # print_marks ms"

definition dollar :: "string \<Rightarrow> string" where
  "dollar nm = ''$'' @ nm @ ''$''"

fun print_piece :: "piece \<Rightarrow> string" where
  "print_piece (Plain c) = [c]"
| "print_piece (Text s) = quoted (CHR 0x27) (\<lambda>c. c = CHR 0x27 \<or> c = CHR 0x5C) s"
| "print_piece (Ident s) = quoted (CHR 0x22) (\<lambda>c. c = CHR 0x22) s"
| "print_piece (Remark s) = ''--'' @ s @ [CHR 0x0A]"
| "print_piece (Block ms) = ''/*'' @ print_marks ms"
| "print_piece (Body nm s) = dollar nm @ s @ dollar nm"

definition print_pieces :: "piece list \<Rightarrow> string" where
  "print_pieces ps = concat (map print_piece ps)"

text \<open>The marks of a comment close it exactly at their end; text inside forms no mark by accident.\<close>

fun ok_marks :: "nat \<Rightarrow> mark list \<Rightarrow> bool" where
  "ok_marks n [] = False"
| "ok_marks n (Opn # ms) = ok_marks (n + 1) ms"
| "ok_marks n (Cls # ms) = (if n = 1 then ms = [] else ok_marks (n - 1) ms)"
| "ok_marks n (Inside c # ms) = (\<not> (c = CHR ''/'' \<and> next_is CHR ''*'' (print_marks ms)) \<and>
     \<not> (c = CHR ''*'' \<and> next_is CHR ''/'' (print_marks ms)) \<and> ok_marks n ms)"

fun ok_body :: "string \<Rightarrow> string \<Rightarrow> bool" where
  "ok_body tag [] = True"
| "ok_body tag (c # cs) = (\<not> has_prefix (c # cs @ tag) tag \<and> ok_body tag cs)"

fun ok_piece :: "piece \<Rightarrow> string \<Rightarrow> bool" where
  "ok_piece (Plain c) r = (c \<notin> {CHR 0x27, CHR 0x22, CHR ''$'', CHR '';''} \<and>
     \<not> (c = CHR ''-'' \<and> next_is CHR ''-'' r) \<and> \<not> (c = CHR ''/'' \<and> next_is CHR ''*'' r))"
| "ok_piece (Text s) r = (\<not> next_is (CHR 0x27) r)"
| "ok_piece (Ident s) r = (\<not> next_is (CHR 0x22) r)"
| "ok_piece (Remark s) r = (CHR 0x0A \<notin> set s)"
| "ok_piece (Block ms) r = ok_marks 1 ms"
| "ok_piece (Body nm s) r = (list_all tag_char nm \<and> ok_body (dollar nm) s)"

fun ok_pieces :: "piece list \<Rightarrow> bool" where
  "ok_pieces [] = True"
| "ok_pieces (p # ps) = (ok_piece p (print_pieces ps) \<and> ok_pieces ps)"

section \<open>The scanner reads back what was printed\<close>

lemma has_prefix_append: "length p \<le> length xs \<Longrightarrow> has_prefix (xs @ ys) p = has_prefix xs p"
  by (induction xs p rule: has_prefix.induct) auto

lemma has_prefix_self: "has_prefix (p @ ys) p"
  by (induction p) auto

lemma next_is_append: "next_is c (xs @ ys) = (if xs = [] then next_is c ys else next_is c xs)"
  by (cases xs) (auto simp: next_is_def)

lemma next_is_Cons [simp]: "next_is c (x # xs) = (x = c)" "next_is c [] = False"
  by (auto simp: next_is_def)

lemma scan_text:
  "\<not> next_is (CHR 0x27) rest \<Longrightarrow>
   scan SingleQuote b out (concat (map (\<lambda>c. if c = CHR 0x27 \<or> c = CHR 0x5C then [c, c] else [c]) s) @ CHR 0x27 # rest) =
   scan Code (b @ concat (map (\<lambda>c. if c = CHR 0x27 \<or> c = CHR 0x5C then [c, c] else [c]) s) @ [CHR 0x27]) out rest"
  by (induction s arbitrary: b) auto

lemma scan_ident:
  "\<not> next_is (CHR 0x22) rest \<Longrightarrow>
   scan DoubleQuote b out (concat (map (\<lambda>c. if c = CHR 0x22 then [c, c] else [c]) s) @ CHR 0x22 # rest) =
   scan Code (b @ concat (map (\<lambda>c. if c = CHR 0x22 then [c, c] else [c]) s) @ [CHR 0x22]) out rest"
  by (induction s arbitrary: b) auto

lemma scan_remark:
  "CHR 0x0A \<notin> set s \<Longrightarrow> scan LineComment b out (s @ CHR 0x0A # rest) = scan Code (b @ s @ [CHR 0x0A]) out rest"
  by (induction s arbitrary: b) auto

lemma ok_marks_nonempty: "ok_marks n ms \<Longrightarrow> print_marks ms \<noteq> []"
  by (cases ms rule: print_marks.cases) auto

lemma scan_marks:
  "ok_marks n ms \<Longrightarrow> 0 < n \<Longrightarrow>
   scan (BlockComment n) b out (print_marks ms @ rest) = scan Code (b @ print_marks ms) out rest"
proof (induction n ms arbitrary: b rule: ok_marks.induct)
  case (3 n ms)
  then show ?case by (cases "n = 1") auto
next
  case (4 n c ms)
  then have "print_marks ms \<noteq> []" by (auto dest: ok_marks_nonempty)
  with 4 show ?case by (auto simp: next_is_append)
qed auto

lemma scan_body:
  assumes "ok_body tag s" "tag \<noteq> []"
  shows "scan (Dollar tag) b out (s @ tag @ rest) = scan Code (b @ s @ tag) out rest"
  using assms(1)
proof (induction s arbitrary: b)
  case Nil
  obtain c cs where t: "tag = c # cs" using assms(2) by (cases tag) auto
  have "has_prefix (tag @ rest) tag" by (rule has_prefix_self)
  then show ?case by (simp add: t)
next
  case (Cons c s)
  have "has_prefix ((c # s @ tag) @ rest) tag = has_prefix (c # s @ tag) tag"
    by (rule has_prefix_append) simp
  then show ?case using Cons by simp
qed

lemma tag_tail_name: "list_all tag_char nm \<Longrightarrow> tag_tail (nm @ CHR ''$'' # rest) = Some (nm @ ''$'')"
  by (induction nm) (auto simp: tag_char_def)

lemma scanDollarTag_dollar: "list_all tag_char nm \<Longrightarrow> scanDollarTag (dollar nm @ rest) = Some (dollar nm)"
  by (simp add: scanDollarTag_def dollar_def tag_tail_name)

lemma scan_dollar:
  assumes "list_all tag_char nm"
  shows "scan Code b out (dollar nm @ rest) = scan (Dollar (dollar nm)) (b @ dollar nm) out rest"
proof -
  have "dollar nm @ rest = CHR ''$'' # (nm @ ''$'') @ rest" by (simp add: dollar_def)
  moreover have "drop (length (dollar nm) - 1) ((nm @ ''$'') @ rest) = rest" by (simp add: dollar_def)
  ultimately show ?thesis using scanDollarTag_dollar [OF assms, of rest] by simp
qed

lemma scan_piece:
  assumes "ok_piece p r" "\<And>c. c \<noteq> CHR '';'' \<Longrightarrow> next_is c rest = next_is c r"
  shows "scan Code b out (print_piece p @ rest) = scan Code (b @ print_piece p) out rest"
proof (cases p)
  case (Body nm s)
  have "dollar nm \<noteq> []" by (simp add: dollar_def)
  then show ?thesis using assms(1) Body scan_body [of "dollar nm" s "b @ dollar nm" out rest]
    scan_dollar [of nm b out "s @ dollar nm @ rest"] by simp
next
  case (Text s)
  then show ?thesis using assms by (simp add: quoted_def scan_text)
next
  case (Ident s)
  then show ?thesis using assms by (simp add: quoted_def scan_ident)
qed (use assms in \<open>auto simp: scan_remark scan_marks\<close>)

text \<open>A statement ends at the end of the script or before a semicolon.\<close>

definition ends :: "string \<Rightarrow> bool" where
  "ends rest = (rest = [] \<or> next_is CHR '';'' rest)"

lemma ends_next: "ends rest \<Longrightarrow> c \<noteq> CHR '';'' \<Longrightarrow> next_is c (xs @ rest) = next_is c xs"
  by (cases rest) (auto simp: ends_def next_is_append)

lemma scan_pieces:
  "ok_pieces ps \<Longrightarrow> ends rest \<Longrightarrow>
   scan Code b out (print_pieces ps @ rest) = scan Code (b @ print_pieces ps) out rest"
proof (induction ps arbitrary: b)
  case (Cons p ps)
  have "scan Code b out (print_piece p @ print_pieces ps @ rest) = scan Code (b @ print_piece p) out (print_pieces ps @ rest)"
    by (rule scan_piece [where r = "print_pieces ps"]) (use Cons.prems ends_next in auto)
  with Cons show ?case by (simp add: print_pieces_def)
qed (simp add: print_pieces_def)

lemma flush_append: "flush b out = out @ filter (\<lambda>s. s \<noteq> []) [trim_space b]"
  by (simp add: flush_def Let_def)

lemma scan_statements:
  "list_all ok_pieces sts \<Longrightarrow> sts \<noteq> [] \<Longrightarrow>
   scan Code [] out (join_with '';'' (map print_pieces sts)) =
   out @ filter (\<lambda>s. s \<noteq> []) (map (\<lambda>ps. trim_space (print_pieces ps)) sts)"
proof (induction sts arbitrary: out)
  case (Cons ps sts)
  note IH = Cons.IH
  show ?case
  proof (cases sts)
    case Nil
    then show ?thesis using Cons.prems scan_pieces [of ps "[]" "[]" out] by (simp add: ends_def flush_append)
  next
    case (Cons v vs)
    let ?rest = "join_with '';'' (map print_pieces sts)"
    have "scan Code [] out (print_pieces ps @ CHR '';'' # ?rest) = scan Code (print_pieces ps) out (CHR '';'' # ?rest)"
      using \<open>list_all ok_pieces (ps # sts)\<close> scan_pieces [of ps "CHR '';'' # ?rest" "[]" out] by (simp add: ends_def)
    also have "\<dots> = scan Code [] (flush (print_pieces ps) out) ?rest" by simp
    finally show ?thesis using IH [of "flush (print_pieces ps) out"] \<open>list_all ok_pieces (ps # sts)\<close> Cons
      by (simp add: flush_append)
  qed
qed simp

text \<open>
  C33. Splitting is the inverse of printing: a script made of well formed statements (literals with
  doubled quotes and backslashes, quoted names, line comments, nested block comments, dollar
  bodies and other text) separated by semicolons splits into exactly the statements that are not
  blank, each trimmed, in order; semicolons inside literals, comments and bodies split nothing.
\<close>

theorem splitSQLStatements_roundtrip:
  assumes "list_all ok_pieces sts"
  shows "splitSQLStatements (join_with '';'' (map print_pieces sts)) =
    filter (\<lambda>s. s \<noteq> []) (map (\<lambda>ps. trim_space (print_pieces ps)) sts)"
proof (cases "sts = []")
  case True
  then show ?thesis
    by (simp add: splitSQLStatements_def flush_append trim_space_def trim_by_def trim_left_def trim_right_def)
next
  case False
  then show ?thesis using scan_statements [OF assms, of "[]"] by (simp add: splitSQLStatements_def)
qed

definition script0 :: "piece list list" where
  "script0 = [[Plain CHR ''a'', Text '';'' , Block [Inside CHR '';'', Opn, Cls, Cls]], [Plain CHR '' ''],
     [Remark '';'', Body ''f'' '';$;'', Ident '';'']]"

lemma splitSQLStatements_roundtrip_witness:
  "splitSQLStatements (join_with '';'' (map print_pieces script0)) =
   [''a'' @ [CHR 0x27, CHR '';'', CHR 0x27] @ ''/*;/**/*/'',
    ''--;'' @ [CHR 0x0A] @ ''$f$;$;$f$'' @ [CHR 0x22, CHR '';'', CHR 0x22]]"
proof -
  have "list_all ok_pieces script0" by code_simp
  from splitSQLStatements_roundtrip [OF this] show ?thesis by simp code_simp
qed

section \<open>Passes refine the replay of the ledger\<close>

fun run_script :: "(string \<Rightarrow> 's \<Rightarrow> err + 's) \<Rightarrow> string list \<Rightarrow> 's \<Rightarrow> err + 's" where
  "run_script exec [] s = Inr s"
| "run_script exec (x # xs) s = (if trim_space x = [] then run_script exec xs s
     else case exec x s of Inl e \<Rightarrow> Inl e | Inr s' \<Rightarrow> run_script exec xs s')"

definition ledger_names :: "'s mig_db \<Rightarrow> string list" where
  "ledger_names d = (case ledger d of None \<Rightarrow> [] | Some l \<Rightarrow> map fst l)"

text \<open>\<open>replays exec core read s0 ns s\<close>: running the scripts \<open>ns\<close>, each once and whole, in this order,
  leads from the schema \<open>s0\<close> to \<open>s\<close>; only the base schema may be entered without being run, on a
  schema that has the core table.\<close>

inductive replays ::
  "(string \<Rightarrow> 's \<Rightarrow> err + 's) \<Rightarrow> ('s \<Rightarrow> bool) \<Rightarrow> (string \<Rightarrow> err + string) \<Rightarrow> 's \<Rightarrow> string list \<Rightarrow> 's \<Rightarrow> bool"
  for exec core read s0
  where
    start: "replays exec core read s0 [] s0"
  | script: "replays exec core read s0 ns s \<Longrightarrow> n \<notin> set ns \<Longrightarrow> read n = Inr c \<Longrightarrow>
      run_script exec (splitSQLStatements c) s = Inr s' \<Longrightarrow> replays exec core read s0 (ns @ [n]) s'"
  | baseline: "replays exec core read s0 ns s \<Longrightarrow> ''schema.sql'' \<notin> set ns \<Longrightarrow> core s \<Longrightarrow>
      replays exec core read s0 (ns @ [''schema.sql'']) s"

lemma replays_distinct: "replays exec core read s0 ns s \<Longrightarrow> distinct ns"
  by (induction rule: replays.induct) auto

lemma set_ledger_names: "ledger d = Some l \<Longrightarrow> fst ` set l = set (ledger_names d)"
  by (simp add: ledger_names_def)

lemma wp_lift_sum [wp_rules]:
  "(\<And>e. r = Inl e \<Longrightarrow> E e d) \<Longrightarrow> (\<And>a. r = Inr a \<Longrightarrow> Q a d) \<Longrightarrow> wp t (lift_sum r) Q E d"
  unfolding lift_sum_def by (intro wp_rules) auto

lemma wp_then_always [wp_rules]:
  assumes "wp t m (\<lambda>a d'. wp t (ignore k) (\<lambda>_. Q a) (\<lambda>_ _. False) d') (\<lambda>e d'. wp t (ignore k) (\<lambda>_. E e) (\<lambda>_ _. False) d') d"
  shows "wp t (then_always m k) Q E d"
  unfolding then_always_def
  by (intro wp_bind wp_attempt, rule wp_mono [OF assms])
    (rule wp_bind, erule wp_mono; auto simp: lift_sum_def intro: wp_ret wp_fail)+

lemma wp_script:
  "wp t (for_each (\<lambda>s. if trim_space s = [] then ret () else exec_stmt exec s) xs)
     (\<lambda>_ d'. ledger d' = ledger d \<and> run_script exec xs (schema d) = Inr (schema d')) (\<lambda>_ _. True) d"
proof (induction xs arbitrary: d)
  case (Cons x xs)
  show ?case
  proof (cases "trim_space x = []")
    case True
    then show ?thesis using Cons.IH by (auto intro!: wp_bind wp_ret)
  next
    case False
    have "wp t (exec_stmt exec x) (\<lambda>_ d'. ledger d' = ledger d \<and> exec x (schema d) = Inr (schema d')) (\<lambda>_ _. True) d"
      unfolding exec_stmt_def by (intro wp_stmt) (auto split: sum.splits)
    then show ?thesis using False
      by (auto intro!: wp_bind elim!: wp_mono intro: wp_mono [OF Cons.IH])
  qed
qed (simp add: wp_ret)

lemma wp_markApplied:
  assumes "ledger d = Some l" "n \<notin> set (ledger_names d)"
  shows "wp t (markApplied n) (\<lambda>_ d'. schema d' = schema d \<and> ledger d' \<noteq> None \<and> ledger_names d' = ledger_names d @ [n])
    (\<lambda>_ d'. d' = d \<or> schema d' = schema d \<and> ledger_names d' = ledger_names d @ [n]) d"
proof -
  have "n \<notin> fst ` set l" using assms set_ledger_names [of d l] by simp
  then show ?thesis
    unfolding markApplied_def using assms(1) by (intro wp_stmt) (auto simp: ledger_names_def)
qed

definition replayed ::
  "(string \<Rightarrow> 's \<Rightarrow> err + 's) \<Rightarrow> ('s \<Rightarrow> bool) \<Rightarrow> (string \<Rightarrow> err + string) \<Rightarrow> 's \<Rightarrow> 's mig_db \<Rightarrow> bool" where
  "replayed exec core read s0 d = replays exec core read s0 (ledger_names d) (schema d)"

lemma applyMigration_replayed:
  fixes d :: "'s mig_db"
  assumes r: "replayed exec core read s0 d" and l: "ledger d = Some l" and n: "n \<notin> set (ledger_names d)"
  shows "wp t (applyMigration exec read n)
    (\<lambda>_ d'. replayed exec core read s0 d' \<and> ledger d' \<noteq> None \<and> ledger_names d' = ledger_names d @ [n])
    (\<lambda>_. replayed exec core read s0) d"
proof -
  have "wp t (transaction (
       bind (for_each (\<lambda>s. if trim_space s = [] then ret () else exec_stmt exec s) (splitSQLStatements c)) (\<lambda>_.
       bind (markApplied n) (\<lambda>_. ret (Commit ())))))
     (\<lambda>_ d'. replayed exec core read s0 d' \<and> ledger d' \<noteq> None \<and> ledger_names d' = ledger_names d @ [n])
     (\<lambda>_. replayed exec core read s0) d" if c: "read n = Inr c" for c
  proof (rule wp_transaction, simp add: r, rule wp_bind, rule wp_mono [OF wp_script])
    fix d' :: "'s mig_db" assume d': "ledger d' = ledger d \<and> run_script exec (splitSQLStatements c) (schema d) = Inr (schema d')"
    then have ns: "ledger_names d' = ledger_names d" by (simp add: ledger_names_def)
    have *: "replayed exec core read s0 x" if "schema x = schema d'" "ledger_names x = ledger_names d @ [n]" for x :: "'s mig_db"
      unfolding replayed_def that using replays.script [of exec core read s0] r n c d' by (simp add: replayed_def)
    show "wp t (bind (markApplied n) (\<lambda>_. ret (Commit ()))) (\<lambda>q x. case q of
        Commit a \<Rightarrow> (replayed exec core read s0 x \<and> ledger x \<noteq> None \<and> ledger_names x = ledger_names d @ [n]) \<and>
          (\<forall>y. replayed exec core read s0 x)
      | Abandon a \<Rightarrow> replayed exec core read s0 d \<and> ledger d \<noteq> None \<and> ledger_names d = ledger_names d @ [n])
      (\<lambda>e _. replayed exec core read s0 d) d'"
      by (rule wp_bind, rule wp_mono [OF wp_markApplied]) (use d' l n ns r * in \<open>auto intro: wp_ret\<close>)
  qed (use r in auto)
  then show ?thesis unfolding applyMigration_def Let_def using r by (auto intro!: wp_bind wp_lift_sum)
qed

text \<open>What holds in the middle of a pass with the scripts \<open>rest\<close> still to come.\<close>

definition midway :: "('s \<Rightarrow> bool) \<Rightarrow> bool \<Rightarrow> string set \<Rightarrow> string list \<Rightarrow> 's mig_db \<Rightarrow> bool" where
  "midway core base applied rest d = (ledger d \<noteq> None \<and> distinct rest \<and> set (ledger_names d) \<inter> set rest \<subseteq> applied \<and>
     (''schema.sql'' \<in> set rest \<longrightarrow> hd rest = ''schema.sql'' \<and> base = core (schema d)))"

lemma midway_next:
  assumes "midway core base applied (n # rest) d" "ledger d' \<noteq> None" "ledger_names d' = ledger_names d \<or> ledger_names d' = ledger_names d @ [n]"
  shows "midway core base applied rest d'"
  using assms by (cases rest) (auto simp: midway_def)

lemma migrate_one_replayed:
  fixes d :: "'s mig_db"
  assumes m: "midway core base applied (n # rest) d" and r: "replayed exec core read s0 d"
  shows "wp t (migrate_one exec read applied base n)
    (\<lambda>_ d'. replayed exec core read s0 d' \<and> midway core base applied rest d') (\<lambda>_. replayed exec core read s0) d"
proof -
  obtain l where l: "ledger d = Some l" using m by (auto simp: midway_def)
  have n: "n \<notin> set (ledger_names d)" if "n \<notin> applied" using m that by (auto simp: midway_def)
  have b: "replayed exec core read s0 x"
    if "n = ''schema.sql''" "base" "n \<notin> applied" "schema x = schema d" "ledger_names x = ledger_names d @ [n]" for x :: "'s mig_db"
    using replays.baseline [of exec core read s0] m r n that by (simp add: replayed_def midway_def)
  show ?thesis unfolding migrate_one_def
  proof (intro wp_if wp_ret wp_map_err)
    show "wp t (markApplied n) (\<lambda>_ d'. replayed exec core read s0 d' \<and> midway core base applied rest d')
      (\<lambda>_. replayed exec core read s0) d" if "n \<notin> applied" "n = ''schema.sql'' \<and> base"
      by (rule wp_mono [OF wp_markApplied [OF l n]]) (use that b r midway_next [OF m] in auto)
    show "wp t (applyMigration exec read n) (\<lambda>_ d'. replayed exec core read s0 d' \<and> midway core base applied rest d')
      (\<lambda>_. replayed exec core read s0) d" if "n \<notin> applied"
      by (rule wp_mono [OF applyMigration_replayed [OF r l n]]) (use that midway_next [OF m] in auto)
  qed (use r midway_next [OF m] l in auto)
qed

lemma schema_first_D:
  assumes "loadMigrationNames dir = Inr files" "dir = Inr entries" "distinct (map de_name entries)"
  shows "distinct files" "''schema.sql'' \<in> set files \<Longrightarrow> hd files = ''schema.sql''"
  using assms by (auto simp: loadMigrationNames_def schema_first_def distinct_map_filter)

lemma Run_replayed:
  fixes d :: "'s mig_db"
  assumes "\<And>entries. dir = Inr entries \<Longrightarrow> distinct (map de_name entries)" "replayed exec core read s0 d"
  shows "wp t (Run exec core dir read) (\<lambda>_. replayed exec core read s0) (\<lambda>_. replayed exec core read s0) d"
proof -
  let ?I = "replayed exec core read s0"
  have same: "?I d'" if "?I d" "ledger_names d' = ledger_names d" "schema d' = schema d" for d d' :: "'s mig_db"
    using that by (simp add: replayed_def)
  have loop: "wp t (for_each (migrate_one exec read applied base) files) (\<lambda>_. ?I) (\<lambda>_. ?I) d"
    if "midway core base applied files d" "?I d" for d applied base files
    by (rule wp_mono, rule wp_for_each_rest [where I = "\<lambda>rest d. ?I d \<and> midway core base applied rest d"])
      (use that in \<open>auto intro: migrate_one_replayed\<close>)
  have pass: "wp t (
     bind ensureTrackingTable (\<lambda>_.
     bind (lift_sum (loadMigrationNames dir)) (\<lambda>files.
     bind appliedMigrations (\<lambda>applied.
     bind (coreSchemaExists core) (\<lambda>hasBaseline.
     for_each (migrate_one exec read applied hasBaseline) files))))) (\<lambda>_. ?I) (\<lambda>_. ?I) d" if "?I d" for d
  proof -
    have "wp t ensureTrackingTable (\<lambda>_ d'. ?I d' \<and> ledger d' \<noteq> None) (\<lambda>_. ?I) d"
      unfolding ensureTrackingTable_def using that
      by (intro wp_stmt) (auto simp: replayed_def ledger_names_def split: option.splits)
    then show ?thesis
    proof (rule wp_bind [OF wp_mono])
      fix d' assume d': "?I d' \<and> ledger d' \<noteq> None"
      show "wp t (bind (lift_sum (loadMigrationNames dir)) (\<lambda>files. bind appliedMigrations (\<lambda>applied.
        bind (coreSchemaExists core) (\<lambda>hasBaseline. for_each (migrate_one exec read applied hasBaseline) files))))
        (\<lambda>_. ?I) (\<lambda>_. ?I) d'"
        unfolding appliedMigrations_def coreSchemaExists_def
      proof (intro wp_bind wp_lift_sum wp_query)
        fix files applied base
        assume f: "loadMigrationNames dir = Inr files"
          and "(case ledger d' of None \<Rightarrow> Inl no_table | Some l \<Rightarrow> Inr (fst ` set l)) = Inr applied"
          and "Inr (core (schema d')) = (Inr base :: err + bool)"
        then have a: "applied = set (ledger_names d')" "base = core (schema d')"
          by (auto simp: set_ledger_names split: option.splits)
        obtain entries where e: "dir = Inr entries" using f by (cases dir) (auto simp: loadMigrationNames_def)
        have "midway core base applied files d'"
          using schema_first_D [OF f e assms(1) [OF e]] d' a by (auto simp: midway_def)
        with d' show "wp t (for_each (migrate_one exec read applied base) files) (\<lambda>_. ?I) (\<lambda>_. ?I) d'" by (auto intro: loop)
      qed (use d' in auto)
    qed auto
  qed
  have ign: "wp t (ignore lock) (\<lambda>_. Q) (\<lambda>_ _. False) d" if "Q d" for Q :: "'s mig_db \<Rightarrow> bool" and d
    by (intro wp_ignore wp_lock that)
  show ?thesis unfolding Run_def
    by (rule wp_bind, rule wp_lock, simp add: assms(2), rule wp_then_always, rule wp_mono [OF pass [OF assms(2)]])
      (rule ign, assumption)+
qed

text \<open>A history of passes: each has its own directory (a deployment), database failures and clock.\<close>

fun passes :: "(string \<Rightarrow> 's \<Rightarrow> err + 's) \<Rightarrow> ('s \<Rightarrow> bool) \<Rightarrow> (string \<Rightarrow> err + string) \<Rightarrow>
  (dir_entry list \<times> fault list \<times> int) list \<Rightarrow> 's mig_db \<Rightarrow> 's mig_db" where
  "passes exec core read [] d = d"
| "passes exec core read ((entries, fs, t) # ps) d =
     passes exec core read ps (db (snd (Run exec core (Inr entries) read \<lparr>db = d, faults = fs, now = t\<rparr>)))"

definition fresh :: "'s \<Rightarrow> 's mig_db" where
  "fresh s = \<lparr>schema = s, ledger = None\<rparr>"

text \<open>
  C32. Every migration runs exactly once, whole, in the order of the ledger: after any history of
  passes over any directories and with any pattern of database failures, lost answers included,
  the schema is the one that running the scripts of the ledger in order leads to; no script is in
  the ledger twice, none has run in part, and only the base schema may stand in it without
  having run, on a database that had the core table.
\<close>

theorem migrations_exactly_once:
  assumes "\<forall>(entries, _) \<in> set ps. distinct (map de_name entries)"
  shows "replays exec core read s (ledger_names (passes exec core read ps (fresh s))) (schema (passes exec core read ps (fresh s))) \<and>
    distinct (ledger_names (passes exec core read ps (fresh s)))"
proof -
  have "replayed exec core read s (passes exec core read ps d)" if "replayed exec core read s d" for d
    using assms that
  proof (induction ps arbitrary: d)
    case (Cons p ps)
    obtain entries fs t where p: "p = (entries, fs, t)" by (cases p)
    have "wp t (Run exec core (Inr entries) read) (\<lambda>_. replayed exec core read s) (\<lambda>_. replayed exec core read s) d"
      by (rule Run_replayed) (use Cons.prems p in auto)
    then have "replayed exec core read s (db (snd (Run exec core (Inr entries) read \<lparr>db = d, faults = fs, now = t\<rparr>)))"
      using wp_both [where w = "\<lparr>db = d, faults = fs, now = t\<rparr>" and R = "replayed exec core read s"] by simp
    then show ?case using Cons p by simp
  qed simp
  moreover have "replayed exec core read s (fresh s)"
    by (simp add: replayed_def fresh_def ledger_names_def replays.start)
  ultimately have "replayed exec core read s (passes exec core read ps (fresh s))" by blast
  then show ?thesis by (auto simp: replayed_def dest: replays_distinct)
qed

text \<open>A schema for the witnesses: the list of the statements it has seen, one of which it refuses.\<close>

definition exec0 :: "string \<Rightarrow> string list \<Rightarrow> err + string list" where
  "exec0 x s = (if x = ''bad'' then Inl (Msg ''syntax error'') else Inr (s @ [x]))"

definition core0 :: "string list \<Rightarrow> bool" where
  "core0 s = (''core'' \<in> set s)"

definition read0 :: "string \<Rightarrow> err + string" where
  "read0 n = (if n = ''schema.sql'' then Inr ''core;x'' else if n = ''002.sql'' then Inr ''y;bad'' else Inr ''z'')"

definition dir0 :: "dir_entry list" where
  "dir0 = map (\<lambda>n. \<lparr>de_name = n, de_dir = n = ''old''\<rparr>) [''schema.sql'', ''002.sql'', ''001.sql'', ''old'', ''README'']"

definition passes0 :: "(dir_entry list \<times> fault list \<times> int) list" where
  "passes0 = [(dir0, [FOk, FOk, FOk, FOk, FOk, FOk, FAfter ''gone''], 1), (dir0, [], 2), (dir0, [], 3)]"

lemma migrations_exactly_once_witness:
  "replays exec0 core0 read0 [] (ledger_names (passes exec0 core0 read0 passes0 (fresh []))) (schema (passes exec0 core0 read0 passes0 (fresh []))) \<and>
   ledger_names (passes exec0 core0 read0 passes0 (fresh [])) = [''schema.sql'', ''001.sql''] \<and>
   schema (passes exec0 core0 read0 passes0 (fresh [])) = [''core'', ''x'', ''z'']"
proof -
  have "\<forall>(entries, _) \<in> set passes0. distinct (map de_name entries)" by code_simp
  then have "replays exec0 core0 read0 [] (ledger_names (passes exec0 core0 read0 passes0 (fresh []))) (schema (passes exec0 core0 read0 passes0 (fresh [])))"
    by (rule migrations_exactly_once [THEN conjunct1])
  moreover have "ledger_names (passes exec0 core0 read0 passes0 (fresh [])) = [''schema.sql'', ''001.sql'']" by code_simp
  moreover have "schema (passes exec0 core0 read0 passes0 (fresh [])) = [''core'', ''x'', ''z'']" by code_simp
  ultimately show ?thesis by blast
qed

section \<open>A pass without failures completes\<close>

fun plan :: "(string \<Rightarrow> 's \<Rightarrow> err + 's) \<Rightarrow> (string \<Rightarrow> err + string) \<Rightarrow> bool \<Rightarrow> string list \<Rightarrow> 's \<Rightarrow> err + 's" where
  "plan exec read base [] s = Inr s"
| "plan exec read base (n # ns) s =
     (if n = ''schema.sql'' \<and> base then plan exec read base ns s
      else case read n of Inl e \<Rightarrow> Inl e
      | Inr c \<Rightarrow> (case run_script exec (splitSQLStatements c) s of Inl e \<Rightarrow> Inl e | Inr s' \<Rightarrow> plan exec read base ns s'))"

definition pending :: "string list \<Rightarrow> 's mig_db \<Rightarrow> string list" where
  "pending files d = filter (\<lambda>n. n \<notin> set (ledger_names d)) files"

lemma clean_script:
  "run_script exec xs (schema d) = Inr s \<Longrightarrow>
   for_each (\<lambda>s. if trim_space s = [] then ret () else exec_stmt exec s) xs \<lparr>db = d, faults = [], now = t\<rparr> =
     (Inr (), \<lparr>db = d\<lparr>schema := s\<rparr>, faults = [], now = t\<rparr>)"
  by (induction xs arbitrary: d) (auto simp: exec_stmt_def prog_defs split: sum.splits if_splits)

lemma clean_apply:
  assumes "read n = Inr c" "run_script exec (splitSQLStatements c) (schema d) = Inr s" "ledger d = Some l" "n \<notin> fst ` set l"
  shows "applyMigration exec read n \<lparr>db = d, faults = [], now = t\<rparr> =
    (Inr (), \<lparr>db = d\<lparr>schema := s, ledger := Some (l @ [(n, t)])\<rparr>, faults = [], now = t\<rparr>)"
  using clean_script [OF assms(2), of t] assms
  by (simp add: applyMigration_def markApplied_def lift_sum_def prog_defs image_iff)

lemma clean_files:
  assumes "plan exec read base (filter (\<lambda>n. n \<notin> applied) files) (schema d) = Inr s" "ledger d = Some l"
    and "distinct files" "fst ` set l \<inter> set files \<subseteq> applied"
  shows "for_each (migrate_one exec read applied base) files \<lparr>db = d, faults = [], now = t\<rparr> =
    (Inr (), \<lparr>db = d\<lparr>schema := s, ledger := Some (l @ map (\<lambda>n. (n, t)) (filter (\<lambda>n. n \<notin> applied) files))\<rparr>,
      faults = [], now = t\<rparr>)"
  using assms
proof (induction files arbitrary: d l)
  case (Cons n files)
  have n: "n \<notin> applied \<Longrightarrow> n \<notin> fst ` set l" using Cons.prems(4) by auto
  consider (old) "n \<in> applied" | (base) "n \<notin> applied" "n = ''schema.sql''" base | (run) "n \<notin> applied" "\<not> (n = ''schema.sql'' \<and> base)"
    by blast
  then show ?case
  proof cases
    case old
    then have "migrate_one exec read applied base n w = (Inr (), w)" for w :: "'a mig_db world"
      by (simp add: migrate_one_def ret_def)
    then show ?thesis using old Cons.IH [of d l] Cons.prems by (auto simp: bind_def)
  next
    case base
    then have "migrate_one exec read applied base n \<lparr>db = d, faults = [], now = t\<rparr> =
      (Inr (), \<lparr>db = d\<lparr>ledger := Some (l @ [(n, t)])\<rparr>, faults = [], now = t\<rparr>)"
      using Cons.prems(2) n by (simp add: migrate_one_def markApplied_def prog_defs)
    then show ?thesis
      using Cons.IH [of "d\<lparr>ledger := Some (l @ [(n, t)])\<rparr>" "l @ [(n, t)]"] Cons.prems base
      by (auto simp: bind_def)
  next
    case run
    then obtain c s' where c: "read n = Inr c" "run_script exec (splitSQLStatements c) (schema d) = Inr s'"
      using Cons.prems(1) by (auto split: sum.splits)
    have "applyMigration exec read n \<lparr>db = d, faults = [], now = t\<rparr> =
      (Inr (), \<lparr>db = d\<lparr>schema := s', ledger := Some (l @ [(n, t)])\<rparr>, faults = [], now = t\<rparr>)"
      by (rule clean_apply) (use c Cons.prems n run in auto)
    then have "migrate_one exec read applied base n \<lparr>db = d, faults = [], now = t\<rparr> =
      (Inr (), \<lparr>db = d\<lparr>schema := s', ledger := Some (l @ [(n, t)])\<rparr>, faults = [], now = t\<rparr>)"
      using run by (auto simp: migrate_one_def map_err_def)
    then show ?thesis
      using Cons.IH [of "d\<lparr>schema := s', ledger := Some (l @ [(n, t)])\<rparr>" "l @ [(n, t)]"] Cons.prems run c
      by (auto simp: bind_def)
  qed
qed (simp add: ret_def)

text \<open>
  C34. A pass that meets no failure leaves nothing pending: when every script still pending is readable
  and accepted, the pass succeeds, runs exactly the pending scripts in their order (the base
  schema first, then by name) and enters each in the ledger; so a failed pass is made good by the
  next one.
\<close>

theorem Run_completes:
  assumes "faults w = []" "loadMigrationNames dir = Inr files" "distinct files"
    and "plan exec read (core (schema (db w))) (pending files (db w)) (schema (db w)) = Inr s"
    and "Run exec core dir read w = (r, w')"
  shows "r = Inr () \<and> schema (db w') = s \<and> ledger_names (db w') = ledger_names (db w) @ pending files (db w)"
proof -
  define d where "d = (db w)\<lparr>ledger := Some (case ledger (db w) of None \<Rightarrow> [] | Some l \<Rightarrow> l)\<rparr>"
  obtain l where l: "ledger d = Some l" "map fst l = ledger_names (db w)"
    by (auto simp: d_def ledger_names_def split: option.splits)
  then have s: "fst ` set l = set (ledger_names (db w))" by (metis list.set_map)
  have "for_each (migrate_one exec read (fst ` set l) (core (schema d))) files \<lparr>db = d, faults = [], now = now w\<rparr> =
    (Inr (), \<lparr>db = d\<lparr>schema := s, ledger := Some (l @ map (\<lambda>n. (n, now w)) (filter (\<lambda>n. n \<notin> fst ` set l) files))\<rparr>,
      faults = [], now = now w\<rparr>)"
    by (rule clean_files) (use assms l s in \<open>auto simp: d_def pending_def\<close>)
  moreover have "w = \<lparr>db = db w, faults = [], now = now w\<rparr>" using assms(1) by simp
  ultimately show ?thesis using assms(2,5) l s
    by (cases w) (auto simp: Run_def then_always_def ensureTrackingTable_def appliedMigrations_def coreSchemaExists_def
      lift_sum_def prog_defs d_def pending_def ledger_names_def comp_def)
qed

lemma Run_completes_witness:
  "fst (Run exec0 core0 (Inr (remove1 (dir0 ! 1) dir0)) read0 \<lparr>db = fresh [], faults = [], now = 7\<rparr>) = Inr () \<and>
   schema (db (snd (Run exec0 core0 (Inr (remove1 (dir0 ! 1) dir0)) read0 \<lparr>db = fresh [], faults = [], now = 7\<rparr>))) = [''core'', ''x'', ''z'']"
proof -
  have 1: "loadMigrationNames (Inr (remove1 (dir0 ! 1) dir0)) = Inr [''schema.sql'', ''001.sql'']" by code_simp
  have 2: "plan exec0 read0 (core0 []) [''schema.sql'', ''001.sql''] [] = Inr [''core'', ''x'', ''z'']" by code_simp
  show ?thesis
    using Run_completes [OF _ 1 _ _ prod.collapse [symmetric], of "\<lparr>db = fresh [], faults = [], now = 7\<rparr>" exec0 read0 core0
      "[''core'', ''x'', ''z'']"] 2
    by (simp add: fresh_def pending_def ledger_names_def)
qed

end
