(* ===== verification/Payment_Safety.thy ===== *)
theory Payment_Safety
  imports Payments
begin

text \<open>
  The safety of order payments: weakest-precondition lemmas for the steps of a settlement, the
  relation \<open>pays\<close> of what one settlement does to orders and seller ledger, the relation \<open>moved\<close>
  of what one request does, and the invariant \<open>paid_books\<close> over any sequence of requests.
\<close>

section \<open>Frames of the steps of a settlement\<close>

lemma wp_settlePaymentLedger:
  assumes "\<And>P. payments_ok P \<Longrightarrow> Q () (d\<lparr>payments := P\<rparr>)" "\<And>e d'. E e d'"
  shows "wp t (settlePaymentLedger pr ref tx st) Q E d"
  unfolding settlePaymentLedger_def by (intro wp_rules) (auto simp: assms)

lemma wp_consumeXP:
  assumes "\<And>R X. Q () (d\<lparr>redemptions := R, xp_txns := X\<rparr>)" "\<And>e d'. E e d'"
  shows "wp t (consumeXP i) Q E d"
proof -
  have q: "Q () d" using assms(1) [where R = "redemptions d" and X = "xp_txns d"] by simp
  have q1: "Q () (d\<lparr>redemptions := R\<rparr>)" for R using assms(1) [where R = R and X = "xp_txns d"] by simp
  show ?thesis
    unfolding consumeXP_def Let_def
    by (intro wp_rules) (auto simp: assms q q1 split: option.splits sum.splits)
qed

lemma insert_jobs_frame: "insert_jobs xs t d = Inr (n, d') \<Longrightarrow> \<exists>J. d' = d\<lparr>jobs := J\<rparr>"
proof (induction xs t d arbitrary: n rule: insert_jobs.induct)
  case (1 t d)
  then show ?case by (intro exI [of _ "jobs d"]) simp
next
  case (2 s f xs t d)
  then obtain m d1 where i: "insert_ignore jobs set_jobs (clash (\<lambda>r. Some (j_subaccount r))) (new_job s f t) d = Inr (m, d1)"
    and j: "insert_jobs xs t d1 = Inr (n, d')" by (auto split: sum.splits)
  from "2.IH" [OF i refl j] obtain J where "d' = d1\<lparr>jobs := J\<rparr>" by blast
  moreover have "\<exists>J. d1 = d\<lparr>jobs := J\<rparr>" using i by (auto intro: exI [of _ "jobs d"])
  ultimately show ?case by auto
qed

lemma enqueue_frame: "enqueue_settlement ref t d = Inr (n, d') \<Longrightarrow> \<exists>J. d' = d\<lparr>jobs := J\<rparr>"
  unfolding enqueue_settlement_def by (rule insert_jobs_frame)

text \<open>With an exact driver the ledger row carries the order's amounts to the hundredth.\<close>

lemma insert_paid_entry_exact:
  assumes "enc_exact env" "0 \<le> fee" "fee \<le> tot" "num_range tot"
    and "insert_paid_entry env p i c (scan_num tot) (scan_num fee) t d = Inr (n, d')"
  shows "clash (\<lambda>r. Some (l_key r)) (paid_entry p i c tot fee (tot - fee) t) (ledger d) \<and> d' = d \<or>
    d' = d\<lparr>ledger := ledger d @ [paid_entry p i c tot fee (tot - fee) t]\<rparr> \<and> ledger_ok (ledger d')"
proof -
  have r: "num_range fee" "num_range (tot - fee)" using assms(2-4) by (auto simp: num_range_def)
  have "round_money (f_sub (scan_num tot) (scan_num fee)) = scan_num (tot - fee)"
    using assms(2-4) r by (intro round_money_diff)
  then show ?thesis using assms(1,4,5) r
    by (auto simp: insert_paid_entry_def to_num_def enc_exact_def)
qed

section \<open>What a settlement does\<close>

definition charge_covers :: "order_row \<Rightarrow> f64 \<Rightarrow> string \<Rightarrow> bool" where
  "charge_covers o' paid cur = (equal_fold (o_currency o') (trim_space cur) \<and> \<not> underpaid (1/1000) paid (scan_num (o_total o')))"

definition only_payments :: "db \<Rightarrow> db \<Rightarrow> bool" where
  "only_payments d d' = (\<exists>P. d' = d\<lparr>payments := P\<rparr>)"

definition pays :: "env \<Rightarrow> string \<Rightarrow> string \<Rightarrow> string \<Rightarrow> f64 \<Rightarrow> string \<Rightarrow> int \<Rightarrow> db \<Rightarrow> db \<Rightarrow> bool" where
  "pays env i ref gw paid cur t d d' = (\<exists>o' p.
     order_of i d = Some o' \<and> o_status o' = ''Pending'' \<and> charge_covers o' paid cur \<and> o_provider o' = Some p \<and>
     orders d' = upd (\<lambda>x. o_id x = i \<and> o_status x = ''Pending'') (mark_paid (seller_label i) ref gw t) (orders d) \<and>
     orders_ok (orders d') \<and>
     (\<exists>d0 d1 n. ledger d0 = ledger d \<and> ledger d1 = ledger d' \<and>
       insert_paid_entry env p i (o_currency o') (scan_num (o_total o')) (scan_num (o_fee o')) t d0 = Inr (n, d1)))"

lemma insert_paid_entry_frame:
  "insert_paid_entry env p i c g f t d = Inr (n, d') \<Longrightarrow> \<exists>L. d' = d\<lparr>ledger := L\<rparr>"
  by (auto simp: insert_paid_entry_def Let_def split: sum.splits intro: exI [of _ "ledger d"])

lemma paysI:
  assumes "order_of i d = Some o'" "o_status o' = ''Pending''" "equal_fold (o_currency o') (trim_space cur)"
    "\<not> underpaid (1/1000) paid (scan_num (o_total o'))" "o_provider o' = Some p"
    and "insert_paid_entry env p i (o_currency o') (scan_num (o_total o')) (scan_num (o_fee o')) t d0 = Inr (n, d1)"
    and "enqueue_settlement ref t d1 = Inr (m, d')"
    and "orders d0 = upd (\<lambda>x. o_id x = i \<and> o_status x = ''Pending'') (mark_paid (seller_label i) ref gw t) (orders d)"
    and "orders_ok (upd (\<lambda>x. o_id x = i \<and> o_status x = ''Pending'') (mark_paid (seller_label i) ref gw t) (orders d))"
    and "ledger d0 = ledger d"
  shows "pays env i ref gw paid cur t d d'"
proof -
  obtain L where L: "d1 = d0\<lparr>ledger := L\<rparr>" using insert_paid_entry_frame [OF assms(6)] by blast
  obtain J where J: "d' = d1\<lparr>jobs := J\<rparr>" using enqueue_frame [OF assms(7)] by blast
  have e: "ledger d1 = ledger d'" "orders d' = orders d0" by (simp_all add: J L)
  have "\<exists>d0 d1 n. ledger d0 = ledger d \<and> ledger d1 = ledger d' \<and>
      insert_paid_entry env p i (o_currency o') (scan_num (o_total o')) (scan_num (o_fee o')) t d0 = Inr (n, d1)"
    using assms(6,10) e(1) by blast
  then show ?thesis
    unfolding pays_def charge_covers_def using assms(1-5,8,9) e(2) by (intro exI [of _ o'] exI [of _ p]) simp
qed

lemma settleOrderPayment_wp:
  "wp t (settleOrderPayment env i ref gw paid cur)
     (\<lambda>_ d'. (\<exists>o'. order_of i d = Some o' \<and> charge_covers o' paid cur \<and> o_status o' \<noteq> ''Pending'' \<and> only_payments d d') \<or>
        pays env i ref gw paid cur t d d')
     (\<lambda>_ d'. d' = d \<or> (\<exists>o'. order_of i d = Some o' \<and> o_status o' \<noteq> ''Pending'' \<and> only_payments d d') \<or>
        pays env i ref gw paid cur t d d') d"
  unfolding settleOrderPayment_def lockXPUser_def
  apply (intro wp_rules wp_settlePaymentLedger wp_consumeXP)
  apply (simp_all add: row_def split: option.splits)
  apply (auto simp: charge_covers_def only_payments_def intro: paysI)
  done

section \<open>What a payment request does\<close>

definition money_same :: "db \<Rightarrow> db \<Rightarrow> bool" where
  "money_same d d' = (orders d' = orders d \<and> ledger d' = ledger d)"

lemma money_same_refl [simp]: "money_same d d"
  by (simp add: money_same_def)

interpretation money: guarantee money_same
  by unfold_locales (auto simp: money_same_def)

lemma money_steps:
  "keeps money_same (insertNotification u i b ty ti bo da k)"
  "keeps money_same (award u i amount reason ref k ti bo)"
  "keeps money_same (settleSubscriptionPaymentLedger env s u c ref x p cur st)"
proof -
  show n: "keeps money_same (insertNotification u i b ty ti bo da k)" for u i b ty ti bo da k
    unfolding insertNotification_def by (rule money.keeps_stmt) (auto simp: money_same_def)
  show "keeps money_same (award u i amount reason ref k ti bo)"
    unfolding award_def by (intro money.keeps_all n money.keeps_stmt) (auto simp: money_same_def)
  show "keeps money_same (settleSubscriptionPaymentLedger env s u c ref x p cur st)"
    by (rule keeps_wp) (intro wp_settleSubscriptionPaymentLedger; simp add: money_same_def)
qed

lemma money_calls:
  "keeps money_same (AwardPurchase u i tot)"
  "keeps money_same (CreateNotificationOnce u i b ty ti bo da k)"
  "keeps money_same (recordVerifiedPaymentAmounts env ref v)"
  "keeps money_same (finishPaymentWebhook pr rc st m)"
  "keeps money_same (beginPaymentWebhook env pr ety ref tx pl)"
  "keeps money_same (settleProviderSubscription env r x p c)"
  unfolding AwardPurchase_def CreateNotificationOnce_def recordVerifiedPaymentAmounts_def finishPaymentWebhook_def
    beginPaymentWebhook_def settleProviderSubscription_def
  by (intro money.keeps_all money_steps money.keeps_stmt;
      auto simp: money_same_def Let_def split: sum.splits option.splits if_splits)+

definition settled :: "env \<Rightarrow> string \<Rightarrow> string \<Rightarrow> string \<Rightarrow> f64 \<Rightarrow> string \<Rightarrow> int \<Rightarrow> db \<Rightarrow> db \<Rightarrow> bool" where
  "settled env i ref gw paid cur t d d' = (money_same d d' \<or> pays env i ref gw paid cur t d d')"

lemma pays_same: "money_same d0 d1 \<Longrightarrow> pays env i ref gw paid cur t d1 d2 \<Longrightarrow> money_same d2 d3 \<Longrightarrow>
  pays env i ref gw paid cur t d0 d3"
  unfolding pays_def money_same_def order_of_def by simp

lemma settled_same: "money_same d0 d1 \<Longrightarrow> settled env i ref gw paid cur t d1 d2 \<Longrightarrow> money_same d2 d3 \<Longrightarrow>
  settled env i ref gw paid cur t d0 d3"
  unfolding settled_def by (elim disjE) (blast intro: pays_same money.trans)+

lemma settleOrderPayment_settled:
  "wp t (settleOrderPayment env i ref gw paid cur) (\<lambda>_. settled env i ref gw paid cur t d)
     (\<lambda>_. settled env i ref gw paid cur t d) d"
  by (rule wp_mono [OF settleOrderPayment_wp]) (auto simp: settled_def money_same_def only_payments_def)

lemma settleAndNotify_settled:
  "wp t (settleAndNotify env i ref gw paid cur) (\<lambda>_. settled env i ref gw paid cur t d)
     (\<lambda>_. settled env i ref gw paid cur t d) d"
proof -
  have k: "keeps money_same (bind (or_else (query q) e) (\<lambda>(userID, tot, orderCurrency, mode, st).
      bind (ignore (CreateNotificationOnce userID i None ty ti (payment_message orderCurrency tot mode st) (da orderCurrency tot) k))
        (\<lambda>_. ignore (AwardPurchase userID i tot))))" for q e ty ti da k
    by (intro money.keeps_all money_calls)
  show ?thesis
    unfolding settleAndNotify_def
    by (rule wp_bind, rule wp_mono [OF settleOrderPayment_settled], rule wp_keeps [OF k])
       (auto elim: settled_same [OF money_same_refl])
qed

text \<open>\<open>answers http v\<close>: the gateway reported \<open>v\<close> as a successful charge.\<close>

definition answers :: "gateway \<Rightarrow> tx_data \<Rightarrow> bool" where
  "answers http v = (successfulFlutterwaveStatus (td_status v) \<and>
     (\<exists>tx ref. verifyFlutterwaveTransaction http tx ref = Inr v))"

definition moved :: "env \<Rightarrow> gateway \<Rightarrow> int \<Rightarrow> db \<Rightarrow> db \<Rightarrow> bool" where
  "moved env http t d d' = (money_same d d' \<or> (\<exists>v i paid. answers http v \<and> parseOrderID env (verified_ref v) = Inr i \<and>
     amountValue (td_amount v) = Some paid \<and> pays env i (verified_ref v) (gatewayID (td_id v)) paid (td_currency v) t d d'))"

lemma moved_same: "money_same d0 d1 \<Longrightarrow> moved env http t d1 d2 \<Longrightarrow> money_same d2 d3 \<Longrightarrow> moved env http t d0 d3"
  unfolding moved_def by (elim disjE exE conjE) (blast intro: pays_same money.trans)+

lemma settled_moved:
  "answers http v \<Longrightarrow> parseOrderID env (verified_ref v) = Inr i \<Longrightarrow> amountValue (td_amount v) = Some paid \<Longrightarrow>
   settled env i (verified_ref v) (gatewayID (td_id v)) paid (td_currency v) t d d' \<Longrightarrow> moved env http t d d'"
  unfolding settled_def moved_def by blast

lemma finish_money:
  "keeps money_same (finish_failed rc e r)" "keeps money_same (finish_with rc st n)"
  unfolding finish_failed_def finish_with_def by (intro money.keeps_all money_calls)+

abbreviation mv :: "env \<Rightarrow> gateway \<Rightarrow> int \<Rightarrow> (db, 'a) prog \<Rightarrow> db \<Rightarrow> db \<Rightarrow> bool" where
  "mv env http t m d d1 \<equiv> wp t m (\<lambda>_. moved env http t d) (\<lambda>_. moved env http t d) d1"

lemma mv_end: "keeps money_same m \<Longrightarrow> money_same d d1 \<Longrightarrow> mv env http t m d d1"
  by (erule wp_keeps) (auto simp: moved_def intro: money.trans)

lemma mv_bind:
  assumes "keeps money_same m" "money_same d d1" "\<And>a d2. money_same d d2 \<Longrightarrow> mv env http t (f a) d d2"
  shows "mv env http t (bind m f) d d1"
  by (rule wp_bind, rule wp_keeps [OF assms(1)])
     (use assms(2,3) in \<open>auto simp: moved_def intro: money.trans\<close>)

lemma mv_after:
  assumes "mv env http t m d d1" "\<And>a. keeps money_same (f a)"
  shows "mv env http t (bind m f) d d1"
  by (rule wp_bind, rule wp_mono [OF assms(1)])
     (auto intro!: wp_keeps [OF assms(2)] elim: moved_same [OF money_same_refl])

lemma mv_settle:
  assumes "answers http v" "parseOrderID env (verified_ref v) = Inr i" "amountValue (td_amount v) = Some p" "money_same d d1"
  shows "mv env http t (settleAndNotify env i (verified_ref v) (gatewayID (td_id v)) p (td_currency v)) d d1"
  by (rule wp_mono [OF settleAndNotify_settled])
     (auto intro: moved_same [OF assms(4) settled_moved [OF assms(1-3)] money_same_refl])

lemma mv_settle_attempt:
  assumes "answers http v" "parseOrderID env (verified_ref v) = Inr i" "amountValue (td_amount v) = Some p" "money_same d d1"
    "\<And>r. keeps money_same (f r)"
  shows "mv env http t (bind (attempt (settleAndNotify env i (verified_ref v) (gatewayID (td_id v)) p (td_currency v))) f) d d1"
  by (intro mv_after wp_attempt mv_settle assms)

lemma mv_settle_map_err:
  assumes "answers http v" "parseOrderID env (verified_ref v) = Inr i" "amountValue (td_amount v) = Some p" "money_same d d1"
    "\<And>r. keeps money_same (f r)"
  shows "mv env http t (bind (map_err g (settleAndNotify env i (verified_ref v) (gatewayID (td_id v)) p (td_currency v))) f) d d1"
  by (intro mv_after wp_map_err mv_settle assms)

lemma answersI:
  "verifyFlutterwaveTransaction http tx ref = Inr v \<Longrightarrow> successfulFlutterwaveStatus (td_status v) \<Longrightarrow> answers http v"
  unfolding answers_def by blast

lemma FlutterwaveWebhook_moved: "mv env http t (FlutterwaveWebhook env cfg http decode raw sig vh) d d"
  unfolding FlutterwaveWebhook_def Let_def
  apply (rule mv_bind, intro money.keeps_all, simp)
  apply (rule wp_option, rule mv_end, intro money.keeps_all, assumption)
  apply (rule mv_bind, intro money.keeps_all money_calls, assumption)
  apply (rule wp_if, rule mv_end, intro money.keeps_all, assumption)
  apply (rule wp_if, rule mv_end, intro finish_money, assumption)
  apply (rule wp_sum, rule mv_end, intro finish_money, assumption)
  apply (rule wp_if, rule mv_end, intro finish_money, assumption)
  apply (rule wp_if, rule mv_end, intro money.keeps_all money_calls finish_money, assumption)
  apply (rule wp_sum, rule mv_end, intro finish_money, assumption)
  apply (rule wp_option, rule mv_end, intro finish_money, assumption)
  apply (rule mv_bind, intro money_calls, assumption)
  apply (rule mv_settle_attempt, rule answersI; simp)
  apply (intro money.keeps_all finish_money)
  done

lemma settle_verified_moved:
  assumes "answers http v" "money_same d d1" "\<And>r. keeps money_same (f r)"
  shows "mv env http t (bind (settle_verified env wanted v) f) d d1"
  unfolding settle_verified_def Let_def
  apply (rule mv_after [OF _ assms(3)])
  apply (rule wp_sum, rule mv_end, intro money.keeps_all, rule assms)
  apply (rule wp_if, rule mv_end, intro money.keeps_all, rule assms)
  apply (rule wp_option, rule mv_end, intro money.keeps_all, rule assms)
  apply (rule mv_bind, intro money_calls, rule assms)
  apply (rule mv_settle_map_err [OF assms(1)]; simp add: money.keeps_ret)
  done

lemma VerifyFlutterwavePayment_moved: "mv env http t (VerifyFlutterwavePayment env http u body) d d"
  unfolding VerifyFlutterwavePayment_def
  apply (rule wp_option, rule mv_end, intro money.keeps_all, simp)
  apply (rule mv_bind, intro money.keeps_all, simp)
  apply (rule mv_bind, intro money.keeps_all, assumption)
  apply (rule wp_sum, rule mv_end, intro money.keeps_all, assumption)
  apply (rule wp_if, rule mv_end, intro money.keeps_all, assumption)
  apply (rule settle_verified_moved, rule answersI; simp add: money.keeps_ret)
  done

lemma AdminReconcileFlutterwavePayment_moved: "mv env http t (AdminReconcileFlutterwavePayment env http u body) d d"
  unfolding AdminReconcileFlutterwavePayment_def Let_def
  apply (rule wp_option, rule mv_end, intro money.keeps_all, simp)
  apply (rule mv_bind, intro money.keeps_all, simp)
  apply (rule mv_bind, intro money.keeps_all, assumption)
  apply (rule mv_bind, intro money.keeps_all, assumption)
  apply (rule wp_sum, rule mv_end, intro money.keeps_all, assumption)
  apply (rule wp_if, rule mv_end, intro money.keeps_all, assumption)
  apply (rule settle_verified_moved, rule answersI; simp?)
  apply (intro money.keeps_all money.keeps_stmt)
  apply (auto simp: money_same_def)
  done

section \<open>Sequences of payment requests\<close>

datatype payment_call =
    Webhook "string \<Rightarrow> webhook_event option" string string string
  | Verify string "verify_request option"
  | Reconcile string "verify_request option"

fun serve_payment :: "env \<Rightarrow> config \<Rightarrow> gateway \<times> payment_call \<Rightarrow> (db, response) prog" where
  "serve_payment env cfg (http, Webhook decode raw sig vh) = FlutterwaveWebhook env cfg http decode raw sig vh"
| "serve_payment env cfg (http, Verify u body) = VerifyFlutterwavePayment env http u body"
| "serve_payment env cfg (http, Reconcile u body) = AdminReconcileFlutterwavePayment env http u body"

definition serve_payments :: "env \<Rightarrow> config \<Rightarrow> (gateway \<times> payment_call) list \<Rightarrow> (db, unit) prog" where
  "serve_payments env cfg calls = for_each (\<lambda>c. ignore (serve_payment env cfg c)) calls"

lemma serve_payment_moved: "mv env (fst c) t (serve_payment env cfg c) d d"
  by (cases "(env, cfg, c)" rule: serve_payment.cases)
     (auto intro: FlutterwaveWebhook_moved VerifyFlutterwavePayment_moved AdminReconcileFlutterwavePayment_moved)

text \<open>The seller's books: every order's fee fits its price; each ledger row books one order that is no longer
  Pending, with the order's amounts; every Paid order is booked.\<close>

definition books :: "order_row \<Rightarrow> ledger_row \<Rightarrow> bool" where
  "books o' l = (l_order l = o_id o' \<and> l_key l = ''order-paid:'' @ o_id o' \<and> l_currency l = o_currency o' \<and>
     o_provider o' = Some (l_provider l) \<and> l_gross l = o_total o' \<and> l_fee l = o_fee o' \<and>
     l_net l = o_total o' - o_fee o')"

definition paid_books :: "db \<Rightarrow> bool" where
  "paid_books d = (orders_ok (orders d) \<and> ledger_ok (ledger d) \<and>
     (\<forall>o' \<in> set (orders d). o_fee o' \<le> o_total o') \<and>
     (\<forall>l \<in> set (ledger d). \<exists>o' \<in> set (orders d). books o' l \<and> o_status o' \<noteq> ''Pending'') \<and>
     (\<forall>o' \<in> set (orders d). o_status o' = ''Paid'' \<longrightarrow> (\<exists>l \<in> set (ledger d). books o' l)))"

lemma mark_paid_fields [simp]:
  "o_id (mark_paid k r g t o') = o_id o'" "o_total (mark_paid k r g t o') = o_total o'"
  "o_fee (mark_paid k r g t o') = o_fee o'" "o_currency (mark_paid k r g t o') = o_currency o'"
  "o_provider (mark_paid k r g t o') = o_provider o'" "o_status (mark_paid k r g t o') = ''Paid''"
  by (simp_all add: mark_paid_def)

lemma books_mark_paid [simp]: "books (mark_paid k r g t o') l = books o' l"
  by (simp add: books_def)

lemma order_of_D: "order_of i d = Some o' \<Longrightarrow> o' \<in> set (orders d) \<and> o_id o' = i"
  unfolding order_of_def by (auto dest: find_Some_D)

lemma pays_entry:
  assumes "enc_exact env" "paid_books d" "pays env i ref gw paid cur t d d'"
  obtains o' p where "order_of i d = Some o'" "o_status o' = ''Pending''" "charge_covers o' paid cur" "o_provider o' = Some p"
    "orders d' = upd (\<lambda>x. o_id x = i \<and> o_status x = ''Pending'') (mark_paid (seller_label i) ref gw t) (orders d)"
    "orders_ok (orders d')" "ledger_ok (ledger d')"
    "ledger d' = ledger d @ [paid_entry p i (o_currency o') (o_total o') (o_fee o') (o_total o' - o_fee o') t]"
proof -
  from assms(3) obtain o' p d0 d1 n where o: "order_of i d = Some o'" "o_status o' = ''Pending''" "charge_covers o' paid cur"
      "o_provider o' = Some p"
    and u: "orders d' = upd (\<lambda>x. o_id x = i \<and> o_status x = ''Pending'') (mark_paid (seller_label i) ref gw t) (orders d)"
      "orders_ok (orders d')"
    and l: "ledger d0 = ledger d" "ledger d1 = ledger d'"
      "insert_paid_entry env p i (o_currency o') (scan_num (o_total o')) (scan_num (o_fee o')) t d0 = Inr (n, d1)"
    unfolding pays_def by blast
  let ?e = "paid_entry p i (o_currency o') (o_total o') (o_fee o') (o_total o' - o_fee o') t"
  have o'_in: "o' \<in> set (orders d)" "o_id o' = i" using order_of_D [OF o(1)] by auto
  then have r: "0 \<le> o_fee o'" "o_fee o' \<le> o_total o'" "num_range (o_total o')"
    using assms(2) by (auto simp: paid_books_def orders_ok_def list_all_iff)
  have "\<not> clash (\<lambda>r. Some (l_key r)) ?e (ledger d)"
  proof
    assume "clash (\<lambda>r. Some (l_key r)) ?e (ledger d)"
    then obtain x where x: "x \<in> set (ledger d)" "l_key x = ''order-paid:'' @ i"
      by (auto simp: clash_def set_keys paid_entry_def)
    then obtain y where y: "y \<in> set (orders d)" "books y x" "o_status y \<noteq> ''Pending''"
      using assms(2) unfolding paid_books_def by blast
    then have "o_id y = i" using x by (simp add: books_def)
    then have "y = o'" using assms(2) y(1) o'_in
      by (intro uniq_rows [of "\<lambda>r. Some (o_id r)" "orders d"]) (auto simp: paid_books_def orders_ok_def)
    then show False using y(3) o(2) by simp
  qed
  then have "d1 = d0\<lparr>ledger := ledger d0 @ [?e]\<rparr> \<and> ledger_ok (ledger d1)"
    using insert_paid_entry_exact [OF assms(1) r l(3)] l(1) by auto
  then have "ledger d' = ledger d @ [?e] \<and> ledger_ok (ledger d')" using l by auto
  then show thesis using that o u by blast
qed

lemma moved_books:
  assumes "enc_exact env" "paid_books d" "moved env http t d d'"
  shows "paid_books d'"
  using assms(3) unfolding moved_def
proof (elim disjE exE conjE)
  assume "money_same d d'"
  then show ?thesis using assms(2) by (simp add: paid_books_def money_same_def)
next
  fix v i paid
  assume "pays env i (verified_ref v) (gatewayID (td_id v)) paid (td_currency v) t d d'"
  then obtain o' p where
    o: "order_of i d = Some o'" "o_provider o' = Some p"
    and u: "orders d' = upd (\<lambda>x. o_id x = i \<and> o_status x = ''Pending'')
        (mark_paid (seller_label i) (verified_ref v) (gatewayID (td_id v)) t) (orders d)" "orders_ok (orders d')" "ledger_ok (ledger d')"
    and l: "ledger d' = ledger d @ [paid_entry p i (o_currency o') (o_total o') (o_fee o') (o_total o' - o_fee o') t]"
    and pe: "o_status o' = ''Pending''"
    by (rule pays_entry [OF assms(1,2)])
  let ?f = "\<lambda>r. if o_id r = i \<and> o_status r = ''Pending''
    then mark_paid (seller_label i) (verified_ref v) (gatewayID (td_id v)) t r else r"
  have s: "set (orders d') = ?f ` set (orders d)" using u(1) by (simp add: set_upd)
  have b: "books (?f x) l = books x l" for x l by simp
  have o'_in: "o' \<in> set (orders d)" "o_id o' = i" using order_of_D [OF o(1)] by auto
  have same: "x = o'" if "x \<in> set (orders d)" "o_id x = i" for x
    using assms(2) that o'_in by (intro uniq_rows [of "\<lambda>r. Some (o_id r)" "orders d"]) (auto simp: paid_books_def orders_ok_def)
  have new: "books o' (paid_entry p i (o_currency o') (o_total o') (o_fee o') (o_total o' - o_fee o') t)"
    using o(2) o'_in(2) by (simp add: books_def paid_entry_def)
  show ?thesis
    unfolding paid_books_def
  proof (intro conjI)
    show "\<forall>x \<in> set (orders d'). o_fee x \<le> o_total x" using assms(2) by (auto simp: s paid_books_def)
    show "\<forall>l \<in> set (ledger d'). \<exists>x \<in> set (orders d'). books x l \<and> o_status x \<noteq> ''Pending''"
    proof
      fix x assume "x \<in> set (ledger d')"
      then consider "x \<in> set (ledger d)" | "x = paid_entry p i (o_currency o') (o_total o') (o_fee o') (o_total o' - o_fee o') t"
        using l by auto
      then obtain y where "y \<in> set (orders d)" "books y x" "o_status (?f y) \<noteq> ''Pending''"
      proof cases
        case 1
        then show ?thesis using that assms(2) unfolding paid_books_def by force
      next
        case 2
        then show ?thesis using that [of o'] o'_in new pe by simp
      qed
      then show "\<exists>y \<in> set (orders d'). books y x \<and> o_status y \<noteq> ''Pending''"
        unfolding s by (intro bexI [of _ "?f y"]) (simp_all only: b image_eqI simp_thms refl)
    qed
    show "\<forall>x \<in> set (orders d'). o_status x = ''Paid'' \<longrightarrow> (\<exists>l \<in> set (ledger d'). books x l)"
    proof (intro ballI impI)
      fix x assume "x \<in> set (orders d')" "o_status x = ''Paid''"
      then obtain y where y: "y \<in> set (orders d)" "x = ?f y" using s by auto
      show "\<exists>l \<in> set (ledger d'). books x l"
      proof (cases "o_status y = ''Paid''")
        case True
        then show ?thesis using y assms(2) l unfolding paid_books_def by auto
      next
        case False
        then have "o_id y = i" using y \<open>o_status x = ''Paid''\<close> by (auto split: if_splits)
        then show ?thesis using same [OF y(1)] y(2) new l by auto
      qed
    qed
  qed (use u in simp_all)
qed

lemma serve_payments_books:
  assumes "enc_exact env" "paid_books d"
  shows "wp t (serve_payments env cfg calls) (\<lambda>_. paid_books) (\<lambda>_. paid_books) d"
  unfolding serve_payments_def
  by (rule wp_for_each, rule wp_ignore, rule wp_mono [OF serve_payment_moved])
     (auto intro: moved_books assms)

lemma order_of_paid:
  "orders d' = upd (\<lambda>x. o_id x = i \<and> o_status x = ''Pending'') (mark_paid k r g t) (orders d) \<Longrightarrow>
   order_of j d' = map_option (\<lambda>x. if o_id x = i \<and> o_status x = ''Pending'' then mark_paid k r g t x else x) (order_of j d)"
  unfolding order_of_def by (simp add: find_upd_same)

lemma pays_order:
  assumes "pays env i ref gw paid cur t d d'"
  shows "\<exists>o'. order_of i d = Some o' \<and> o_status o' = ''Pending'' \<and> charge_covers o' paid cur \<and>
    order_of i d' = Some (mark_paid (seller_label i) ref gw t o') \<and> (\<forall>j. j \<noteq> i \<longrightarrow> order_of j d' = order_of j d)"
proof -
  from assms obtain o' where o: "order_of i d = Some o'" "o_status o' = ''Pending''" "charge_covers o' paid cur"
    and u: "orders d' = upd (\<lambda>x. o_id x = i \<and> o_status x = ''Pending'') (mark_paid (seller_label i) ref gw t) (orders d)"
    unfolding pays_def by blast
  have "order_of j d' = order_of j d" if "j \<noteq> i" for j
    using that order_of_D [of j d] by (cases "order_of j d") (auto simp: order_of_paid [OF u])
  moreover have "order_of i d' = Some (mark_paid (seller_label i) ref gw t o')"
    using o order_of_D [OF o(1)] by (simp add: order_of_paid [OF u])
  ultimately show ?thesis using o by blast
qed

lemma env0_exact: "enc_exact env0"
  unfolding enc_exact_def
proof (intro allI impI)
  fix k assume r: "num_range k"
  let ?x = "rnd (of_int k / 100)"
  have "\<bar>?x * 100 - of_int k\<bar> \<le> 1/4"
    using scan_num_error [OF r] unfolding abs_le_iff by ((intro conjI)?; linarith)
  moreover from this have "\<bar>?x * 100\<bar> \<le> 562949953421312"
    using rat_num_range [OF r] unfolding abs_le_iff by ((intro conjI)?; linarith)
  note n = rnd_near [OF this]
  ultimately have "\<bar>rnd (?x * 100) - of_int k\<bar> < 1/2"
    unfolding abs_le_iff abs_less_iff by ((intro conjI)?; linarith)
  then have "round_away (rnd (?x * 100)) = k" by (rule round_away_near)
  then show "enc_num env0 (scan_num k) = Some k"
    by (simp add: env0_def scan_num_Fin [OF r] f_of_int_100 n(1))
qed

section \<open>Properties\<close>

text \<open>
  C2. Whatever sequence of webhooks, buyer verifications and admin reconciliations arrives, whatever the
  gateway answers and however the database fails, the sellers' books stay right: every order that is Paid
  has its ledger row, every ledger row books one order that has left Pending, and carries exactly
  that order's price, fee and difference; no order is booked twice.
\<close>

theorem paid_books_always:
  assumes "enc_exact env" "paid_books (db w)"
  shows "paid_books (db (snd (serve_payments env cfg calls w)))"
  by (rule wp_both, rule serve_payments_books, rule assms(1), rule assms(2))

definition order0 :: order_row where
  "order0 = \<lparr>o_id = ''11111111-2222-3333-4444-555555555555'', o_user = ''u1'', o_provider = Some ''g1'',
     o_country = ''ng'', o_batch = None, o_currency = ''NGN'', o_total = 250000, o_fee = 12500,
     o_status = ''Pending'', o_stage = ''Order Received'', o_mode = ''merchant_local'', o_xp_discount = 0,
     o_label = None, o_tx_ref = None, o_tx_id = None, o_paid_at = None, o_promised_at = None,
     o_delivered_at = None, o_confirmed = False, o_confirmed_at = None, o_pickup = ([], [], [])\<rparr>"

definition ref0 :: string where
  "ref0 = newPaymentReference ''n'' (o_id order0)"

definition shop0 :: db where
  "shop0 = empty_db\<lparr>orders := [order0],
     payments := [new_payment flutterwaveProviderName ''order'' (Some (o_id order0)) None ''u1'' ''NG'' 250000 ''NGN''
       ref0 ''k1'' ''card'' ''RS_1'' 0]\<rparr>"

definition charge0 :: tx_data where
  "charge0 = \<lparr>td_id = AFloat (f_of_int 77), td_ref = ref0, td_reference = [], td_status = ''successful'', td_amount = AFloat (scan_num 250000),
     td_charged = AFloat (scan_num 253500), td_app_fee = AFloat (scan_num 3500), td_merchant_fee = AFloat (scan_num 0), td_currency = ''NGN''\<rparr>"

definition gateway0 :: gateway where
  "gateway0 e = Inr (200, \<lparr>va_status = ''success'', va_message = [], va_data = charge0\<rparr>)"

definition buyer_call :: "gateway \<times> payment_call" where
  "buyer_call = (gateway0, Verify ''u1'' (Some \<lparr>vq_order = o_id order0, vq_tx = ''77'', vq_ref = ref0\<rparr>))"

definition config0 :: config where
  "config0 = \<lparr>AppEnv = ''production'', EnableMockPayments = False, FlutterwaveSecretKey = ''sk'', FlutterwaveWebhookSecret = ''whs''\<rparr>"

lemma shop0_books: "paid_books shop0"
  by code_simp

lemma buyer_pays: "map o_status (orders (db (snd (serve_payment env0 config0 buyer_call (world0 shop0 1000))))) = [''Paid'']"
  by code_simp


lemma paid_books_always_witness:
  "paid_books (db (snd (serve_payments env0 config0 [buyer_call, buyer_call] (world0 shop0 1000)))) \<and>
   map l_net (ledger (db (snd (serve_payments env0 config0 [buyer_call, buyer_call] (world0 shop0 1000))))) = [237500]"
proof
  show "paid_books (db (snd (serve_payments env0 config0 [buyer_call, buyer_call] (world0 shop0 1000))))"
    by (rule paid_books_always) (simp_all add: env0_exact shop0_books)
qed code_simp

text \<open>
  C3. No order is paid without money: if a request changes any order, the order was Pending and is now
  marked Paid, and the gateway itself confirmed a successful charge whose reference names this very
  order, in the order's currency, that is not below the price.
\<close>

theorem order_paid_by_charge:
  assumes "serve_payment env cfg (http, rq) w = (r, w')" "orders_ok (orders (db w))"
    and "order_of i (db w) = Some o'" "order_of i (db w') \<noteq> Some o'"
  shows "o_status o' = ''Pending'' \<and>
    (\<exists>v paid. answers http v \<and> parseOrderID env (verified_ref v) = Inr i \<and> amountValue (td_amount v) = Some paid \<and>
       equal_fold (o_currency o') (trim_space (td_currency v)) \<and> \<not> underpaid (1/1000) paid (scan_num (o_total o')) \<and>
       (\<forall>k. num_range k \<longrightarrow> paid = scan_num k \<longrightarrow> o_total o' \<le> k) \<and>
       order_of i (db w') = Some (mark_paid (seller_label i) (verified_ref v) (gatewayID (td_id v)) (now w) o'))"
proof -
  have "moved env http (now w) (db w) (db w')"
    using wp_both [where w = w, OF serve_payment_moved [where c = "(http, rq)" and cfg = cfg and env = env]] assms(1) by simp
  moreover have "\<not> money_same (db w) (db w')" using assms(3,4) by (auto simp: money_same_def order_of_def)
  ultimately obtain v j paid where v: "answers http v" "parseOrderID env (verified_ref v) = Inr j" "amountValue (td_amount v) = Some paid"
    and p: "pays env j (verified_ref v) (gatewayID (td_id v)) paid (td_currency v) (now w) (db w) (db w')"
    unfolding moved_def by blast
  from pays_order [OF p] obtain x where x: "order_of j (db w) = Some x" "o_status x = ''Pending''" "charge_covers x paid (td_currency v)"
    "order_of j (db w') = Some (mark_paid (seller_label j) (verified_ref v) (gatewayID (td_id v)) (now w) x)"
    and other: "k \<noteq> j \<Longrightarrow> order_of k (db w') = order_of k (db w)" for k by metis
  have ij: "j = i" using assms(3,4) other [of i] by auto
  then have xo: "x = o'" using x(1) assms(3) by simp
  have n: "num_range (o_total o')"
    using order_of_D [OF assms(3)] assms(2) by (auto simp: orders_ok_def list_all_iff)
  have "o_total o' \<le> k" if "num_range k" "paid = scan_num k" for k
    using x(3) that underpaid_order [OF that(1) n] by (simp add: charge_covers_def xo not_less)
  then show ?thesis using v x ij by (auto simp: charge_covers_def xo)
qed

lemma order_paid_by_charge_witness:
  "\<exists>v paid. answers gateway0 v \<and> parseOrderID env0 (verified_ref v) = Inr (o_id order0) \<and>
     amountValue (td_amount v) = Some paid \<and> \<not> underpaid (1/1000) paid (scan_num 250000)"
proof -
  have "order_of (o_id order0) (db (world0 shop0 1000)) = Some order0" "orders_ok (orders (db (world0 shop0 1000)))" by code_simp+
  moreover have "order_of (o_id order0) (db (snd (serve_payment env0 config0 buyer_call (world0 shop0 1000)))) \<noteq> Some order0"
    by code_simp
  ultimately show ?thesis
    using order_paid_by_charge [where env = env0 and cfg = config0 and http = gateway0 and rq = "snd buyer_call" and w = "world0 shop0 1000" and
      i = "o_id order0" and o' = order0, OF prod.collapse [symmetric]]
    by (auto simp: buyer_call_def order0_def)
qed

text \<open>
  A settlement that has succeeded is final: repeated with the same charge, whatever else has
  happened to other tables' connections, it changes nothing but the payment attempts.
\<close>

theorem settleOrderPayment_replay:
  assumes "settleOrderPayment env i ref gw paid cur w = (Inr (), w1)"
    and "settleOrderPayment env i ref gw paid' cur' w2 = (r, w3)" "db w2 = db w1"
  shows "\<exists>P. db w3 = db w2\<lparr>payments := P\<rparr>"
proof -
  from wp_run [OF settleOrderPayment_wp assms(1)] obtain o' where o: "order_of i (db w1) = Some o'" "o_status o' \<noteq> ''Pending''"
    using pays_order [of env i ref gw paid cur "now w" "db w" "db w1"]
    by (auto simp: only_payments_def order_of_def)
  have "wp (now w2) (settleOrderPayment env i ref gw paid' cur')
      (\<lambda>_ d. d = db w2 \<or> only_payments (db w2) d \<or> pays env i ref gw paid' cur' (now w2) (db w2) d)
      (\<lambda>_ d. d = db w2 \<or> only_payments (db w2) d \<or> pays env i ref gw paid' cur' (now w2) (db w2) d) (db w2)"
    by (rule wp_mono [OF settleOrderPayment_wp]) auto
  from wp_both [OF this] assms(2)
  have "db w3 = db w2 \<or> only_payments (db w2) (db w3) \<or> pays env i ref gw paid' cur' (now w2) (db w2) (db w3)"
    by simp
  moreover have "\<not> pays env i ref gw paid' cur' (now w2) (db w2) (db w3)"
    using pays_order [of env i ref gw paid' cur' "now w2" "db w2" "db w3"] o assms(3) by auto
  moreover have "\<exists>P. db w2 = db w2\<lparr>payments := P\<rparr>" by (rule exI [of _ "payments (db w2)"]) simp
  ultimately show ?thesis unfolding only_payments_def by auto
qed

abbreviation settle1 :: "db world \<Rightarrow> (err + unit) \<times> db world" where
  "settle1 \<equiv> settleOrderPayment env0 (o_id order0) ref0 ''77'' (scan_num 250000) ''NGN''"

lemma settleOrderPayment_replay_witness:
  "\<exists>P. db (snd (settle1 (snd (settle1 (world0 shop0 5))))) = db (snd (settle1 (world0 shop0 5)))\<lparr>payments := P\<rparr>"
proof -
  have "fst (settle1 (world0 shop0 5)) = Inr ()" by code_simp
  then have "settle1 (world0 shop0 5) = (Inr (), snd (settle1 (world0 shop0 5)))" by (metis prod.collapse)
  from settleOrderPayment_replay [OF this prod.collapse [symmetric] refl] show ?thesis .
qed

text \<open>
  C24. A redelivered webhook is answered without work: once an event is processed or ignored, its next delivery
  reaches neither the gateway nor an order. It counts one more attempt on its receipt and is answered
  200, or, when the database fails, 500.
\<close>

theorem webhook_redelivery:
  assumes "FlutterwaveWebhook env cfg http decode raw sig vh w = (r, w')" "validWebhook env cfg raw sig vh" "decode raw = Some ev"
    and "key = webhook_event_key env (if trim_space (ev_type ev) = [] then trim_space (ev_event ev) else trim_space (ev_type ev))
           (first_non_empty [ev_ref ev, ev_reference ev]) (gatewayID (ev_id ev)) raw"
    and "find (webhook_seen flutterwaveProviderName key) (webhooks (db w)) = Some row'"
    and "wh_status row' = ''processed'' \<or> wh_status row' = ''ignored''"
  shows "(r = Inr (Resp 200 JNull) \<or> r = Inl (Http 500 ''could not record webhook'')) \<and>
    (db w' = db w \<or> db w' = db w\<lparr>webhooks := upd (webhook_seen flutterwaveProviderName key)
       (\<lambda>x. x\<lparr>wh_attempts := wh_attempts x + 1, wh_status := wh_status row'\<rparr>) (webhooks (db w))\<rparr>)"
proof -
  let ?d' = "db w\<lparr>webhooks := upd (webhook_seen flutterwaveProviderName key)
       (\<lambda>x. x\<lparr>wh_attempts := wh_attempts x + 1, wh_status := wh_status row'\<rparr>) (webhooks (db w))\<rparr>"
  have st: "(if wh_status row' = ''failed'' then ''processing'' else wh_status row') = wh_status row'" using assms(6) by auto
  have "wp (now w) (FlutterwaveWebhook env cfg http decode raw sig vh)
    (\<lambda>a d. a = Resp 200 JNull \<and> d = ?d') (\<lambda>e d. e = Http 500 ''could not record webhook'' \<and> (d = db w \<or> d = ?d')) (db w)"
    unfolding FlutterwaveWebhook_def Let_def beginPaymentWebhook_def assms(3) option.case assms(4) [symmetric]
    by (rule wp_bind, rule wp_require, rule wp_bind, rule wp_or_else, rule wp_bind, rule wp_stmt)
       (use assms(2,5,6) st in \<open>auto intro!: wp_ret split: sum.splits\<close>)
  from wpD [OF this] assms(1) show ?thesis by (auto split: sum.splits)
qed

definition event0 :: webhook_event where
  "event0 = \<lparr>ev_event = ''charge.completed'', ev_type = [], ev_id = AFloat (f_of_int 77), ev_ref = ref0, ev_reference = [],
     ev_status = ''successful''\<rparr>"

definition key0 :: string where
  "key0 = webhook_event_key env0 ''charge.completed'' ref0 ''77'' ''{}''"

definition seen0 :: webhook_row where
  "seen0 = \<lparr>wh_provider = flutterwaveProviderName, wh_key = key0, wh_type = ''charge.completed'', wh_reference = ref0, wh_tx_id = ''77'',
     wh_hash = [], wh_payload = ''{}'', wh_status = ''processed'', wh_attempts = 1, wh_error = [], wh_processed_at = Some 900\<rparr>"

lemma webhook_redelivery_witness:
  "orders (db (snd (serve_payment env0 config0 (gateway0, Webhook (\<lambda>_. Some event0) ''{}'' [] ''whs'')
     (world0 (shop0\<lparr>webhooks := [seen0]\<rparr>) 1000)))) = [order0]"
proof -
  let ?w = "world0 (shop0\<lparr>webhooks := [seen0]\<rparr>) 1000"
  have "validWebhook env0 config0 ''{}'' [] ''whs''" by code_simp
  moreover have "find (webhook_seen flutterwaveProviderName key0) (webhooks (db ?w)) = Some seen0"
    by (simp add: webhook_seen_def seen0_def)
  moreover have "key0 = webhook_event_key env0 (if trim_space (ev_type event0) = [] then trim_space (ev_event event0)
      else trim_space (ev_type event0)) (first_non_empty [ev_ref event0, ev_reference event0]) (gatewayID (ev_id event0)) ''{}''"
    by code_simp
  moreover have "wh_status seen0 = ''processed'' \<or> wh_status seen0 = ''ignored''" by (simp add: seen0_def)
  ultimately have "db (snd (FlutterwaveWebhook env0 config0 gateway0 (\<lambda>_. Some event0) ''{}'' [] ''whs'' ?w)) = db ?w \<or>
      db (snd (FlutterwaveWebhook env0 config0 gateway0 (\<lambda>_. Some event0) ''{}'' [] ''whs'' ?w)) = db ?w\<lparr>webhooks :=
        upd (webhook_seen flutterwaveProviderName key0) (\<lambda>x. x\<lparr>wh_attempts := wh_attempts x + 1, wh_status := wh_status seen0\<rparr>)
          (webhooks (db ?w))\<rparr>"
    using webhook_redelivery [OF prod.collapse [symmetric], where decode = "\<lambda>_. Some event0" and ev = event0] by blast
  then show ?thesis by (auto simp: shop0_def)
qed


end
