(* ===== verification/Fulfillment.thy ===== *)
theory Fulfillment
  imports Schema Timestamps "HOL-Library.List_Lexorder" "HOL-Library.Char_ord"
begin

text \<open>
  Seller fulfilment (merchant_fulfillment_controller.go): the two route tables of allowed status
  moves, the transition of one paid order and of up to 200 orders at once, and the seller's
  export manifests with their dispatch, which moves every order of the manifest.

  A fulfilment row carries a version for optimistic concurrency and an idempotency key per event.
  Read-only listings are not modelled.
\<close>

section \<open>Tables\<close>

definition fulfillments_ok :: "fulfillment_row list \<Rightarrow> bool" where
  "fulfillments_ok T = (uniq (\<lambda>f. Some (f_id f)) T \<and> uniq (\<lambda>f. Some (f_order f)) T)"

definition event_key :: "fulfillment_event_row \<Rightarrow> (string \<times> string) option" where
  "event_key e = Some (fe_fulfillment e, fe_key e)"

definition set_fulfillments :: "fulfillment_row list \<Rightarrow> db \<Rightarrow> err + db" where
  "set_fulfillments T d = (if fulfillments_ok T then Inr (d\<lparr>fulfillments := T\<rparr>) else Inl (Constraint ''order_fulfillments''))"

definition set_events :: "fulfillment_event_row list \<Rightarrow> db \<Rightarrow> err + db" where
  "set_events T d = (if uniq event_key T then Inr (d\<lparr>fulfillment_events := T\<rparr>) else Inl (Constraint ''fulfillment_events''))"

definition set_manifests :: "manifest_row list \<Rightarrow> db \<Rightarrow> err + db" where
  "set_manifests T d = (if uniq (\<lambda>x. Some (mf_id x)) T \<and> uniq (\<lambda>x. Some (mf_code x)) T
     then Inr (d\<lparr>manifests := T\<rparr>) else Inl (Constraint ''merchant_manifests''))"

definition set_manifest_orders :: "(string \<times> string) list \<Rightarrow> db \<Rightarrow> err + db" where
  "set_manifest_orders T d = (if uniq (\<lambda>x. Some (snd x)) T then Inr (d\<lparr>manifest_orders := T\<rparr>)
     else Inl (Constraint ''merchant_manifest_orders''))"

definition manifest_event_key :: "manifest_event_row \<Rightarrow> (string \<times> string) option" where
  "manifest_event_key e = Some (me_manifest e, me_key e)"

definition set_manifest_events :: "manifest_event_row list \<Rightarrow> db \<Rightarrow> err + db" where
  "set_manifest_events T d = (if uniq manifest_event_key T then Inr (d\<lparr>manifest_events := T\<rparr>)
     else Inl (Constraint ''merchant_manifest_events''))"

lemma fulfillment_tables [simp]:
  "(set_fulfillments T1 d = Inr d') = (fulfillments_ok T1 \<and> d' = d\<lparr>fulfillments := T1\<rparr>)"
  "(set_events T2 d = Inr d') = (uniq event_key T2 \<and> d' = d\<lparr>fulfillment_events := T2\<rparr>)"
  "(set_manifests T3 d = Inr d') = (uniq (\<lambda>x. Some (mf_id x)) T3 \<and> uniq (\<lambda>x. Some (mf_code x)) T3 \<and> d' = d\<lparr>manifests := T3\<rparr>)"
  "(set_manifest_orders T4 d = Inr d') = (uniq (\<lambda>x. Some (snd x)) T4 \<and> d' = d\<lparr>manifest_orders := T4\<rparr>)"
  "(set_manifest_events T5 d = Inr d') = (uniq manifest_event_key T5 \<and> d' = d\<lparr>manifest_events := T5\<rparr>)"
  by (auto simp: set_fulfillments_def set_events_def set_manifests_def set_manifest_orders_def set_manifest_events_def)

section \<open>Routes and stages\<close>

definition merchantLocalTransitions :: "(string \<times> string list) list" where
  "merchantLocalTransitions =
     [(''pending'', [''accepted'']),
      (''accepted'', [''packed'']),
      (''packed'', [''ready_for_pickup'', ''out_for_delivery'']),
      (''ready_for_pickup'', [''delivered'']),
      (''out_for_delivery'', [''delivered''])]"

definition merchantCrossBorderTransitions :: "(string \<times> string list) list" where
  "merchantCrossBorderTransitions =
     [(''pending'', [''accepted'']),
      (''accepted'', [''processing'']),
      (''processing'', [''dispatched_from_origin'']),
      (''dispatched_from_origin'', [''international_transit'']),
      (''international_transit'', [''customs_clearance'', ''local_hub'']),
      (''customs_clearance'', [''local_hub'']),
      (''local_hub'', [''ready_for_pickup'', ''out_for_delivery'']),
      (''ready_for_pickup'', [''delivered'']),
      (''out_for_delivery'', [''delivered''])]"

text \<open>\<open>transitions[from][to]\<close>: a missing entry is false.\<close>

definition allowed_move :: "(string \<times> string list) list \<Rightarrow> string \<Rightarrow> string \<Rightarrow> bool" where
  "allowed_move table from to = (case map_of table from of None \<Rightarrow> False | Some xs \<Rightarrow> to \<in> set xs)"

definition validFulfillmentTransition :: "string \<Rightarrow> string \<Rightarrow> string \<Rightarrow> string \<Rightarrow> bool" where
  "validFulfillmentTransition route owner from to =
     (if owner \<noteq> ''merchant'' then False
      else if route = ''merchant_local'' then allowed_move merchantLocalTransitions from to
      else if route = ''merchant_cross_border'' then allowed_move merchantCrossBorderTransitions from to
      else False)"

definition legacyStageForFulfillment :: "string \<Rightarrow> string \<Rightarrow> string \<times> string" where
  "legacyStageForFulfillment route status =
     (if status = ''international_transit'' \<or> status = ''customs_clearance'' then (''In Transit Internationally'', ''Shipped'')
      else if status = ''local_hub'' \<or> status = ''ready_for_pickup'' then (''Arrived at Local Hub'', ''Shipped'')
      else if status = ''out_for_delivery'' then (''Out for Delivery'', ''Shipped'')
      else if status = ''delivered'' then (''Delivered'', ''Delivered'')
      else if status = ''accepted'' \<or> status = ''packed'' then
        (if route = ''merchant_local'' then (''Order Placed'', ''Paid'') else (''Arrived at International Hub'', ''Paid''))
      else if status = ''processing'' \<or> status = ''dispatched_from_origin'' then (''Arrived at International Hub'', ''Paid'')
      else (''Order Placed'', ''Paid''))"

definition fulfillmentNotification :: "string \<Rightarrow> string \<times> string" where
  "fulfillmentNotification status =
     (if status = ''accepted'' then (''Order accepted'', ''The seller has accepted your paid order.'')
      else if status = ''packed'' then (''Order packed'', ''The seller has packed your order.'')
      else if status = ''processing'' then (''Order processing'', ''The seller is preparing your international order.'')
      else if status = ''dispatched_from_origin'' then
        (''Dispatched from origin'', ''Your order has left the seller'' @ [CHR 0x27] @ ''s origin facility.'')
      else if status = ''international_transit'' then (''In transit internationally'', ''Your order is travelling to Nigeria.'')
      else if status = ''customs_clearance'' then (''Customs clearance'', ''Your order is being processed by customs.'')
      else if status = ''local_hub'' then (''Arrived at local hub'', ''Your order has arrived at the local hub.'')
      else if status = ''ready_for_pickup'' then
        (''Ready for pickup'', ''Your order is ready for pickup. Check the tracking page for the location.'')
      else if status = ''out_for_delivery'' then (''Out for delivery'', ''Your order is on its way to you.'')
      else if status = ''delivered'' then
        (''Package delivered'', ''Confirm receipt from your tracking page after you receive the package.'')
      else (''Order updated'', ''Your order fulfilment status has changed.''))"

section \<open>Requests\<close>

record fulfillment_request =
  fq_status :: string
  fq_version :: int
  fq_key :: string
  fq_notes :: string
  fq_location :: string
  fq_carrier :: string
  fq_tracking :: string
  fq_url :: string
  fq_estimated :: string

record bulk_request = fulfillment_request +
  bq_orders :: "(string \<times> int) list"

definition parseEstimatedDelivery :: "string \<Rightarrow> err + int option" where
  "parseEstimatedDelivery value =
     (if trim_space value = [] then Inr None
      else case parse_rfc3339 value of
        None \<Rightarrow> Inl (Msg ''estimated_delivery_at must be RFC3339'') | Some t \<Rightarrow> Inr (Some t))"

definition parseFulfillmentTransition ::
  "string \<Rightarrow> fulfillment_request option \<Rightarrow> err + fulfillment_request \<times> int option" where
  "parseFulfillmentTransition header body = (case body of
     None \<Rightarrow> Inl errBadRequest
   | Some req0 \<Rightarrow>
     (let key0 = trim_space (fq_key req0);
          req = req0\<lparr>fq_status := to_lower (trim_space (fq_status req0)),
                    fq_key := (if key0 = [] then trim_space header else key0)\<rparr>
      in if fq_status req = [] \<or> fq_version req < 1 \<or> fq_key req = [] \<or> 160 < length (fq_key req)
         then Inl (Http 422 ''status, expected_version, and idempotency_key are required'')
         else case parseEstimatedDelivery (fq_estimated req) of
           Inl e \<Rightarrow> Inl (Http 422 (error_text e)) | Inr est \<Rightarrow> Inr (req, est)))"

definition providerForUser :: "string \<Rightarrow> (db, string \<times> string) prog" where
  "providerForUser userID = query (\<lambda>d t. row (map_option (\<lambda>m. (m_provider m, m_role m))
     (find (\<lambda>m. m_user m = userID \<and> m_active m \<and> list_ex (\<lambda>g. g_id g = m_provider m \<and> g_active g) (orgs d)) (members d))))"

text \<open>The caller's organization, for its owner, managers and staff.\<close>

definition seller_of :: "string \<Rightarrow> (db, string) prog" where
  "seller_of userID = bind (or_else (providerForUser userID) errForbidden) (\<lambda>(providerID, role).
     bind (require (role = ''owner'' \<or> role = ''manager'' \<or> role = ''staff'') errForbidden) (\<lambda>_. ret providerID))"

section \<open>Moving a fulfilment\<close>

text \<open>The paid fulfilment of an order that the seller owns, with its buyer.\<close>

definition paid_fulfillment :: "string \<Rightarrow> string \<Rightarrow> db \<Rightarrow> (fulfillment_row \<times> string) option" where
  "paid_fulfillment orderID providerID d =
     (case find (\<lambda>f. f_order f = orderID \<and> f_provider f = providerID \<and> f_owner f = ''merchant'') (fulfillments d) of
        None \<Rightarrow> None
      | Some f \<Rightarrow> (case find (\<lambda>o'. o_id o' = orderID \<and> o_paid_at o' \<noteq> None) (orders d) of
          None \<Rightarrow> None | Some o' \<Rightarrow> Some (f, o_user o')))"

text \<open>The settlement status of the order's newest ledger row.\<close>

definition settlement_of :: "string \<Rightarrow> db \<Rightarrow> string" where
  "settlement_of orderID d = (case find (\<lambda>l. l_order l = orderID) (rev (ledger d)) of
     None \<Rightarrow> ''pending'' | Some l \<Rightarrow> l_settlement l)"

definition keep_blank :: "string \<Rightarrow> string \<Rightarrow> string" where
  "keep_blank new old = (if new = [] then old else new)"

definition first_time :: "bool \<Rightarrow> int \<Rightarrow> int option \<Rightarrow> int option" where
  "first_time b t old = (if b then (case old of None \<Rightarrow> Some t | Some x \<Rightarrow> Some x) else old)"

definition advance_fulfillment :: "('a fulfillment_request_scheme) \<Rightarrow> int option \<Rightarrow> int \<Rightarrow> fulfillment_row \<Rightarrow> fulfillment_row" where
  "advance_fulfillment req est t f =
     f\<lparr>f_status := fq_status req,
       f_carrier := keep_blank (trim_space (fq_carrier req)) (f_carrier f),
       f_tracking := keep_blank (trim_space (fq_tracking req)) (f_tracking f),
       f_url := keep_blank (trim_space (fq_url req)) (f_url f),
       f_location := keep_blank (trim_space (fq_location req)) (f_location f),
       f_estimated := (case est of None \<Rightarrow> f_estimated f | Some e \<Rightarrow> Some e),
       f_accepted_at := first_time (fq_status req = ''accepted'') t (f_accepted_at f),
       f_dispatched_at := first_time (fq_status req = ''dispatched_from_origin'' \<or> fq_status req = ''international_transit'') t
         (f_dispatched_at f),
       f_delivered_at := first_time (fq_status req = ''delivered'') t (f_delivered_at f),
       f_version := f_version f + 1\<rparr>"

definition order_progress :: "string \<Rightarrow> string \<Rightarrow> int \<Rightarrow> order_row \<Rightarrow> order_row" where
  "order_progress stage status t o' =
     o'\<lparr>o_stage := stage, o_status := status, o_delivered_at := first_time (status = ''Delivered'') t (o_delivered_at o')\<rparr>"

definition request_meta :: "('a fulfillment_request_scheme) \<Rightarrow> json" where
  "request_meta req = JObj [(''carrier'', JStr (trim_space (fq_carrier req))),
     (''tracking_number'', JStr (trim_space (fq_tracking req))), (''tracking_url'', JStr (trim_space (fq_url req)))]"

definition move_notice :: "string \<Rightarrow> string \<Rightarrow> ('a fulfillment_request_scheme) \<Rightarrow> json" where
  "move_notice orderID route req = JObj [(''order_id'', JStr orderID), (''route'', JStr route),
     (''status'', JStr (fq_status req)), (''location'', JStr (trim_space (fq_location req)))]"

text \<open>The writes of one move: the fulfilment under its version, the order, the event, the tracking
  line and the buyer's notification.\<close>

definition write_move ::
  "('a fulfillment_request_scheme) \<Rightarrow> int option \<Rightarrow> string \<Rightarrow> string \<Rightarrow> string \<Rightarrow> string \<Rightarrow> string \<Rightarrow> fulfillment_row \<Rightarrow> string \<Rightarrow> (db, unit) prog" where
  "write_move req est actorType actorID orderID eventKey changed f buyerID =
     (case legacyStageForFulfillment (f_route f) (fq_status req) of (stage, orderStatus) \<Rightarrow>
     bind (or_else (stmt (\<lambda>d t. update_rows fulfillments set_fulfillments
         (\<lambda>x. f_id x = f_id f \<and> f_version x = f_version f) (advance_fulfillment req est t) d)) (Http 409 changed)) (\<lambda>affected.
     bind (require (affected = 1) (Http 409 changed)) (\<lambda>_.
     bind (or_else (stmt (\<lambda>d t. update_rows orders set_orders (\<lambda>x. o_id x = orderID) (order_progress stage orderStatus t) d))
       errInternal) (\<lambda>_.
     bind (or_else (stmt (\<lambda>d t. insert_row fulfillment_events set_events
         \<lparr>fe_fulfillment = f_id f, fe_actor = actorType, fe_actor_id = actorID, fe_previous = f_status f,
          fe_status = fq_status req, fe_notes = trim_space (fq_notes req), fe_location = trim_space (fq_location req),
          fe_meta = request_meta req, fe_key = eventKey\<rparr> d)) errInternal) (\<lambda>_.
     bind (or_else (stmt (\<lambda>d t. Inr ((), d\<lparr>tracking_events := tracking_events d @ [(orderID, stage, trim_space (fq_notes req))]\<rparr>)))
       errInternal) (\<lambda>_.
     bind (or_else (insertNotification buyerID orderID None ''fulfillment_update'' (fst (fulfillmentNotification (fq_status req)))
         (snd (fulfillmentNotification (fq_status req))) (move_notice orderID (f_route f) req)
         (''fulfillment:'' @ f_id f @ '':'' @ eventKey)) errInternal) (\<lambda>_.
     ret ())))))))"

definition transitionFulfillment ::
  "string \<Rightarrow> string \<Rightarrow> string \<Rightarrow> string \<Rightarrow> fulfillment_request \<Rightarrow> int option \<Rightarrow> (db, response) prog" where
  "transitionFulfillment orderID providerID actorType actorID req est = transaction_or errUnavailable errInternal (
     bind (found_or (Http 404 ''paid fulfilment not found or not assigned to you'') errInternal
       (query (\<lambda>d t. row (map_option (\<lambda>(f, u). (f, u, settlement_of orderID d)) (paid_fulfillment orderID providerID d)))))
       (\<lambda>(f, userID, settlementStatus).
     bind (require (\<not> (f_route f = ''merchant_cross_border'' \<and> settlementStatus \<noteq> ''settled''))
       (Http 409 ''seller settlement is not released yet; do not purchase or dispatch this imported order'')) (\<lambda>_.
     bind (or_else (query (\<lambda>d t. Inr (find (\<lambda>e. fe_fulfillment e = f_id f \<and> fe_key e = fq_key req) (fulfillment_events d))))
       errInternal) (\<lambda>existing.
     case existing of
       Some e \<Rightarrow> ret (Abandon (Resp 200 (JObj [(''order_id'', JStr orderID), (''status'', JStr (fe_status e)),
         (''version'', JInt (f_version f)), (''idempotent_replay'', JBool True)])))
     | None \<Rightarrow>
       bind (require (f_version f = fq_version req)
         (Http 409 ''fulfilment changed in another session; refresh and try the current next action'')) (\<lambda>_.
       bind (require (validFulfillmentTransition (f_route f) (f_owner f) (f_status f) (fq_status req))
         (Http 409 (''cannot move '' @ f_route f @ '' fulfilment from '' @ f_status f @ '' to '' @ fq_status req))) (\<lambda>_.
       bind (write_move req est actorType actorID orderID (fq_key req) ''fulfilment changed; refresh and retry'' f userID) (\<lambda>_.
       ret (Commit (Resp 200 (JObj [(''order_id'', JStr orderID), (''route'', JStr (f_route f)), (''owner'', JStr (f_owner f)),
         (''status'', JStr (fq_status req)), (''tracking_stage'', JStr (fst (legacyStageForFulfillment (f_route f) (fq_status req)))),
         (''version'', JInt (f_version f + 1))]))))))))))"

definition TransitionMerchantOrder ::
  "string \<Rightarrow> string \<Rightarrow> string \<Rightarrow> fulfillment_request option \<Rightarrow> (db, response) prog" where
  "TransitionMerchantOrder userID orderID header body =
     bind (seller_of userID) (\<lambda>providerID.
     case parseFulfillmentTransition header body of
       Inl e \<Rightarrow> fail e
     | Inr (req, est) \<Rightarrow> transitionFulfillment orderID providerID ''merchant'' userID req est)"

section \<open>Bulk moves\<close>

fun bulk_orders_valid :: "env \<Rightarrow> string list \<Rightarrow> (string \<times> int) list \<Rightarrow> bool" where
  "bulk_orders_valid env seen [] = True"
| "bulk_orders_valid env seen ((i, v) # xs) =
     (if \<not> uuid_ok env i \<or> v < 1 \<or> i \<in> set seen then False else bulk_orders_valid env (i # seen) xs)"

definition bulk_conflict :: "string \<Rightarrow> string \<Rightarrow> string \<Rightarrow> string" where
  "bulk_conflict orderID from to = ''order '' @ orderID @ '' cannot move from '' @ from @ '' to '' @ to @
     ''; refresh and select orders at the same stage''"

definition bulk_item :: "string \<Rightarrow> string \<Rightarrow> bulk_request \<Rightarrow> int option \<Rightarrow> string \<times> int \<Rightarrow> (db, json) prog" where
  "bulk_item providerID userID req est item = (case item of (orderID, expected) \<Rightarrow>
     bind (found_or (Http 404 ''one or more paid orders are unavailable or not assigned to you'') errInternal
       (query (\<lambda>d t. row (map_option (\<lambda>(f, u). (f, u, settlement_of orderID d)) (paid_fulfillment orderID providerID d)))))
       (\<lambda>(f, buyerID, settlementStatus).
     bind (require (\<not> (f_route f = ''merchant_cross_border'' \<and> settlementStatus \<noteq> ''settled''))
       (Http 409 ''seller settlement is not released yet; imported orders cannot be processed'')) (\<lambda>_.
     bind (require (\<not> (f_version f \<noteq> expected \<or> \<not> validFulfillmentTransition (f_route f) (f_owner f) (f_status f) (fq_status req)))
       (Http 409 (bulk_conflict orderID (f_status f) (fq_status req)))) (\<lambda>_.
     bind (write_move req est ''merchant'' userID orderID (fq_key req @ '':'' @ orderID)
       ''an order changed while the bulk update was running; refresh and retry'' f buyerID) (\<lambda>_.
     ret (JObj [(''order_id'', JStr orderID), (''status'', JStr (fq_status req)), (''version'', JInt (f_version f + 1))]))))))"

definition BulkTransitionMerchantOrders :: "env \<Rightarrow> string \<Rightarrow> bulk_request option \<Rightarrow> (db, response) prog" where
  "BulkTransitionMerchantOrders env userID body =
     bind (seller_of userID) (\<lambda>providerID.
     case body of None \<Rightarrow> fail errBadRequest | Some req0 \<Rightarrow>
     (let req = req0\<lparr>fq_status := to_lower (trim_space (fq_status req0)), fq_key := trim_space (fq_key req0)\<rparr>
      in bind (require (\<not> (length (bq_orders req) < 1 \<or> 200 < length (bq_orders req) \<or> fq_status req = [] \<or>
             fq_key req = [] \<or> 100 < length (fq_key req)))
           (Http 422 ''status, idempotency_key, and 1-200 orders are required'')) (\<lambda>_.
         case parseEstimatedDelivery (fq_estimated req) of
           Inl e \<Rightarrow> fail (Http 422 (error_text e))
         | Inr est \<Rightarrow>
           bind (require (bulk_orders_valid env [] (bq_orders req))
             (Http 422 ''orders must contain unique order_id UUIDs and expected_version'')) (\<lambda>_.
           transaction_or errUnavailable errInternal (
             bind (collect (bulk_item providerID userID req est) (bq_orders req)) (\<lambda>results.
             ret (Commit (Resp 200 (JObj [(''updated'', JInt (int (length results))), (''items'', JArr results)])))))))))"

section \<open>Export manifests\<close>

record manifest_request =
  mq_orders :: "string list"
  mq_country :: string
  mq_city :: string
  mq_cutoff :: int

text \<open>The zero \<open>time.Time\<close>, the first of January of year 1.\<close>

definition zero_time :: int where "zero_time = -62135596800"

definition newMerchantManifestCode :: "string \<Rightarrow> int \<Rightarrow> string" where
  "newMerchantManifestCode newID t = ''MER-'' @ date_compact (utc_date t) @ ''-'' @ to_upper (take 8 newID)"

fun unique_uuids :: "env \<Rightarrow> string list \<Rightarrow> string list \<Rightarrow> bool" where
  "unique_uuids env seen [] = True"
| "unique_uuids env seen (i # xs) = (if \<not> uuid_ok env i \<or> i \<in> set seen then False else unique_uuids env (i # seen) xs)"

definition manifestable :: "string \<Rightarrow> string \<Rightarrow> db \<Rightarrow> bool" where
  "manifestable orderID providerID d =
     (list_ex (\<lambda>o'. o_id o' = orderID \<and> o_paid_at o' \<noteq> None) (orders d) \<and>
      list_ex (\<lambda>f. f_order f = orderID \<and> f_provider f = providerID \<and> f_route f = ''merchant_cross_border'' \<and> f_owner f = ''merchant'' \<and>
        (f_status f = ''pending'' \<or> f_status f = ''accepted'' \<or> f_status f = ''processing'')) (fulfillments d) \<and>
      list_ex (\<lambda>l. l_order l = orderID \<and> l_key l = ''order-paid:'' @ orderID \<and> l_settlement l = ''settled'') (ledger d) \<and>
      \<not> list_ex (\<lambda>x. snd x = orderID) (manifest_orders d))"

definition add_to_manifest :: "string \<Rightarrow> string \<Rightarrow> string \<Rightarrow> (db, unit) prog" where
  "add_to_manifest manifestID providerID orderID =
     (let unavailable = Http 409 ''one or more orders are unavailable, unpaid, awaiting seller settlement, already manifested, or not owned by this provider''
      in bind (or_else (stmt (\<lambda>d t. if manifestable orderID providerID d
             then insert_row manifest_orders set_manifest_orders (manifestID, orderID) d else Inr (0, d))) unavailable) (\<lambda>affected.
         require (affected = 1) unavailable))"

definition CreateMerchantManifest ::
  "env \<Rightarrow> string \<Rightarrow> string \<Rightarrow> string \<Rightarrow> manifest_request option \<Rightarrow> (db, response) prog" where
  "CreateMerchantManifest env manifestID codeID userID body =
     bind (seller_of userID) (\<lambda>providerID.
     case body of None \<Rightarrow> fail errBadRequest | Some req \<Rightarrow>
     (let country = to_upper (trim_space (mq_country req)); city = trim_space (mq_city req) in
      bind (require (\<not> (length (mq_orders req) = 0 \<or> 500 < length (mq_orders req) \<or> length country \<noteq> 2 \<or> mq_cutoff req = zero_time))
        (Http 422 ''order_ids, two-letter origin_country_code, and cutoff_at are required'')) (\<lambda>_.
      bind (require (unique_uuids env [] (mq_orders req)) (Http 422 ''order_ids must contain unique UUIDs'')) (\<lambda>_.
      transaction_or errUnavailable errInternal (
        bind clock (\<lambda>t.
        bind (or_else (stmt (\<lambda>d t. insert_row manifests set_manifests
          \<lparr>mf_id = manifestID, mf_provider = providerID, mf_code = newMerchantManifestCode codeID t, mf_country = country,
           mf_city = city, mf_status = ''open'', mf_cutoff = mq_cutoff req, mf_closed_at = None, mf_dispatched_at = None,
           mf_version = 1\<rparr> d)) errInternal) (\<lambda>_.
        bind (for_each (add_to_manifest manifestID providerID) (mq_orders req)) (\<lambda>_.
        ret (Commit (Resp 201 (JObj [(''id'', JStr manifestID), (''manifest_code'', JStr (newMerchantManifestCode codeID t)),
          (''status'', JStr ''open''), (''version'', JInt 1)])))))))))))"

definition manifestTransitions :: "(string \<times> string list) list" where
  "manifestTransitions = [(''open'', [''closed'', ''cancelled'']), (''closed'', [''dispatched'', ''cancelled'']),
     (''dispatched'', [''completed''])]"

record manifest_move =
  mm_status :: string
  mm_version :: int
  mm_key :: string
  mm_notes :: string

text \<open>The fulfilments of the manifest with buyer and settlement status, by order id.\<close>

definition manifest_members :: "string \<Rightarrow> string \<Rightarrow> db \<Rightarrow> (fulfillment_row \<times> string \<times> string) list" where
  "manifest_members manifestID providerID d =
     List.map_filter (\<lambda>f. map_option (\<lambda>o'. (f, o_user o',
         case find (\<lambda>l. l_order l = o_id o' \<and> l_key l = ''order-paid:'' @ o_id o') (ledger d) of
           None \<Rightarrow> ''pending'' | Some l \<Rightarrow> l_settlement l)) (find (\<lambda>o'. o_id o' = f_order f) (orders d)))
       (sort_key f_order (filter (\<lambda>f. (manifestID, f_order f) \<in> set (manifest_orders d) \<and> f_provider f = providerID \<and>
          f_route f = ''merchant_cross_border'' \<and> f_owner f = ''merchant'') (fulfillments d)))"

definition dispatch_fulfillment :: "int \<Rightarrow> fulfillment_row \<Rightarrow> fulfillment_row" where
  "dispatch_fulfillment t f =
     f\<lparr>f_status := ''dispatched_from_origin'', f_dispatched_at := first_time True t (f_dispatched_at f), f_version := f_version f + 1\<rparr>"

definition dispatch_member ::
  "string \<Rightarrow> string \<Rightarrow> string \<Rightarrow> fulfillment_row \<times> string \<times> string \<Rightarrow> (db, unit) prog" where
  "dispatch_member manifestID userID notes member = (case member of (f, buyerID, _) \<Rightarrow>
     (let eventKey = ''manifest-dispatch:'' @ manifestID @ '':'' @ f_order f; changed = Http 409 ''a manifest order changed; refresh and retry'' in
     bind (or_else (stmt (\<lambda>d t. update_rows fulfillments set_fulfillments (\<lambda>x. f_id x = f_id f \<and> f_version x = f_version f)
       (dispatch_fulfillment t) d)) changed) (\<lambda>affected.
     bind (require (affected = 1) changed) (\<lambda>_.
     bind (or_else (stmt (\<lambda>d t. update_rows orders set_orders (\<lambda>x. o_id x = f_order f)
       (order_progress ''Arrived at International Hub'' ''Paid'' t) d)) errInternal) (\<lambda>_.
     bind (or_else (stmt (\<lambda>d t. insert_row fulfillment_events set_events
       \<lparr>fe_fulfillment = f_id f, fe_actor = ''merchant'', fe_actor_id = userID, fe_previous = f_status f,
        fe_status = ''dispatched_from_origin'', fe_notes = trim_space notes, fe_location = [], fe_meta = JObj [], fe_key = eventKey\<rparr> d))
       errInternal) (\<lambda>_.
     bind (or_else (stmt (\<lambda>d t. Inr ((), d\<lparr>tracking_events := tracking_events d @
       [(f_order f, ''Arrived at International Hub'', trim_space notes)]\<rparr>))) errInternal) (\<lambda>_.
     bind (or_else (insertNotification buyerID (f_order f) None ''fulfillment_update''
       (fst (fulfillmentNotification ''dispatched_from_origin'')) (snd (fulfillmentNotification ''dispatched_from_origin''))
       (JObj [(''order_id'', JStr (f_order f)), (''route'', JStr ''merchant_cross_border''),
         (''status'', JStr ''dispatched_from_origin''), (''manifest_id'', JStr manifestID)]) eventKey) errInternal) (\<lambda>_.
     ret ()))))))))"

definition dispatch_manifest :: "string \<Rightarrow> string \<Rightarrow> string \<Rightarrow> string \<Rightarrow> (db, unit) prog" where
  "dispatch_manifest manifestID providerID userID notes =
     bind (or_else (query (\<lambda>d t. Inr (manifest_members manifestID providerID d))) errInternal) (\<lambda>ms.
     bind (require (\<not> list_ex (\<lambda>(f, u, st). f_status f \<noteq> ''processing'' \<or> st \<noteq> ''settled'') ms)
       (Http 409 ''every manifest order must be processing with seller settlement released before dispatch'')) (\<lambda>_.
     bind (require (ms \<noteq> []) (Http 409 ''manifest has no dispatchable orders'')) (\<lambda>_.
     for_each (dispatch_member manifestID userID notes) ms)))"

definition advance_manifest :: "string \<Rightarrow> int \<Rightarrow> manifest_row \<Rightarrow> manifest_row" where
  "advance_manifest status t x =
     x\<lparr>mf_status := status, mf_closed_at := first_time (status = ''closed'') t (mf_closed_at x),
       mf_dispatched_at := first_time (status = ''dispatched'') t (mf_dispatched_at x), mf_version := mf_version x + 1\<rparr>"

definition write_manifest_move ::
  "string \<Rightarrow> string \<Rightarrow> string \<Rightarrow> string \<Rightarrow> string \<Rightarrow> manifest_row \<Rightarrow> (db, unit) prog" where
  "write_manifest_move status key notes userID providerID mf =
     bind (if status = ''dispatched'' then dispatch_manifest (mf_id mf) providerID userID notes else ret ()) (\<lambda>_.
     bind (or_else (stmt (\<lambda>d t. update_rows manifests set_manifests
         (\<lambda>x. mf_id x = mf_id mf \<and> mf_version x = mf_version mf) (advance_manifest status t) d))
         (Http 409 ''manifest changed; refresh and retry'')) (\<lambda>affected.
     bind (require (affected = 1) (Http 409 ''manifest changed; refresh and retry'')) (\<lambda>_.
     bind (or_else (stmt (\<lambda>d t. insert_row manifest_events set_manifest_events
         \<lparr>me_manifest = mf_id mf, me_actor = userID, me_previous = mf_status mf, me_status = status,
          me_notes = trim_space notes, me_key = key\<rparr> d)) errInternal) (\<lambda>_. ret ()))))"

definition TransitionMerchantManifest ::
  "string \<Rightarrow> string \<Rightarrow> manifest_move option \<Rightarrow> (db, response) prog" where
  "TransitionMerchantManifest userID wantedID body =
     bind (seller_of userID) (\<lambda>providerID.
     case body of None \<Rightarrow> fail errBadRequest | Some req \<Rightarrow>
     (let status = to_lower (trim_space (mm_status req)); key = trim_space (mm_key req) in
      bind (require (\<not> (status = [] \<or> mm_version req < 1 \<or> key = []))
        (Http 422 ''status, expected_version, and idempotency_key are required'')) (\<lambda>_.
      transaction_or errUnavailable errInternal (
        bind (found_or errNotFound errInternal (query (\<lambda>d t. row (find (\<lambda>x. mf_id x = wantedID \<and> mf_provider x = providerID)
          (manifests d))))) (\<lambda>mf.
        bind (or_else (query (\<lambda>d t. Inr (find (\<lambda>e. me_manifest e = mf_id mf \<and> me_key e = key) (manifest_events d))))
          errInternal) (\<lambda>replay.
        case replay of
          Some e \<Rightarrow> ret (Abandon (Resp 200 (JObj [(''id'', JStr (mf_id mf)), (''status'', JStr (me_status e)),
            (''version'', JInt (mf_version mf)), (''idempotent_replay'', JBool True)])))
        | None \<Rightarrow>
          bind (require (\<not> (mf_version mf \<noteq> mm_version req \<or> \<not> allowed_move manifestTransitions (mf_status mf) status))
            (Http 409 ''manifest changed or transition is not allowed'')) (\<lambda>_.
          bind (write_manifest_move status key (mm_notes req) userID providerID mf) (\<lambda>_.
          ret (Commit (Resp 200 (JObj [(''id'', JStr (mf_id mf)), (''status'', JStr status), (''version'', JInt (mf_version mf + 1))])))))))))))"

end
