(* ===== verification/Transitions.thy ===== *)
theory Transitions
  imports Prelude
begin

text \<open>
  Status machines that only move forward. A component with such a machine gives its transition
  predicate and a rank that every move raises and that is bounded; the locale derives that a
  recorded history is finite, never returns to a status and ends in the current one.
\<close>

section \<open>Histories\<close>

text \<open>\<open>path V a hs b\<close>: the recorded moves \<open>hs\<close>, each a pair of previous and new status, lead from
  \<open>a\<close> to \<open>b\<close>, each allowed by \<open>V\<close>.\<close>

fun path :: "('a \<Rightarrow> 'a \<Rightarrow> bool) \<Rightarrow> 'a \<Rightarrow> ('a \<times> 'a) list \<Rightarrow> 'a \<Rightarrow> bool" where
  "path V a [] b = (a = b)"
| "path V a ((p, n) # hs) b = (p = a \<and> V a n \<and> path V n hs b)"

lemma path_append: "path V a (hs @ ks) c = (\<exists>b. path V a hs b \<and> path V b ks c)"
  by (induction hs arbitrary: a) auto

lemma path_snoc [simp]: "path V a (hs @ [(p, n)]) c = (path V a hs p \<and> V p n \<and> c = n)"
  by (auto simp: path_append)

lemma path_mono: "(\<And>a b. V a b \<Longrightarrow> W a b) \<Longrightarrow> path V a hs b \<Longrightarrow> path W a hs b"
  by (induction hs arbitrary: a) auto

lemma path_never: "path (\<lambda>a b. False) a hs b \<Longrightarrow> hs = []"
  by (cases hs) auto

locale ranked =
  fixes V :: "'a \<Rightarrow> 'a \<Rightarrow> bool" and rank :: "'a \<Rightarrow> nat" and top_rank :: nat
  assumes rank_less: "V a b \<Longrightarrow> rank a < rank b"
    and rank_top: "V a b \<Longrightarrow> rank b \<le> top_rank"
begin

lemma path_rank: "path V a hs b \<Longrightarrow> rank a + length hs \<le> rank b"
proof (induction hs arbitrary: a)
  case (Cons h hs)
  obtain p n where h: "h = (p, n)" by (cases h)
  with Cons.prems have "V a n" "path V n hs b" by auto
  from rank_less [OF this(1)] Cons.IH [OF this(2)] show ?case by simp
qed simp

lemma path_bound: "path V a hs b \<Longrightarrow> rank a \<le> top_rank \<Longrightarrow> length hs \<le> top_rank - rank a"
proof (cases hs rule: rev_cases)
  case (snoc ks h)
  assume p: "path V a hs b"
  obtain x n where h: "h = (x, n)" by (cases h)
  have "V x n" "b = n" using p unfolding snoc h by simp_all
  then have "rank b \<le> top_rank" using rank_top by simp
  with path_rank [OF p] show ?thesis by simp
qed simp

lemma path_no_return: "path V a hs b \<Longrightarrow> hs \<noteq> [] \<Longrightarrow> a \<noteq> b"
  using path_rank [of a hs b] by auto

lemma path_end: "path V a hs b \<Longrightarrow> rank a < top_rank \<Longrightarrow> rank b \<le> top_rank"
  by (cases hs rule: rev_cases) (auto dest: rank_top)

end

end
