(* ===== verification/Fulfillment_Safety.thy ===== *)
theory Fulfillment_Safety
  imports Fulfillment Transitions
begin

text \<open>
  The safety of seller fulfilment: the rank of each status machine, the invariant \<open>tracked\<close> (events
  are the complete and lawful history of every fulfilment and manifest), the relation \<open>moved_right\<close>
  of what a request may do, and its proof for the four requests that move orders.
\<close>

section \<open>The status machines\<close>

definition local_rank :: "string \<Rightarrow> nat" where
  "local_rank s = (case map_of [(''pending'', 0), (''accepted'', 1), (''packed'', 2), (''ready_for_pickup'', 3),
     (''out_for_delivery'', 3), (''delivered'', 4)] s of None \<Rightarrow> 0 | Some n \<Rightarrow> n)"

definition import_rank :: "string \<Rightarrow> nat" where
  "import_rank s = (case map_of [(''pending'', 0), (''accepted'', 1), (''processing'', 2), (''dispatched_from_origin'', 3),
     (''international_transit'', 4), (''customs_clearance'', 5), (''local_hub'', 6), (''ready_for_pickup'', 7),
     (''out_for_delivery'', 7), (''delivered'', 8)] s of None \<Rightarrow> 0 | Some n \<Rightarrow> n)"

definition manifest_rank :: "string \<Rightarrow> nat" where
  "manifest_rank s = (case map_of [(''open'', 0), (''closed'', 1), (''dispatched'', 2), (''completed'', 3), (''cancelled'', 3)] s of
     None \<Rightarrow> 0 | Some n \<Rightarrow> n)"

interpretation local_moves: ranked "allowed_move merchantLocalTransitions" local_rank 4
  by unfold_locales
     (auto simp: allowed_move_def merchantLocalTransitions_def local_rank_def split: if_splits option.splits)

interpretation import_moves: ranked "allowed_move merchantCrossBorderTransitions" import_rank 8
  by unfold_locales
     (auto simp: allowed_move_def merchantCrossBorderTransitions_def import_rank_def split: if_splits option.splits)

interpretation manifest_moves: ranked "allowed_move manifestTransitions" manifest_rank 3
  by unfold_locales
     (auto simp: allowed_move_def manifestTransitions_def manifest_rank_def split: if_splits option.splits)


section \<open>Histories of fulfilments\<close>

definition history :: "string \<Rightarrow> db \<Rightarrow> (string \<times> string) list" where
  "history i d = map (\<lambda>e. (fe_previous e, fe_status e)) (filter (\<lambda>e. fe_fulfillment e = i) (fulfillment_events d))"

definition on_track :: "db \<Rightarrow> fulfillment_row \<Rightarrow> bool" where
  "on_track d f = (path (validFulfillmentTransition (f_route f) (f_owner f)) ''pending'' (history (f_id f) d) (f_status f) \<and>
     f_version f = 1 + int (length (history (f_id f) d)))"

definition manifest_history :: "string \<Rightarrow> db \<Rightarrow> (string \<times> string) list" where
  "manifest_history i d = map (\<lambda>e. (me_previous e, me_status e)) (filter (\<lambda>e. me_manifest e = i) (manifest_events d))"

definition manifests_tracked :: "db \<Rightarrow> bool" where
  "manifests_tracked d = (uniq (\<lambda>x. Some (mf_id x)) (manifests d) \<and>
     (\<forall>e \<in> set (manifest_events d). \<exists>m \<in> set (manifests d). mf_id m = me_manifest e) \<and>
     (\<forall>m \<in> set (manifests d). path (allowed_move manifestTransitions) ''open'' (manifest_history (mf_id m) d) (mf_status m) \<and>
        mf_version m = 1 + int (length (manifest_history (mf_id m) d))))"

definition tracked :: "db \<Rightarrow> bool" where
  "tracked d = (fulfillments_ok (fulfillments d) \<and> (\<forall>f \<in> set (fulfillments d). on_track d f) \<and> manifests_tracked d)"

definition released :: "db \<Rightarrow> string \<Rightarrow> bool" where
  "released d i = (\<exists>l \<in> set (ledger d). l_order l = i \<and> l_settlement l = ''settled'')"

text \<open>What a request may do: keep the histories, leave the seller ledger alone, and change an
  imported order's fulfilment only when the seller's settlement is released.\<close>

definition moved_right :: "db \<Rightarrow> db \<Rightarrow> bool" where
  "moved_right d d' = (tracked d' \<and> ledger d' = ledger d \<and>
     (\<forall>f \<in> set (fulfillments d). f \<notin> set (fulfillments d') \<longrightarrow> f_route f = ''merchant_cross_border'' \<longrightarrow> released d (f_order f)))"

lemma moved_right_refl: "tracked d \<Longrightarrow> moved_right d d"
  by (simp add: moved_right_def)

lemma moved_right_trans: "moved_right a b \<Longrightarrow> moved_right b c \<Longrightarrow> moved_right a c"
  unfolding moved_right_def released_def by auto

lemma moved_right_tracked: "moved_right d d' \<Longrightarrow> tracked d'"
  by (simp add: moved_right_def)

definition move_effect :: "fulfillment_row \<Rightarrow> string \<Rightarrow> db \<Rightarrow> db \<Rightarrow> bool" where
  "move_effect f s d d' = (ledger d' = ledger d \<and> manifests d' = manifests d \<and> manifest_events d' = manifest_events d \<and> fulfillments_ok (fulfillments d') \<and>
     (\<exists>n. (\<forall>x. f_id (n x) = f_id x \<and> f_route (n x) = f_route x \<and> f_owner (n x) = f_owner x \<and> f_status (n x) = s \<and>
            f_version (n x) = f_version x + 1) \<and>
        fulfillments d' = upd (\<lambda>x. f_id x = f_id f \<and> f_version x = f_version f) n (fulfillments d)) \<and>
     (\<exists>e. fe_fulfillment e = f_id f \<and> fe_previous e = f_status f \<and> fe_status e = s \<and>
        fulfillment_events d' = fulfillment_events d @ [e]))"

lemma same_fulfillment:
  "tracked d \<Longrightarrow> f \<in> set (fulfillments d) \<Longrightarrow> x \<in> set (fulfillments d) \<Longrightarrow> f_id x = f_id f \<Longrightarrow> x = f"
  by (rule uniq_rows [of "\<lambda>f. Some (f_id f)" "fulfillments d"]) (auto simp: tracked_def fulfillments_ok_def)

lemma move_effect_frame:
  assumes "tracked d" "f \<in> set (fulfillments d)" "move_effect f s d d'" "g \<in> set (fulfillments d)" "g \<noteq> f"
  shows "g \<in> set (fulfillments d')"
proof -
  from assms(3) obtain n where "fulfillments d' = upd (\<lambda>x. f_id x = f_id f \<and> f_version x = f_version f) n (fulfillments d)"
    unfolding move_effect_def by blast
  moreover have "f_id g \<noteq> f_id f" using same_fulfillment [OF assms(1,2,4)] assms(5) by auto
  ultimately show ?thesis using assms(4) by (auto simp: set_upd intro: image_eqI [of _ _ g])
qed

lemma move_effect_right:
  assumes "tracked d" "f \<in> set (fulfillments d)" "move_effect f s d d'"
    and "validFulfillmentTransition (f_route f) (f_owner f) (f_status f) s"
    and "f_route f = ''merchant_cross_border'' \<Longrightarrow> released d (f_order f)"
  shows "moved_right d d'"
proof -
  from assms(3) obtain n e where n: "\<And>x. f_id (n x) = f_id x" "\<And>x. f_route (n x) = f_route x" "\<And>x. f_owner (n x) = f_owner x"
      "\<And>x. f_status (n x) = s" "\<And>x. f_version (n x) = f_version x + 1"
    and u: "fulfillments d' = upd (\<lambda>x. f_id x = f_id f \<and> f_version x = f_version f) n (fulfillments d)"
    and e: "fe_fulfillment e = f_id f" "fe_previous e = f_status f" "fe_status e = s"
      "fulfillment_events d' = fulfillment_events d @ [e]"
    and l: "ledger d' = ledger d" "fulfillments_ok (fulfillments d')" "manifests d' = manifests d" "manifest_events d' = manifest_events d"
    unfolding move_effect_def by blast
  have h: "history i d' = history i d @ (if i = f_id f then [(f_status f, s)] else [])" for i
    using e by (simp add: history_def)
  have "on_track d' x" if "x \<in> set (fulfillments d')" for x
  proof -
    from that u obtain y where y: "y \<in> set (fulfillments d)" "x = (if f_id y = f_id f \<and> f_version y = f_version f then n y else y)"
      by (auto simp: set_upd)
    show ?thesis
    proof (cases "f_id y = f_id f")
      case True
      then have "y = f" using same_fulfillment [OF assms(1,2) y(1)] by simp
      then show ?thesis using y assms(1,2,4) n h by (simp add: on_track_def tracked_def)
    next
      case False
      then show ?thesis using y assms(1) h by (simp add: on_track_def tracked_def)
    qed
  qed
  moreover have "released d (f_order g)" if "g \<in> set (fulfillments d)" "g \<notin> set (fulfillments d')" "f_route g = ''merchant_cross_border''" for g
    using move_effect_frame [OF assms(1-3) that(1)] that assms(5) by auto
  moreover have "manifests_tracked d'" using assms(1) l by (simp add: tracked_def manifests_tracked_def manifest_history_def)
  ultimately show ?thesis using l unfolding moved_right_def tracked_def by blast
qed

lemma move_effectI:
  assumes "ledger d' = ledger d" "fulfillments_ok (fulfillments d')" "manifests d' = manifests d" "manifest_events d' = manifest_events d"
    "fulfillments d' = upd (\<lambda>x. f_id x = f_id f \<and> f_version x = f_version f) n (fulfillments d)"
    "\<And>x. f_id (n x) = f_id x \<and> f_route (n x) = f_route x \<and> f_owner (n x) = f_owner x \<and> f_status (n x) = s \<and>
       f_version (n x) = f_version x + 1"
    "\<exists>e. fulfillment_events d' = fulfillment_events d @ [e] \<and> fe_fulfillment e = f_id f \<and> fe_previous e = f_status f \<and> fe_status e = s"
  shows "move_effect f s d d'"
  unfolding move_effect_def using assms by blast

lemma step_fields [simp]:
  "f_id (advance_fulfillment req est t f) = f_id f" "f_route (advance_fulfillment req est t f) = f_route f"
  "f_owner (advance_fulfillment req est t f) = f_owner f" "f_status (advance_fulfillment req est t f) = fq_status req"
  "f_version (advance_fulfillment req est t f) = f_version f + 1"
  "f_id (dispatch_fulfillment t f) = f_id f" "f_route (dispatch_fulfillment t f) = f_route f"
  "f_owner (dispatch_fulfillment t f) = f_owner f" "f_status (dispatch_fulfillment t f) = ''dispatched_from_origin''"
  "f_version (dispatch_fulfillment t f) = f_version f + 1"
  by (simp_all add: advance_fulfillment_def dispatch_fulfillment_def)

lemma wp_write_move:
  assumes "\<And>d'. move_effect f (fq_status req) d d' \<Longrightarrow> Q () d'" "\<And>e d'. E e d'"
  shows "wp t (write_move req est aty ai i k ch f b) Q E d"
  unfolding write_move_def
  apply (intro wp_rules wp_notify)
  apply (simp_all add: assms(2))
  apply (rule assms(1), rule move_effectI [where n = "advance_fulfillment req est t"]; auto)+
  done

lemma wp_dispatch_member:
  assumes "\<And>d'. move_effect f ''dispatched_from_origin'' d d' \<Longrightarrow> Q () d'" "\<And>e d'. E e d'"
  shows "wp t (dispatch_member m u n (f, b, st)) Q E d"
  unfolding dispatch_member_def Let_def prod.case
  apply (intro wp_rules wp_notify)
  apply (simp_all add: assms(2))
  apply (rule assms(1), rule move_effectI [where n = "dispatch_fulfillment t"]; auto)+
  done

section \<open>The requests\<close>

lemma paid_fulfillment_D:
  "paid_fulfillment i p d = Some (f, u) \<Longrightarrow> f \<in> set (fulfillments d) \<and> f_order f = i \<and> f_owner f = ''merchant''"
  unfolding paid_fulfillment_def by (auto split: option.splits dest: find_Some_D)

lemma settlement_of_settled: "settlement_of i d = ''settled'' \<Longrightarrow> released d i"
  unfolding settlement_of_def released_def by (auto split: option.splits dest!: find_Some_D)

lemma transitionFulfillment_right:
  assumes "tracked d"
  shows "wp t (transitionFulfillment i p aty ai req est) (\<lambda>_. moved_right d) (\<lambda>_. moved_right d) d"
  unfolding transitionFulfillment_def
  apply (intro wp_rules wp_write_move)
  apply (simp_all add: assms moved_right_refl row_def split: option.splits)
  apply (auto intro!: move_effect_right [OF assms] dest!: paid_fulfillment_D dest: settlement_of_settled)
  done

lemma bulk_item_right:
  assumes "moved_right d0 d"
  shows "wp t (bulk_item p u req est x) (\<lambda>_. moved_right d0) (\<lambda>_ _. True) d"
  unfolding bulk_item_def
  apply (intro wp_rules wp_write_move)
  apply (simp_all add: row_def split: option.splits)
  apply (rule moved_right_trans [OF assms])
  apply (auto intro!: move_effect_right [OF moved_right_tracked [OF assms]] dest!: paid_fulfillment_D dest: settlement_of_settled)
  done


lemma wp_seller_of [wp_rules]: "(\<And>p. Q p d) \<Longrightarrow> (\<And>e. E e d) \<Longrightarrow> wp t (seller_of u) Q E d"
  unfolding seller_of_def providerForUser_def by (intro wp_rules) auto

lemma TransitionMerchantOrder_right:
  assumes "tracked d"
  shows "wp t (TransitionMerchantOrder u i h b) (\<lambda>_. moved_right d) (\<lambda>_. moved_right d) d"
  unfolding TransitionMerchantOrder_def
  by (intro wp_rules transitionFulfillment_right) (simp_all add: assms moved_right_refl)

lemma Bulk_right:
  assumes "tracked d"
  shows "wp t (BulkTransitionMerchantOrders env u b) (\<lambda>_. moved_right d) (\<lambda>_. moved_right d) d"
proof -
  have c: "wp t (collect (bulk_item p u req est) xs) (\<lambda>_. moved_right d) (\<lambda>_ _. True) d" for p req est xs
    by (rule wp_collect, rule bulk_item_right, auto intro: moved_right_refl assms)
  show ?thesis
    unfolding BulkTransitionMerchantOrders_def Let_def
    by (intro wp_rules wp_mono [OF c]) (auto intro!: wp_ret simp: assms moved_right_refl)
qed

lemma moved_right_manifest:
  assumes "tracked d" "fulfillments d' = fulfillments d" "fulfillment_events d' = fulfillment_events d" "ledger d' = ledger d"
    "manifests_tracked d'"
  shows "moved_right d d'"
  using assms by (simp add: moved_right_def tracked_def on_track_def history_def)

lemma new_manifest_tracked:
  assumes "manifests_tracked d" "uniq (\<lambda>x. Some (mf_id x)) (manifests d @ [m])" "mf_status m = ''open''" "mf_version m = 1"
    "manifests d' = manifests d @ [m]" "manifest_events d' = manifest_events d"
  shows "manifests_tracked d'"
proof -
  have "mf_id m \<noteq> me_manifest e" if "e \<in> set (manifest_events d)" for e
    using assms(1,2) that by (fastforce simp: manifests_tracked_def uniq_insert set_keys)
  then have "manifest_history (mf_id m) d' = []" using assms(6) by (force simp: manifest_history_def filter_empty_conv)
  moreover have "manifest_history i d' = manifest_history i d" for i using assms(6) by (simp add: manifest_history_def)
  ultimately show ?thesis using assms by (auto simp: manifests_tracked_def)
qed

lemma add_to_manifest_right:
  assumes "moved_right d0 d"
  shows "wp t (add_to_manifest m p i) (\<lambda>_. moved_right d0) (\<lambda>_ _. True) d"
proof -
  have "moved_right d0 (d\<lparr>manifest_orders := T\<rparr>)" for T
    by (rule moved_right_trans [OF assms moved_right_manifest])
       (use assms in \<open>auto simp: moved_right_def tracked_def manifests_tracked_def manifest_history_def\<close>)
  then show ?thesis unfolding add_to_manifest_def Let_def
    by (intro wp_rules) (auto simp: assms split: if_splits)
qed

lemma CreateMerchantManifest_right:
  assumes "tracked d"
  shows "wp t (CreateMerchantManifest env m c u b) (\<lambda>_. moved_right d) (\<lambda>_. moved_right d) d"
proof -
  have n: "moved_right d (d\<lparr>manifests := manifests d @ [x]\<rparr>)"
    if "uniq (\<lambda>x. Some (mf_id x)) (manifests d @ [x])" "mf_status x = ''open''" "mf_version x = 1" for x
    by (rule moved_right_manifest [OF assms], simp_all)
       (rule new_manifest_tracked [OF _ that], use assms in \<open>auto simp: tracked_def\<close>)
  have f: "wp t (for_each (add_to_manifest m p) xs) (\<lambda>_. moved_right d) (\<lambda>_ _. True) d1" if "moved_right d d1" for p xs d1
    by (rule wp_for_each, rule add_to_manifest_right) (auto intro: that)
  show ?thesis
    unfolding CreateMerchantManifest_def Let_def
    apply (intro wp_rules)
    apply (simp_all add: assms moved_right_refl)
    apply (rule wp_mono [OF f], rule n)
    apply (auto intro!: wp_rules simp: assms moved_right_refl)
    done
qed


lemma manifest_members_D:
  "(f, b, st) \<in> set (manifest_members m p d) \<Longrightarrow> f \<in> set (fulfillments d) \<and> f_owner f = ''merchant'' \<and>
     f_route f = ''merchant_cross_border'' \<and> (st = ''settled'' \<longrightarrow> released d (f_order f))"
  unfolding manifest_members_def released_def
  by (clarsimp simp: in_map_filter) (fastforce split: option.splits dest: find_Some_D)

lemma manifest_members_distinct:
  assumes "tracked d"
  shows "distinct (map (\<lambda>(f, b, st). f) (manifest_members m p d))"
proof -
  have "inj_on f_id (set (fulfillments d))" "distinct (map f_id (fulfillments d))"
    using assms by (auto simp: tracked_def fulfillments_ok_def uniq_def keys_def List.map_filter_def comp_def distinct_map)
  then have "distinct (fulfillments d)" by (simp add: distinct_map)
  then have d: "distinct (sort_key f_order (filter P (fulfillments d)))" for P by simp
  have "map (\<lambda>(f, b, st). f) (List.map_filter (\<lambda>f. map_option (\<lambda>o'. (f, g f o')) (h f)) xs) = filter (\<lambda>f. h f \<noteq> None) xs"
    for g :: "fulfillment_row \<Rightarrow> order_row \<Rightarrow> string \<times> string" and h xs
    by (induction xs) (auto simp: map_filter_simps split: option.splits)
  then show ?thesis unfolding manifest_members_def using d by simp
qed

definition dispatching :: "db \<Rightarrow> (fulfillment_row \<times> string \<times> string) list \<Rightarrow> db \<Rightarrow> bool" where
  "dispatching d0 ms d = (moved_right d0 d \<and> manifests d = manifests d0 \<and> distinct (map (\<lambda>(f, b, st). f) ms) \<and>
     (\<forall>(f, b, st) \<in> set ms. f \<in> set (fulfillments d) \<and> f_owner f = ''merchant'' \<and> f_route f = ''merchant_cross_border'' \<and>
        f_status f = ''processing'' \<and> released d0 (f_order f)))"

lemma dispatch_member_right:
  assumes "dispatching d0 (x # ms) d"
  shows "wp t (dispatch_member m u n x) (\<lambda>_. dispatching d0 ms) (\<lambda>_ _. True) d"
proof -
  obtain f b st where x: "x = (f, b, st)" by (cases x)
  have r: "moved_right d0 d" "manifests d = manifests d0" "tracked d" "f \<in> set (fulfillments d)" "f_owner f = ''merchant''"
    "f_route f = ''merchant_cross_border''" "f_status f = ''processing''" "released d0 (f_order f)"
    using assms unfolding x dispatching_def by (auto dest: moved_right_tracked)
  have l: "ledger d = ledger d0" using r(1) by (simp add: moved_right_def)
  have "dispatching d0 ms d'" if e: "move_effect f ''dispatched_from_origin'' d d'" for d'
  proof -
    have "moved_right d d'"
      using r l by (intro move_effect_right [OF r(3,4) e])
        (simp_all add: released_def validFulfillmentTransition_def allowed_move_def merchantCrossBorderTransitions_def)
    then have "moved_right d0 d'" by (rule moved_right_trans [OF r(1)])
    moreover have "manifests d' = manifests d0" using e r(2) by (simp add: move_effect_def)
    moreover have "g \<in> set (fulfillments d')" if "(g, c, s) \<in> set ms" for g c s
      using assms that unfolding x dispatching_def
      by (intro move_effect_frame [OF r(3,4) e]) force+
    ultimately show ?thesis using assms unfolding x dispatching_def by auto
  qed
  then show ?thesis unfolding x by (intro wp_dispatch_member) auto
qed

lemma dispatch_manifest_right:
  assumes "tracked d"
  shows "wp t (dispatch_manifest m p u n) (\<lambda>_ d'. moved_right d d' \<and> manifests d' = manifests d) (\<lambda>_ _. True) d"
proof -
  let ?ms = "manifest_members m p d"
  have "wp t (for_each (dispatch_member m u n) ?ms) (\<lambda>_ d'. moved_right d d' \<and> manifests d' = manifests d) (\<lambda>_ _. True) d"
    if ok: "\<not> list_ex (\<lambda>(f, u, st). f_status f \<noteq> ''processing'' \<or> st \<noteq> ''settled'') ?ms"
  proof -
    have "dispatching d ?ms d"
      using ok manifest_members_distinct [OF assms] assms
      by (fastforce simp: dispatching_def moved_right_refl list_ex_iff dest: manifest_members_D)
    then have "wp t (for_each (dispatch_member m u n) ?ms) (\<lambda>_. dispatching d []) (\<lambda>_ _. True) d"
      by (intro wp_for_each_rest [where I = "dispatching d"] dispatch_member_right)
    then show ?thesis by (rule wp_mono) (auto simp: dispatching_def)
  qed
  then show ?thesis
    unfolding dispatch_manifest_def by (intro wp_rules) auto
qed


lemma manifest_moved:
  assumes "moved_right d0 d" "mf \<in> set (manifests d)" "allowed_move manifestTransitions (mf_status mf) s"
    and "uniq (\<lambda>x. Some (mf_id x)) (manifests d')"
    and "manifests d' = upd (\<lambda>x. mf_id x = mf_id mf \<and> mf_version x = mf_version mf) n (manifests d)"
    and "\<And>x. mf_id (n x) = mf_id x \<and> mf_status (n x) = s \<and> mf_version (n x) = mf_version x + 1"
    and "\<exists>e. manifest_events d' = manifest_events d @ [e] \<and> me_manifest e = mf_id mf \<and> me_previous e = mf_status mf \<and> me_status e = s"
    and "fulfillments d' = fulfillments d" "fulfillment_events d' = fulfillment_events d" "ledger d' = ledger d"
  shows "moved_right d0 d'"
proof (rule moved_right_trans [OF assms(1)], rule moved_right_manifest)
  show t: "tracked d" using assms(1) by (rule moved_right_tracked)
  then have m: "manifests_tracked d" by (simp add: tracked_def)
  from assms(7) have h: "manifest_history i d' = manifest_history i d @ (if i = mf_id mf then [(mf_status mf, s)] else [])" for i
    by (auto simp: manifest_history_def)
  have one: "x = mf" if "x \<in> set (manifests d)" "mf_id x = mf_id mf" for x
    using m that assms(2) by (intro uniq_rows [of "\<lambda>x. Some (mf_id x)" "manifests d"]) (auto simp: manifests_tracked_def)
  show "manifests_tracked d'"
    unfolding manifests_tracked_def
  proof (intro conjI ballI)
    show "\<exists>x \<in> set (manifests d'). mf_id x = me_manifest e" if e: "e \<in> set (manifest_events d')" for e
    proof -
      obtain y where y: "y \<in> set (manifests d)" "mf_id y = me_manifest e"
      proof (cases "e \<in> set (manifest_events d)")
        case True
        then show ?thesis using m that unfolding manifests_tracked_def by blast
      next
        case False
        then show ?thesis using e assms(2,7) that by auto
      qed
      then have "(if mf_id y = mf_id mf \<and> mf_version y = mf_version mf then n y else y) \<in> set (manifests d')"
        using assms(5) by (simp add: set_upd)
      moreover have "mf_id (if mf_id y = mf_id mf \<and> mf_version y = mf_version mf then n y else y) = me_manifest e"
        using y assms(6) by simp
      ultimately show ?thesis by blast
    qed
    fix x assume "x \<in> set (manifests d')"
    then obtain y where y: "y \<in> set (manifests d)" "x = (if mf_id y = mf_id mf \<and> mf_version y = mf_version mf then n y else y)"
      using assms(5) by (auto simp: set_upd)
    have z: "path (allowed_move manifestTransitions) ''open'' (manifest_history (mf_id y) d) (mf_status y)"
      "mf_version y = 1 + int (length (manifest_history (mf_id y) d))" using m y(1) by (auto simp: manifests_tracked_def)
    show "path (allowed_move manifestTransitions) ''open'' (manifest_history (mf_id x) d') (mf_status x)"
      "mf_version x = 1 + int (length (manifest_history (mf_id x) d'))"
      using z y one [OF y(1)] assms(3,6) by (cases "mf_id y = mf_id mf"; simp add: h)+
  qed (rule assms(4))
qed (use assms in simp_all)

lemma write_manifest_move_right:
  assumes "tracked d" "mf \<in> set (manifests d)" "allowed_move manifestTransitions (mf_status mf) s"
  shows "wp t (write_manifest_move s k n u p mf) (\<lambda>_. moved_right d) (\<lambda>_ _. True) d"
proof -
  have dm: "wp t (if c then dispatch_manifest m p u n else ret ()) (\<lambda>_ d'. moved_right d d' \<and> manifests d' = manifests d) (\<lambda>_ _. True) d"
    for c m p n by (intro wp_rules dispatch_manifest_right) (simp_all add: assms moved_right_refl)
  show ?thesis
    unfolding write_manifest_move_def
    apply (rule wp_bind, rule wp_mono [OF dm])
     apply (elim conjE)
     apply (intro wp_rules)
          apply (simp_all)
    apply (rule manifest_moved [where mf = mf and s = s and n = "advance_manifest s t"])
             apply (simp_all add: assms advance_manifest_def)
    done
qed

lemma TransitionMerchantManifest_right:
  assumes "tracked d"
  shows "wp t (TransitionMerchantManifest u i b) (\<lambda>_. moved_right d) (\<lambda>_. moved_right d) d"
  unfolding TransitionMerchantManifest_def Let_def
  apply (intro wp_rules wp_mono [OF write_manifest_move_right])
  apply (simp_all add: assms moved_right_refl row_def split: option.splits)
  apply (auto dest!: find_Some_D intro: wp_ret)
  done

section \<open>Sequences of requests\<close>

datatype seller_call =
    MoveOrder string string string "fulfillment_request option"
  | MoveOrders string "bulk_request option"
  | OpenManifest string string string "manifest_request option"
  | MoveManifest string string "manifest_move option"

fun serve_seller :: "env \<Rightarrow> seller_call \<Rightarrow> (db, response) prog" where
  "serve_seller env (MoveOrder u i h b) = TransitionMerchantOrder u i h b"
| "serve_seller env (MoveOrders u b) = BulkTransitionMerchantOrders env u b"
| "serve_seller env (OpenManifest m c u b) = CreateMerchantManifest env m c u b"
| "serve_seller env (MoveManifest u i b) = TransitionMerchantManifest u i b"

definition serve_sellers :: "env \<Rightarrow> seller_call list \<Rightarrow> (db, unit) prog" where
  "serve_sellers env calls = for_each (\<lambda>c. ignore (serve_seller env c)) calls"

lemma serve_seller_right:
  assumes "tracked d"
  shows "wp t (serve_seller env c) (\<lambda>_. moved_right d) (\<lambda>_. moved_right d) d"
  by (cases c) (simp_all add: assms TransitionMerchantOrder_right Bulk_right CreateMerchantManifest_right TransitionMerchantManifest_right)

lemma serve_sellers_right:
  assumes "tracked d"
  shows "wp t (serve_sellers env cs) (\<lambda>_. moved_right d) (\<lambda>_. moved_right d) d"
proof -
  have "wp t (ignore (serve_seller env c)) (\<lambda>_. moved_right d) (\<lambda>_. moved_right d) d1" if "moved_right d d1" for c d1
    by (rule wp_ignore, rule wp_mono [OF serve_seller_right [OF moved_right_tracked [OF that]]])
       (auto intro: moved_right_trans [OF that])
  then show ?thesis unfolding serve_sellers_def
    by (rule wp_for_each) (simp_all add: moved_right_refl assms)
qed


section \<open>Properties\<close>

definition seller_db :: db where
  "seller_db = empty_db\<lparr>orgs := [\<lparr>g_id = ''g1'', g_owner = ''u2'', g_country = ''ng'', g_active = True\<rparr>],
     members := [\<lparr>m_provider = ''g1'', m_user = ''u2'', m_role = ''owner'', m_active = True\<rparr>],
     orders := [\<lparr>o_id = ''o1'', o_user = ''u1'', o_provider = Some ''g1'', o_country = ''ng'', o_batch = None, o_currency = ''NGN'',
       o_total = 250000, o_fee = 12500, o_status = ''Paid'', o_stage = ''Order Placed'', o_mode = ''merchant_cross_border'',
       o_xp_discount = 0, o_label = None, o_tx_ref = None, o_tx_id = None, o_paid_at = Some 5, o_promised_at = None,
       o_delivered_at = None, o_confirmed = False, o_confirmed_at = None, o_pickup = ([], [], [])\<rparr>],
     ledger := [\<lparr>l_provider = ''g1'', l_order = ''o1'', l_key = ''order-paid:o1'', l_currency = ''NGN'', l_gross = 250000,
       l_fee = 12500, l_net = 237500, l_expected = 237500, l_status = ''available'', l_available_at = None, l_paid_at = None,
       l_deductions = 0, l_amount = None, l_sid = [], l_settlement = ''settled'', l_reference = [], l_destination = [],
       l_note = [], l_checked_at = None\<rparr>],
     fulfillments := [\<lparr>f_id = ''f1'', f_order = ''o1'', f_provider = ''g1'', f_route = ''merchant_cross_border'', f_owner = ''merchant'',
       f_status = ''pending'', f_version = 1, f_carrier = [], f_tracking = [], f_url = [], f_location = [], f_estimated = None,
       f_accepted_at = None, f_dispatched_at = None, f_delivered_at = None\<rparr>]\<rparr>"

definition accept_request :: fulfillment_request where
  "accept_request = \<lparr>fq_status = ''accepted'', fq_version = 1, fq_key = ''k1'', fq_notes = [], fq_location = [], fq_carrier = [],
     fq_tracking = [], fq_url = [], fq_estimated = []\<rparr>"

definition accept_call :: seller_call where
  "accept_call = MoveOrder ''u2'' ''o1'' [] (Some accept_request)"

lemma seller_db_tracked: "tracked seller_db"
  by code_simp

text \<open>
  C6. The record of every fulfilment and every manifest is complete and lawful: whatever sequence of single moves, bulk
  moves, new manifests and manifest moves arrives, and however the database fails, each fulfilment's events lead, by
  moves its route allows, from pending to its current status, each manifest's events likewise from open,
  and the version counts the events.
\<close>

theorem seller_histories_lawful:
  assumes "tracked (db w)"
  shows "tracked (db (snd (serve_sellers env cs w)))"
  using wp_both [OF serve_sellers_right [OF assms]] by (rule moved_right_tracked)

lemma seller_histories_lawful_witness:
  "tracked (db (snd (serve_sellers env0 [accept_call, accept_call] (world0 seller_db 7))))"
  by (rule seller_histories_lawful) (simp add: seller_db_tracked)

text \<open>
  C20. An imported order is only worked on once the seller's money is released: a fulfilment row on the cross-border route that
  any sequence of requests changes belongs to an order with a settled entry in the seller ledger.
\<close>

theorem import_needs_release:
  assumes "tracked (db w)" "f \<in> set (fulfillments (db w))" "f_route f = ''merchant_cross_border''"
    and "f \<notin> set (fulfillments (db (snd (serve_sellers env cs w))))"
  shows "\<exists>l \<in> set (ledger (db w)). l_order l = f_order f \<and> l_settlement l = ''settled''"
  using wp_both [OF serve_sellers_right [OF assms(1)]] assms(2-4) unfolding moved_right_def released_def by blast

lemma import_needs_release_witness:
  "\<exists>l \<in> set (ledger seller_db). l_order l = ''o1'' \<and> l_settlement l = ''settled''"
proof -
  let ?f = "hd (fulfillments seller_db)"
  have "?f \<in> set (fulfillments (db (world0 seller_db 7)))" "f_route ?f = ''merchant_cross_border''" "f_order ?f = ''o1''"
    by (simp_all add: seller_db_def)
  moreover have "?f \<notin> set (fulfillments (db (snd (serve_sellers env0 [accept_call] (world0 seller_db 7)))))" by code_simp
  ultimately show ?thesis
    using import_needs_release [where w = "world0 seller_db 7" and f = ?f and env = env0 and cs = "[accept_call]"] seller_db_tracked by simp
qed

lemma history_bound:
  assumes "path (validFulfillmentTransition r w) ''pending'' hs s"
  shows "length hs \<le> (if w \<noteq> ''merchant'' then 0 else if r = ''merchant_local'' then 4 else 8)"
proof (cases "w = ''merchant'' \<and> (r = ''merchant_local'' \<or> r = ''merchant_cross_border'')")
  case True
  have "r = ''merchant_local'' \<Longrightarrow> length hs \<le> 4 - local_rank ''pending''"
    by (rule local_moves.path_bound [OF path_mono [OF _ assms]])
       (simp_all add: validFulfillmentTransition_def local_rank_def split: if_splits)
  moreover have "r \<noteq> ''merchant_local'' \<Longrightarrow> length hs \<le> 8 - import_rank ''pending''"
    by (rule import_moves.path_bound [OF path_mono [OF _ assms]])
       (simp_all add: validFulfillmentTransition_def import_rank_def split: if_splits)
  ultimately show ?thesis using True by (auto simp: local_rank_def)
next
  case False
  then have "validFulfillmentTransition r w a b \<Longrightarrow> False" for a b by (simp add: validFulfillmentTransition_def split: if_splits)
  from path_never [OF path_mono [OF this assms]] show ?thesis by simp
qed

text \<open>
  Fulfilment ends: through any sequence of requests, an order moves at most four times on the local route and eight times
  on the cross-border route, so its version never exceeds five and nine.
\<close>

theorem fulfilment_moves_bounded:
  assumes "tracked (db w)" "f \<in> set (fulfillments (db (snd (serve_sellers env cs w))))"
  shows "f_version f \<le> (if f_route f = ''merchant_local'' then 5 else 9)"
proof -
  have "on_track (db (snd (serve_sellers env cs w))) f"
    using moved_right_tracked [OF wp_both [OF serve_sellers_right [OF assms(1)]]] assms(2) by (simp add: tracked_def)
  then show ?thesis using history_bound [of "f_route f" "f_owner f" "history (f_id f) (db (snd (serve_sellers env cs w)))" "f_status f"]
    by (auto simp: on_track_def split: if_splits)
qed

lemma fulfilment_moves_bounded_witness:
  "f_version (hd (fulfillments (db (snd (serve_sellers env0 [accept_call] (world0 seller_db 7)))))) \<le> 9"
proof -
  have "hd (fulfillments (db (snd (serve_sellers env0 [accept_call] (world0 seller_db 7))))) \<in>
      set (fulfillments (db (snd (serve_sellers env0 [accept_call] (world0 seller_db 7)))))" by code_simp
  from fulfilment_moves_bounded [OF _ this] show ?thesis using seller_db_tracked by (simp split: if_splits)
qed

text \<open>
  A retried move is answered from the record: once an event with the request's key exists, the order's released fulfilment
  is not touched, and the answer carries the status recorded under the key.
\<close>

theorem transitionFulfillment_replay:
  assumes "transitionFulfillment i p aty ai req est w = (r, w')"
    and "paid_fulfillment i p (db w) = Some (f, u)" "f_route f = ''merchant_cross_border'' \<longrightarrow> settlement_of i (db w) = ''settled''"
    and "find (\<lambda>e. fe_fulfillment e = f_id f \<and> fe_key e = fq_key req) (fulfillment_events (db w)) = Some e"
  shows "db w' = db w \<and> (\<forall>a. r = Inr a \<longrightarrow> a = Resp 200 (JObj [(''order_id'', JStr i), (''status'', JStr (fe_status e)),
    (''version'', JInt (f_version f)), (''idempotent_replay'', JBool True)]))"
proof -
  have "wp (now w) (transitionFulfillment i p aty ai req est)
    (\<lambda>a d. d = db w \<and> a = Resp 200 (JObj [(''order_id'', JStr i), (''status'', JStr (fe_status e)),
       (''version'', JInt (f_version f)), (''idempotent_replay'', JBool True)])) (\<lambda>_ d. d = db w) (db w)"
    unfolding transitionFulfillment_def
    apply (rule wp_transaction_or, simp, simp)
    apply (rule wp_bind, rule wp_found_or, rule wp_query, simp, simp)
    apply (simp add: assms(2) row_def)
    apply (rule wp_bind, rule wp_require)
     apply (rule wp_bind, rule wp_or_else, rule wp_query, simp, simp)
     apply (auto simp: assms(4) intro!: wp_ret)
    done
  from wpD [OF this] assms(1) show ?thesis by (auto split: sum.splits)
qed

lemma transitionFulfillment_replay_witness:
  "let w1 = snd (transitionFulfillment ''o1'' ''g1'' ''merchant'' ''u2'' accept_request None (world0 seller_db 7))
   in db (snd (transitionFulfillment ''o1'' ''g1'' ''merchant'' ''u2'' accept_request None w1)) = db w1"
proof -
  let ?w1 = "snd (transitionFulfillment ''o1'' ''g1'' ''merchant'' ''u2'' accept_request None (world0 seller_db 7))"
  have "paid_fulfillment ''o1'' ''g1'' (db ?w1) = Some (hd (fulfillments (db ?w1)), ''u1'')" by code_simp
  moreover have "settlement_of ''o1'' (db ?w1) = ''settled''" by code_simp
  moreover have "find (\<lambda>e. fe_fulfillment e = f_id (hd (fulfillments (db ?w1))) \<and> fe_key e = fq_key accept_request)
      (fulfillment_events (db ?w1)) = Some (hd (fulfillment_events (db ?w1)))" by code_simp
  ultimately show ?thesis
    unfolding Let_def using transitionFulfillment_replay [OF prod.collapse [symmetric]] by blast
qed

end
