(* ===== verification/Batch_Safety.thy ===== *)
theory Batch_Safety
  imports Batches Transitions
begin

text \<open>
  The safety of import batches: the rank of their status machine, the invariant \<open>batches_tracked\<close>
  (the batch events that change a status are the complete and lawful history of every batch), and its
  proof for every operation that touches a batch: admin actions, the daily batch, the closing
  worker, receipts and the confirmation worker.
\<close>

section \<open>The status machine\<close>

definition batch_move :: "string \<Rightarrow> string \<Rightarrow> bool" where
  "batch_move a b = (list_ex (\<lambda>(action, spec). containsString (ba_from spec) a \<and> b = ba_to spec) batchActionSpecs \<or>
     (a \<noteq> ''completed'' \<and> b = ''completed''))"

definition batch_rank :: "string \<Rightarrow> nat" where
  "batch_rank s = (case map_of [(''collecting_funds'', 0), (''closed'', 1), (''settled'', 2), (''funds_sent_to_procurement'', 3),
     (''procurement_acknowledged'', 4), (''purchasing'', 5), (''procurement_complete'', 6), (''enroute_nigeria'', 7),
     (''arrived_local'', 8), (''ready_for_pickup'', 9), (''completed'', 10)] s of None \<Rightarrow> 0 | Some n \<Rightarrow> n)"

lemma batch_rank_less_top: "s \<noteq> ''completed'' \<Longrightarrow> batch_rank s < 10"
  by (auto simp: batch_rank_def split: if_splits option.splits)

lemma specs_rise: "list_all (\<lambda>(action, spec). list_all (\<lambda>s. batch_rank s < batch_rank (ba_to spec)) (ba_from spec)) batchActionSpecs"
  by code_simp

interpretation batch_moves: ranked batch_move batch_rank 10
proof
  fix a b assume m: "batch_move a b"
  have "batch_rank a < batch_rank b"
    if "list_ex (\<lambda>(action, spec). containsString (ba_from spec) a \<and> b = ba_to spec) batchActionSpecs"
    using that specs_rise by (fastforce simp: list_all_iff list_ex_iff containsString_def)
  moreover have "batch_rank a < 10" if "a \<noteq> ''completed''" using that by (rule batch_rank_less_top)
  moreover have "batch_rank ''completed'' = 10" by (simp add: batch_rank_def)
  ultimately show "batch_rank a < batch_rank b" using m by (auto simp: batch_move_def)
  show "batch_rank b \<le> 10" using batch_rank_less_top [of b] by (cases "b = ''completed''") (auto simp: batch_rank_def)
qed

lemma spec_move:
  assumes "validateBatchAction role status action = Inr spec"
  shows "batch_move status (ba_to spec)"
proof -
  have "(action, spec) \<in> set batchActionSpecs" "containsString (ba_from spec) status"
    using assms by (auto simp: validateBatchAction_def split: option.splits if_splits dest: map_of_SomeD)
  then show ?thesis by (auto simp: batch_move_def list_ex_iff)
qed

section \<open>Histories of batches\<close>

definition batch_history :: "string \<Rightarrow> db \<Rightarrow> (string \<times> string) list" where
  "batch_history i d = map (\<lambda>e. (be_previous e, be_status e)) (filter (\<lambda>e. be_batch e = i \<and> be_previous e \<noteq> []) (batch_events d))"

text \<open>\<open>tracking rest\<close>: the batches in \<open>rest\<close> are closed but their closing event is still to come.\<close>

definition tracking :: "string list \<Rightarrow> db \<Rightarrow> bool" where
  "tracking rest d = (uniq (\<lambda>b. Some (b_id b)) (batches d) \<and> distinct rest \<and>
     (\<forall>e \<in> set (batch_events d). \<exists>b \<in> set (batches d). b_id b = be_batch e) \<and>
     (\<forall>i \<in> set rest. \<exists>b \<in> set (batches d). b_id b = i) \<and>
     (\<forall>b \<in> set (batches d). (b_id b \<in> set rest \<longrightarrow> b_status b = ''closed'') \<and> b_status b \<noteq> [] \<and>
        path batch_move ''collecting_funds'' (batch_history (b_id b) d) (if b_id b \<in> set rest then ''collecting_funds'' else b_status b)))"

definition batches_tracked :: "db \<Rightarrow> bool" where
  "batches_tracked d = tracking [] d"

lemma tracking_frame:
  "tracking rest d \<Longrightarrow> batches d' = batches d \<Longrightarrow> batch_events d' = batch_events d \<Longrightarrow> tracking rest d'"
  by (simp add: tracking_def batch_history_def)

lemma same_batch: "tracking rest d \<Longrightarrow> b \<in> set (batches d) \<Longrightarrow> x \<in> set (batches d) \<Longrightarrow> b_id x = b_id b \<Longrightarrow> x = b"
  by (rule uniq_rows [of "\<lambda>b. Some (b_id b)" "batches d"]) (auto simp: tracking_def)

lemma batch_of_D: "batch_of i d = Some b \<Longrightarrow> b \<in> set (batches d) \<and> b_id b = i"
  by (auto simp: batch_of_def dest: find_Some_D)

lemma history_event:
  "batch_events d' = batch_events d @ [e] \<Longrightarrow>
   batch_history i d' = batch_history i d @ (if be_batch e = i \<and> be_previous e \<noteq> [] then [(be_previous e, be_status e)] else [])"
  by (simp add: batch_history_def)

text \<open>One batch moves and its event is recorded; the batches of other ids may change in other columns.\<close>

lemma tracking_moved:
  assumes t: "tracking [] d" and b: "b \<in> set (batches d)" and V: "batch_move (b_status b) s" "s \<noteq> []"
    and B: "batches d' = upd (\<lambda>x. b_id x = b_id b \<and> q x) n (batches d)" "q b"
    and n: "\<And>x. b_id (n x) = b_id x" "\<And>x. b_status (n x) = s"
    and U: "uniq (\<lambda>b. Some (b_id b)) (batches d')"
    and e: "batch_events d' = batch_events d @ [e]" "be_batch e = b_id b" "be_previous e = b_status b" "be_status e = s"
  shows "tracking [] d'"
proof -
  have ne: "b_status b \<noteq> []" using t b by (simp add: tracking_def)
  have ids: "b_id ` set (batches d') = b_id ` set (batches d)"
    unfolding B(1) set_upd image_image by (intro image_cong refl) (simp add: n)
  have "\<exists>x \<in> set (batches d'). b_id x = be_batch f" if "f \<in> set (batch_events d')" for f
  proof -
    have "be_batch f \<in> b_id ` set (batches d)" if "f \<in> set (batch_events d)"
      using that t unfolding tracking_def by (metis image_eqI)
    then have "be_batch f \<in> b_id ` set (batches d)" using that e(1,2) b by auto
    then show ?thesis using ids by (metis image_iff)
  qed
  moreover have "b_status x \<noteq> [] \<and> path batch_move ''collecting_funds'' (batch_history (b_id x) d') (b_status x)"
    if x: "x \<in> set (batches d')" for x
  proof -
    from x B(1) obtain y where y: "y \<in> set (batches d)" "x = (if b_id y = b_id b \<and> q y then n y else y)" by (auto simp: set_upd)
    have z: "path batch_move ''collecting_funds'' (batch_history (b_id y) d) (b_status y)" "b_status y \<noteq> []"
      using t y(1) by (auto simp: tracking_def)
    show ?thesis
    proof (cases "b_id y = b_id b")
      case True
      then have "y = b" using same_batch [OF t b y(1)] by simp
      then show ?thesis using y z V B(2) n e ne by (simp add: history_event [OF e(1)])
    next
      case False
      then show ?thesis using y z e by (simp add: history_event [OF e(1)])
    qed
  qed
  ultimately show ?thesis using U by (simp add: tracking_def)
qed

section \<open>Operations that leave batches alone\<close>

definition batch_same :: "db \<Rightarrow> db \<Rightarrow> bool" where
  "batch_same d d' = (batches d' = batches d \<and> batch_events d' = batch_events d)"

interpretation batch_frame: guarantee batch_same
  by unfold_locales (simp_all add: batch_same_def)

lemma notify_same: "keeps batch_same (insertNotification u i b ty ti bo da k)"
  by (rule keeps_wp, rule wp_notify) (simp_all add: batch_same_def)

lemma review_same: "keeps batch_same (createReviewRewardTx u i)"
  unfolding createReviewRewardTx_def
  by (intro batch_frame.keeps_all batch_frame.keeps_stmt notify_same) (auto simp: batch_same_def split: option.splits if_splits)

lemma insert_each_same: "insert_each rs d = Inr (n, d') \<Longrightarrow> batch_same d d'"
proof (induction rs arbitrary: d n)
  case (Cons r rs)
  then obtain k d1 m where a: "insert_ignore notifications set_notifications (clash n_key) r d = Inr (k, d1)"
    and b: "insert_each rs d1 = Inr (m, d')" by (auto split: sum.splits)
  have "batch_same d d1" using a by (auto simp: batch_same_def)
  then show ?case using Cons.IH [OF b] by (simp add: batch_same_def)
qed (simp add: batch_same_def)

lemma effects_same: "keeps batch_same (applyTransitionOrderEffects i req s)"
  unfolding applyTransitionOrderEffects_def
  by (intro batch_frame.keeps_all batch_frame.keeps_stmt) (auto simp: batch_same_def)

lemma notices_same: "keeps batch_same (insertTransitionNotifications i a s l)"
  unfolding insertTransitionNotifications_def
  by (intro batch_frame.keeps_all batch_frame.keeps_stmt) (auto dest: insert_each_same)

lemma wp_same:
  "keeps batch_same m \<Longrightarrow> tracking rest d \<Longrightarrow> (\<And>a d'. tracking rest d' \<Longrightarrow> batch_same d d' \<Longrightarrow> Q a d') \<Longrightarrow>
   (\<And>e d'. tracking rest d' \<Longrightarrow> E e d') \<Longrightarrow> wp t m Q E d"
  by (rule wp_keeps [where R = batch_same], assumption) (metis batch_same_def tracking_frame)+

section \<open>The operations\<close>

lemma advance_batch_fields [simp]:
  "b_id (advance_batch s l req a amount t b) = b_id b" "b_status (advance_batch s l req a amount t b) = s"
  "b_id (complete_batch t b) = b_id b" "b_status (complete_batch t b) = ''completed''"
  "b_id (close_batch t b) = b_id b" "b_status (close_batch t b) = ''closed''"
  by (simp_all add: advance_batch_def Let_def complete_batch_def close_batch_def)

lemma spec_target: "map_of batchActionSpecs action = Some spec \<Longrightarrow> ba_to spec \<noteq> []"
proof -
  assume "map_of batchActionSpecs action = Some spec"
  moreover have "list_all (\<lambda>(action, spec). ba_to spec \<noteq> []) batchActionSpecs" by code_simp
  ultimately show ?thesis by (auto simp: list_all_iff dest!: map_of_SomeD)
qed

lemma validated_target:
  assumes "validateBatchAction role status action = Inr spec"
  shows "ba_to spec \<noteq> []"
proof -
  have "map_of batchActionSpecs action = Some spec"
    using assms by (simp add: validateBatchAction_def split: option.splits if_splits)
  then show ?thesis by (rule spec_target)
qed

text \<open>A batch has advanced but its event is still to come.\<close>

definition half_moved :: "batch_row \<Rightarrow> string \<Rightarrow> db \<Rightarrow> db \<Rightarrow> bool" where
  "half_moved b s d d' = (\<exists>q n. batches d' = upd (\<lambda>x. b_id x = b_id b \<and> q x) n (batches d) \<and> q b \<and>
     (\<forall>x. b_id (n x) = b_id x \<and> b_status (n x) = s) \<and> uniq (\<lambda>b. Some (b_id b)) (batches d') \<and> batch_events d' = batch_events d)"

lemma half_moved_same: "half_moved b s d d1 \<Longrightarrow> batch_same d1 d2 \<Longrightarrow> half_moved b s d d2"
  by (simp add: half_moved_def batch_same_def)

lemma half_moved_event:
  assumes "tracking [] d" "b \<in> set (batches d)" "batch_move (b_status b) s" "s \<noteq> []" "half_moved b s d d1"
    and "be_batch e = b_id b" "be_previous e = b_status b" "be_status e = s"
  shows "tracking [] (d1\<lparr>batch_events := batch_events d1 @ [e]\<rparr>)"
proof -
  obtain q n where "batches d1 = upd (\<lambda>x. b_id x = b_id b \<and> q x) n (batches d)" "q b"
    "\<And>x. b_id (n x) = b_id x" "\<And>x. b_status (n x) = s" "uniq (\<lambda>b. Some (b_id b)) (batches d1)" "batch_events d1 = batch_events d"
    using assms(5) unfolding half_moved_def by blast
  then show ?thesis
    by (intro tracking_moved [OF assms(1-4), where q = q and n = n and e = e]) (use assms(6-8) in simp_all)
qed

lemma wp_half: "keeps batch_same m \<Longrightarrow> half_moved b s d0 d \<Longrightarrow> (\<And>a d'. half_moved b s d0 d' \<Longrightarrow> Q a d') \<Longrightarrow> (\<And>e d'. E e d') \<Longrightarrow> wp t m Q E d"
  by (rule wp_keeps [where R = batch_same], assumption) (auto intro: half_moved_same)

lemma write_batch_action_tracked:
  assumes "tracking [] d" "b \<in> set (batches d)" "batch_move (b_status b) (ba_to spec)" "ba_to spec \<noteq> []"
  shows "wp t (write_batch_action env (b_id b) u role req spec b) (\<lambda>_. tracking []) (\<lambda>_ _. True) d"
proof -
  have h: "half_moved b (ba_to spec) d d1"
    if "set_batches (upd (\<lambda>x. b_id x = b_id b \<and> b_version x = b_version b) (advance_batch (ba_to spec) l req a (Some k) t) (batches d)) d = Inr d1"
    for l a k d1
    using that unfolding half_moved_def
    by (intro exI [of _ "\<lambda>x. b_version x = b_version b"] exI [of _ "advance_batch (ba_to spec) l req a (Some k) t"]) simp
  have r: "wp t (bind (or_else (applyTransitionOrderEffects (b_id b) req (ba_to spec)) e1) (\<lambda>_.
      bind (or_else (add_batch_event \<lparr>be_batch = b_id b, be_actor = ac, be_type = br_action req, be_previous = b_status b,
          be_status = ba_to spec, be_location = l, be_notes = br_notes req, be_meta = m\<rparr>) e2) (\<lambda>_.
      bind (or_else (insertTransitionNotifications (b_id b) (br_action req) (ba_to spec) l) e3) (\<lambda>_. ret v))))
    (\<lambda>_. tracking []) (\<lambda>_ _. True) d1" if "half_moved b (ba_to spec) d d1" for e1 ac l m e2 e3 v d1
    unfolding add_batch_event_def
    by (rule wp_bind, rule wp_or_else, rule wp_half [OF effects_same that], rule wp_bind, rule wp_or_else, rule wp_stmt)
       (auto intro!: wp_bind wp_or_else wp_ret wp_same [OF notices_same half_moved_event [OF assms]])
  show ?thesis
    unfolding write_batch_action_def Let_def
    by (rule wp_bind, rule wp_found_or, rule wp_stmt) (auto intro!: r h split: sum.splits if_split_asm)
qed

lemma TransitionBatch_tracked:
  assumes "tracking [] d"
  shows "wp t (TransitionBatch env u role i body) (\<lambda>_. tracking []) (\<lambda>_. tracking []) d"
proof -
  have p: "wp t (validateBatchActionPayload i req) Q (\<lambda>e _. tracking [] d) d" if "Q () d" for req Q
    unfolding validateBatchActionPayload_def Let_def by (intro wp_rules) (simp_all add: that assms)
  have w: "wp t (write_batch_action env i u role req spec b) (\<lambda>_. tracking []) (\<lambda>_ _. True) d"
    if "batch_of i d = Some b" "validateBatchAction role (b_status b) a = Inr spec" for req spec b a
    using write_batch_action_tracked [OF assms, of b spec] batch_of_D [OF that(1)] spec_move [OF that(2)] validated_target [OF that(2)] by auto
  show ?thesis
    unfolding TransitionBatch_def Let_def
    apply (intro wp_option wp_fail wp_transaction wp_bind wp_if_missing wp_query wp_require wp_sum p)
    apply (simp_all add: assms row_def split: option.splits)
    apply (rule wp_mono [OF w])
    apply (auto intro!: wp_ret simp: assms)
    done
qed

lemma complete_tracked:
  assumes "tracking [] d"
  shows "wp t (completeBatchIfResolved i) (\<lambda>_. tracking []) (\<lambda>_ _. True) d"
proof -
  have "tracking [] (d\<lparr>batches := upd (\<lambda>b. b_id b = i \<and> b_status b \<noteq> ''completed'') (complete_batch t) (batches d),
      batch_events := batch_events d @ [completing_event i (b_status b)]\<rparr>)"
    if b: "batch_of i d = Some b" "b_status b \<noteq> ''completed''"
      and u: "uniq (\<lambda>b. Some (b_id b)) (upd (\<lambda>b. b_id b = i \<and> b_status b \<noteq> ''completed'') (complete_batch t) (batches d))" for b
    using batch_of_D [OF b(1)] b u
    by (intro tracking_moved [OF assms, where b = b and s = "''completed''" and q = "\<lambda>b. b_status b \<noteq> ''completed''" and n = "complete_batch t"])
       (auto simp: batch_move_def completing_event_def)
  moreover have "tracking [] (d\<lparr>batches := upd (\<lambda>b. b_id b = i \<and> b_status b \<noteq> ''completed'') (complete_batch t) (batches d)\<rparr>)"
    if "cnt (\<lambda>b. b_id b = i \<and> b_status b \<noteq> ''completed'') (batches d) = 0"
    using that assms by (auto simp: cnt_0 upd_none intro: tracking_frame)
  ultimately show ?thesis
    unfolding completeBatchIfResolved_def add_batch_event_def
    by (intro wp_rules) (auto simp: assms row_def split: option.splits)
qed

lemma confirm_same: "keeps batch_same (stmt (\<lambda>d t. update_rows orders set_orders (p d) (confirm_order t) d))"
  by (intro batch_frame.keeps_stmt) (auto simp: batch_same_def)

lemma ledger_same: "keeps batch_same (stmt (\<lambda>d t. update_rows ledger set_ledger p (f t) d))"
  by (intro batch_frame.keeps_stmt) (auto simp: batch_same_def)

lemma ConfirmReceipt_tracked:
  assumes "tracking [] d"
  shows "wp t (ConfirmReceipt u i) (\<lambda>_. tracking []) (\<lambda>_. tracking []) d"
proof -
  have c: "wp t (case b of None \<Rightarrow> ret () | Some b \<Rightarrow> or_else (completeBatchIfResolved b) e) (\<lambda>_. tracking []) (\<lambda>_ _. True) d1"
    if "tracking [] d1" for b e d1
    by (intro wp_option wp_ret wp_or_else complete_tracked that)
  show ?thesis
    unfolding ConfirmReceipt_def Let_def
    apply (rule wp_transaction_or, rule assms, rule assms)
    apply (rule wp_bind, rule wp_or_else, rule wp_same [OF confirm_same assms])
     apply (rule wp_bind, rule wp_require)
      apply (rule wp_bind, rule wp_or_else, rule wp_query)
        apply (rule assms)+
      apply (rule wp_bind, rule wp_or_else, rule wp_same [OF review_same], assumption)
       apply (rule wp_bind, rule wp_or_else, rule wp_same [OF ledger_same], assumption)
        apply (rule wp_bind, rule wp_mono [OF c], assumption)
         apply (auto intro!: wp_ret simp: assms)
    done
qed

lemma AutoConfirm_tracked:
  assumes "tracking [] d"
  shows "wp t AutoConfirmExpiredDeliveries (\<lambda>_. tracking []) (\<lambda>_. tracking []) d"
proof -
  have r: "wp t (for_each (\<lambda>o'. createReviewRewardTx (o_user o') (o_id o')) xs) (\<lambda>_. tracking []) (\<lambda>_ _. True) d1"
    if "tracking [] d1" for xs d1
    by (rule wp_for_each, rule wp_same [OF review_same]) (auto simp: that)
  have c: "wp t (for_each completeBatchIfResolved xs) (\<lambda>_. tracking []) (\<lambda>_ _. True) d1" if "tracking [] d1" for xs d1
    by (rule wp_for_each, rule complete_tracked) (auto simp: that)
  show ?thesis
    unfolding AutoConfirmExpiredDeliveries_def
    apply (rule wp_transaction, rule assms)
    apply (rule wp_bind, rule wp_stmt)
       apply (simp_all add: assms split: sum.splits)
    apply (rule wp_bind, rule wp_mono [OF r])
      apply (auto intro: tracking_frame [OF assms] intro!: wp_bind wp_mono [OF c] wp_ret simp: assms)
    done
qed

lemma closing_event_batch [simp]: "be_batch (closing_event i) = i"
  by (simp add: closing_event_def)

lemma closing_tracked:
  assumes "tracking (i # rest) d"
  shows "wp t (add_batch_event (closing_event i)) (\<lambda>_. tracking rest) (\<lambda>_ _. True) d"
proof -
  let ?d = "d\<lparr>batch_events := batch_events d @ [closing_event i]\<rparr>"
  have h: "batch_history j ?d = batch_history j d @ (if j = i then [(''collecting_funds'', ''closed'')] else [])" for j
    by (simp add: batch_history_def closing_event_def)
  have "batch_move ''collecting_funds'' ''closed''" by code_simp
  then have "tracking rest ?d"
    using assms unfolding tracking_def by (auto simp: h)
  then show ?thesis unfolding add_batch_event_def by (intro wp_rules) auto
qed

lemma CloseExpired_tracked:
  assumes "tracking [] d"
  shows "wp t (CloseExpiredBatches env) (\<lambda>_. tracking []) (\<lambda>_. tracking []) d"
proof -
  have "distinct (map b_id (batches d))" "inj_on b_id (set (batches d))"
    using assms by (auto simp: tracking_def uniq_def keys_def List.map_filter_def comp_def distinct_map)
  then have dist: "distinct (map b_id (filter p (batches d)))" for p by (simp add: distinct_map inj_on_subset)
  have "tracking (map b_id (filter (expired env t d) (batches d))) (d\<lparr>batches := upd (expired env t d) (close_batch t) (batches d)\<rparr>)"
    if u: "uniq (\<lambda>b. Some (b_id b)) (upd (expired env t d) (close_batch t) (batches d))"
  proof -
    let ?d = "d\<lparr>batches := upd (expired env t d) (close_batch t) (batches d)\<rparr>"
    have bs: "batches ?d = upd (expired env t d) (close_batch t) (batches d)" by simp
    have ids: "b_id ` set (batches ?d) = b_id ` set (batches d)"
      unfolding bs set_upd image_image by (intro image_cong refl) simp
    have e: "b_id y \<in> b_id ` (set (batches d) \<inter> {x. expired env t d x}) \<longleftrightarrow> expired env t d y" if "y \<in> set (batches d)" for y
      using that same_batch [OF assms] by (auto simp: image_iff)
    have st: "expired env t d y \<Longrightarrow> b_status y = ''collecting_funds''" for y by (simp add: expired_def)
    have "\<exists>b \<in> set (batches ?d). b_id b = be_batch f" if "f \<in> set (batch_events d)" for f
      using that assms ids unfolding tracking_def by (metis (no_types, lifting) image_iff)
    moreover have "\<exists>b \<in> set (batches ?d). b_id b = b_id y" if "y \<in> set (batches d)" for y
      using that ids by (metis (no_types, lifting) image_iff)
    moreover have "(b_id x \<in> b_id ` (set (batches d) \<inter> {x. expired env t d x}) \<longrightarrow> b_status x = ''closed'') \<and> b_status x \<noteq> [] \<and>
        path batch_move ''collecting_funds'' (batch_history (b_id x) ?d)
          (if b_id x \<in> b_id ` (set (batches d) \<inter> {x. expired env t d x}) then ''collecting_funds'' else b_status x)"
      if "x \<in> set (batches ?d)" for x
    proof -
      from that obtain y where y: "y \<in> set (batches d)" "x = (if expired env t d y then close_batch t y else y)" by (auto simp: set_upd)
      have "path batch_move ''collecting_funds'' (batch_history (b_id y) d) (b_status y)" "b_status y \<noteq> []"
        using assms y(1) by (auto simp: tracking_def)
      then show ?thesis using y e [OF y(1)] st by (auto simp: batch_history_def)
    qed
    ultimately show ?thesis using u dist unfolding tracking_def by (auto simp: Int_def)
  qed
  note up = this
  have c: "wp t (for_each (\<lambda>i. add_batch_event (closing_event i)) xs) (\<lambda>_. tracking []) (\<lambda>_ _. True) d1" if "tracking xs d1" for xs d1
    by (rule wp_for_each_rest [where I = tracking]) (auto intro: closing_tracked that)
  show ?thesis
    unfolding CloseExpiredBatches_def
    apply (rule wp_transaction, rule assms)
    apply (rule wp_bind, rule wp_stmt)
       apply (simp_all add: assms split: sum.splits)
    apply (rule wp_bind, rule wp_mono [OF c])
      apply (auto intro: up intro!: wp_ret simp: assms)
    done
qed

lemma ConfirmPurchase_same: "keeps batch_same (ConfirmPurchase u i body)"
proof -
  have "keeps batch_same (purchase_item i a x)" for a x
    unfolding purchase_item_def Let_def
    by (intro batch_frame.keeps_all batch_frame.keeps_stmt notify_same) (auto simp: batch_same_def)
  then show ?thesis unfolding ConfirmPurchase_def found_or_def
    by (intro batch_frame.keeps_all batch_frame.keeps_collect)
qed

lemma ConfirmDelivered_same: "keeps batch_same (ConfirmDelivered body)"
proof -
  have "keeps batch_same (deliver_one i x)" for i x
    unfolding deliver_one_def if_missing_def
    by (intro batch_frame.keeps_all batch_frame.keeps_stmt notify_same) (auto simp: batch_same_def split: sum.splits option.splits)
  then show ?thesis unfolding ConfirmDelivered_def
    by (intro batch_frame.keeps_all batch_frame.keeps_for_each)
qed

lemma tracking_note:
  assumes "tracking [] d" "b \<in> set (batches d)" "be_batch e = b_id b" "be_previous e = []"
  shows "tracking [] (d\<lparr>batch_events := batch_events d @ [e]\<rparr>)"
  using assms by (auto simp: tracking_def batch_history_def)

lemma open_batch_D: "open_batch c day r tr d = Some b \<Longrightarrow> b \<in> set (batches d) \<and> b_status b = ''collecting_funds''"
proof -
  let ?S = "sort_key b_sequence (filter (\<lambda>b. slot c day r tr b \<and> b_status b = ''collecting_funds'' \<and> \<not> b_locked b) (batches d))"
  assume "open_batch c day r tr d = Some b"
  then obtain rest where "rev ?S = b # rest" unfolding open_batch_def by (auto simp del: rev_eq_Cons_iff split: list.splits)
  then have "b \<in> set (rev ?S)" by (metis list.set_intros(1))
  then show ?thesis by simp
qed

lemma daily_tracked:
  assumes "tracking [] d"
  shows "wp t (ensureDailyBatch env i c promised x) (\<lambda>_. tracking []) (\<lambda>_ _. True) d"
proof -
  have new: "tracking [] (d\<lparr>batches := batches d @ [b], batch_events := batch_events d @ [e]\<rparr>)"
    if "uniq (\<lambda>b. Some (b_id b)) (batches d @ [b])" "b_status b = ''collecting_funds''" "be_batch e = b_id b" "be_previous e = []" for b e
  proof -
    have "b_id b \<notin> b_id ` set (batches d)" using that(1) by (auto simp: uniq_insert set_keys)
    then have "\<forall>f \<in> set (batch_events d). be_batch f \<noteq> b_id b"
      using assms unfolding tracking_def by (metis image_eqI)
    then have "batch_history (b_id b) d = []" by (simp add: batch_history_def filter_empty_conv)
    moreover have "batch_history j (d\<lparr>batches := batches d @ [b], batch_events := batch_events d @ [e]\<rparr>) = batch_history j d" for j
      using that(4) by (simp add: batch_history_def)
    ultimately show ?thesis using assms that unfolding tracking_def by auto
  qed
  have add: "tracking [] (d\<lparr>batches := upd (\<lambda>x. b_id x = b_id b \<and> q x) f (batches d), batch_events := batch_events d @ [e]\<rparr>)"
    if "uniq (\<lambda>b. Some (b_id b)) (upd (\<lambda>x. b_id x = b_id b \<and> q x) f (batches d))" "b \<in> set (batches d)"
      and f: "\<And>x. b_id (f x) = b_id x \<and> b_status (f x) = b_status x" and "be_batch e = b_id b" "be_previous e = []" for b q f e
  proof -
    have h: "batch_history j (d\<lparr>batches := B, batch_events := batch_events d @ [e]\<rparr>) = batch_history j d" for j B
      using that(5) by (simp add: batch_history_def)
    have ids: "b_id ` set (upd (\<lambda>x. b_id x = b_id b \<and> q x) f (batches d)) = b_id ` set (batches d)"
      unfolding set_upd image_image by (intro image_cong refl) (simp add: f)
    have "\<exists>x \<in> set (upd (\<lambda>x. b_id x = b_id b \<and> q x) f (batches d)). b_id x = be_batch g" if "g \<in> set (batch_events d @ [e])" for g
    proof -
      have "be_batch g \<in> b_id ` set (batches d)" if "g \<in> set (batch_events d)"
        using that assms unfolding tracking_def by (metis image_eqI)
      then have "be_batch g \<in> b_id ` set (batches d)" using that \<open>be_batch e = b_id b\<close> \<open>b \<in> set (batches d)\<close> by auto
      then show ?thesis using ids by (metis (no_types, lifting) image_iff)
    qed
    moreover have "b_status x \<noteq> [] \<and> path batch_move ''collecting_funds'' (batch_history (b_id x) d) (b_status x)"
      if "x \<in> set (upd (\<lambda>x. b_id x = b_id b \<and> q x) f (batches d))" for x
      using that assms f by (auto simp: set_upd tracking_def)
    ultimately show ?thesis using that(1) unfolding tracking_def by (simp add: h)
  qed
  show ?thesis
    unfolding ensureDailyBatch_def Let_def add_batch_event_def
    apply (intro wp_rules)
    apply (simp_all split: sum.splits)
    apply (auto simp: new_batch_def intro!: new add dest: open_batch_D)
    done
qed

section \<open>Sequences of operations\<close>

datatype batch_call =
    Act string string string "batchTransitionRequest option"
  | Purchase string string "BatchPurchaseItem list option"
  | Deliver "(string \<times> string list) option"
  | Receipt string string
  | AutoConfirm
  | CloseDay
  | Daily string string string f64

fun serve_batch :: "env \<Rightarrow> batch_call \<Rightarrow> (db, unit) prog" where
  "serve_batch env (Act u role i body) = ignore (TransitionBatch env u role i body)"
| "serve_batch env (Purchase u i body) = ignore (ConfirmPurchase u i body)"
| "serve_batch env (Deliver body) = ignore (ConfirmDelivered body)"
| "serve_batch env (Receipt u i) = ignore (ConfirmReceipt u i)"
| "serve_batch env AutoConfirm = ignore AutoConfirmDeliveries"
| "serve_batch env CloseDay = ignore (CloseExpiredBatches env)"
| "serve_batch env (Daily i c promised x) =
     ignore (transaction (bind (ensureDailyBatch env i c promised x) (\<lambda>r. ret (Commit r))))"

definition serve_batches :: "env \<Rightarrow> batch_call list \<Rightarrow> (db, unit) prog" where
  "serve_batches env calls = for_each (serve_batch env) calls"

lemma serve_batch_tracked:
  assumes "tracking [] d"
  shows "wp t (serve_batch env c) (\<lambda>_. tracking []) (\<lambda>_. tracking []) d"
proof (cases c)
  case (Daily i k promised x)
  show ?thesis unfolding Daily serve_batch.simps
    by (rule wp_ignore, rule wp_transaction, rule assms, rule wp_bind, rule wp_mono [OF daily_tracked [OF assms]])
       (auto intro!: wp_ret simp: assms)
next
  case AutoConfirm
  show ?thesis unfolding AutoConfirm serve_batch.simps AutoConfirmDeliveries_def
    by (auto intro!: wp_ignore wp_bind wp_or_else wp_mono [OF AutoConfirm_tracked [OF assms]] wp_ret)
qed (auto intro!: wp_ignore wp_mono [OF TransitionBatch_tracked [OF assms]] wp_mono [OF ConfirmReceipt_tracked [OF assms]]
       wp_mono [OF CloseExpired_tracked [OF assms]] wp_same [OF ConfirmPurchase_same assms] wp_same [OF ConfirmDelivered_same assms])

lemma serve_batches_tracked:
  assumes "tracking [] d"
  shows "wp t (serve_batches env cs) (\<lambda>_. tracking []) (\<lambda>_. tracking []) d"
  unfolding serve_batches_def by (rule wp_for_each, rule serve_batch_tracked) (simp_all add: assms)

section \<open>Orders of a batch\<close>

definition resolved :: "string \<Rightarrow> db \<Rightarrow> bool" where
  "resolved i d = (\<forall>o' \<in> set (orders d). in_batch i o' \<longrightarrow> o_status o' = ''Completed'' \<or> o_status o' = ''Cancelled'')"

text \<open>Batches completed since \<open>d0\<close> are resolved.\<close>

definition completed_right :: "db \<Rightarrow> order_row list \<Rightarrow> db \<Rightarrow> bool" where
  "completed_right d0 os d = (orders d = os \<and> (\<forall>b \<in> set (batches d). b_status b = ''completed'' \<longrightarrow>
     (\<exists>b0 \<in> set (batches d0). b_id b0 = b_id b \<and> b_status b0 = ''completed'') \<or> resolved (b_id b) d))"

definition orders_same :: "db \<Rightarrow> db \<Rightarrow> bool" where
  "orders_same d d' = (orders d' = orders d \<and> batches d' = batches d)"

interpretation order_frame: guarantee orders_same
  by unfold_locales (simp_all add: orders_same_def)

lemma review_orders: "keeps orders_same (createReviewRewardTx u i)"
  unfolding createReviewRewardTx_def
  by (intro order_frame.keeps_all order_frame.keeps_stmt keeps_wp [where m = "insertNotification a b c e f g h k" for a b c e f g h k] wp_notify)
     (auto simp: orders_same_def split: option.splits if_splits)

lemma completed_right_same: "completed_right d0 os d \<Longrightarrow> orders_same d d' \<Longrightarrow> completed_right d0 os d'"
  unfolding completed_right_def orders_same_def resolved_def by metis

lemma complete_right:
  assumes "completed_right d0 os d"
  shows "wp t (completeBatchIfResolved i) (\<lambda>_. completed_right d0 os) (\<lambda>_ _. True) d"
proof -
  have "completed_right d0 os (d\<lparr>batches := upd (\<lambda>b. b_id b = i \<and> b_status b \<noteq> ''completed'') (complete_batch t) (batches d), batch_events := E\<rparr>)"
    if "cnt (\<lambda>o'. in_batch i o' \<and> o_status o' \<noteq> ''Completed'' \<and> o_status o' \<noteq> ''Cancelled'') (orders d) = 0" for E
    using that assms by (auto simp: completed_right_def set_upd resolved_def cnt_0)
  from this [where E = "batch_events d"] this show ?thesis
    unfolding completeBatchIfResolved_def add_batch_event_def
    by (intro wp_rules) (auto simp: assms row_def split: option.splits)
qed

lemma completed_right_start: "batches d = batches d0 \<Longrightarrow> completed_right d0 (orders d) d"
  by (auto simp: completed_right_def)

text \<open>What a receipt does to the orders: nothing, or the confirmation of one delivered order.\<close>

definition receipt_effect :: "string \<Rightarrow> string \<Rightarrow> int \<Rightarrow> db \<Rightarrow> db \<Rightarrow> bool" where
  "receipt_effect u i t d0 d = (completed_right d0 (orders d) d \<and> (orders d = orders d0 \<or>
     orders d = upd (awaiting_receipt i u) (confirm_order t) (orders d0)))"

lemma ConfirmReceipt_effect:
  "wp t (ConfirmReceipt u i) (\<lambda>_. receipt_effect u i t d0) (\<lambda>_. receipt_effect u i t d0) d0"
proof -
  let ?os = "upd (awaiting_receipt i u) (confirm_order t) (orders d0)"
  let ?R = "completed_right d0 ?os"
  have z: "receipt_effect u i t d0 d0" by (simp add: receipt_effect_def completed_right_start)
  have e: "receipt_effect u i t d0 d" if "?R d" for d using that by (auto simp: receipt_effect_def completed_right_def)
  have c: "wp t (case b of None \<Rightarrow> ret () | Some b \<Rightarrow> or_else (completeBatchIfResolved b) x) (\<lambda>_. ?R) (\<lambda>_ _. True) d1"
    if "?R d1" for b x d1
    by (intro wp_option wp_ret wp_or_else complete_right that)
  have s: "wp t m (\<lambda>_. ?R) (\<lambda>_ _. True) d1" if "keeps orders_same m" "?R d1" for d1 and m :: "(db, 'x) prog"
    by (rule wp_keeps [where R = orders_same, OF that(1)]) (auto intro: completed_right_same that(2))
  have l: "keeps orders_same (stmt (\<lambda>d t. update_rows ledger set_ledger p (f t) d))" for p f
    by (intro order_frame.keeps_stmt) (auto simp: orders_same_def)
  show ?thesis
    unfolding ConfirmReceipt_def Let_def
    apply (rule wp_transaction_or, rule z, rule z)
    apply (rule wp_bind, rule wp_or_else, rule wp_stmt, (simp_all add: z)[2])
     apply (rule wp_bind, rule wp_require)
      apply (rule wp_bind, rule wp_or_else, rule wp_query, (simp_all add: z)[2])
      apply (rule wp_bind, rule wp_or_else, rule wp_mono [OF s [OF review_orders]])
        apply (auto simp: completed_right_def)[1]
       apply (rule wp_bind, rule wp_or_else, rule wp_mono [OF s [OF l]], assumption)
        apply (rule wp_bind, rule wp_mono [OF c], assumption)
         apply (auto intro!: wp_ret simp: z e)
    done
qed

lemma AutoConfirm_effect:
  "wp t AutoConfirmExpiredDeliveries (\<lambda>_ d. completed_right d0 (orders d) d) (\<lambda>_ d. completed_right d0 (orders d) d) d0"
proof -
  let ?R = "completed_right d0 (upd (overdue t) (confirm_order t) (orders d0))"
  have z: "completed_right d0 (orders d0) d0" by (simp add: completed_right_start)
  have e: "completed_right d0 (orders d) d" if "?R d" for d using that by (auto simp: completed_right_def)
  have r: "wp t (for_each (\<lambda>o'. createReviewRewardTx (o_user o') (o_id o')) xs) (\<lambda>_. ?R) (\<lambda>_ _. True) d1" if "?R d1" for xs d1
    by (rule wp_for_each, rule wp_keeps [where R = orders_same, OF review_orders]) (auto intro: completed_right_same that)
  have c: "wp t (for_each completeBatchIfResolved xs) (\<lambda>_. ?R) (\<lambda>_ _. True) d1" if "?R d1" for xs d1
    by (rule wp_for_each, rule complete_right) (auto simp: that)
  show ?thesis
    unfolding AutoConfirmExpiredDeliveries_def
    apply (rule wp_transaction, rule z)
    apply (rule wp_bind, rule wp_stmt)
       apply (simp_all add: z split: sum.splits)
    apply (rule wp_bind, rule wp_mono [OF r])
      apply (auto simp: completed_right_def)[1]
     apply (auto intro!: wp_bind wp_mono [OF c] wp_ret simp: e z)
    done
qed

section \<open>Properties\<close>

definition batch0 :: batch_row where
  "batch0 = (new_batch ''b1'' ''NG-LOS-AIR-19700101-01'' ''ng'' 0 ''LOS'' ''air'' 1 250000)\<lparr>b_status := ''ready_for_pickup''\<rparr>"

definition batch_order0 :: order_row where
  "batch_order0 = \<lparr>o_id = ''o1'', o_user = ''u1'', o_provider = Some ''g1'', o_country = ''ng'', o_batch = Some ''b1'', o_currency = ''NGN'',
     o_total = 250000, o_fee = 12500, o_status = ''Delivered'', o_stage = ''Delivered'', o_mode = ''merchant_local'', o_xp_discount = 0,
     o_label = None, o_tx_ref = None, o_tx_id = None, o_paid_at = Some 5, o_promised_at = None, o_delivered_at = Some 10,
     o_confirmed = False, o_confirmed_at = None, o_pickup = ([], [], [])\<rparr>"

definition batch_db :: db where
  "batch_db = empty_db\<lparr>batches := [batch0], orders := [batch_order0],
     batch_events := map (\<lambda>(a, b). \<lparr>be_batch = ''b1'', be_actor = None, be_type = [], be_previous = a, be_status = b,
       be_location = [], be_notes = [], be_meta = JNull\<rparr>)
       [(''collecting_funds'', ''closed''), (''closed'', ''funds_sent_to_procurement''), (''funds_sent_to_procurement'', ''purchasing''),
        (''purchasing'', ''enroute_nigeria''), (''enroute_nigeria'', ''ready_for_pickup'')],
     countries := [\<lparr>c_id = ''ng'', c_code = ''NG'', c_timezone = ''UTC'', c_active = True\<rparr>]\<rparr>"

lemma batch_db_tracked: "batches_tracked batch_db"
  by code_simp

text \<open>
  C17. The record of every import batch is complete and lawful: whatever sequence of admin actions, purchases,
  deliveries, receipts, daily batches and worker passes arrives, and however the database fails, the recorded moves of each
  batch lead from collecting funds to its current status by moves the action table or the completion rule allow,
  and there are at most ten of them.
\<close>

theorem batch_histories_lawful:
  assumes "batches_tracked (db w)" "w' = snd (serve_batches env cs w)" "b \<in> set (batches (db w'))"
  shows "batches_tracked (db w') \<and> path batch_move ''collecting_funds'' (batch_history (b_id b) (db w')) (b_status b) \<and>
    length (batch_history (b_id b) (db w')) \<le> 10"
proof -
  have t: "tracking [] (db w')"
    using wp_both [OF serve_batches_tracked] assms(1,2) by (simp add: batches_tracked_def)
  then have p: "path batch_move ''collecting_funds'' (batch_history (b_id b) (db w')) (b_status b)"
    using assms(3) by (auto simp: tracking_def)
  have "length (batch_history (b_id b) (db w')) \<le> 10 - batch_rank ''collecting_funds''"
    by (rule batch_moves.path_bound [OF p]) (simp add: batch_rank_def)
  then show ?thesis using t p by (simp add: batches_tracked_def)
qed

definition batch_run0 :: "db world" where
  "batch_run0 = snd (serve_batches env0 [Daily ''b2'' ''ng'' ''soon'' (scan_num 99900), Receipt ''u1'' ''o1'', CloseDay]
     (world0 batch_db 172800))"

lemma batch_histories_lawful_witness:
  "list_all (\<lambda>b. path batch_move ''collecting_funds'' (batch_history (b_id b) (db batch_run0)) (b_status b)) (batches (db batch_run0)) \<and>
   map b_status (batches (db batch_run0)) = [''completed'', ''collecting_funds'']"
proof
  show "list_all (\<lambda>b. path batch_move ''collecting_funds'' (batch_history (b_id b) (db batch_run0)) (b_status b)) (batches (db batch_run0))"
    unfolding list_all_iff
    using batch_histories_lawful [where w = "world0 batch_db 172800" and w' = batch_run0, OF _ batch_run0_def] batch_db_tracked by simp
qed code_simp

text \<open>
  A buyer's receipt completes his own delivered order and nothing else: if a receipt request changes any
  order, that order is the one named, belongs to the caller, was delivered and not yet confirmed, and is now
  completed; all other orders stay as they are.
\<close>

theorem receipt_of_own_delivery:
  assumes "ConfirmReceipt u i w = (r, w')" "orders (db w') \<noteq> orders (db w)"
  shows "orders (db w') = upd (awaiting_receipt i u) (confirm_order (now w)) (orders (db w)) \<and>
    (\<exists>o' \<in> set (orders (db w)). o_id o' = i \<and> o_user o' = u \<and> o_status o' = ''Delivered'' \<and> \<not> o_confirmed o')"
proof -
  have "orders (db w') = upd (awaiting_receipt i u) (confirm_order (now w)) (orders (db w))"
    using wp_both [OF ConfirmReceipt_effect, of u i w] assms by (auto simp: receipt_effect_def)
  moreover from this assms(2) obtain o' where "o' \<in> set (orders (db w))" "awaiting_receipt i u o'"
    using upd_none [of "orders (db w)" "awaiting_receipt i u" "confirm_order (now w)"] by auto
  ultimately show ?thesis by (auto simp: awaiting_receipt_def)
qed

lemma receipt_of_own_delivery_witness:
  "map (\<lambda>o'. (o_status o', o_confirmed o')) (orders (db (snd (ConfirmReceipt ''u1'' ''o1'' (world0 batch_db 20))))) = [(''Completed'', True)]"
proof -
  let ?w = "world0 batch_db 20"
  have "map o_status (orders (db (snd (ConfirmReceipt ''u1'' ''o1'' ?w)))) \<noteq> map o_status (orders (db ?w))" by code_simp
  then have "orders (db (snd (ConfirmReceipt ''u1'' ''o1'' ?w))) \<noteq> orders (db ?w)" by auto
  from receipt_of_own_delivery [OF prod.collapse [symmetric] this] show ?thesis
    by (auto simp: batch_db_def batch_order0_def awaiting_receipt_def confirm_order_def)
qed

text \<open>
  C25. A batch is completed only when its orders are: if a receipt or a pass of the confirmation worker completes a
  batch, then every order of that batch is completed or cancelled afterwards.
\<close>

theorem batch_completed_when_resolved:
  assumes "m = ignore (ConfirmReceipt u i) \<or> m = ignore AutoConfirmExpiredDeliveries" "m w = (r, w')"
    and "b \<in> set (batches (db w'))" "b_status b = ''completed''"
    and "\<forall>b0 \<in> set (batches (db w)). b_id b0 = b_id b \<longrightarrow> b_status b0 \<noteq> ''completed''"
    and "o' \<in> set (orders (db w'))" "o_batch o' = Some (b_id b)"
  shows "o_status o' = ''Completed'' \<or> o_status o' = ''Cancelled''"
proof -
  have "wp (now w) m (\<lambda>_ d. completed_right (db w) (orders d) d) (\<lambda>_ d. completed_right (db w) (orders d) d) (db w)"
    using assms(1) by (auto intro!: wp_ignore wp_mono [OF AutoConfirm_effect] wp_mono [OF ConfirmReceipt_effect] simp: receipt_effect_def)
  from wp_both [OF this] assms(2) have "completed_right (db w) (orders (db w')) (db w')" by simp
  then show ?thesis using assms(3-7) by (auto simp: completed_right_def resolved_def in_batch_def)
qed

lemma batch_completed_when_resolved_witness:
  "let w' = snd (ignore (ConfirmReceipt ''u1'' ''o1'') (world0 batch_db 20)) in
   \<forall>o' \<in> set (orders (db w')). o_batch o' = Some ''b1'' \<longrightarrow> o_status o' = ''Completed'' \<or> o_status o' = ''Cancelled''"
proof -
  let ?w = "world0 batch_db 20"
  let ?w' = "snd (ignore (ConfirmReceipt ''u1'' ''o1'') ?w)"
  have "list_ex (\<lambda>b. b_id b = ''b1'' \<and> b_status b = ''completed'') (batches (db ?w'))" by code_simp
  then obtain b where "b \<in> set (batches (db ?w'))" "b_id b = ''b1''" "b_status b = ''completed''" by (auto simp: list_ex_iff)
  moreover have "\<forall>b0 \<in> set (batches (db ?w)). b_status b0 \<noteq> ''completed''"
    by (simp add: batch_db_def batch0_def)
  ultimately show ?thesis
    using batch_completed_when_resolved [OF disjI1 [OF refl] prod.collapse [symmetric]] unfolding Let_def by metis
qed

text \<open>
  C31. Procurement has no actor: the actions of the retired procurement and courier roles are refused for
  every role, the super admin included, with 403, whatever the status of the batch.
\<close>

theorem procurement_actions_refused:
  "list_all (\<lambda>action. validateBatchAction role status action = Inl (Http 403 ''this action belongs to another admin role''))
     [''acknowledge_procurement_funds'', ''start_procurement'', ''complete_procurement'', ''dispatch'', ''confirm_arrival'',
      ''confirm_ready_for_pickup'', ''ready_for_pickup'']"
proof -
  have "normalizeAdminRole role \<noteq> ''procurement_admin'' \<and> normalizeAdminRole role \<noteq> ''courier_admin''"
    by (simp add: normalizeAdminRole_def CanonicalAdminRole_def Let_def)
  then show ?thesis by (auto simp: validateBatchAction_def batchActionSpecs_def containsString_def)
qed

end
