(* ===== verification/Settlement_Safety.thy ===== *)
theory Settlement_Safety
  imports Settlement Payment_Safety
begin

text \<open>
  The safety of seller payouts: what a reconciliation pass may do to payments and to the seller
  ledger whatever the gateway answers and the database does (\<open>settled_step\<close>), and the exclusion of
  workers from cursors they do not hold.
\<close>

section \<open>What a pass may do\<close>

text \<open>A gateway's word: a settlement document it answered with, in state settled, has an entry for
  this payment with this payout.\<close>

definition announced :: "settlement_gateway \<Rightarrow> flutterwaveSettlementDetail \<Rightarrow> bool" where
  "announced gw detail = (\<exists>i page. getFlutterwaveSettlementPage gw i page = Inr detail)"

definition payout_of :: "env \<Rightarrow> flutterwaveSettlementTransaction \<Rightarrow> int \<Rightarrow> bool" where
  "payout_of env x k = (\<exists>v. optionalSettlementAmount [st_amount x] = Inr (Some v) \<and> \<not> f_le v (Fin 0) \<and> to_num env v = Inr k)"

definition released_by :: "env \<Rightarrow> settlement_gateway \<Rightarrow> db \<Rightarrow> ledger_row \<Rightarrow> bool" where
  "released_by env gw d l = (\<exists>detail x p o'. announced gw detail \<and> x \<in> set (sd_transactions detail) \<and>
     normalizeSettlementStatus (sd_state detail) = ''settled'' \<and> (st_sub x = None \<or> st_sub x = Some 1) \<and>
     p \<in> set (payments d) \<and> o' \<in> set (orders d) \<and> p_order p = Some (o_id o') \<and> l_order l = o_id o' \<and>
     p_provider p = ''flutterwave'' \<and> p_purpose p = ''order'' \<and> p_status p = ''succeeded'' \<and>
     p_reference p = trim_space (st_ref x) \<and> o_tx_ref o' = Some (trim_space (st_ref x)) \<and>
     p_tx_id p = Some (settlementNumericID (st_id x)) \<and> payout_of env x (l_net l))"

definition final :: "payment_row \<Rightarrow> bool" where
  "final p = (p_settlement p = ''settled'' \<or> p_settlement p = ''reversed'')"

text \<open>The columns a settlement never writes.\<close>

definition same_payment :: "payment_row \<Rightarrow> payment_row \<Rightarrow> bool" where
  "same_payment p q = (p = q\<lparr>p_charged := p_charged p, p_gateway_fee := p_gateway_fee p, p_merchant_fee := p_merchant_fee p,
     p_settled_amount := p_settled_amount p, p_settlement_id := p_settlement_id p, p_settlement_ref := p_settlement_ref p,
     p_settlement := p_settlement p, p_destination := p_destination p, p_note := p_note p, p_settled_at := p_settled_at p\<rparr>)"

definition same_entry :: "ledger_row \<Rightarrow> ledger_row \<Rightarrow> bool" where
  "same_entry l m = (l_provider m = l_provider l \<and> l_order m = l_order l \<and> l_key m = l_key l \<and> l_currency m = l_currency l \<and>
     l_gross m = l_gross l \<and> l_fee m = l_fee l \<and> l_expected m = l_expected l \<and> l_available_at m = l_available_at l)"

definition balanced :: "ledger_row \<Rightarrow> bool" where
  "balanced l = (l_status l = ''paid'' \<and> l_amount l = Some (l_net l) \<and> l_deductions l = max (l_expected l - l_net l) 0)"

definition payment_step :: "payment_row \<Rightarrow> payment_row \<Rightarrow> bool" where
  "payment_step p q = (same_payment p q \<and> (final p \<longrightarrow> final q))"

definition entry_step :: "env \<Rightarrow> settlement_gateway \<Rightarrow> db \<Rightarrow> ledger_row \<Rightarrow> ledger_row \<Rightarrow> bool" where
  "entry_step env gw d l m = (same_entry l m \<and> (l_settlement m = ''settled'' \<longrightarrow>
     (l_settlement l = ''settled'' \<and> l_net m = l_net l \<and> l_status m = l_status l \<and> l_amount m = l_amount l \<and> l_deductions m = l_deductions l) \<or>
     (balanced m \<and> released_by env gw d m)))"

definition settled_step :: "env \<Rightarrow> settlement_gateway \<Rightarrow> db \<Rightarrow> db \<Rightarrow> bool" where
  "settled_step env gw d d' = ((\<exists>P L J. d' = d\<lparr>payments := P, ledger := L, jobs := J\<rparr>) \<and>
     list_all2 payment_step (payments d) (payments d') \<and> list_all2 (entry_step env gw d) (ledger d) (ledger d'))"

lemma list_all2_before: "list_all2 R xs ys \<Longrightarrow> y \<in> set ys \<Longrightarrow> \<exists>x \<in> set xs. R x y"
  by (metis in_set_conv_nth list_all2_conv_all_nth)

lemma same_payment_refl: "same_payment p p"
  by (cases p) (simp add: same_payment_def)

lemma payment_step_refl: "payment_step p p"
  by (simp add: payment_step_def same_payment_refl)

lemma settled_step_refl:
  "list_all2 payment_step P P" "list_all2 (entry_step env gw d) L L"
  by (auto simp: payment_step_def entry_step_def same_payment_refl same_entry_def intro!: list_all2_refl)

lemma same_payment_trans: "same_payment p q \<Longrightarrow> same_payment q r \<Longrightarrow> same_payment p r"
  by (cases p, cases q, cases r) (simp add: same_payment_def)

lemma same_payment_fields:
  assumes "same_payment p q"
  shows "p_order q = p_order p" "p_provider q = p_provider p" "p_purpose q = p_purpose p" "p_status q = p_status p"
    "p_reference q = p_reference p" "p_tx_id q = p_tx_id p"
  using assms by (cases p, cases q, simp add: same_payment_def)+

lemma released_by_back:
  assumes "settled_step env gw a b" "released_by env gw b l"
  shows "released_by env gw a l"
proof -
  from assms(2) obtain detail x p o' where r: "announced gw detail" "x \<in> set (sd_transactions detail)"
     "normalizeSettlementStatus (sd_state detail) = ''settled''" "st_sub x = None \<or> st_sub x = Some 1"
     "p \<in> set (payments b)" "o' \<in> set (orders b)" "p_order p = Some (o_id o')" "l_order l = o_id o'"
     "p_provider p = ''flutterwave''" "p_purpose p = ''order''" "p_status p = ''succeeded''"
     "p_reference p = trim_space (st_ref x)" "o_tx_ref o' = Some (trim_space (st_ref x))"
     "p_tx_id p = Some (settlementNumericID (st_id x))" "payout_of env x (l_net l)"
    unfolding released_by_def by blast
  have "list_all2 payment_step (payments a) (payments b)" and b: "orders b = orders a"
    using assms(1) by (auto simp: settled_step_def)
  then obtain q where q: "q \<in> set (payments a)" "same_payment q p"
    using list_all2_before [of payment_step _ _ p] r(5) by (force simp: payment_step_def)
  from b show ?thesis using r q(1) same_payment_fields [OF q(2)] unfolding released_by_def by metis
qed

lemma released_by_cong: "l_order m = l_order l \<Longrightarrow> l_net m = l_net l \<Longrightarrow> released_by env gw d m = released_by env gw d l"
  by (simp add: released_by_def)

interpretation settled: guarantee "settled_step env gw" for env gw
proof
  fix d :: db
  show "settled_step env gw d d"
    unfolding settled_step_def
  proof (intro conjI exI settled_step_refl)
    show "d = d\<lparr>payments := payments d, ledger := ledger d, jobs := jobs d\<rparr>" by (cases d) simp
  qed
next
  fix a b c :: db
  assume ab: "settled_step env gw a b" and bc: "settled_step env gw b c"
  have "payment_step p r" if "payment_step p q" "payment_step q r" for p q r
    using that same_payment_trans by (auto simp: payment_step_def)
  then have 1: "list_all2 payment_step (payments a) (payments c)"
    using ab bc by (auto simp: settled_step_def intro: list_all2_trans [of payment_step payment_step payment_step])
  have "entry_step env gw a l n" if l: "entry_step env gw a l m" "entry_step env gw b m n" for l m n
  proof -
    have s: "same_entry l n" using l by (auto simp: entry_step_def same_entry_def)
    have "released_by env gw a n" if "released_by env gw b n" using released_by_back [OF ab that] .
    moreover have "balanced n \<and> released_by env gw a n"
      if "balanced m" "released_by env gw a m" "l_net n = l_net m" "l_status n = l_status m" "l_amount n = l_amount m" "l_deductions n = l_deductions m"
      using that l(2) released_by_cong [of n m] by (auto simp: balanced_def entry_step_def same_entry_def)
    ultimately show ?thesis using l s unfolding entry_step_def by metis
  qed
  moreover have "list_all2 (entry_step env gw a) (ledger a) (ledger b)" "list_all2 (entry_step env gw b) (ledger b) (ledger c)"
    using ab bc by (simp_all add: settled_step_def)
  ultimately have 2: "list_all2 (entry_step env gw a) (ledger a) (ledger c)"
    using list_all2_trans [of "entry_step env gw a" "entry_step env gw b" "entry_step env gw a"] by blast
  obtain P L J P' L' J' where "b = a\<lparr>payments := P, ledger := L, jobs := J\<rparr>" "c = b\<lparr>payments := P', ledger := L', jobs := J'\<rparr>"
    using ab bc unfolding settled_step_def by blast
  then have "c = a\<lparr>payments := payments c, ledger := ledger c, jobs := jobs c\<rparr>" by simp
  with 1 2 show "settled_step env gw a c" unfolding settled_step_def by blast
qed

section \<open>One entry\<close>

lemma list_all2_upd: "(\<And>r. r \<in> set T \<Longrightarrow> R r (if p r then f r else r)) \<Longrightarrow> list_all2 R T (upd p f T)"
  by (simp add: upd_def list_all2_conv_all_nth)

lemma settle_payment_step:
  assumes "replaceable h p"
  shows "payment_step p (settle_payment h charged fee merchant actual t p)"
proof -
  have "same_payment p (settle_payment h charged fee merchant actual t p)"
    by (cases p) (simp add: same_payment_def settle_payment_def)
  then show ?thesis using assms by (auto simp: payment_step_def final_def replaceable_def settle_payment_def)
qed

text \<open>The entry a worker is about to apply is the gateway's.\<close>

definition vouched :: "settlement_gateway \<Rightarrow> settlement_head \<Rightarrow> settlement_item \<Rightarrow> bool" where
  "vouched gw h x = (\<exists>detail raw. announced gw detail \<and> raw \<in> set (sd_transactions detail) \<and>
     sh_state h = normalizeSettlementStatus (sd_state detail) \<and> (st_sub raw = None \<or> st_sub raw = Some 1) \<and>
     si_ref x = trim_space (st_ref raw) \<and> si_tx x = settlementNumericID (st_id raw) \<and> si_tx x \<noteq> [] \<and>
     optionalSettlementAmount [st_amount raw] = Inr (si_actual x) \<and>
     (sh_state h = ''settled'' \<longrightarrow> (\<exists>v. si_actual x = Some v \<and> \<not> f_le v (Fin 0))))"

lemma settle_rows_step:
  assumes v: "vouched gw h x" and a: "to_num_opt env (si_actual x) = Inr actual"
    and p: "p \<in> set (payments d)" "list_ex (settles_order subaccount h x d p) (orders d)" "p_order p = Some i"
    and q: "\<And>l. q l \<Longrightarrow> l_order l = i"
  shows "settled_step env gw d (d\<lparr>payments := upd (\<lambda>p. list_ex (settles_order subaccount h x d p) (orders d))
             (settle_payment h charged fee merchant actual t) (payments d),
           ledger := upd q (settle_entry h actual t') (ledger d)\<rparr>)"
    (is "settled_step env gw d (d\<lparr>payments := ?P, ledger := ?L\<rparr>)")
proof -
  from v obtain detail raw where r: "announced gw detail" "raw \<in> set (sd_transactions detail)"
     "sh_state h = normalizeSettlementStatus (sd_state detail)" "st_sub raw = None \<or> st_sub raw = Some 1"
     "si_ref x = trim_space (st_ref raw)" "si_tx x = settlementNumericID (st_id raw)" "si_tx x \<noteq> []"
     "optionalSettlementAmount [st_amount raw] = Inr (si_actual x)"
     "sh_state h = ''settled'' \<longrightarrow> (\<exists>v. si_actual x = Some v \<and> \<not> f_le v (Fin 0))"
    unfolding vouched_def by blast
  have "list_all2 payment_step (payments d) ?P"
    by (intro list_all2_upd) (auto simp: list_ex_iff settles_order_def payment_step_refl intro: settle_payment_step)
  moreover have "list_all2 (entry_step env gw d) (ledger d) ?L"
  proof (intro list_all2_upd)
    fix l assume "l \<in> set (ledger d)"
    have "released_by env gw d (settle_entry h actual t' l) \<and> balanced (settle_entry h actual t' l)"
      if st: "l_order l = i" "sh_state h = ''settled''"
    proof -
      obtain w k where w: "si_actual x = Some w" "\<not> f_le w (Fin 0)" and k: "actual = Some k" "to_num env w = Inr k"
        using r(9) a st(2) by (auto simp: to_num_opt_def split: sum.splits)
      obtain o' where o: "o' \<in> set (orders d)" "settles_order subaccount h x d p o'" using p(2) by (auto simp: list_ex_iff)
      have "payout_of env raw k" using w k(2) r(8) by (auto simp: payout_of_def)
      moreover have "p_tx_id p = Some (settlementNumericID (st_id raw))" "p_order p = Some (o_id o')" "o_id o' = i"
        "o_tx_ref o' = Some (trim_space (st_ref raw))" "p_reference p = trim_space (st_ref raw)"
        "p_provider p = ''flutterwave''" "p_purpose p = ''order''" "p_status p = ''succeeded''"
        using o(2) r(5-7) p(3) by (auto simp: settles_order_def)
      ultimately show ?thesis
        using r(1-4) st p(1) o(1) k(1) unfolding released_by_def balanced_def by (auto simp: settle_entry_def coalesce_def)
    qed
    then show "entry_step env gw d l (if q l then settle_entry h actual t' l else l)"
      using q [of l] by (auto simp: entry_step_def same_entry_def settle_entry_def)
  qed
  moreover have "\<exists>P L J. d\<lparr>payments := ?P, ledger := ?L\<rparr> = d\<lparr>payments := P, ledger := L, jobs := J\<rparr>"
    by (intro exI [of _ ?P] exI [of _ ?L] exI [of _ "jobs d"]) (cases d, simp)
  ultimately show ?thesis by (simp add: settled_step_def)
qed

lemma mark_settled_D:
  assumes "mark_settled env subaccount h x d t = Inr (i, d')"
  obtains charged fee merchant actual p where "to_num_opt env (si_actual x) = Inr actual"
    "p \<in> set (payments d)" "list_ex (settles_order subaccount h x d p) (orders d)" "p_order p = Some i"
    "d' = d\<lparr>payments := upd (\<lambda>p. list_ex (settles_order subaccount h x d p) (orders d))
       (settle_payment h charged fee merchant actual t) (payments d)\<rparr>"
  using assms unfolding mark_settled_def Let_def
  by (auto split: sum.splits option.splits dest!: find_Some_D)

lemma settle_item_step:
  assumes "vouched gw h x"
  shows "keeps (settled_step env gw) (settle_item env subaccount h x)"
proof (rule keeps_wp)
  fix t and d :: db
  have s: "settled_step env gw d d2"
    if m: "mark_settled env subaccount h x d t = Inr (i, d1)" and a: "to_num_opt env (si_actual x) = Inr actual"
      and u: "update_rows ledger set_ledger (\<lambda>l. l_order l = i \<and> q l) (settle_entry h actual t) d1 = Inr (n, d2)" for i d1 actual q n d2
    using m
  proof (rule mark_settled_D)
    fix charged fee merchant actual' p
    assume "to_num_opt env (si_actual x) = Inr actual'" "p \<in> set (payments d)" "list_ex (settles_order subaccount h x d p) (orders d)"
      "p_order p = Some i" "d1 = d\<lparr>payments := upd (\<lambda>p. list_ex (settles_order subaccount h x d p) (orders d))
       (settle_payment h charged fee merchant actual' t) (payments d)\<rparr>"
    then show ?thesis using a u settle_rows_step [OF assms a, of p d subaccount i "\<lambda>l. l_order l = i \<and> q l"] by simp
  qed
  show "wp t (settle_item env subaccount h x) (\<lambda>_. settled_step env gw d) (\<lambda>_. settled_step env gw d) d"
    unfolding settle_item_def Let_def
    by (intro wp_rules) (auto simp: settled.refl split: sum.splits intro: s)
qed

section \<open>A whole pass\<close>

lemma check_item_vouched:
  assumes "check_item (settlement_head_of detail) raw = Inr (Some x)" "announced gw detail" "raw \<in> set (sd_transactions detail)"
  shows "vouched gw (settlement_head_of detail) x"
proof -
  have h: "sh_state (settlement_head_of detail) = normalizeSettlementStatus (sd_state detail)"
    by (simp add: settlement_head_of_def Let_def)
  have "(st_sub raw = None \<or> st_sub raw = Some 1) \<and> si_ref x = trim_space (st_ref raw) \<and> si_tx x = settlementNumericID (st_id raw) \<and>
     si_tx x \<noteq> [] \<and> optionalSettlementAmount [st_amount raw] = Inr (si_actual x) \<and>
     (sh_state (settlement_head_of detail) = ''settled'' \<longrightarrow> (\<exists>v. si_actual x = Some v \<and> \<not> f_le v (Fin 0)))"
    using assms(1) unfolding check_item_def Let_def
    by (auto simp del: optionalSettlementAmount.simps split: if_split_asm sum.split_asm option.split_asm)
  then show ?thesis unfolding vouched_def using assms(2,3) h by blast
qed

text \<open>A relation that one applied entry keeps is kept by the application of a whole page.\<close>

locale settlement_guarantee = guarantee R for R :: "db \<Rightarrow> db \<Rightarrow> bool" +
  fixes env :: env and gw :: settlement_gateway
  assumes keeps_item: "vouched gw h x \<Longrightarrow> keeps R (settle_item env subaccount h x)"
begin

lemma keeps_items:
  assumes "announced gw detail" "set xs \<subseteq> set (sd_transactions detail)"
  shows "keeps R (apply_items env subaccount (settlement_head_of detail) xs count)"
  using assms(2)
proof (induction xs arbitrary: count)
  case Nil
  then show ?case by (simp add: keeps_ret)
next
  case (Cons x xs)
  show ?case
  proof (cases "check_item (settlement_head_of detail) x")
    case (Inl e)
    then show ?thesis by (simp add: keeps_ret)
  next
    case (Inr y)
    show ?thesis
    proof (cases y)
      case None
      then show ?thesis using Inr Cons by simp
    next
      case (Some item)
      have "vouched gw (settlement_head_of detail) item"
        using check_item_vouched [OF _ assms(1)] Inr Some Cons.prems by simp
      then show ?thesis
        using Inr Some Cons by simp (intro keeps_bind keeps_attempt keeps_item keeps_sum keeps_ret; simp)
    qed
  qed
qed

lemma keeps_apply:
  assumes "announced gw detail"
  shows "keeps R (applyFlutterwaveSettlement env subaccount detail)"
  unfolding applyFlutterwaveSettlement_def Let_def
  by (intro keeps_if keeps_ret keeps_items assms order_refl)

lemma keeps_detail: "keeps R (detail_step env gw job i)"
proof (cases "getFlutterwaveSettlementPage gw i (jb_detail_page job)")
  case (Inr detail)
  then have "announced gw detail" unfolding announced_def by blast
  then show ?thesis unfolding detail_step_def Inr
    by (simp add: Let_def) (intro conjI impI keeps_bind keeps_apply keeps_ret keeps_prod keeps_option)
qed (simp add: detail_step_def keeps_ret)

end

interpretation payout: settlement_guarantee "settled_step env gw" env gw for env gw
  by unfold_locales (rule settle_item_step)

definition same_jobs :: "db \<Rightarrow> db \<Rightarrow> bool" where
  "same_jobs d d' = (jobs d' = jobs d)"

interpretation same_jobs: guarantee same_jobs
  by unfold_locales (simp_all add: same_jobs_def)

interpretation apart: settlement_guarantee same_jobs env gw for env gw
proof
  show "keeps same_jobs (settle_item env subaccount h x)" for subaccount h x
  proof -
    have "jobs d' = jobs d" if "mark_settled env subaccount h x d t = Inr (i, d')" for d t i d'
      using that by (auto elim: mark_settled_D)
    then show ?thesis unfolding settle_item_def Let_def
      by (intro same_jobs.keeps_all same_jobs.keeps_stmt) (auto simp: same_jobs_def split: sum.splits)
  qed
qed

lemma jobs_step: "settled_step env gw d (d\<lparr>jobs := J\<rparr>)"
  unfolding settled_step_def
proof (intro conjI exI)
  show "d\<lparr>jobs := J\<rparr> = d\<lparr>payments := payments d, ledger := ledger d, jobs := J\<rparr>" by (cases d) simp
qed (simp_all add: settled_step_refl)

lemma cursor_steps:
  "keeps (settled_step env gw) (saveSettlementCursor job b)"
  "keeps (settled_step env gw) (finish_job job)"
  "keeps (settled_step env gw) (release_job job m)"
  "keeps (settled_step env gw) (claimSettlementJob lease)"
proof -
  show "keeps (settled_step env gw) (saveSettlementCursor job b)" "keeps (settled_step env gw) (finish_job job)"
    "keeps (settled_step env gw) (release_job job m)"
    unfolding saveSettlementCursor_def finish_job_def release_job_def
    by (intro settled.keeps_bind settled.keeps_stmt settled.keeps_require; auto simp: jobs_step)+
  show "keeps (settled_step env gw) (claimSettlementJob lease)"
    unfolding claimSettlementJob_def
    by (intro settled.keeps_stmt) (auto simp: jobs_step settled.refl split: option.splits sum.splits)
qed

lemma process_step: "keeps (settled_step env gw) (processSettlementJob env gw fuel job count)"
proof (induction fuel arbitrary: job count)
  case 0
  then show ?case by simp (intro settled.keeps_bind settled.keeps_attempt cursor_steps settled.keeps_ret)
next
  case (Suc fuel)
  show ?case
  proof (cases "jb_ids job")
    case Nil
    then show ?thesis
      by simp (intro conjI impI settled.keeps_bind settled.keeps_attempt cursor_steps settled.keeps_ret settled.keeps_sum Suc.IH)
  next
    case (Cons i rest)
    then show ?thesis
      by simp (intro settled.keeps_bind settled.keeps_attempt settled.keeps_prod cursor_steps settled.keeps_ret settled.keeps_sum
        payout.keeps_detail Suc.IH)
  qed
qed

lemma reconcile_step: "keeps (settled_step env gw) (reconcile_loop env gw leases count failures)"
proof (induction leases arbitrary: count failures)
  case Nil
  then show ?case by (simp add: settled.keeps_ret)
next
  case (Cons lease leases)
  show ?case
    unfolding reconcile_loop.simps
    by (intro settled.keeps_bind settled.keeps_attempt settled.keeps_prod cursor_steps settled.keeps_ret settled.keeps_sum
        settled.keeps_option process_step Cons.IH)
qed

lemma ReconcileFlutterwaveSettlements_step:
  "keeps (settled_step env gw) (ReconcileFlutterwaveSettlements env cfg gw leases)"
  unfolding ReconcileFlutterwaveSettlements_def by (intro settled.keeps_if settled.keeps_ret reconcile_step)

section \<open>Leases\<close>

definition spared :: "job_row \<Rightarrow> db \<Rightarrow> bool" where
  "spared r d = (jobs_ok (jobs d) \<and> r \<in> set (jobs d))"

lemma spared_update:
  assumes "spared r d" "jobs_ok (upd p f (jobs d))" "\<not> p r"
  shows "spared r (d\<lparr>jobs := upd p f (jobs d)\<rparr>)"
  using assms by (auto simp: spared_def set_upd intro: image_eqI [of _ _ r])

lemma next_job_D: "next_job t d = Some j \<Longrightarrow> j \<in> set (jobs d) \<and> due_job t j"
  unfolding next_job_def by (auto split: list.splits dest!: arg_cong [of _ _ set])

lemma spared_same: "spared r d \<Longrightarrow> j \<in> set (jobs d) \<Longrightarrow> j_subaccount r = j_subaccount j \<Longrightarrow> r = j"
  using uniq_rows [of "\<lambda>r. Some (j_subaccount r)" "jobs d"] by (auto simp: spared_def jobs_ok_def)

lemma claim_spares:
  assumes "spared r d" "\<not> due_job t r"
  shows "wp t (claimSettlementJob lease) (\<lambda>job d'. spared r d' \<and> (\<forall>j. job = Some j \<longrightarrow> jb_lease j = lease)) (\<lambda>_. spared r) d"
proof -
  have "spared r (d\<lparr>jobs := upd (\<lambda>x. j_subaccount x = j_subaccount j) f (jobs d)\<rparr>)"
    if "next_job t d = Some j" "jobs_ok (upd (\<lambda>x. j_subaccount x = j_subaccount j) f (jobs d))" for j f
    using that next_job_D [OF that(1)] assms spared_same [OF assms(1), of j] by (intro spared_update) auto
  then show ?thesis unfolding claimSettlementJob_def
    by (intro wp_rules) (auto simp: assms job_view_def split: option.splits sum.splits)
qed

lemma cursor_spares:
  assumes "spared r d" "j_lease r \<noteq> Some (jb_lease job)"
  shows "wp t (saveSettlementCursor job b) (\<lambda>_. spared r) (\<lambda>_. spared r) d"
    "wp t (finish_job job) (\<lambda>_. spared r) (\<lambda>_. spared r) d"
    "wp t (release_job job m) (\<lambda>_. spared r) (\<lambda>_. spared r) d"
  unfolding saveSettlementCursor_def finish_job_def release_job_def
  by (intro wp_rules; use assms in \<open>auto intro!: spared_update simp: held_def\<close>)+

lemma detail_spares:
  "spared r d \<Longrightarrow> wp t (detail_step env gw job i) (\<lambda>_. spared r) (\<lambda>_. spared r) d"
  by (rule wp_keeps [OF apart.keeps_detail]) (auto simp: same_jobs_def spared_def)

lemma next_detail_lease: "next_detail job hash detail = Inr job' \<Longrightarrow> jb_lease job' = jb_lease job"
  by (auto simp: next_detail_def Let_def split: if_splits)

lemma list_step_lease: "list_step env gw job = Inr job' \<Longrightarrow> jb_lease job' = jb_lease job"
  by (auto simp: list_step_def Let_def split: if_splits sum.splits)

lemma detail_step_lease:
  assumes "spared r d"
  shows "wp t (detail_step env gw job i) (\<lambda>(n, x) d'. spared r d' \<and> (\<forall>job'. x = Inr job' \<longrightarrow> jb_lease job' = jb_lease job)) (\<lambda>_. spared r) d"
proof -
  have "wp t (applyFlutterwaveSettlement env subaccount detail) (\<lambda>_. spared r) (\<lambda>_. spared r) d"
    if "announced gw detail" for subaccount detail
    by (rule wp_keeps [OF apart.keeps_apply [OF that]]) (use assms in \<open>auto simp: same_jobs_def spared_def\<close>)
  note ap = this
  show ?thesis
  proof (cases "getFlutterwaveSettlementPage gw i (jb_detail_page job)")
    case (Inr detail)
    then have "announced gw detail" unfolding announced_def by blast
    note m = wp_mono [OF ap [OF this]]
    show ?thesis
      unfolding detail_step_def Let_def Inr
      by (auto intro!: wp_if wp_ret wp_bind m wp_prod wp_option simp: assms dest: next_detail_lease)
  qed (simp add: detail_step_def wp_ret assms)
qed

lemma save_process_spares:
  assumes "\<And>d job'. spared r d \<Longrightarrow> jb_lease job' = jb_lease job \<Longrightarrow> wp t (k job') (\<lambda>_. spared r) (\<lambda>_. spared r) d"
    and "spared r d" "j_lease r \<noteq> Some (jb_lease job)" "jb_lease job' = jb_lease job"
  shows "wp t (bind (attempt (saveSettlementCursor job' False)) (\<lambda>x. case x of Inl e \<Rightarrow> ret (c, Some e) | Inr _ \<Rightarrow> k job'))
    (\<lambda>_. spared r) (\<lambda>_. spared r) d"
  by (intro wp_bind wp_attempt wp_mono [OF cursor_spares(1) [OF assms(2)]] wp_sum wp_ret assms(1)) (use assms(3,4) in auto)

lemma process_spares:
  assumes "spared r d" "j_lease r \<noteq> Some (jb_lease job)"
  shows "wp t (processSettlementJob env gw fuel job count) (\<lambda>_. spared r) (\<lambda>_. spared r) d"
  using assms
proof (induction fuel arbitrary: job count d)
  case 0
  then show ?case
    by (auto intro!: wp_bind wp_attempt wp_mono [OF cursor_spares(1) [OF 0]] wp_ret)
next
  case (Suc fuel)
  show ?case
  proof (cases "jb_ids job")
    case Nil
    have "wp t (bind (attempt (saveSettlementCursor job' False)) (\<lambda>x. case x of Inl e \<Rightarrow> ret (count, Some e)
        | Inr _ \<Rightarrow> processSettlementJob env gw fuel job' count)) (\<lambda>_. spared r) (\<lambda>_. spared r) d"
      if "list_step env gw job = Inr job'" for job'
      by (rule save_process_spares [where job = job]) (use Suc list_step_lease [OF that] in auto)
    then show ?thesis using Nil Suc.prems
      by (auto intro!: wp_bind wp_attempt wp_mono [OF cursor_spares(2) [OF Suc.prems]] wp_ret split: sum.splits)
  next
    case (Cons i rest)
    have "wp t (bind (attempt (saveSettlementCursor job' False)) (\<lambda>x. case x of Inl e \<Rightarrow> ret (count + n, Some e)
        | Inr _ \<Rightarrow> processSettlementJob env gw fuel job' (count + n))) (\<lambda>_. spared r) (\<lambda>_. spared r) d'"
      if "jb_lease job' = jb_lease job" "spared r d'" for job' n d'
      by (rule save_process_spares [where job = job]) (use Suc that in auto)
    then show ?thesis using Cons Suc.prems
      by (auto intro!: wp_bind wp_mono [OF detail_step_lease [OF Suc.prems(1)]] wp_ret split: sum.splits)
  qed
qed

lemma reconcile_spares:
  assumes "spared r d" "j_lease r = Some L" "L \<notin> set leases" "\<not> due_job t r"
  shows "wp t (reconcile_loop env gw leases count failures) (\<lambda>_. spared r) (\<lambda>_. spared r) d"
  using assms(1,3)
proof (induction leases arbitrary: count failures d)
  case Nil
  then show ?case by (simp add: wp_ret)
next
  case (Cons lease leases)
  have l: "j_lease r \<noteq> Some lease" using Cons.prems assms(2) by auto
  have p: "wp t (bind (processSettlementJob env gw 10 job 0) (\<lambda>(updated, err). case err of
         None \<Rightarrow> reconcile_loop env gw leases (count + updated) failures
       | Some e \<Rightarrow> bind (attempt (release_job job (error_text e))) (\<lambda>released.
           reconcile_loop env gw leases (count + updated)
             (failures @ [''seller settlement reconciliation: '' @ error_text e] @
              (case released of Inl e' \<Rightarrow> [error_text e'] | Inr _ \<Rightarrow> []))))) (\<lambda>_. spared r) (\<lambda>_. spared r) d'"
    if "spared r d'" "jb_lease job = lease" for d' job
    using Cons.prems that
    by (intro wp_bind wp_mono [OF process_spares] wp_prod wp_option wp_attempt)
       (auto intro!: Cons.IH wp_mono [OF cursor_spares(3)] simp: assms(2))
  show ?case
    unfolding reconcile_loop.simps
    by (intro wp_bind wp_attempt wp_mono [OF claim_spares [OF Cons.prems(1) assms(4)]] wp_sum wp_option wp_ret p) auto
qed

section \<open>Properties\<close>

text \<open>
  C5. Sellers are paid on the gateway's word only. Whatever a reconciliation pass reads and however the
  database fails, a ledger row that becomes settled is backed by a settlement document the gateway
  itself answered with, in state settled, whose entry belongs to the seller's split (not the parent
  account) and names the reference and transaction of the succeeded payment of this very order; the
  row is then paid, its net is the payout of that entry and its deductions are what is missing to the
  expected net.
\<close>

theorem payout_only_by_gateway:
  assumes "ReconcileFlutterwaveSettlements env cfg gw leases w = (r, w')"
    and "l' \<in> set (ledger (db w'))" "l_settlement l' = ''settled''"
    and "\<forall>l \<in> set (ledger (db w)). l_key l = l_key l' \<longrightarrow> l_settlement l \<noteq> ''settled''"
  shows "released_by env gw (db w) l' \<and> l_status l' = ''paid'' \<and> l_amount l' = Some (l_net l') \<and>
    l_deductions l' = max (l_expected l' - l_net l') 0"
proof -
  have "settled_step env gw (db w) (db w')"
    using keepsD [OF ReconcileFlutterwaveSettlements_step assms(1)] by simp
  then obtain l where l: "l \<in> set (ledger (db w))" "entry_step env gw (db w) l l'"
    using list_all2_before [OF _ assms(2), of "entry_step env gw (db w)" "ledger (db w)"] unfolding settled_step_def by blast
  then have "l_settlement l \<noteq> ''settled''" using assms(4) by (simp add: entry_step_def same_entry_def)
  then show ?thesis using l(2) assms(3) by (simp add: entry_step_def balanced_def)
qed

definition payout0 :: flutterwaveSettlementDetail where
  "payout0 = \<lparr>sd_status = ''success'', sd_pages = 1, sd_id = AFloat (f_of_int 900), sd_state = ''completed'', sd_currency = ''NGN'',
     sd_reference = ''S-900'', sd_disburse = [], sd_processor = [], sd_destination = ''bank'', sd_account = ANil,
     sd_processed = ''2026-01-02T03:04:05Z'', sd_count = 1, sd_flag = [],
     sd_transactions = [\<lparr>st_sub = Some 1, st_id = AFloat (f_of_int 77), st_ref = ref0, st_currency = ''NGN'', st_charged = ANil, st_fee = ANil,
       st_legacy_fee = ANil, st_merchant = ANil, st_legacy_merchant = ANil, st_amount = AFloat (scan_num 234000)\<rparr>]\<rparr>"

definition payouts0 :: settlement_gateway where
  "payouts0 = \<lparr>sg_list = (\<lambda>e. Inr (200, Inr \<lparr>sl_status = ''success'', sl_pages = 1, sl_ids = [AFloat (f_of_int 900)]\<rparr>)),
     sg_detail = (\<lambda>e. Inr (200, Inr payout0)), sg_marshal_list = (\<lambda>x. ''L''), sg_marshal_detail = (\<lambda>x. ''D'')\<rparr>"

text \<open>The shop after the buyer of \<open>order0\<close> paid, and a pass over it.\<close>

definition paid0 :: "db world" where
  "paid0 = world0 (empty_db\<lparr>orders := [mark_paid ''P1'' ref0 ''77'' 900 order0],
     payments := [(new_payment flutterwaveProviderName ''order'' (Some (o_id order0)) None ''u1'' ''NG'' 250000 ''NGN''
       ref0 ''k1'' ''card'' ''RS_1'' 0)\<lparr>p_tx_id := Some ''77'', p_status := ''succeeded''\<rparr>],
     ledger := [paid_entry ''g1'' (o_id order0) ''NGN'' 250000 12500 237500 900], jobs := [new_job ''RS_1'' 0 900]\<rparr>) 1000"

definition pass0 :: "db world" where
  "pass0 = snd (ReconcileFlutterwaveSettlements env0 config0 payouts0 [''L1'', ''L2''] paid0)"

lemma pass0_run: "ReconcileFlutterwaveSettlements env0 config0 payouts0 [''L1'', ''L2''] paid0 =
    (fst (ReconcileFlutterwaveSettlements env0 config0 payouts0 [''L1'', ''L2''] paid0), pass0)"
  by (simp add: pass0_def)

lemma payout_only_by_gateway_witness:
  "\<exists>l \<in> set (ledger (db pass0)). released_by env0 payouts0 (db paid0) l \<and> l_net l = 234000 \<and> l_deductions l = 3500"
proof -
  have "list_ex (\<lambda>l. l_settlement l = ''settled'' \<and> l_net l = 234000 \<and> l_deductions l = 3500) (ledger (db pass0))" by code_simp
  then obtain l where l: "l \<in> set (ledger (db pass0))" "l_settlement l = ''settled''" "l_net l = 234000" "l_deductions l = 3500"
    by (auto simp: list_ex_iff)
  have "\<forall>x \<in> set (ledger (db paid0)). l_key x = l_key l \<longrightarrow> l_settlement x \<noteq> ''settled''"
    by (simp add: paid0_def paid_entry_def)
  from payout_only_by_gateway [OF pass0_run l(1,2) this] l show ?thesis by blast
qed

text \<open>
  C19. A released payout stays released: after any reconciliation pass each payment keeps every column but
  the settlement ones, and one whose settlement is settled or reversed stays settled or reversed; it
  never returns to pending, failed or on hold.
\<close>

theorem settled_payments_final:
  assumes "ReconcileFlutterwaveSettlements env cfg gw leases w = (r, w')"
  shows "list_all2 payment_step (payments (db w)) (payments (db w'))"
  using keepsD [OF ReconcileFlutterwaveSettlements_step assms] by (simp add: settled_step_def)

lemma settled_payments_final_witness:
  "list_all2 payment_step (payments (db paid0)) (payments (db pass0)) \<and>
   map p_settlement (payments (db paid0)) = [''pending''] \<and> map p_settlement (payments (db pass0)) = [''settled'']"
proof (intro conjI)
  show "map p_settlement (payments (db paid0)) = [''pending'']" by (simp add: paid0_def new_payment_def)
  show "map p_settlement (payments (db pass0)) = [''settled'']" by code_simp
qed (rule settled_payments_final [OF pass0_run])

text \<open>
  C18. Workers exclude each other: while a worker holds the lease of a cursor, a pass of any other worker,
  with other lease tokens, leaves that cursor exactly as it is, whatever the gateway answers and
  however the database fails.
\<close>

theorem lease_exclusive:
  assumes "ReconcileFlutterwaveSettlements env cfg gw leases w = (r, w')" "jobs_ok (jobs (db w))"
    and "j \<in> set (jobs (db w))" "j_lease j = Some lease" "j_locked_until j = Some u" "now w \<le> u" "lease \<notin> set leases"
  shows "j \<in> set (jobs (db w'))"
proof -
  have "spared j (db w)" "\<not> due_job (now w) j" using assms by (simp_all add: spared_def due_job_def)
  moreover have "lease \<notin> set (take 10 leases)" using assms(7) by (auto dest: in_set_takeD)
  ultimately have "wp (now w) (ReconcileFlutterwaveSettlements env cfg gw leases) (\<lambda>_. spared j) (\<lambda>_. spared j) (db w)"
    unfolding ReconcileFlutterwaveSettlements_def using assms(4) by (auto intro!: wp_if wp_ret reconcile_spares)
  from wp_both [OF this] assms(1) show ?thesis by (simp add: spared_def)
qed

definition held_row :: job_row where
  "held_row = (new_job ''RS_1'' 0 900)\<lparr>j_lease := Some ''L0'', j_locked_until := Some 1300\<rparr>"

definition held0 :: "db world" where
  "held0 = world0 ((db paid0)\<lparr>jobs := [held_row]\<rparr>) 1000"

lemma lease_exclusive_witness:
  "held_row \<in> set (jobs (db (snd (ReconcileFlutterwaveSettlements env0 config0 payouts0 [''L1'', ''L2''] held0))))"
proof -
  have "jobs_ok (jobs (db held0))" by code_simp
  then show ?thesis
    using lease_exclusive [OF prod.collapse [symmetric], where j = held_row and lease = "''L0''" and u = 1300 and
      leases = "[''L1'', ''L2'']" and w = held0]
    by (simp add: held0_def held_row_def)
qed

end
