(* ===== verification/Marketplace.thy ===== *)
theory Marketplace
  imports Payment_Safety Fulfillment_Safety Settlement_Safety
begin

text \<open>
  The parts together: buyers' payments, sellers' requests and reconciliation passes on one database,
  in any order. A run is a list of events; each acts on the world the previous one left, with
  whatever faults the database has for it.
\<close>

datatype market_event =
    Pay "gateway \<times> payment_call"
  | Sell seller_call
  | Payout settlement_gateway "string list"

fun market_step :: "env \<Rightarrow> config \<Rightarrow> market_event \<Rightarrow> db world \<Rightarrow> db world" where
  "market_step env cfg (Pay c) w = snd (serve_payment env cfg c w)"
| "market_step env cfg (Sell c) w = snd (serve_seller env c w)"
| "market_step env cfg (Payout gw leases) w = snd (ReconcileFlutterwaveSettlements env cfg gw leases w)"

definition after :: "env \<Rightarrow> config \<Rightarrow> market_event list \<Rightarrow> db world \<Rightarrow> db world" where
  "after env cfg es w = fold (market_step env cfg) es w"

lemma after_snoc [simp]: "after env cfg (es @ [e]) w = market_step env cfg e (after env cfg es w)"
  by (simp add: after_def)

section \<open>Payments leave the sellers' tables alone\<close>

definition seller_same :: "db \<Rightarrow> db \<Rightarrow> bool" where
  "seller_same d d' = (fulfillments d' = fulfillments d \<and> fulfillment_events d' = fulfillment_events d \<and>
     manifests d' = manifests d \<and> manifest_events d' = manifest_events d)"

interpretation sellers_frame: guarantee seller_same
  by unfold_locales (auto simp: seller_same_def)

lemma seller_same_steps:
  "keeps seller_same (insertNotification u i b ty ti bo da k)"
  "keeps seller_same (award u i amount reason ref k ti bo)"
  "keeps seller_same (settleSubscriptionPaymentLedger env s u c ref x p cur st)"
  "keeps seller_same (settlePaymentLedger pr ref tx st)"
  "keeps seller_same (lockXPUser u)"
  "keeps seller_same (consumeXP i)"
proof -
  show n: "keeps seller_same (insertNotification u i b ty ti bo da k)" for u i b ty ti bo da k
    unfolding insertNotification_def by (rule sellers_frame.keeps_stmt) (auto simp: seller_same_def)
  show "keeps seller_same (award u i amount reason ref k ti bo)"
    unfolding award_def by (intro sellers_frame.keeps_all n sellers_frame.keeps_stmt) (auto simp: seller_same_def)
  show "keeps seller_same (settleSubscriptionPaymentLedger env s u c ref x p cur st)"
    by (rule keeps_wp) (intro wp_settleSubscriptionPaymentLedger; simp add: seller_same_def)
  show "keeps seller_same (settlePaymentLedger pr ref tx st)"
    unfolding settlePaymentLedger_def by (intro sellers_frame.keeps_all sellers_frame.keeps_stmt) (auto simp: seller_same_def)
  show "keeps seller_same (lockXPUser u)" unfolding lockXPUser_def by (intro sellers_frame.keeps_all)
  show "keeps seller_same (consumeXP i)"
    unfolding consumeXP_def Let_def
    by (intro sellers_frame.keeps_all sellers_frame.keeps_stmt) (auto simp: seller_same_def split: option.splits sum.splits)
qed

lemma seller_same_calls:
  "keeps seller_same (AwardPurchase u i tot)"
  "keeps seller_same (CreateNotificationOnce u i b ty ti bo da k)"
  "keeps seller_same (recordVerifiedPaymentAmounts env ref v)"
  "keeps seller_same (finishPaymentWebhook pr rc st m)"
  "keeps seller_same (beginPaymentWebhook env pr ety ref tx pl)"
  "keeps seller_same (settleProviderSubscription env r x p c)"
  unfolding AwardPurchase_def CreateNotificationOnce_def recordVerifiedPaymentAmounts_def finishPaymentWebhook_def
    beginPaymentWebhook_def settleProviderSubscription_def
  by (intro sellers_frame.keeps_all seller_same_steps sellers_frame.keeps_stmt;
      auto simp: seller_same_def Let_def split: sum.splits option.splits if_splits)+

lemma settle_same: "keeps seller_same (settleOrderPayment env i ref gw paid cur)"
  unfolding settleOrderPayment_def
  by (intro sellers_frame.keeps_all seller_same_steps sellers_frame.keeps_stmt)
     (auto simp: seller_same_def dest!: insert_paid_entry_frame enqueue_frame)

lemma settle_notify_same:
  "keeps seller_same (settleAndNotify env i ref gw paid cur)"
  "keeps seller_same (settle_verified env i v)"
  "keeps seller_same (finish_failed rc e r)"
  "keeps seller_same (finish_with rc st n)"
proof -
  show s: "keeps seller_same (settleAndNotify env i ref gw paid cur)" for i ref gw paid cur
    unfolding settleAndNotify_def by (intro sellers_frame.keeps_all seller_same_calls settle_same)
  show "keeps seller_same (settle_verified env i v)"
    unfolding settle_verified_def by (intro sellers_frame.keeps_all seller_same_calls s)
  show "keeps seller_same (finish_failed rc e r)" "keeps seller_same (finish_with rc st n)"
    unfolding finish_failed_def finish_with_def by (intro sellers_frame.keeps_all seller_same_calls)+
qed

lemma seller_same_serve: "keeps seller_same (serve_payment env cfg c)"
proof -
  have "keeps seller_same (FlutterwaveWebhook env cfg http decode raw sig vh)" for http decode raw sig vh
    unfolding FlutterwaveWebhook_def by (intro sellers_frame.keeps_all seller_same_calls settle_notify_same)
  moreover have "keeps seller_same (VerifyFlutterwavePayment env http u body)" for http u body
    unfolding VerifyFlutterwavePayment_def by (intro sellers_frame.keeps_all settle_notify_same)
  moreover have "keeps seller_same (AdminReconcileFlutterwavePayment env http u body)" for http u body
    unfolding AdminReconcileFlutterwavePayment_def
    by (intro sellers_frame.keeps_all settle_notify_same sellers_frame.keeps_stmt) (auto simp: seller_same_def)
  ultimately show ?thesis by (cases "(env, cfg, c)" rule: serve_payment.cases) simp_all
qed

lemma tracked_frame: "tracked d \<Longrightarrow> seller_same d d' \<Longrightarrow> tracked d'"
  by (simp add: tracked_def seller_same_def on_track_def history_def manifests_tracked_def manifest_history_def)

section \<open>Runs\<close>

lemma pays_pending:
  assumes "pays env i ref gw paid cur t d d'" "l \<in> set (ledger d')" "l_settlement l = ''settled''"
  shows "l \<in> set (ledger d)"
proof -
  obtain o' :: order_row and p where "\<exists>d0 d1 n. ledger d0 = ledger d \<and> ledger d1 = ledger d' \<and>
      insert_paid_entry env p i (o_currency o') (scan_num (o_total o')) (scan_num (o_fee o')) t d0 = Inr (n, d1)"
    using assms(1) unfolding pays_def by blast
  then obtain d0 d1 n where l: "ledger d0 = ledger d" "ledger d1 = ledger d'"
    "insert_paid_entry env p i (o_currency o') (scan_num (o_total o')) (scan_num (o_fee o')) t d0 = Inr (n, d1)"
    by blast
  then have "l \<in> set (ledger d0) \<or> l_settlement l = ''pending''"
    using assms(2) unfolding insert_paid_entry_def Let_def
    by (auto split: sum.splits simp: l(2) [symmetric] paid_entry_def)
  then show ?thesis using l(1) assms(3) by auto
qed

lemma step_ledger:
  assumes "tracked (db w)" "w' = market_step env cfg e w" "l \<in> set (ledger (db w'))" "l_settlement l = ''settled''"
  shows "(\<exists>l0 \<in> set (ledger (db w)). l_order l0 = l_order l \<and> l_settlement l0 = ''settled'') \<or>
    (\<exists>gw leases. e = Payout gw leases \<and> released_by env gw (db w) l)"
proof (cases e)
  case (Pay c)
  have "moved env (fst c) (now w) (db w) (db w')"
    using wp_both [OF serve_payment_moved] assms(2) Pay by simp
  then have "l \<in> set (ledger (db w))"
    using assms(3,4) pays_pending unfolding moved_def money_same_def by metis
  then show ?thesis using assms(4) by blast
next
  case (Sell c)
  have "moved_right (db w) (db w')" using wp_both [OF serve_seller_right [OF assms(1)]] assms(2) Sell by simp
  then show ?thesis using assms(3,4) unfolding moved_right_def by auto
next
  case (Payout gw leases)
  have "settled_step env gw (db w) (db w')"
    using keepsD [OF ReconcileFlutterwaveSettlements_step prod.collapse [symmetric]] assms(2) Payout by simp
  then obtain l0 where "l0 \<in> set (ledger (db w))" "entry_step env gw (db w) l0 l"
    using list_all2_before [OF _ assms(3), of "entry_step env gw (db w)" "ledger (db w)"] unfolding settled_step_def by blast
  then show ?thesis using assms(4) Payout unfolding entry_step_def same_entry_def by auto
qed

lemma step_tracked:
  assumes "tracked (db w)"
  shows "tracked (db (market_step env cfg e w))"
proof (cases e)
  case (Pay c)
  then show ?thesis
    using tracked_frame [OF assms] keepsD [OF seller_same_serve prod.collapse [symmetric]] by simp
next
  case (Sell c)
  then show ?thesis using moved_right_tracked [OF wp_both [OF serve_seller_right [OF assms]]] by simp
next
  case (Payout gw leases)
  have "settled_step env gw (db w) (db (market_step env cfg e w))"
    using keepsD [OF ReconcileFlutterwaveSettlements_step prod.collapse [symmetric]] Payout by simp
  then show ?thesis by (intro tracked_frame [OF assms]) (auto simp: settled_step_def seller_same_def)
qed

lemma after_tracked: "tracked (db w) \<Longrightarrow> tracked (db (after env cfg es w))"
  by (induction es rule: rev_induct) (simp_all add: step_tracked, simp add: after_def)

lemma settled_source:
  assumes "tracked (db w)" "\<forall>l \<in> set (ledger (db w)). l_settlement l \<noteq> ''settled''"
    and "l \<in> set (ledger (db (after env cfg es w)))" "l_settlement l = ''settled''"
  shows "\<exists>before gw leases rest m. es = before @ Payout gw leases # rest \<and> l_order m = l_order l \<and>
    released_by env gw (db (after env cfg before w)) m"
  using assms(3,4)
proof (induction es arbitrary: l rule: rev_induct)
  case Nil
  then show ?case using assms(2) by (simp add: after_def)
next
  case (snoc e es)
  have "(\<exists>l0 \<in> set (ledger (db (after env cfg es w))). l_order l0 = l_order l \<and> l_settlement l0 = ''settled'') \<or>
    (\<exists>gw leases. e = Payout gw leases \<and> released_by env gw (db (after env cfg es w)) l)"
    using step_ledger [OF after_tracked [OF assms(1)] refl] snoc.prems by simp
  then show ?case
  proof (elim disjE bexE exE conjE)
    fix l0 assume "l0 \<in> set (ledger (db (after env cfg es w)))" "l_order l0 = l_order l" "l_settlement l0 = ''settled''"
    from snoc.IH [OF this(1,3)] this(2) obtain before gw leases rest m where
      "es = before @ Payout gw leases # rest" "l_order m = l_order l" "released_by env gw (db (after env cfg before w)) m"
      by metis
    then show ?case by (intro exI [of _ before] exI [of _ gw] exI [of _ leases] exI [of _ "rest @ [e]"] exI [of _ m]) simp
  next
    fix gw leases assume "e = Payout gw leases" "released_by env gw (db (after env cfg es w)) l"
    then show ?case by (intro exI [of _ es] exI [of _ gw] exI [of _ leases] exI [of _ "[]"] exI [of _ l]) simp
  qed
qed

text \<open>
  C1. Goods follow money across the whole marketplace: start with no released ledger entry; then, in any
  interleaving of payment requests, seller requests and reconciliation passes, with any gateway answers and any
  database faults, the first change of an imported order's fulfilment comes after a reconciliation pass
  in which the gateway itself announced the settlement of the payment of that very order.
\<close>

theorem imports_wait_for_payout:
  assumes "tracked (db w)" "\<forall>l \<in> set (ledger (db w)). l_settlement l \<noteq> ''settled''"
    and "f \<in> set (fulfillments (db (after env cfg es w)))" "f_route f = ''merchant_cross_border''"
    and "f \<notin> set (fulfillments (db (after env cfg (es @ [e]) w)))"
  shows "\<exists>before gw leases rest m. es = before @ Payout gw leases # rest \<and> l_order m = f_order f \<and>
    released_by env gw (db (after env cfg before w)) m"
proof -
  let ?w = "after env cfg es w"
  have t: "tracked (db ?w)" using assms(1) by (rule after_tracked)
  have "released (db ?w) (f_order f)"
  proof (cases e)
    case (Pay c)
    then have "seller_same (db ?w) (db (market_step env cfg e ?w))"
      using keepsD [OF seller_same_serve prod.collapse [symmetric]] by simp
    then show ?thesis using assms(3,5) by (simp add: seller_same_def)
  next
    case (Sell c)
    then have "moved_right (db ?w) (db (market_step env cfg e ?w))" using wp_both [OF serve_seller_right [OF t]] by simp
    then show ?thesis using assms(3-5) unfolding moved_right_def by simp
  next
    case (Payout gw leases)
    then have "settled_step env gw (db ?w) (db (market_step env cfg e ?w))"
      using keepsD [OF ReconcileFlutterwaveSettlements_step prod.collapse [symmetric]] by simp
    then show ?thesis using assms(3,5) by (auto simp: settled_step_def)
  qed
  then obtain l where "l \<in> set (ledger (db ?w))" "l_order l = f_order f" "l_settlement l = ''settled''"
    unfolding released_def by blast
  with settled_source [OF assms(1,2) this(1,3)] show ?thesis by metis
qed

definition market0 :: "db world" where
  "market0 = world0 ((db paid0)\<lparr>orgs := orgs seller_db, members := members seller_db,
     fulfillments := [(hd (fulfillments seller_db))\<lparr>f_order := o_id order0\<rparr>]\<rparr>) 1000"

definition accept0 :: market_event where
  "accept0 = Sell (MoveOrder ''u2'' (o_id order0) [] (Some accept_request))"

lemma imports_wait_for_payout_witness:
  "\<exists>before gw leases rest m. [Payout payouts0 [''L1'']] = before @ Payout gw leases # rest \<and> l_order m = o_id order0 \<and>
     released_by env0 gw (db (after env0 config0 before market0)) m"
proof -
  let ?f = "(hd (fulfillments seller_db))\<lparr>f_order := o_id order0\<rparr>"
  have "map f_status (fulfillments (db (after env0 config0 [Payout payouts0 [''L1'']] market0))) = [''pending''] \<and>
      map f_status (fulfillments (db (after env0 config0 ([Payout payouts0 [''L1'']] @ [accept0]) market0))) = [''accepted'']"
    by code_simp
  moreover have "tracked (db market0)" by code_simp
  moreover have "\<forall>l \<in> set (ledger (db market0)). l_settlement l \<noteq> ''settled''"
    by (simp add: market0_def paid0_def paid_entry_def)
  moreover have "settled_step env0 payouts0 (db market0) (db (market_step env0 config0 (Payout payouts0 [''L1'']) market0))"
    using keepsD [OF ReconcileFlutterwaveSettlements_step prod.collapse [symmetric]] by simp
  then have "fulfillments (db (after env0 config0 [Payout payouts0 [''L1'']] market0)) = [?f]"
    by (auto simp: after_def settled_step_def market0_def)
  ultimately have "\<exists>before gw leases rest m. [Payout payouts0 [''L1'']] = before @ Payout gw leases # rest \<and> l_order m = f_order ?f \<and>
     released_by env0 gw (db (after env0 config0 before market0)) m"
    by (intro imports_wait_for_payout [where e = accept0 and cfg = config0]) (auto simp: seller_db_def)
  then show ?thesis by simp
qed

end
