(* ===== verification/Spec2Isabelle.thy ===== *)
theory Spec2Isabelle
  imports Service_Types Mail_Delivery Admin_Safety Play_Safety XP_Books Push_Safety Migration_Safety Payment_Safety Fulfillment_Safety Batch_Safety Settlement_Safety Marketplace
begin

text \<open>
  Across (Atlantic Express) backend: a marketplace API in Go on PostgreSQL.
\<close>

end
